(* ===== verification/Go_Base.thy ===== *)
theory Go_Base
  imports Main "HOL-Library.List_Lexorder" "HOL-Library.Char_ord" "HOL-Library.Multiset"
    "HOL-Library.AList"
begin

text \<open>
  The parts of the Go language and of its standard library that the operator uses, and the
  generic lemmas the components share: fixed-width integer conversions, decimal conversion
  (\<open>strconv\<close>, the \<open>%d\<close> verb), \<open>strings.Split\<close>, \<open>strings.Join\<close>,
  \<open>strings.EqualFold\<close>, maps with string keys, \<open>sort.Sort\<close> and error values.

  Strings are byte strings as in Go (\<open>char\<close> is a byte); their order is the bytewise
  lexicographic one of Go's \<open><\<close>.
\<close>

named_theorems go_simps \<open>characteristic equations of the Go library model\<close>

section \<open>Fixed-width integers\<close>

text \<open>The conversion \<open>int32(n)\<close>: two's complement truncation to 32 bits.\<close>

definition i32 :: "int \<Rightarrow> int" where
  "i32 n = (n + 2 ^ 31) mod 2 ^ 32 - 2 ^ 31"

definition is_i32 :: "int \<Rightarrow> bool" where
  "is_i32 n \<longleftrightarrow> - (2 ^ 31) \<le> n \<and> n < 2 ^ 31"

lemma i32_id [go_simps]: "is_i32 n \<Longrightarrow> i32 n = n"
  by (simp add: i32_def is_i32_def)

lemma is_i32_i32 [simp]: "is_i32 (i32 n)"
  by (simp add: i32_def is_i32_def)

lemma i32_range: "- (2 ^ 31) \<le> i32 n" "i32 n < 2 ^ 31"
  by (simp_all add: i32_def)

section \<open>Decimal conversion\<close>

definition digit_char :: "nat \<Rightarrow> char" where
  "digit_char n = char_of (48 + n)"

definition is_digit :: "char \<Rightarrow> bool" where
  "is_digit c \<longleftrightarrow> CHR ''0'' \<le> c \<and> c \<le> CHR ''9''"

definition digit_val :: "char \<Rightarrow> nat" where
  "digit_val c = of_char c - 48"

text \<open>The verb \<open>%d\<close> on a non-negative integer.\<close>

fun itoa :: "nat \<Rightarrow> string" where
  "itoa n = (if n < 10 then [digit_char n] else itoa (n div 10) @ [digit_char (n mod 10)])"

declare itoa.simps [simp del]

definition itoa_int :: "int \<Rightarrow> string" where
  "itoa_int i = (if i < 0 then CHR ''-'' # itoa (nat (- i)) else itoa (nat i))"

text \<open>Left-to-right accumulation of a digit string.\<close>

definition digits_val :: "string \<Rightarrow> nat" where
  "digits_val s = foldl (\<lambda>v c. 10 * v + digit_val c) 0 s"

lemma digit_char_digit [simp]: "n < 10 \<Longrightarrow> is_digit (digit_char n)"
  by (simp add: is_digit_def digit_char_def less_eq_char_def)

lemma digit_val_char [simp]: "n < 10 \<Longrightarrow> digit_val (digit_char n) = n"
  by (simp add: digit_val_def digit_char_def)

lemma itoa_digits: "list_all is_digit (itoa n)"
  by (induction n rule: itoa.induct) (subst itoa.simps, simp)

lemma itoa_not_Nil [simp]: "itoa n \<noteq> []"
  by (subst itoa.simps) simp

lemma digits_val_Nil [simp]: "digits_val [] = 0"
  by (simp add: digits_val_def)

lemma digits_val_snoc: "digits_val (s @ [c]) = 10 * digits_val s + digit_val c"
  by (simp add: digits_val_def)

lemma digits_val_itoa [simp]: "digits_val (itoa n) = n"
proof (induction n rule: itoa.induct)
  case (1 n)
  show ?case
  proof (cases "n < 10")
    case True
    then show ?thesis by (subst itoa.simps) (simp add: digits_val_def)
  next
    case False
    with 1 have "digits_val (itoa (n div 10)) = n div 10" by simp
    with False show ?thesis
      by (subst itoa.simps) (simp add: digits_val_snoc)
  qed
qed

lemma itoa_inject [simp]: "itoa m = itoa n \<longleftrightarrow> m = n"
  by (metis digits_val_itoa)

lemma itoa_no_sep: "\<not> is_digit c \<Longrightarrow> c \<notin> set (itoa n)"
  using itoa_digits [of n] by (auto simp: list_all_iff)

section \<open>Lists\<close>

lemma find_SomeD: "find P xs = Some x \<Longrightarrow> x \<in> set xs \<and> P x"
  by (induction xs) (auto split: if_splits)

lemma find_distinct_key:
  "distinct (map k xs) \<Longrightarrow> x \<in> set xs \<Longrightarrow> find (\<lambda>y. k y = k x) xs = Some x"
  by (induction xs) (auto simp: rev_image_eqI)

section \<open>Error values\<close>

text \<open>
  A Go \<open>error\<close> is the call that made it: \<open>errors.New\<close>, \<open>fmt.Errorf\<close> with
  its format and arguments, the wrappers of \<open>pkg/errors\<close>, the two errors of
  \<open>strconv.Atoi\<close>, or a value made by code outside the repository. The format is kept
  with its arguments instead of the rendered text.
\<close>

datatype gerror =
    Errors_New string
  | Errorf string "garg list"
  | With_Message gerror string "garg list"
  | Wrap gerror string
  | Num_Syntax string
  | Num_Range string
  | External string
and garg = AStr string | AStrs "string list" | AInt int | AErr gerror

section \<open>\<open>strconv.Atoi\<close>\<close>

definition atoi_sign :: "string \<Rightarrow> bool \<times> string" where
  "atoi_sign s = (case s of
      [] \<Rightarrow> (False, s)
    | c # cs \<Rightarrow> if c = CHR ''-'' then (True, cs) else if c = CHR ''+'' then (False, cs) else (False, s))"

definition Atoi :: "string \<Rightarrow> gerror + int" where
  "Atoi s = (let (neg, ds) = atoi_sign s in
     if ds = [] \<or> \<not> list_all is_digit ds then Inl (Num_Syntax s)
     else let v = int (digits_val ds) in
       if neg then (if v \<le> 2 ^ 63 then Inr (- v) else Inl (Num_Range s))
       else (if v < 2 ^ 63 then Inr v else Inl (Num_Range s)))"

lemma not_digit_chars [simp]:
  "\<not> is_digit CHR ''-''" "\<not> is_digit CHR ''+''" "\<not> is_digit CHR ''.''" "\<not> is_digit CHR ''/''"
  by (simp_all add: is_digit_def less_eq_char_def)

lemma atoi_sign_digits: "list_all is_digit ds \<Longrightarrow> atoi_sign ds = (False, ds)"
  by (cases ds) (auto simp: atoi_sign_def)

lemma Atoi_itoa [go_simps]: "int n < 2 ^ 63 \<Longrightarrow> Atoi (itoa n) = Inr (int n)"
  by (simp add: Atoi_def atoi_sign_digits itoa_digits)

lemma Atoi_range: "Atoi s = Inr v \<Longrightarrow> - (2 ^ 63) \<le> v \<and> v < 2 ^ 63"
  by (auto simp: Atoi_def Let_def split: prod.splits if_splits)

section \<open>String functions\<close>

text \<open>\<open>strings.Split\<close> with a one-byte separator; the result is never empty.\<close>

fun split_on :: "char \<Rightarrow> string \<Rightarrow> string list" where
  "split_on c [] = [[]]"
| "split_on c (x # xs) =
     (if x = c then [] # split_on c xs
      else (case split_on c xs of [] \<Rightarrow> [[x]] | w # ws \<Rightarrow> (x # w) # ws))"

text \<open>\<open>strings.Join\<close>.\<close>

fun str_join :: "string \<Rightarrow> string list \<Rightarrow> string" where
  "str_join sep [] = []"
| "str_join sep [w] = w"
| "str_join sep (w # ws) = w @ sep @ str_join sep ws"

text \<open>
  \<open>strings.EqualFold\<close> on ASCII: equality up to the case of letters (host and pod names
  are DNS names, so no other folding can apply to them).
\<close>

definition to_lower :: "char \<Rightarrow> char" where
  "to_lower c = (if CHR ''A'' \<le> c \<and> c \<le> CHR ''Z'' then char_of (of_char c + (32 :: nat)) else c)"

definition EqualFold :: "string \<Rightarrow> string \<Rightarrow> bool" where
  "EqualFold s t \<longleftrightarrow> map to_lower s = map to_lower t"

lemma split_on_not_Nil [simp]: "split_on c s \<noteq> []"
  by (induction s) (auto split: list.splits)

lemma split_on_no_sep: "c \<notin> set s \<Longrightarrow> split_on c s = [s]"
  by (induction s) auto

lemma split_on_append: "split_on c (a @ c # b) = split_on c a @ split_on c b"
proof (induction a)
  case Nil
  then show ?case by simp
next
  case (Cons x a)
  then show ?case by (cases "split_on c a") auto
qed

lemma last_split_on: "c \<notin> set b \<Longrightarrow> last (split_on c (a @ c # b)) = b"
  by (simp add: split_on_append split_on_no_sep)

lemma hd_split_on: "c \<notin> set a \<Longrightarrow> hd (split_on c (a @ c # b)) = a"
  by (simp add: split_on_append split_on_no_sep)

lemma EqualFold_refl [simp]: "EqualFold s s"
  by (simp add: EqualFold_def)

section \<open>Maps with string keys\<close>

text \<open>
  A Go map is an association list without duplicate keys. The order of the list stands for
  the unspecified order in which a \<open>range\<close> loop visits the map, so a statement about all
  lists is a statement about all iteration orders.
\<close>

type_synonym 'v gomap = "(string \<times> 'v) list"

definition map_ok :: "'v gomap \<Rightarrow> bool" where
  "map_ok m \<longleftrightarrow> distinct (map fst m)"

definition mhas :: "'v gomap \<Rightarrow> string \<Rightarrow> bool" where
  "mhas m k \<longleftrightarrow> map_of m k \<noteq> None"

text \<open>The loop \<open>for k, v := range src { dst[k] = v }\<close>.\<close>

definition mput_all :: "'v gomap \<Rightarrow> 'v gomap \<Rightarrow> 'v gomap" where
  "mput_all src dst = fold (\<lambda>(k, v) m. AList.update k v m) src dst"

text \<open>\<open>reflect.DeepEqual\<close> on two non-nil maps.\<close>

definition map_eq :: "'v gomap \<Rightarrow> 'v gomap \<Rightarrow> bool" where
  "map_eq m1 m2 \<longleftrightarrow> list_all (\<lambda>k. map_of m1 k = map_of m2 k) (map fst m1 @ map fst m2)"

lemma map_of_update [simp]: "map_of (AList.update k v m) = (map_of m)(k \<mapsto> v)"
  by (rule update_conv')

lemma map_of_delete [simp]: "map_of (AList.delete k m) = (map_of m)(k := None)"
  by (rule delete_conv')

lemma map_ok_update [simp]: "map_ok m \<Longrightarrow> map_ok (AList.update k v m)"
  unfolding map_ok_def by (rule distinct_update)

lemma map_ok_delete [simp]: "map_ok m \<Longrightarrow> map_ok (AList.delete k m)"
  unfolding map_ok_def by (rule distinct_delete)

lemma map_ok_Nil [simp]: "map_ok []"
  by (simp add: map_ok_def)

lemma map_ok_Cons [simp]: "map_ok ((k, v) # m) \<longleftrightarrow> map_of m k = None \<and> map_ok m"
  by (auto simp: map_ok_def map_of_eq_None_iff)

lemma mput_all_Nil [simp]: "mput_all [] dst = dst"
  by (simp add: mput_all_def)

lemma mput_all_Cons [simp]: "mput_all ((k, v) # src) dst = mput_all src (AList.update k v dst)"
  by (simp add: mput_all_def)

lemma map_of_mput_all: "map_ok src \<Longrightarrow> map_of (mput_all src dst) = map_of dst ++ map_of src"
proof (induction src arbitrary: dst)
  case Nil
  then show ?case by simp
next
  case (Cons kv src)
  obtain k v where kv: "kv = (k, v)" by force
  with Cons show ?case by (auto simp: map_add_def fun_eq_iff split: option.splits)
qed

lemma map_ok_mput_all [simp]: "map_ok dst \<Longrightarrow> map_ok (mput_all src dst)"
  by (induction src arbitrary: dst) auto

lemma map_eq_iff: "map_eq m1 m2 \<longleftrightarrow> map_of m1 = map_of m2"
proof
  assume eq: "map_eq m1 m2"
  show "map_of m1 = map_of m2"
  proof
    fix k
    show "map_of m1 k = map_of m2 k"
    proof (cases "k \<in> set (map fst m1 @ map fst m2)")
      case True
      with eq show ?thesis by (auto simp: map_eq_def list_all_iff)
    next
      case False
      then have "map_of m1 k = None" "map_of m2 k = None"
        by (auto simp: map_of_eq_None_iff)
      then show ?thesis by simp
    qed
  qed
next
  assume "map_of m1 = map_of m2"
  then show "map_eq m1 m2" by (simp add: map_eq_def list_all_iff)
qed

lemma mhas_iff: "mhas m k \<longleftrightarrow> k \<in> fst ` set m"
  by (auto simp: mhas_def map_of_eq_None_iff)

section \<open>\<open>sort.Sort\<close>\<close>

text \<open>
  \<open>sort.Sort\<close> is not stable: elements with equal keys come out in an order that depends on
  the algorithm. The parameter \<open>tie\<close> is that choice; every sorted permutation of a list of
  distinct elements is \<open>go_sort tie key xs\<close> for some \<open>tie\<close>.
\<close>

definition go_sort :: "('a \<Rightarrow> nat) \<Rightarrow> ('a \<Rightarrow> 'k::linorder) \<Rightarrow> 'a list \<Rightarrow> 'a list" where
  "go_sort tie key xs = sort_key key (sort_key tie xs)"

lemma mset_go_sort [simp]: "mset (go_sort tie key xs) = mset xs"
  by (simp add: go_sort_def)

lemma set_go_sort [simp]: "set (go_sort tie key xs) = set xs"
  by (simp add: go_sort_def)

lemma length_go_sort [simp]: "length (go_sort tie key xs) = length xs"
  by (simp add: go_sort_def)

lemma sorted_go_sort [simp]: "sorted (map key (go_sort tie key xs))"
  by (simp add: go_sort_def)

lemma go_sort_unique:
  assumes "inj_on key (set xs)" and "distinct xs"
  shows "go_sort tie key xs = sort_key key xs"
proof -
  have "mset (sort_key key (sort_key tie xs)) = mset (sort_key key xs)" by simp
  moreover have "inj_on key (set (sort_key key (sort_key tie xs)))" using assms by simp
  ultimately show ?thesis unfolding go_sort_def
    by (intro map_sorted_distinct_set_unique [where f = key])
      (use assms in \<open>auto simp: distinct_map\<close>)
qed

lemma go_sort_sorted:
  assumes "sorted (map key xs)" and "distinct (map key xs)"
  shows "go_sort tie key xs = xs"
proof -
  have "go_sort tie key xs = sort_key key xs"
    using assms(2) by (intro go_sort_unique) (auto simp: distinct_map)
  also have "\<dots> = xs" using assms(1) by (rule sort_key_id_if_sorted)
  finally show ?thesis .
qed

end
