(* ===== verification/Go_Monad.thy ===== *)
theory Go_Monad
  imports Go_Base
begin

text \<open>
  Go functions with effects: a computation takes the state and returns an error or a value
  together with the new state. The combinators are the control structures of the source
  (\<open>if err != nil { return err }\<close>, inspection of an error, \<open>for\<close> loops with early
  return). A small calculus of weakest preconditions and a locale for relations that every
  run respects carry the proofs of the components.
\<close>

named_theorems wp_simps \<open>weakest preconditions of the combinators\<close>

type_synonym ('s, 'a) io = "'s \<Rightarrow> (gerror + 'a) \<times> 's"

section \<open>Results without effects\<close>

fun res_bind :: "gerror + 'a \<Rightarrow> ('a \<Rightarrow> gerror + 'b) \<Rightarrow> gerror + 'b" where
  "res_bind (Inl e) f = Inl e"
| "res_bind (Inr x) f = f x"

text \<open>A loop that builds a list and stops at the first error.\<close>

fun res_map :: "('a \<Rightarrow> gerror + 'b) \<Rightarrow> 'a list \<Rightarrow> gerror + 'b list" where
  "res_map f [] = Inr []"
| "res_map f (x # xs) = res_bind (f x) (\<lambda>y. res_bind (res_map f xs) (\<lambda>ys. Inr (y # ys)))"

lemma res_bind_Inr: "res_bind r f = Inr y \<longleftrightarrow> (\<exists>x. r = Inr x \<and> f x = Inr y)"
  by (cases r) auto

lemma res_bind_Inl: "res_bind r f = Inl e \<longleftrightarrow> r = Inl e \<or> (\<exists>x. r = Inr x \<and> f x = Inl e)"
  by (cases r) auto

lemma res_map_Inr: "res_map f xs = Inr ys \<longleftrightarrow> list_all2 (\<lambda>x y. f x = Inr y) xs ys"
proof (induction xs arbitrary: ys)
  case Nil
  then show ?case by auto
next
  case (Cons x xs)
  then show ?case by (auto simp: res_bind_Inr list_all2_Cons1)
qed

section \<open>Combinators\<close>

definition ok :: "'a \<Rightarrow> ('s, 'a) io" where
  "ok x = (\<lambda>s. (Inr x, s))"

definition fail :: "gerror \<Rightarrow> ('s, 'a) io" where
  "fail e = (\<lambda>s. (Inl e, s))"

definition lift_res :: "gerror + 'a \<Rightarrow> ('s, 'a) io" where
  "lift_res r = (\<lambda>s. (r, s))"

text \<open>\<open>x, err := m(); if err != nil { return err }; f x\<close>\<close>

definition bindE :: "('s, 'a) io \<Rightarrow> ('a \<Rightarrow> ('s, 'b) io) \<Rightarrow> ('s, 'b) io" where
  "bindE m f = (\<lambda>s. case m s of (Inl e, s') \<Rightarrow> (Inl e, s') | (Inr x, s') \<Rightarrow> f x s')"

text \<open>\<open>x, err := m()\<close> with both results inspected by \<open>h\<close>.\<close>

definition catchE :: "('s, 'a) io \<Rightarrow> (gerror + 'a \<Rightarrow> ('s, 'b) io) \<Rightarrow> ('s, 'b) io" where
  "catchE m h = (\<lambda>s. case m s of (r, s') \<Rightarrow> h r s')"

text \<open>A loop over a list whose body may return an error from the function.\<close>

fun for_each :: "('a \<Rightarrow> ('s, unit) io) \<Rightarrow> 'a list \<Rightarrow> ('s, unit) io" where
  "for_each f [] = ok ()"
| "for_each f (x # xs) = bindE (f x) (\<lambda>_. for_each f xs)"

text \<open>
  A loop whose body may also return from the function without an error: the body gives
  \<open>True\<close> where the source returns, and so does the loop.
\<close>

fun for_until :: "('a \<Rightarrow> ('s, bool) io) \<Rightarrow> 'a list \<Rightarrow> ('s, bool) io" where
  "for_until f [] = ok False"
| "for_until f (x # xs) = bindE (f x) (\<lambda>stop. if stop then ok True else for_until f xs)"

text \<open>A loop that appends a value per element to a slice.\<close>

fun map_each :: "('a \<Rightarrow> ('s, 'b) io) \<Rightarrow> 'a list \<Rightarrow> ('s, 'b list) io" where
  "map_each f [] = ok []"
| "map_each f (x # xs) = bindE (f x) (\<lambda>y. bindE (map_each f xs) (\<lambda>ys. ok (y # ys)))"

text \<open>A loop that appends to a slice for some elements only.\<close>

fun collect_each :: "('a \<Rightarrow> ('s, 'b option) io) \<Rightarrow> 'a list \<Rightarrow> ('s, 'b list) io" where
  "collect_each f [] = ok []"
| "collect_each f (x # xs) = bindE (f x) (\<lambda>y. bindE (collect_each f xs)
     (\<lambda>ys. ok (case y of None \<Rightarrow> ys | Some z \<Rightarrow> z # ys)))"

lemma ok_run [simp]: "ok x s = (Inr x, s)"
  by (simp add: ok_def)

lemma fail_run [simp]: "fail e s = (Inl e, s)"
  by (simp add: fail_def)

lemma lift_res_run [simp]: "lift_res r s = (r, s)"
  by (simp add: lift_res_def)

lemma bindE_run: "bindE m f s = (case fst (m s) of Inl e \<Rightarrow> (Inl e, snd (m s)) | Inr x \<Rightarrow> f x (snd (m s)))"
  by (auto simp: bindE_def split: prod.splits sum.splits)

lemma catchE_run: "catchE m h s = h (fst (m s)) (snd (m s))"
  by (simp add: catchE_def split: prod.splits)

lemma bindE_Inr [simp]: "m s = (Inr x, s') \<Longrightarrow> bindE m f s = f x s'"
  by (simp add: bindE_def)

lemma bindE_Inl [simp]: "m s = (Inl e, s') \<Longrightarrow> bindE m f s = (Inl e, s')"
  by (simp add: bindE_def)

lemma catchE_eq [simp]: "m s = (r, s') \<Longrightarrow> catchE m h s = h r s'"
  by (simp add: catchE_def)

lemma bindE_ok [simp]: "bindE (ok x) f = f x"
  by (simp add: fun_eq_iff bindE_def)

lemma bindE_fail [simp]: "bindE (fail e) f = fail e"
  by (simp add: fun_eq_iff bindE_def)

lemma catchE_ok [simp]: "catchE (ok x) h = h (Inr x)"
  by (simp add: fun_eq_iff catchE_def)

lemma catchE_fail [simp]: "catchE (fail e) h = h (Inl e)"
  by (simp add: fun_eq_iff catchE_def)

lemma lift_res_Inl [simp]: "lift_res (Inl e) = fail e"
  by (simp add: fun_eq_iff)

lemma lift_res_Inr [simp]: "lift_res (Inr x) = ok x"
  by (simp add: fun_eq_iff)

lemma bindE_ok_id [simp]: "bindE m ok = m"
  by (auto simp: fun_eq_iff bindE_run prod_eq_iff split: sum.splits)

lemma bindE_assoc: "bindE (bindE m f) g = bindE m (\<lambda>x. bindE (f x) g)"
  by (auto simp: fun_eq_iff bindE_def split: prod.splits sum.splits)

section \<open>Weakest preconditions\<close>

definition wp :: "('s, 'a) io \<Rightarrow> (gerror + 'a \<Rightarrow> 's \<Rightarrow> bool) \<Rightarrow> 's \<Rightarrow> bool" where
  "wp m Q s \<longleftrightarrow> (case m s of (r, s') \<Rightarrow> Q r s')"

lemma wp_run: "wp m Q s \<longleftrightarrow> Q (fst (m s)) (snd (m s))"
  by (simp add: wp_def split: prod.splits)

lemma wpD: "wp m Q s \<Longrightarrow> m s = (r, s') \<Longrightarrow> Q r s'"
  by (simp add: wp_def)

lemma wpI: "(\<And>r s'. m s = (r, s') \<Longrightarrow> Q r s') \<Longrightarrow> wp m Q s"
  by (simp add: wp_def split: prod.splits)

lemma wp_mono: "wp m P s \<Longrightarrow> (\<And>r s'. P r s' \<Longrightarrow> Q r s') \<Longrightarrow> wp m Q s"
  by (simp add: wp_run)

lemma wp_ok [wp_simps]: "wp (ok x) Q s = Q (Inr x) s"
  by (simp add: wp_def)

lemma wp_fail [wp_simps]: "wp (fail e) Q s = Q (Inl e) s"
  by (simp add: wp_def)

lemma wp_lift_res [wp_simps]: "wp (lift_res r) Q s = Q r s"
  by (simp add: wp_def)

lemma wp_bindE [wp_simps]:
  "wp (bindE m f) Q s = wp m (\<lambda>r s'. case r of Inl e \<Rightarrow> Q (Inl e) s' | Inr x \<Rightarrow> wp (f x) Q s') s"
  by (auto simp: wp_def bindE_def split: prod.splits sum.splits)

lemma wp_catchE [wp_simps]: "wp (catchE m h) Q s = wp m (\<lambda>r s'. wp (h r) Q s') s"
  by (simp add: wp_def catchE_def split: prod.splits)

section \<open>Values returned by every run\<close>

text \<open>A computation that returns only values with \<open>Q\<close>.\<close>

definition returns :: "('s, 'a) io \<Rightarrow> ('a \<Rightarrow> bool) \<Rightarrow> bool" where
  "returns m Q \<longleftrightarrow> (\<forall>s x s'. m s = (Inr x, s') \<longrightarrow> Q x)"

lemma returnsD: "returns m Q \<Longrightarrow> m s = (Inr x, s') \<Longrightarrow> Q x"
  by (auto simp: returns_def)

lemma returns_bindE:
  "returns m P \<Longrightarrow> (\<And>x. P x \<Longrightarrow> returns (f x) Q) \<Longrightarrow> returns (bindE m f) Q"
  unfolding returns_def bindE_def by (fastforce split: prod.splits sum.splits)

lemma returns_mono: "returns m P \<Longrightarrow> (\<And>x. P x \<Longrightarrow> Q x) \<Longrightarrow> returns m Q"
  unfolding returns_def by blast

lemma returns_any: "returns m (\<lambda>_. True)"
  by (simp add: returns_def)

lemma returns_ok: "Q x \<Longrightarrow> returns (ok x) Q"
  by (simp add: returns_def)

lemma returns_fail: "returns (fail e) Q"
  by (simp add: returns_def)

lemma returns_lift_res: "(\<And>x. r = Inr x \<Longrightarrow> Q x) \<Longrightarrow> returns (lift_res r) Q"
  by (simp add: returns_def)

section \<open>Relations respected by every run\<close>

text \<open>A run of \<open>m\<close> relates the state before to the state after by \<open>R\<close>, whatever it returns.\<close>

definition keeps :: "('s \<Rightarrow> 's \<Rightarrow> bool) \<Rightarrow> ('s, 'a) io \<Rightarrow> bool" where
  "keeps R m \<longleftrightarrow> (\<forall>s. R s (snd (m s)))"

lemma keepsD: "keeps R m \<Longrightarrow> m s = (r, s') \<Longrightarrow> R s s'"
  unfolding keeps_def by (metis snd_conv)

lemma keeps_if: "(b \<Longrightarrow> keeps R m) \<Longrightarrow> (\<not> b \<Longrightarrow> keeps R n) \<Longrightarrow> keeps R (if b then m else n)"
  by simp

lemma keeps_case_sum:
  "(\<And>e. x = Inl e \<Longrightarrow> keeps R (f e)) \<Longrightarrow> (\<And>y. x = Inr y \<Longrightarrow> keeps R (g y)) \<Longrightarrow>
   keeps R (case x of Inl e \<Rightarrow> f e | Inr y \<Rightarrow> g y)"
  by (simp split: sum.splits)

lemma keeps_case_option:
  "(x = None \<Longrightarrow> keeps R f) \<Longrightarrow> (\<And>y. x = Some y \<Longrightarrow> keeps R (g y)) \<Longrightarrow>
   keeps R (case x of None \<Rightarrow> f | Some y \<Rightarrow> g y)"
  by (simp split: option.splits)

lemma keeps_case_prod:
  "(\<And>a b. x = (a, b) \<Longrightarrow> keeps R (f a b)) \<Longrightarrow> keeps R (case x of (a, b) \<Rightarrow> f a b)"
  by (simp split: prod.splits)

lemma keeps_let: "keeps R (f x) \<Longrightarrow> keeps R (let y = x in f y)"
  by simp

locale run_relation =
  fixes R :: "'s \<Rightarrow> 's \<Rightarrow> bool"
  assumes R_refl: "R s s"
    and R_trans: "R s t \<Longrightarrow> R t u \<Longrightarrow> R s u"
begin

lemma keeps_ok: "keeps R (ok x)"
  by (simp add: keeps_def R_refl)

lemma keeps_fail: "keeps R (fail e)"
  by (simp add: keeps_def R_refl)

lemma keeps_lift_res: "keeps R (lift_res r)"
  by (simp add: keeps_def R_refl)

lemma keeps_bindE:
  assumes "keeps R m" and "\<And>x. keeps R (f x)"
  shows "keeps R (bindE m f)"
  using assms unfolding keeps_def bindE_def
  by (auto split: prod.splits sum.splits intro: R_trans) (metis R_trans snd_conv)+

lemma keeps_catchE:
  assumes "keeps R m" and "\<And>r. keeps R (h r)"
  shows "keeps R (catchE m h)"
  using assms unfolding keeps_def catchE_def
  by (auto split: prod.splits) (metis R_trans snd_conv)

lemma keeps_for_each: "(\<And>x. x \<in> set xs \<Longrightarrow> keeps R (f x)) \<Longrightarrow> keeps R (for_each f xs)"
  by (induction xs) (auto intro!: keeps_ok keeps_bindE)

lemma keeps_for_until: "(\<And>x. x \<in> set xs \<Longrightarrow> keeps R (f x)) \<Longrightarrow> keeps R (for_until f xs)"
  by (induction xs) (auto intro!: keeps_ok keeps_bindE)

lemma keeps_map_each: "(\<And>x. x \<in> set xs \<Longrightarrow> keeps R (f x)) \<Longrightarrow> keeps R (map_each f xs)"
  by (induction xs) (auto intro!: keeps_ok keeps_bindE)

lemma keeps_collect_each: "(\<And>x. x \<in> set xs \<Longrightarrow> keeps R (f x)) \<Longrightarrow> keeps R (collect_each f xs)"
  by (induction xs) (auto intro!: keeps_ok keeps_bindE)

lemmas keeps_intros = keeps_ok keeps_fail keeps_lift_res keeps_bindE keeps_catchE keeps_for_each
  keeps_for_until keeps_map_each keeps_collect_each keeps_if keeps_case_sum keeps_case_option
  keeps_case_prod keeps_let

end

section \<open>What a run appends to a log\<close>

text \<open>
  What a run adds to the log (a list in the state) satisfies, together with its result, \<open>Q\<close>.
\<close>

definition appends :: "('s \<Rightarrow> 'c list) \<Rightarrow> ('s, 'a) io \<Rightarrow> (gerror + 'a \<Rightarrow> 'c list \<Rightarrow> bool) \<Rightarrow> bool" where
  "appends log m Q \<longleftrightarrow> (\<forall>s. \<exists>cs. log (snd (m s)) = log s @ cs \<and> Q (fst (m s)) cs)"

lemma appendsD:
  "appends log m Q \<Longrightarrow> m s = (r, s') \<Longrightarrow> \<exists>cs. log s' = log s @ cs \<and> Q r cs"
  unfolding appends_def by (metis fst_conv snd_conv)

lemma appends_mono: "appends log m P \<Longrightarrow> (\<And>r cs. P r cs \<Longrightarrow> Q r cs) \<Longrightarrow> appends log m Q"
  unfolding appends_def by blast

lemma appends_ok: "Q (Inr x) [] \<Longrightarrow> appends log (ok x) Q"
  by (simp add: appends_def)

lemma appends_fail: "Q (Inl e) [] \<Longrightarrow> appends log (fail e) Q"
  by (simp add: appends_def)

lemma appends_lift_res: "Q r [] \<Longrightarrow> appends log (lift_res r) Q"
  by (simp add: appends_def)

lemma appends_bindE:
  assumes m: "appends log m P" and f: "\<And>x. appends log (f x) (R x)"
    and err: "\<And>e cs. P (Inl e) cs \<Longrightarrow> Q (Inl e) cs"
    and seq: "\<And>x r cs ds. P (Inr x) cs \<Longrightarrow> R x r ds \<Longrightarrow> Q r (cs @ ds)"
  shows "appends log (bindE m f) Q"
  unfolding appends_def
proof
  fix s
  obtain cs where cs: "log (snd (m s)) = log s @ cs" "P (fst (m s)) cs"
    using m unfolding appends_def by blast
  show "\<exists>cs. log (snd (bindE m f s)) = log s @ cs \<and> Q (fst (bindE m f s)) cs"
  proof (cases "fst (m s)")
    case (Inl e)
    with cs err show ?thesis by (auto simp: bindE_run)
  next
    case (Inr x)
    obtain ds where ds: "log (snd (f x (snd (m s)))) = log (snd (m s)) @ ds"
      "R x (fst (f x (snd (m s)))) ds"
      using f unfolding appends_def by blast
    from Inr cs(2) ds(2) have "Q (fst (f x (snd (m s)))) (cs @ ds)" by (simp add: seq)
    with Inr cs(1) ds(1) show ?thesis by (auto simp: bindE_run)
  qed
qed

lemma appends_catchE:
  assumes m: "appends log m P" and h: "\<And>r. appends log (h r) (R r)"
    and seq: "\<And>r r' cs ds. P r cs \<Longrightarrow> R r r' ds \<Longrightarrow> Q r' (cs @ ds)"
  shows "appends log (catchE m h) Q"
  unfolding appends_def
proof
  fix s
  obtain cs where cs: "log (snd (m s)) = log s @ cs" "P (fst (m s)) cs"
    using m unfolding appends_def by blast
  obtain ds where ds: "log (snd (h (fst (m s)) (snd (m s)))) = log (snd (m s)) @ ds"
    "R (fst (m s)) (fst (h (fst (m s)) (snd (m s)))) ds"
    using h unfolding appends_def by blast
  from seq [OF cs(2) ds(2)] cs(1) ds(1)
  show "\<exists>cs. log (snd (catchE m h s)) = log s @ cs \<and> Q (fst (catchE m h s)) cs"
    by (auto simp: catchE_run)
qed

lemma appends_for_until:
  assumes body: "\<And>x. x \<in> set xs \<Longrightarrow> appends log (f x) (\<lambda>r cs. if r = Inr False then A cs else B r cs)"
    and nil: "A []" and app: "\<And>cs ds. A cs \<Longrightarrow> A ds \<Longrightarrow> A (cs @ ds)"
    and fin: "\<And>r cs ds. A cs \<Longrightarrow> B r ds \<Longrightarrow> B r (cs @ ds)"
  shows "appends log (for_until f xs) (\<lambda>r cs. if r = Inr False then A cs else B r cs)"
  using body
proof (induction xs)
  case Nil
  show ?case unfolding for_until.simps by (rule appends_ok) (simp add: nil)
next
  case (Cons x xs)
  have IH: "appends log (for_until f xs) (\<lambda>r cs. if r = Inr False then A cs else B r cs)"
    using Cons by simp
  have "appends log (if stop then ok True else for_until f xs)
      (\<lambda>r cs. if stop then r = Inr True \<and> cs = [] else if r = Inr False then A cs else B r cs)" for stop
    using IH by (auto intro: appends_mono simp del: ok_run intro!: appends_ok)
  then show ?case unfolding for_until.simps
    by (rule appends_bindE [OF Cons.prems [OF list.set_intros(1)]]) (auto split: if_splits intro: app fin)
qed

lemma appends_if: "(b \<Longrightarrow> appends log m Q) \<Longrightarrow> (\<not> b \<Longrightarrow> appends log n Q) \<Longrightarrow> appends log (if b then m else n) Q"
  by simp

lemma appends_conj: "appends log m P \<Longrightarrow> appends log m Q \<Longrightarrow> appends log m (\<lambda>r cs. P r cs \<and> Q r cs)"
  unfolding appends_def by (metis same_append_eq)

end
