(* ===== verification/K8s_Objects.thy ===== *)
theory K8s_Objects
  imports Go_Base
begin

text \<open>
  The Kubernetes objects the operator builds, reads and changes, as records with the fields
  the source names. Values the operator only copies (resource requirements, tolerations,
  the rest of a user-supplied container, ...) are \<open>opaque\<close>. A pointer is an
  \<open>option\<close>, a slice a list, a map a \<open>gomap\<close>.
\<close>

type_synonym opaque = string

record owner_ref =
  or_group :: string
  or_version :: string
  or_kind :: string
  or_name :: string
  or_uid :: string
  or_controller :: bool

record object_meta =
  om_name :: string
  om_namespace :: string
  om_uid :: string
  om_labels :: "string gomap"
  om_annotations :: "string gomap"
  om_finalizers :: "string list"
  om_owner_refs :: "owner_ref list"
  om_generation :: int
  om_resource_version :: string
  om_deletion :: "int option"

text \<open>The zero value of \<open>metav1.ObjectMeta\<close>.\<close>

definition zero_meta :: object_meta where
  "zero_meta = \<lparr>om_name = [], om_namespace = [], om_uid = [], om_labels = [], om_annotations = [],
     om_finalizers = [], om_owner_refs = [], om_generation = 0, om_resource_version = [],
     om_deletion = None\<rparr>"

record pod =
  pod_meta :: object_meta
  pod_nodeName :: string
  pod_rest :: opaque

record node =
  node_name :: string
  node_providerID :: string

section \<open>Pod templates\<close>

record container_port =
  cp_name :: string
  cp_port :: int
  cp_protocol :: string

datatype env_source = Field_Ref string | Other_Source opaque

record env_var =
  ev_name :: string
  ev_value :: string
  ev_valueFrom :: "env_source option"

record volume_mount =
  vm_name :: string
  vm_mountPath :: string
  vm_readOnly :: bool

datatype volume_source =
    Empty_Dir
  | Downward_API "(string \<times> string) list"
  | Config_Map_Source string
  | Other_Volume opaque

record volume =
  vol_name :: string
  vol_source :: volume_source

datatype security_context = Sec_Capabilities "string list" | Other_Security opaque

record probe =
  pr_timeoutSeconds :: int
  pr_initialDelaySeconds :: int
  pr_failureThreshold :: int
  pr_port :: int
  pr_path :: string
  pr_scheme :: string

record container =
  ct_name :: string
  ct_image :: string
  ct_imagePullPolicy :: string
  ct_command :: "string list"
  ct_args :: "string list"
  ct_env :: "env_var list"
  ct_ports :: "container_port list"
  ct_volumeMounts :: "volume_mount list"
  ct_securityContext :: "security_context option"
  ct_readinessProbe :: "probe option"
  ct_resources :: opaque
  ct_rest :: opaque

record selector_requirement =
  sr_key :: string
  sr_operator :: string
  sr_values :: "string list"

record pod_affinity_term =
  pat_matchExpressions :: "selector_requirement list"
  pat_topologyKey :: string

record affinity =
  af_nodeAffinity :: "selector_requirement list list option"
  af_podAntiAffinity :: "pod_affinity_term list option"

record pod_spec =
  ps_priorityClassName :: string
  ps_securityContext :: "opaque option"
  ps_imagePullSecrets :: "opaque list"
  ps_initContainers :: "container list"
  ps_containers :: "container list"
  ps_volumes :: "volume list"
  ps_serviceAccountName :: string
  ps_affinity :: "affinity option"
  ps_tolerations :: "opaque list"
  ps_hostNetwork :: bool
  ps_dnsPolicy :: string

section \<open>StatefulSets, Services and ConfigMaps\<close>

record volume_claim =
  pvc_name :: string
  pvc_storageClassName :: "string option"
  pvc_rest :: opaque

definition RollingUpdate :: string where
  "RollingUpdate = ''RollingUpdate''"

definition OnDelete :: string where
  "OnDelete = ''OnDelete''"

record statefulset_spec =
  ss_serviceName :: string
  ss_selector :: "string gomap"
  ss_replicas :: "int option"
  ss_templateLabels :: "string gomap"
  ss_templateAnnotations :: "string gomap"
  ss_podSpec :: pod_spec
  ss_podManagementPolicy :: string
  ss_updateStrategy :: string
  ss_volumeClaimTemplates :: "volume_claim list"

record statefulset_status =
  st_observedGeneration :: int
  st_readyReplicas :: int
  st_currentReplicas :: int
  st_updatedReplicas :: int
  st_currentRevision :: string
  st_updateRevision :: string

definition zero_status :: statefulset_status where
  "zero_status = \<lparr>st_observedGeneration = 0, st_readyReplicas = 0, st_currentReplicas = 0,
     st_updatedReplicas = 0, st_currentRevision = [], st_updateRevision = []\<rparr>"

record statefulset =
  sts_meta :: object_meta
  sts_spec :: statefulset_spec
  sts_status :: statefulset_status

record service_port =
  sp_name :: string
  sp_port :: int
  sp_protocol :: string

record service =
  svc_meta :: object_meta
  svc_selector :: "string gomap"
  svc_ports :: "service_port list"
  svc_clusterIP :: string
  svc_type :: string
  svc_publishNotReadyAddresses :: bool

record config_map =
  cm_meta :: object_meta
  cm_data :: "string gomap"

section \<open>Label selectors\<close>

text \<open>
  A selector of \<open>klabels\<close> is the list of its requirements; what it selects is decided by
  the listers, which are outside the repository.
\<close>

datatype requirement = Req_Equals string string | Req_NotEquals string string

type_synonym selector = "requirement list"

text \<open>\<open>klabels.SelectorFromSet\<close> and \<open>klabels.Set(m).AsSelector()\<close>: equality on every label.\<close>

definition SelectorFromSet :: "string gomap \<Rightarrow> selector" where
  "SelectorFromSet m = map (\<lambda>(k, v). Req_Equals k v) m"

abbreviation sts_name :: "statefulset \<Rightarrow> string" where
  "sts_name s \<equiv> om_name (sts_meta s)"

abbreviation sts_annotations :: "statefulset \<Rightarrow> string gomap" where
  "sts_annotations s \<equiv> om_annotations (sts_meta s)"

abbreviation pod_name :: "pod \<Rightarrow> string" where
  "pod_name p \<equiv> om_name (pod_meta p)"

end
