(* ===== verification/Cluster_Spec.thy ===== *)
theory Cluster_Spec
  imports K8s_Objects
begin

text \<open>
  The custom resource: \<open>pkg/apis/m3dboperator/v1alpha1\<close> (cluster, status conditions,
  isolation groups, namespaces, pod identity) with the operations its types have, and the
  label, annotation and name schemes of \<open>pkg/k8sops\<close> derived from a cluster.
\<close>

section \<open>Namespaces (\<open>namespace.go\<close>)\<close>

record retention_options =
  ro_RetentionPeriod :: string
  ro_BlockSize :: string
  ro_BufferFuture :: string
  ro_BufferPast :: string
  ro_BlockDataExpiry :: bool
  ro_BlockDataExpiryAfterNotAccessPeriod :: string

record index_options =
  io_Enabled :: bool
  io_BlockSize :: string

record downsample_options =
  do_All :: bool

record aggregated_attributes =
  aa_Resolution :: string
  aa_DownsampleOptions :: "downsample_options option"

record aggregation =
  ag_Aggregated :: bool
  ag_Attributes :: aggregated_attributes

record aggregation_options =
  ao_Aggregations :: "aggregation list"

record extended_options =
  eo_Type :: string
  eo_Options :: "opaque gomap"

record namespace_options =
  no_BootstrapEnabled :: bool
  no_FlushEnabled :: bool
  no_WritesToCommitLog :: bool
  no_CleanupEnabled :: bool
  no_RepairEnabled :: bool
  no_SnapshotEnabled :: bool
  no_RetentionOptions :: retention_options
  no_IndexOptions :: index_options
  no_ColdWritesEnabled :: bool
  no_AggregationOptions :: aggregation_options
  no_ExtendedOptions :: "extended_options option"

record ns_spec =
  ns_Name :: string
  ns_Preset :: string
  ns_Options :: "namespace_options option"

section \<open>Pod identity (\<open>pod_identity.go\<close>)\<close>

text \<open>
  \<open>PodIdentitySource\<close> is a string type with three named values; any other string is a value
  of it too.
\<close>

type_synonym pod_identity_source = string

definition PodIdentitySourcePodUID :: pod_identity_source where
  "PodIdentitySourcePodUID = ''PodUID''"

definition PodIdentitySourceNodeSpecProviderID :: pod_identity_source where
  "PodIdentitySourceNodeSpecProviderID = ''NodeSpecProviderID''"

definition PodIdentitySourceNodeName :: pod_identity_source where
  "PodIdentitySourceNodeName = ''NodeName''"

record pod_identity =
  pi_Name :: string
  pi_UID :: string
  pi_NodeName :: string
  pi_NodeExternalID :: string
  pi_NodeProviderID :: string

record pod_identity_config =
  pic_Sources :: "pod_identity_source list"

section \<open>The cluster (\<open>cluster.go\<close>)\<close>

record node_affinity_term =
  nat_Key :: string
  nat_Values :: "string list"

record isolation_group =
  ig_Name :: string
  ig_NodeAffinityTerms :: "node_affinity_term list"
  ig_UsePodAntiAffinity :: bool
  ig_PodAffinityToplogyKey :: string
  ig_NumInstances :: int
  ig_StorageClassName :: string

record external_coordinator =
  ec_Selector :: "string gomap"
  ec_ServiceEndpoint :: string

record cluster_spec =
  cs_Image :: string
  cs_ReplicationFactor :: int
  cs_NumberOfShards :: int
  cs_IsolationGroups :: "isolation_group list"
  cs_Namespaces :: "ns_spec list"
  cs_EtcdEndpoints :: "string list"
  cs_KeepEtcdDataOnDelete :: bool
  cs_EnableCarbonIngester :: bool
  cs_ConfigMapName :: "string option"
  cs_PodIdentityConfig :: "pod_identity_config option"
  cs_ContainerResources :: opaque
  cs_DataDirVolumeClaimTemplate :: "volume_claim option"
  cs_PodSecurityContext :: "opaque option"
  cs_SecurityContext :: "security_context option"
  cs_ImagePullSecrets :: "opaque list"
  cs_EnvVars :: "env_var list"
  cs_Labels :: "string gomap"
  cs_Annotations :: "string gomap"
  cs_Tolerations :: "opaque list"
  cs_PriorityClassName :: string
  cs_NodeEndpointFormat :: string
  cs_HostNetwork :: bool
  cs_DNSPolicy :: "string option"
  cs_ExternalCoordinator :: "external_coordinator option"
  cs_InitContainers :: "container list"
  cs_InitVolumes :: "volume list"
  cs_PodMetadata :: object_meta
  cs_ParallelPodManagement :: "bool option"
  cs_ServiceAccountName :: string
  cs_Frozen :: bool
  cs_SidecarContainers :: "container list"
  cs_SidecarVolumes :: "volume list"
  cs_OnDeleteUpdateStrategy :: bool
  cs_Zone :: string
  cs_PreventScaleDown :: bool

datatype condition_type = PlacementInitialized | PodsBootstrapping | Other_Condition string

text \<open>\<open>corev1.ConditionStatus\<close>.\<close>

datatype condition_status = ConditionTrue | ConditionFalse | ConditionUnknown | Other_Status string

record cluster_condition =
  cc_Type :: condition_type
  cc_Status :: condition_status
  cc_LastUpdateTime :: string
  cc_LastTransitionTime :: string
  cc_Reason :: string
  cc_Message :: string

record m3db_status =
  ms_State :: string
  ms_Conditions :: "cluster_condition list"
  ms_Message :: string
  ms_ObservedGeneration :: int

record m3db_cluster =
  cl_meta :: object_meta
  cl_spec :: cluster_spec
  cl_status :: m3db_status

abbreviation cl_name :: "m3db_cluster \<Rightarrow> string" where
  "cl_name c \<equiv> om_name (cl_meta c)"

abbreviation cl_namespace :: "m3db_cluster \<Rightarrow> string" where
  "cl_namespace c \<equiv> om_namespace (cl_meta c)"

abbreviation cl_groups :: "m3db_cluster \<Rightarrow> isolation_group list" where
  "cl_groups c \<equiv> cs_IsolationGroups (cl_spec c)"

subsection \<open>Status conditions\<close>

fun hasConditionTrue_loop :: "cluster_condition list \<Rightarrow> condition_type \<Rightarrow> bool" where
  "hasConditionTrue_loop [] cond = False"
| "hasConditionTrue_loop (c # cs) cond =
     (if cc_Type c = cond \<and> cc_Status c = ConditionTrue then True else hasConditionTrue_loop cs cond)"

definition hasConditionTrue :: "m3db_status \<Rightarrow> condition_type \<Rightarrow> bool" where
  "hasConditionTrue s cond = hasConditionTrue_loop (ms_Conditions s) cond"

definition HasInitializedPlacement :: "m3db_status \<Rightarrow> bool" where
  "HasInitializedPlacement s = hasConditionTrue s PlacementInitialized"

definition HasPodsBootstrapping :: "m3db_status \<Rightarrow> bool" where
  "HasPodsBootstrapping s = hasConditionTrue s PodsBootstrapping"

text \<open>\<open>GetCondition\<close>: the condition and \<open>true\<close>, or the zero value and \<open>false\<close> (\<open>None\<close>).\<close>

definition GetCondition :: "m3db_status \<Rightarrow> condition_type \<Rightarrow> cluster_condition option" where
  "GetCondition s ct = find (\<lambda>c. cc_Type c = ct) (ms_Conditions s)"

fun UpdateCondition_loop :: "cluster_condition list \<Rightarrow> cluster_condition \<Rightarrow> cluster_condition list" where
  "UpdateCondition_loop [] new = [new]"
| "UpdateCondition_loop (c # cs) new =
     (if cc_Type c = cc_Type new then new # cs else c # UpdateCondition_loop cs new)"

definition UpdateCondition :: "m3db_status \<Rightarrow> cluster_condition \<Rightarrow> m3db_status" where
  "UpdateCondition s new = s\<lparr>ms_Conditions := UpdateCondition_loop (ms_Conditions s) new\<rparr>"

text \<open>A status in which no type of condition occurs twice.\<close>

definition conditions_ok :: "m3db_status \<Rightarrow> bool" where
  "conditions_ok s \<longleftrightarrow> distinct (map cc_Type (ms_Conditions s))"

lemma UpdateCondition_loop_types:
  "map cc_Type (UpdateCondition_loop cs new) =
     (if cc_Type new \<in> cc_Type ` set cs then map cc_Type cs else map cc_Type cs @ [cc_Type new])"
  by (induction cs) auto

lemma find_UpdateCondition_loop:
  "find (\<lambda>c. cc_Type c = t) (UpdateCondition_loop cs new) =
     (if t = cc_Type new then Some new else find (\<lambda>c. cc_Type c = t) cs)"
  by (induction cs) auto

lemma hasConditionTrue_loop_iff:
  "hasConditionTrue_loop cs t \<longleftrightarrow> (\<exists>c \<in> set cs. cc_Type c = t \<and> cc_Status c = ConditionTrue)"
  by (induction cs) auto

lemma conditions_ok_UpdateCondition: "conditions_ok s \<Longrightarrow> conditions_ok (UpdateCondition s new)"
  by (auto simp: conditions_ok_def UpdateCondition_def UpdateCondition_loop_types)

lemma GetCondition_UpdateCondition:
  "GetCondition (UpdateCondition s new) t = (if t = cc_Type new then Some new else GetCondition s t)"
  by (simp add: GetCondition_def UpdateCondition_def find_UpdateCondition_loop)

lemma hasConditionTrue_GetCondition:
  assumes "conditions_ok s"
  shows "hasConditionTrue s t \<longleftrightarrow> (\<exists>c. GetCondition s t = Some c \<and> cc_Status c = ConditionTrue)"
proof
  assume "hasConditionTrue s t"
  then obtain c where c: "c \<in> set (ms_Conditions s)" "cc_Type c = t" "cc_Status c = ConditionTrue"
    by (auto simp: hasConditionTrue_def hasConditionTrue_loop_iff)
  with assms have "GetCondition s t = Some c"
    using find_distinct_key [of cc_Type "ms_Conditions s" c] by (simp add: GetCondition_def conditions_ok_def)
  with c show "\<exists>c. GetCondition s t = Some c \<and> cc_Status c = ConditionTrue" by blast
next
  assume "\<exists>c. GetCondition s t = Some c \<and> cc_Status c = ConditionTrue"
  then show "hasConditionTrue s t"
    by (auto simp: GetCondition_def hasConditionTrue_def hasConditionTrue_loop_iff dest!: find_SomeD)
qed

subsection \<open>Isolation groups\<close>

text \<open>\<open>sort.Sort(IsolationGroups(g))\<close>, which compares names.\<close>

definition sort_groups :: "(isolation_group \<Rightarrow> nat) \<Rightarrow> isolation_group list \<Rightarrow> isolation_group list" where
  "sort_groups tie gs = go_sort tie ig_Name gs"

definition GetByName :: "isolation_group list \<Rightarrow> string \<Rightarrow> isolation_group option" where
  "GetByName gs name = find (\<lambda>g. ig_Name g = name) gs"

lemma GetByName_Some: "GetByName gs n = Some g \<Longrightarrow> g \<in> set gs \<and> ig_Name g = n"
  by (auto simp: GetByName_def dest!: find_SomeD)

lemma GetByName_unique:
  "distinct (map ig_Name gs) \<Longrightarrow> g \<in> set gs \<Longrightarrow> GetByName gs (ig_Name g) = Some g"
  unfolding GetByName_def by (rule find_distinct_key)

section \<open>Labels (\<open>pkg/k8sops/labels\<close>)\<close>

definition App :: string where "App = ''operator.m3db.io/app''"
definition AppM3DB :: string where "AppM3DB = ''m3db''"
definition Cluster :: string where "Cluster = ''operator.m3db.io/cluster''"
definition IsolationGroup :: string where "IsolationGroup = ''operator.m3db.io/isolation-group''"
definition StatefulSet :: string where "StatefulSet = ''operator.m3db.io/stateful-set''"
definition Component :: string where "Component = ''operator.m3db.io/component''"
definition ComponentM3DBNode :: string where "ComponentM3DBNode = ''m3dbnode''"
definition ComponentCoordinator :: string where "ComponentCoordinator = ''coordinator''"
definition EtcdDeletionFinalizer :: string where "EtcdDeletionFinalizer = ''operator.m3db.io/etcd-deletion''"

definition BaseLabels :: "m3db_cluster \<Rightarrow> string gomap" where
  "BaseLabels cluster = mput_all (cs_Labels (cl_spec cluster)) [(App, AppM3DB), (Cluster, cl_name cluster)]"

section \<open>Annotations (\<open>pkg/k8sops/annotations\<close>)\<close>

definition Update :: string where "Update = ''operator.m3db.io/update''"
definition ParallelUpdate :: string where "ParallelUpdate = ''operator.m3db.io/parallel-update''"
definition ParallelUpdateInProgress :: string where
  "ParallelUpdateInProgress = ''operator.m3db.io/parallel-update-in-progress''"
definition EnabledVal :: string where "EnabledVal = ''enabled''"

definition BaseAnnotations :: "m3db_cluster \<Rightarrow> string gomap" where
  "BaseAnnotations cluster = mput_all (cs_Annotations (cl_spec cluster)) [(App, AppM3DB), (Cluster, cl_name cluster)]"

definition PodAnnotations :: "m3db_cluster \<Rightarrow> string gomap" where
  "PodAnnotations cluster =
     fold (\<lambda>(k, v) base. if mhas base k then base else AList.update k v base)
       (om_annotations (cs_PodMetadata (cl_spec cluster))) (BaseAnnotations cluster)"

definition Copy :: "string gomap \<Rightarrow> string gomap" where
  "Copy annotations = mput_all annotations []"

section \<open>Names (\<open>pkg/k8sops\<close>, \<open>pkg/k8sops/m3db/common.go\<close>)\<close>

definition StatefulSetName :: "string \<Rightarrow> nat \<Rightarrow> string" where
  "StatefulSetName clusterName stsID = clusterName @ ''-rep'' @ itoa stsID"

definition HeadlessServiceName :: "string \<Rightarrow> string" where
  "HeadlessServiceName clusterName = ''m3dbnode-'' @ clusterName"

definition CoordinatorServiceName :: "string \<Rightarrow> string" where
  "CoordinatorServiceName clusterName = ''m3coordinator-'' @ clusterName"

definition DefaultM3ClusterEnvironmentName :: "object_meta \<Rightarrow> string" where
  "DefaultM3ClusterEnvironmentName m = om_namespace m @ ''/'' @ om_name m"

lemmas label_defs = App_def AppM3DB_def Cluster_def IsolationGroup_def StatefulSet_def Component_def
  ComponentM3DBNode_def ComponentCoordinator_def EtcdDeletionFinalizer_def

lemmas annotation_defs = Update_def ParallelUpdate_def ParallelUpdateInProgress_def EnabledVal_def

lemma StatefulSetName_inject [simp]: "StatefulSetName c i = StatefulSetName c j \<longleftrightarrow> i = j"
  by (simp add: StatefulSetName_def)

lemma annotation_keys_distinct [simp]:
  "Update \<noteq> ParallelUpdate" "ParallelUpdate \<noteq> Update"
  "Update \<noteq> ParallelUpdateInProgress" "ParallelUpdateInProgress \<noteq> Update"
  "ParallelUpdate \<noteq> ParallelUpdateInProgress" "ParallelUpdateInProgress \<noteq> ParallelUpdate"
  by (simp_all add: annotation_defs)

lemma label_keys_distinct [simp]: "App \<noteq> Cluster" "Cluster \<noteq> App"
  by (simp_all add: label_defs)

lemma map_ok_BaseLabels [simp]: "map_ok (BaseLabels c)"
  by (simp add: BaseLabels_def)

lemma map_of_BaseLabels:
  "map_ok (cs_Labels (cl_spec c)) \<Longrightarrow>
   map_of (BaseLabels c) = [App \<mapsto> AppM3DB, Cluster \<mapsto> cl_name c] ++ map_of (cs_Labels (cl_spec c))"
  by (simp add: BaseLabels_def map_of_mput_all fun_upd_twist)

lemma PodAnnotations_fold:
  "map_ok src \<Longrightarrow>
   map_of (fold (\<lambda>(k, v) base. if mhas base k then base else AList.update k v base) src base)
     = map_of src ++ map_of base"
proof (induction src arbitrary: base)
  case Nil
  then show ?case by simp
next
  case (Cons kv src)
  obtain k v where "kv = (k, v)" by force
  with Cons show ?case
    by (auto simp: mhas_def map_add_def fun_eq_iff split: option.splits)
qed

lemma map_of_Copy: "map_ok m \<Longrightarrow> map_of (Copy m) = map_of m"
  by (simp add: Copy_def map_of_mput_all)

end
