(* ===== verification/Generators.thy ===== *)
theory Generators
  imports Cluster_Spec Go_Monad
begin

text \<open>
  The generators of \<open>pkg/k8sops/m3db\<close>: StatefulSets (\<open>statefulset.go\<close>,
  \<open>generators.go\<close>), Services and their ports (\<open>generators.go\<close>, \<open>ports.go\<close>), the default
  ConfigMap and the config volume (\<open>config_map.go\<close>). They are pure functions of the cluster;
  the text/template rendering of the default configuration file is a parameter.
\<close>

section \<open>Ports (\<open>ports.go\<close>)\<close>

definition PortM3DBNodeClient :: int where "PortM3DBNodeClient = 9000"
definition PortM3DBNodeCluster :: int where "PortM3DBNodeCluster = 9001"
definition PortM3DBHTTPNode :: int where "PortM3DBHTTPNode = 9002"
definition PortM3DBHTTPCluster :: int where "PortM3DBHTTPCluster = 9003"
definition PortM3DBDebug :: int where "PortM3DBDebug = 9004"
definition PortM3Coordinator :: int where "PortM3Coordinator = 7201"
definition PortM3CoordinatorMetrics :: int where "PortM3CoordinatorMetrics = 7203"
definition PortM3CoordinatorCarbon :: int where "PortM3CoordinatorCarbon = 7204"

lemmas port_defs = PortM3DBNodeClient_def PortM3DBNodeCluster_def PortM3DBHTTPNode_def
  PortM3DBHTTPCluster_def PortM3DBDebug_def PortM3Coordinator_def PortM3CoordinatorMetrics_def
  PortM3CoordinatorCarbon_def

record m3db_port =
  mp_name :: string
  mp_port :: int
  mp_protocol :: string

definition tcp_port :: "string \<Rightarrow> int \<Rightarrow> m3db_port" where
  "tcp_port n p = \<lparr>mp_name = n, mp_port = p, mp_protocol = ''TCP''\<rparr>"

definition baseM3DBPorts :: "m3db_port list" where
  "baseM3DBPorts = [
     tcp_port ''client'' PortM3DBNodeClient,
     tcp_port ''cluster'' PortM3DBNodeCluster,
     tcp_port ''http-node'' PortM3DBHTTPNode,
     tcp_port ''http-cluster'' PortM3DBHTTPCluster,
     tcp_port ''debug'' PortM3DBDebug,
     tcp_port ''coordinator'' PortM3Coordinator,
     tcp_port ''coord-metrics'' PortM3CoordinatorMetrics]"

definition baseCoordinatorPorts :: "m3db_port list" where
  "baseCoordinatorPorts = [
     tcp_port ''coordinator'' PortM3Coordinator,
     tcp_port ''coord-metrics'' PortM3CoordinatorMetrics]"

definition carbonListenerPort :: m3db_port where
  "carbonListenerPort = tcp_port ''coord-carbon'' PortM3CoordinatorCarbon"

definition buildServicePorts :: "m3db_port list \<Rightarrow> service_port list" where
  "buildServicePorts ports =
     map (\<lambda>p. \<lparr>sp_name = mp_name p, sp_port = i32 (mp_port p), sp_protocol = mp_protocol p\<rparr>) ports"

definition generateM3DBServicePorts :: "m3db_cluster \<Rightarrow> service_port list" where
  "generateM3DBServicePorts cluster = buildServicePorts
     (if cs_EnableCarbonIngester (cl_spec cluster) then baseM3DBPorts @ [carbonListenerPort] else baseM3DBPorts)"

definition generateCoordinatorServicePorts :: "m3db_cluster \<Rightarrow> service_port list" where
  "generateCoordinatorServicePorts cluster = buildServicePorts
     (if cs_EnableCarbonIngester (cl_spec cluster) then baseCoordinatorPorts @ [carbonListenerPort]
      else baseCoordinatorPorts)"

definition generateContainerPorts :: "m3db_cluster \<Rightarrow> container_port list" where
  "generateContainerPorts cluster =
     map (\<lambda>p. \<lparr>cp_name = mp_name p, cp_port = i32 (mp_port p), cp_protocol = mp_protocol p\<rparr>)
       (if cs_EnableCarbonIngester (cl_spec cluster) then baseM3DBPorts @ [carbonListenerPort] else baseM3DBPorts)"

section \<open>Owner references and affinity (\<open>statefulset.go\<close>)\<close>

text \<open>The group and version of \<open>myspec.SchemeGroupVersion\<close>.\<close>

definition GroupName :: string where "GroupName = ''operator.m3db.io''"
definition Version :: string where "Version = ''v1alpha1''"

definition GenerateOwnerRef :: "m3db_cluster \<Rightarrow> owner_ref" where
  "GenerateOwnerRef cluster = \<lparr>or_group = GroupName, or_version = Version, or_kind = ''m3dbcluster'',
     or_name = cl_name cluster, or_uid = om_uid (cl_meta cluster), or_controller = True\<rparr>"

definition errEmptyNodeAffinityKey :: gerror where
  "errEmptyNodeAffinityKey = Errors_New ''node affinity term key cannot be empty''"
definition errEmptyNodeAffinityValues :: gerror where
  "errEmptyNodeAffinityValues = Errors_New ''node affinity term values cannot be empty''"
definition errEmptyPodAffinityToplogyKey :: gerror where
  "errEmptyPodAffinityToplogyKey = Errors_New ''pod affinity toplogy key cannot be empty''"

definition GenerateStatefulSetPodAntiAffinity :: "isolation_group \<Rightarrow> gerror + pod_affinity_term list option" where
  "GenerateStatefulSetPodAntiAffinity isoGroup =
     (if \<not> ig_UsePodAntiAffinity isoGroup then Inr None
      else if ig_PodAffinityToplogyKey isoGroup = [] then Inl errEmptyPodAffinityToplogyKey
      else Inr (Some [\<lparr>pat_matchExpressions =
             [\<lparr>sr_key = Component, sr_operator = ''In'', sr_values = [ComponentM3DBNode]\<rparr>],
             pat_topologyKey = ig_PodAffinityToplogyKey isoGroup\<rparr>]))"

definition node_affinity_requirement :: "node_affinity_term \<Rightarrow> gerror + selector_requirement" where
  "node_affinity_requirement term =
     (if nat_Key term = [] then Inl errEmptyNodeAffinityKey
      else if nat_Values term = [] then Inl errEmptyNodeAffinityValues
      else Inr \<lparr>sr_key = nat_Key term, sr_operator = ''In'', sr_values = nat_Values term\<rparr>)"

definition GenerateStatefulSetNodeAffinity :: "isolation_group \<Rightarrow> gerror + selector_requirement list list option" where
  "GenerateStatefulSetNodeAffinity isoGroup =
     (if ig_NodeAffinityTerms isoGroup = [] then Inr None
      else res_bind (res_map node_affinity_requirement (ig_NodeAffinityTerms isoGroup))
             (\<lambda>expressions. Inr (Some [expressions])))"

definition GenerateStatefulSetAffinity :: "isolation_group \<Rightarrow> gerror + affinity option" where
  "GenerateStatefulSetAffinity isoGroup =
     (if ig_NodeAffinityTerms isoGroup = [] \<and> \<not> ig_UsePodAntiAffinity isoGroup then Inr None
      else res_bind (GenerateStatefulSetNodeAffinity isoGroup) (\<lambda>nodeAffinity.
           res_bind (GenerateStatefulSetPodAntiAffinity isoGroup) (\<lambda>podAntiAffinity.
           Inr (Some \<lparr>af_nodeAffinity = nodeAffinity, af_podAntiAffinity = podAntiAffinity\<rparr>))))"

section \<open>Volumes (\<open>statefulset.go\<close>, \<open>config_map.go\<close>)\<close>

definition AnnotationKeyPodIdentity :: string where
  "AnnotationKeyPodIdentity = ''operator.m3db.io/pod-identity''"

definition generateDownwardAPIVolume :: volume where
  "generateDownwardAPIVolume = \<lparr>vol_name = ''pod-identity'', vol_source = Downward_API
     [(''identity'', ''metadata.annotations['' @ [CHR 0x27] @ AnnotationKeyPodIdentity @ [CHR 0x27] @ '']'')]\<rparr>"

definition generateDownwardAPIVolumeMount :: volume_mount where
  "generateDownwardAPIVolumeMount =
     \<lparr>vm_name = ''pod-identity'', vm_mountPath = ''/etc/m3db/pod-identity'', vm_readOnly = False\<rparr>"

definition defaultConfigMapName :: "string \<Rightarrow> string" where
  "defaultConfigMapName clusterName = ''m3db-config-map-'' @ clusterName"

definition errConfigMapNonNil :: gerror where
  "errConfigMapNonNil = Errors_New ''cannot generate configmap when cluster specified one''"
definition errEmptyConfigMapName :: gerror where
  "errEmptyConfigMapName = Errors_New ''configMap name cannot be empty if non-nil''"
definition errEmptyEtcdEndpoits :: gerror where
  "errEmptyEtcdEndpoits = Errors_New ''etcd endpoints cannot be empty with default configmap''"

definition buildConfigMapComponents :: "m3db_cluster \<Rightarrow> gerror + volume \<times> volume_mount" where
  "buildConfigMapComponents cluster =
     (let vm = \<lparr>vm_name = ''m3-configuration'', vm_mountPath = ''/etc/m3db/'', vm_readOnly = False\<rparr>;
          cmName = (case cs_ConfigMapName (cl_spec cluster) of
                      None \<Rightarrow> defaultConfigMapName (cl_name cluster) | Some n \<Rightarrow> n)
      in if cmName = [] then Inl errEmptyConfigMapName
         else Inr (\<lparr>vol_name = ''m3-configuration'', vol_source = Config_Map_Source cmName\<rparr>, vm))"

record config_data =
  cd_Env :: string
  cd_Endpoints :: "string list"
  cd_CarbonIngester :: bool

text \<open>
  \<open>render\<close> stands for reading the template from the embedded assets, parsing it and executing
  it on the data.
\<close>

definition GenerateDefaultConfigMap :: "(config_data \<Rightarrow> gerror + string) \<Rightarrow> m3db_cluster \<Rightarrow> gerror + config_map" where
  "GenerateDefaultConfigMap render cluster =
     (if cs_ConfigMapName (cl_spec cluster) \<noteq> None then Inl errConfigMapNonNil
      else if cs_EtcdEndpoints (cl_spec cluster) = [] then Inl errEmptyEtcdEndpoits
      else res_bind (render \<lparr>cd_Env = DefaultM3ClusterEnvironmentName (cl_meta cluster),
                      cd_Endpoints = cs_EtcdEndpoints (cl_spec cluster),
                      cd_CarbonIngester = cs_EnableCarbonIngester (cl_spec cluster)\<rparr>)
        (\<lambda>buf. Inr \<lparr>cm_meta = zero_meta\<lparr>om_name := defaultConfigMapName (cl_name cluster),
                         om_owner_refs := [GenerateOwnerRef cluster]\<rparr>,
                    cm_data = [(''m3.yml'', buf)]\<rparr>))"

section \<open>The base StatefulSet (\<open>statefulset.go\<close>)\<close>

text \<open>The labels of the set, of its selector and of its pods (one Go map, shared).\<close>

definition sts_objLabels :: "string \<Rightarrow> string \<Rightarrow> m3db_cluster \<Rightarrow> string gomap" where
  "sts_objLabels ssName isolationGroup cluster =
     mput_all (cs_Labels (cl_spec cluster))
       (AList.update Component ComponentM3DBNode
         (AList.update StatefulSet ssName
           (AList.update IsolationGroup isolationGroup (BaseLabels cluster))))"

definition m3db_container :: "string \<Rightarrow> m3db_cluster \<Rightarrow> container" where
  "m3db_container ssName cluster = \<lparr>
     ct_name = ssName,
     ct_image = cs_Image (cl_spec cluster),
     ct_imagePullPolicy = ''Always'',
     ct_command = [''m3dbnode''],
     ct_args = [''-f'', ''/etc/m3db/m3.yml''],
     ct_env = [
       \<lparr>ev_name = ''NAMESPACE'', ev_value = [], ev_valueFrom = Some (Field_Ref ''metadata.namespace'')\<rparr>,
       \<lparr>ev_name = ''M3CLUSTER_ENVIRONMENT'',
        ev_value = DefaultM3ClusterEnvironmentName (cl_meta cluster), ev_valueFrom = None\<rparr>],
     ct_ports = [],
     ct_volumeMounts = [
       \<lparr>vm_name = ''m3db-data'', vm_mountPath = ''/var/lib/m3db/'', vm_readOnly = False\<rparr>,
       \<lparr>vm_name = ''cache'', vm_mountPath = ''/var/lib/m3kv/'', vm_readOnly = False\<rparr>,
       generateDownwardAPIVolumeMount],
     ct_securityContext = (case cs_SecurityContext (cl_spec cluster) of
         None \<Rightarrow> Some (Sec_Capabilities [''SYS_RESOURCE'']) | Some sc \<Rightarrow> Some sc),
     ct_readinessProbe = Some \<lparr>pr_timeoutSeconds = 30, pr_initialDelaySeconds = 10,
         pr_failureThreshold = 15, pr_port = PortM3DBHTTPNode,
         pr_path = ''/bootstrappedinplacementornoplacement'', pr_scheme = ''HTTP''\<rparr>,
     ct_resources = [],
     ct_rest = []\<rparr>"

definition NewBaseStatefulSet :: "string \<Rightarrow> string \<Rightarrow> m3db_cluster \<Rightarrow> int \<Rightarrow> statefulset" where
  "NewBaseStatefulSet ssName isolationGroup cluster instanceCount =
     (let spec = cl_spec cluster;
          objLabels = sts_objLabels ssName isolationGroup cluster;
          objAnnotations = PodAnnotations cluster
      in \<lparr>sts_meta = zero_meta\<lparr>om_name := ssName, om_labels := objLabels,
             om_annotations := Copy objAnnotations\<rparr>,
          sts_spec = \<lparr>
            ss_serviceName = HeadlessServiceName (cl_name cluster),
            ss_selector = objLabels,
            ss_replicas = Some instanceCount,
            ss_templateLabels = objLabels,
            ss_templateAnnotations = objAnnotations,
            ss_podSpec = \<lparr>
              ps_priorityClassName = cs_PriorityClassName spec,
              ps_securityContext = cs_PodSecurityContext spec,
              ps_imagePullSecrets = cs_ImagePullSecrets spec,
              ps_initContainers = [],
              ps_containers = [m3db_container ssName cluster],
              ps_volumes = [\<lparr>vol_name = ''cache'', vol_source = Empty_Dir\<rparr>, generateDownwardAPIVolume],
              ps_serviceAccountName = cs_ServiceAccountName spec,
              ps_affinity = None,
              ps_tolerations = [],
              ps_hostNetwork = False,
              ps_dnsPolicy = []\<rparr>,
            ss_podManagementPolicy =
              (if cs_ParallelPodManagement spec \<in> {None, Some True} then ''Parallel'' else []),
            ss_updateStrategy = (if cs_OnDeleteUpdateStrategy spec then OnDelete else RollingUpdate),
            ss_volumeClaimTemplates = []\<rparr>,
          sts_status = zero_status\<rparr>)"

section \<open>\<open>GenerateStatefulSet\<close> (\<open>generators.go\<close>)\<close>

text \<open>The search loop: index and value of the first group with the name.\<close>

fun find_group :: "isolation_group list \<Rightarrow> string \<Rightarrow> (nat \<times> isolation_group) option" where
  "find_group [] name = None"
| "find_group (g # gs) name =
     (if ig_Name g = name then Some (0, g) else map_option (\<lambda>(i, h). (Suc i, h)) (find_group gs name))"

definition upd_podSpec :: "(pod_spec \<Rightarrow> pod_spec) \<Rightarrow> statefulset \<Rightarrow> statefulset" where
  "upd_podSpec f s = s\<lparr>sts_spec := (sts_spec s)\<lparr>ss_podSpec := f (ss_podSpec (sts_spec s))\<rparr>\<rparr>"

definition upd_container0 :: "(container \<Rightarrow> container) \<Rightarrow> pod_spec \<Rightarrow> pod_spec" where
  "upd_container0 f ps = ps\<lparr>ps_containers := (case ps_containers ps of [] \<Rightarrow> [] | c # cs \<Rightarrow> f c # cs)\<rparr>"

text \<open>The data volume: an empty directory, or the claim template of the cluster.\<close>

definition data_claims :: "m3db_cluster \<Rightarrow> isolation_group \<Rightarrow> volume list \<times> volume_claim list" where
  "data_claims cluster isoGroup = (case cs_DataDirVolumeClaimTemplate (cl_spec cluster) of
      None \<Rightarrow> ([\<lparr>vol_name = ''m3db-data'', vol_source = Empty_Dir\<rparr>], [])
    | Some template \<Rightarrow> ([], [template\<lparr>pvc_name := ''m3db-data'',
         pvc_storageClassName := (if ig_StorageClassName isoGroup \<noteq> [] then Some (ig_StorageClassName isoGroup)
                                  else pvc_storageClassName template)\<rparr>]))"

definition fill_podSpec :: "m3db_cluster \<Rightarrow> affinity option \<Rightarrow> volume \<Rightarrow> volume_mount \<Rightarrow> volume list \<Rightarrow> pod_spec \<Rightarrow> pod_spec" where
  "fill_podSpec cluster affinity configVol configVolMount dataVols ps =
     (let spec = cl_spec cluster;
          ps' = upd_container0 (\<lambda>c. c\<lparr>ct_resources := cs_ContainerResources spec,
                  ct_ports := generateContainerPorts cluster,
                  ct_volumeMounts := ct_volumeMounts c @ [configVolMount],
                  ct_env := ct_env c @ cs_EnvVars spec\<rparr>) ps
      in ps'\<lparr>ps_affinity := affinity,
             ps_tolerations := cs_Tolerations spec,
             ps_hostNetwork := cs_HostNetwork spec,
             ps_dnsPolicy := (case cs_DNSPolicy spec of None \<Rightarrow> ps_dnsPolicy ps' | Some p \<Rightarrow> p),
             ps_initContainers := ps_initContainers ps' @ cs_InitContainers spec,
             ps_containers := ps_containers ps' @ cs_SidecarContainers spec,
             ps_volumes := ps_volumes ps' @ [configVol] @ dataVols @ cs_InitVolumes spec @ cs_SidecarVolumes spec\<rparr>)"

text \<open>Everything after the checks: the base set with its pod spec, owner and volume claims filled in.\<close>

definition assemble_statefulset ::
  "m3db_cluster \<Rightarrow> string \<Rightarrow> int \<Rightarrow> nat \<Rightarrow> isolation_group \<Rightarrow> affinity option \<Rightarrow> volume \<times> volume_mount \<Rightarrow> statefulset" where
  "assemble_statefulset cluster isolationGroupName instanceAmount stsID isolationGroup affinity config =
     (let base = NewBaseStatefulSet (StatefulSetName (cl_name cluster) stsID) isolationGroupName cluster instanceAmount;
          s1 = upd_podSpec (fill_podSpec cluster affinity (fst config) (snd config)
                 (fst (data_claims cluster isolationGroup))) base
      in s1\<lparr>sts_meta := (sts_meta s1)\<lparr>om_owner_refs := [GenerateOwnerRef cluster]\<rparr>,
            sts_spec := (sts_spec s1)\<lparr>ss_volumeClaimTemplates := snd (data_claims cluster isolationGroup)\<rparr>\<rparr>)"

definition GenerateStatefulSet :: "m3db_cluster \<Rightarrow> string \<Rightarrow> int \<Rightarrow> gerror + statefulset" where
  "GenerateStatefulSet cluster isolationGroupName instanceAmount =
     (case find_group (cl_groups cluster) isolationGroupName of
        None \<Rightarrow> Inl (Errorf ''could not find isogroup '%s' in spec'' [AStr isolationGroupName])
      | Some (stsID, isolationGroup) \<Rightarrow>
          (case GenerateStatefulSetAffinity isolationGroup of
             Inl err \<Rightarrow> Inl (Wrap err ''error generating statefulset affinity'')
           | Inr affinity \<Rightarrow>
               res_bind (buildConfigMapComponents cluster) (\<lambda>config.
                 Inr (assemble_statefulset cluster isolationGroupName instanceAmount stsID
                        isolationGroup affinity config))))"

section \<open>Services (\<open>generators.go\<close>)\<close>

definition errEmptyClusterName :: gerror where
  "errEmptyClusterName = Errors_New ''cluster name cannot be empty''"

definition GenerateM3DBService :: "m3db_cluster \<Rightarrow> gerror + service" where
  "GenerateM3DBService cluster =
     (if cl_name cluster = [] then Inl errEmptyClusterName
      else let svcLabels = AList.update Component ComponentM3DBNode (BaseLabels cluster) in
        Inr \<lparr>svc_meta = zero_meta\<lparr>om_name := HeadlessServiceName (cl_name cluster),
                om_labels := svcLabels, om_annotations := BaseAnnotations cluster\<rparr>,
             svc_selector = svcLabels,
             svc_ports = generateM3DBServicePorts cluster,
             svc_clusterIP = ''None'',
             svc_type = ''ClusterIP'',
             svc_publishNotReadyAddresses = True\<rparr>)"

definition GenerateCoordinatorService :: "m3db_cluster \<Rightarrow> gerror + service" where
  "GenerateCoordinatorService cluster =
     (if cl_name cluster = [] then Inl errEmptyClusterName
      else let dbLabels = AList.update Component ComponentM3DBNode (BaseLabels cluster);
               selectorLabels = (case cs_ExternalCoordinator (cl_spec cluster) of
                   None \<Rightarrow> dbLabels
                 | Some ec \<Rightarrow> if length (ec_Selector ec) > 0 then ec_Selector ec else dbLabels);
               serviceLabels = AList.update Component ComponentCoordinator (BaseLabels cluster)
           in Inr \<lparr>svc_meta = zero_meta\<lparr>om_name := CoordinatorServiceName (cl_name cluster),
                      om_labels := serviceLabels\<rparr>,
                   svc_selector = selectorLabels,
                   svc_ports = generateCoordinatorServicePorts cluster,
                   svc_clusterIP = [],
                   svc_type = ''ClusterIP'',
                   svc_publishNotReadyAddresses = False\<rparr>)"

section \<open>Lemmas\<close>

lemma find_group_Some:
  "find_group gs n = Some (i, g) \<longleftrightarrow>
     i < length gs \<and> gs ! i = g \<and> ig_Name g = n \<and> (\<forall>j < i. ig_Name (gs ! j) \<noteq> n)"
proof (induction gs arbitrary: i)
  case Nil
  then show ?case by simp
next
  case (Cons h gs)
  show ?case
  proof (cases i)
    case 0
    then show ?thesis by (auto split: if_splits)
  next
    case (Suc k)
    with Cons show ?thesis by (auto simp: All_less_Suc2)
  qed
qed

lemma find_group_None: "find_group gs n = None \<longleftrightarrow> n \<notin> ig_Name ` set gs"
  by (induction gs) auto

lemma find_group_nth:
  assumes "distinct (map ig_Name gs)" and "i < length gs"
  shows "find_group gs (ig_Name (gs ! i)) = Some (i, gs ! i)"
  using assms by (force simp: find_group_Some distinct_conv_nth)

text \<open>An isolation group whose affinity settings are complete.\<close>

definition affinity_ok :: "isolation_group \<Rightarrow> bool" where
  "affinity_ok g \<longleftrightarrow> list_all (\<lambda>t. nat_Key t \<noteq> [] \<and> nat_Values t \<noteq> []) (ig_NodeAffinityTerms g)
     \<and> (ig_UsePodAntiAffinity g \<longrightarrow> ig_PodAffinityToplogyKey g \<noteq> [])"

lemma res_map_node_affinity:
  "(\<exists>ys. res_map node_affinity_requirement ts = Inr ys) \<longleftrightarrow>
     list_all (\<lambda>t. nat_Key t \<noteq> [] \<and> nat_Values t \<noteq> []) ts"
  by (induction ts) (auto simp: node_affinity_requirement_def res_bind_Inr)

lemma GenerateStatefulSetAffinity_ok:
  "(\<exists>a. GenerateStatefulSetAffinity g = Inr a) \<longleftrightarrow> affinity_ok g"
  using res_map_node_affinity [of "ig_NodeAffinityTerms g"]
  by (auto simp: GenerateStatefulSetAffinity_def GenerateStatefulSetNodeAffinity_def
      GenerateStatefulSetPodAntiAffinity_def affinity_ok_def res_bind_Inr split: if_splits)

lemma buildConfigMapComponents_ok:
  "(\<exists>r. buildConfigMapComponents c = Inr r) \<longleftrightarrow> cs_ConfigMapName (cl_spec c) \<noteq> Some []"
  by (auto simp: buildConfigMapComponents_def defaultConfigMapName_def Let_def split: option.splits)

text \<open>The spec fields that \<open>GenerateStatefulSet\<close> fills, in one place.\<close>

lemma GenerateStatefulSet_Inr:
  assumes "GenerateStatefulSet c n k = Inr s"
  obtains i g a cfg where
    "find_group (cl_groups c) n = Some (i, g)"
    "GenerateStatefulSetAffinity g = Inr a"
    "buildConfigMapComponents c = Inr cfg"
    "s = assemble_statefulset c n k i g a cfg"
  using assms
  by (auto simp: GenerateStatefulSet_def res_bind_Inr split: option.splits sum.splits prod.splits)

lemmas assemble_simps = assemble_statefulset_def NewBaseStatefulSet_def Let_def upd_podSpec_def
  fill_podSpec_def upd_container0_def m3db_container_def

lemma map_of_sts_objLabels:
  assumes "map_ok (cs_Labels (cl_spec c))"
  shows "map_of (sts_objLabels ss g c) =
    (map_of (BaseLabels c))(IsolationGroup \<mapsto> g, StatefulSet \<mapsto> ss, Component \<mapsto> ComponentM3DBNode)
      ++ map_of (cs_Labels (cl_spec c))"
  using assms by (simp add: sts_objLabels_def map_of_mput_all)

lemma GenerateStatefulSet_labels:
  assumes "GenerateStatefulSet c n k = Inr s"
  shows "om_labels (sts_meta s) = sts_objLabels (sts_name s) n c"
    and "ss_selector (sts_spec s) = om_labels (sts_meta s)"
    and "ss_templateLabels (sts_spec s) = om_labels (sts_meta s)"
  using assms
  by (auto elim!: GenerateStatefulSet_Inr simp: assemble_simps)

lemma GenerateStatefulSet_name:
  assumes "GenerateStatefulSet c n k = Inr s"
  shows "\<exists>i g. find_group (cl_groups c) n = Some (i, g) \<and> sts_name s = StatefulSetName (cl_name c) i"
  using assms
  by (auto elim!: GenerateStatefulSet_Inr simp: assemble_simps)

end
