(* ===== verification/Durations.thy ===== *)
theory Durations
  imports Go_Monad
begin

text \<open>
  \<open>time.ParseDuration\<close> and \<open>Duration.String\<close> of the Go standard library, on which the namespace
  requests depend: the spec gives every duration as a string and the coordinator wants
  nanoseconds. Arithmetic is on \<open>uint64\<close> as in the library, with its overflow checks. The
  contribution of a fractional part (computed by the library in floating point) is the
  parameter \<open>frac digits unit\<close>, in nanoseconds.
\<close>

definition unitMap :: "nat gomap" where
  "unitMap = [
     (''ns'', 1),
     (''us'', 1000),
     ([CHR 0xC2, CHR 0xB5, CHR ''s''], 1000),
     ([CHR 0xCE, CHR 0xBC, CHR ''s''], 1000),
     (''ms'', 1000000),
     (''s'', 1000000000),
     (''m'', 60000000000),
     (''h'', 3600000000000)]"

text \<open>\<open>leadingInt\<close>: the digits at the front, an error above \<open>1<<63\<close>.\<close>

definition leadingInt :: "string \<Rightarrow> (nat \<times> string) option" where
  "leadingInt s = (let v = digits_val (takeWhile is_digit s) in
     if v > 2 ^ 63 then None else Some (v, dropWhile is_digit s))"

definition unit_char :: "char \<Rightarrow> bool" where
  "unit_char c \<longleftrightarrow> \<not> (c = CHR ''.'' \<or> is_digit c)"

text \<open>
  One turn of the library's loop: a number, an optional fraction, a unit. The result is the
  number of nanoseconds of this element and the rest of the string.
\<close>

definition duration_element :: "(string \<Rightarrow> nat \<Rightarrow> nat) \<Rightarrow> string \<Rightarrow> (nat \<times> string) option" where
  "duration_element frac s =
     (if s = [] \<or> \<not> (hd s = CHR ''.'' \<or> is_digit (hd s)) then None
      else case leadingInt s of
        None \<Rightarrow> None
      | Some (v, s1) \<Rightarrow>
          (let pre = (length s1 \<noteq> length s);
               dot = (s1 \<noteq> [] \<and> hd s1 = CHR ''.'');
               fs = (if dot then takeWhile is_digit (tl s1) else []);
               s2 = (if dot then dropWhile is_digit (tl s1) else s1);
               u = takeWhile unit_char s2
           in if \<not> pre \<and> fs = [] then None
              else if u = [] then None
              else case map_of unitMap u of
                None \<Rightarrow> None
              | Some k \<Rightarrow>
                  if v > 2 ^ 63 div k then None
                  else let w = v * k + (if digits_val fs > 0 then frac fs k else 0) in
                    if w > 2 ^ 63 then None else Some (w, dropWhile unit_char s2)))"

lemma length_dropWhile_hd: "xs \<noteq> [] \<Longrightarrow> P (hd xs) \<Longrightarrow> length (dropWhile P xs) < length xs"
  by (cases xs) (auto simp: le_imp_less_Suc length_dropWhile_le)

lemma takeWhile_not_Nil: "takeWhile P xs \<noteq> [] \<Longrightarrow> xs \<noteq> [] \<and> P (hd xs)"
  by (cases xs) (auto split: if_splits)

lemma duration_element_shorter:
  assumes "duration_element frac s = Some (w, r)"
  shows "length r < length s"
proof -
  obtain v s1 where l: "leadingInt s = Some (v, s1)"
    using assms by (auto simp: duration_element_def split: if_splits option.splits)
  define s2 where "s2 = (if s1 \<noteq> [] \<and> hd s1 = CHR ''.'' then dropWhile is_digit (tl s1) else s1)"
  have s1: "length s1 \<le> length s"
    using l by (auto simp: leadingInt_def Let_def length_dropWhile_le split: if_splits)
  have s2: "length s2 \<le> length s1"
    unfolding s2_def using length_dropWhile_le [of is_digit "tl s1"] by auto
  have r: "r = dropWhile unit_char s2" and u: "takeWhile unit_char s2 \<noteq> []"
    using assms l unfolding s2_def
    by (auto simp: duration_element_def Let_def split: if_splits option.splits)
  from u have "length r < length s2"
    unfolding r by (intro length_dropWhile_hd) (auto dest: takeWhile_not_Nil)
  with s1 s2 show ?thesis by simp
qed

definition errInvalidDuration :: "string \<Rightarrow> gerror" where
  "errInvalidDuration s = Errorf ''time: invalid duration %q'' [AStr s]"

text \<open>The loop; \<open>orig\<close> is the whole string, for the error.\<close>

function duration_loop :: "(string \<Rightarrow> nat \<Rightarrow> nat) \<Rightarrow> string \<Rightarrow> nat \<Rightarrow> string \<Rightarrow> gerror + nat" where
  "duration_loop frac orig d s =
     (if s = [] then Inr d
      else case duration_element frac s of
        None \<Rightarrow> Inl (errInvalidDuration orig)
      | Some (w, r) \<Rightarrow>
          (let d' = (d + w) mod 2 ^ 64 in
           if d' > 2 ^ 63 then Inl (errInvalidDuration orig) else duration_loop frac orig d' r))"
  by pat_completeness auto
termination
  by (relation "measure (\<lambda>(frac, orig, d, s). length s)") (auto intro: duration_element_shorter)

declare duration_loop.simps [simp del]

definition ParseDuration :: "(string \<Rightarrow> nat \<Rightarrow> nat) \<Rightarrow> string \<Rightarrow> gerror + int" where
  "ParseDuration frac orig =
     (let (neg, s) = atoi_sign orig in
      if s = ''0'' then Inr 0
      else if s = [] then Inl (errInvalidDuration orig)
      else case duration_loop frac orig 0 s of
        Inl e \<Rightarrow> Inl e
      | Inr d \<Rightarrow> if neg then Inr (- int d)
                 else if d > 2 ^ 63 - 1 then Inl (errInvalidDuration orig)
                 else Inr (int d))"

text \<open>\<open>Duration.String\<close> of a whole number of seconds.\<close>

definition duration_string :: "nat \<Rightarrow> string" where
  "duration_string secs =
     (let sec = itoa (secs mod 60) @ ''s''; mins = secs div 60 in
      if mins = 0 then sec
      else let mn = itoa (mins mod 60) @ ''m'' @ sec; hrs = mins div 60 in
        if hrs = 0 then mn else itoa hrs @ ''h'' @ mn)"

section \<open>Lemmas\<close>

lemma takeWhile_digits: "list_all is_digit ds \<Longrightarrow> \<not> is_digit c \<Longrightarrow> takeWhile is_digit (ds @ c # r) = ds"
  by (subst takeWhile_append2) (auto simp: list_all_iff)

lemma dropWhile_digits: "list_all is_digit ds \<Longrightarrow> \<not> is_digit c \<Longrightarrow> dropWhile is_digit (ds @ c # r) = c # r"
  by (subst dropWhile_append2) (auto simp: list_all_iff)

text \<open>An element with digits only, a one-letter unit and a rest that starts with a digit.\<close>

lemma duration_element_whole:
  assumes ds: "list_all is_digit ds" "ds \<noteq> []"
    and c: "unit_char c" "map_of unitMap [c] = Some k" "0 < k"
    and r: "r = [] \<or> is_digit (hd r)"
    and v: "digits_val ds * k \<le> 2 ^ 63"
  shows "duration_element frac (ds @ c # r) = Some (digits_val ds * k, r)"
proof -
  have nd: "\<not> is_digit c" and ndot: "c \<noteq> CHR ''.''" using c(1) by (auto simp: unit_char_def)
  have v1: "digits_val ds \<le> 2 ^ 63" using v c(3) by (metis le_trans mult.commute mult_le_mono2 nat_mult_1 Suc_leI One_nat_def)
  have li: "leadingInt (ds @ c # r) = Some (digits_val ds, c # r)"
    using v1 by (simp add: leadingInt_def takeWhile_digits dropWhile_digits ds(1) nd)
  have u: "takeWhile unit_char (c # r) = [c]" "dropWhile unit_char (c # r) = r"
    using c(1) r by (cases r; auto simp: unit_char_def)+
  have hd: "is_digit (hd (ds @ c # r))" using ds by (cases ds) auto
  have div: "\<not> digits_val ds > 2 ^ 63 div k"
    using v c(3) by (simp add: not_less less_eq_div_iff_mult_less_eq)
  show ?thesis
    using hd li u ndot c(2) div v by (simp add: duration_element_def ds(2))
qed

lemma duration_loop_whole:
  assumes "list_all is_digit ds" "ds \<noteq> []" "unit_char c" "map_of unitMap [c] = Some k" "0 < k"
    and "r = [] \<or> is_digit (hd r)" and "d + digits_val ds * k \<le> 2 ^ 63"
  shows "duration_loop frac orig d (ds @ c # r) = duration_loop frac orig (d + digits_val ds * k) r"
proof -
  have "duration_element frac (ds @ c # r) = Some (digits_val ds * k, r)"
    using assms by (intro duration_element_whole) auto
  moreover have "(d + digits_val ds * k) mod 2 ^ 64 = d + digits_val ds * k"
    using assms(7) by (intro mod_less) simp
  ultimately show ?thesis
    using assms(7) by (subst duration_loop.simps) (simp add: Let_def)
qed

lemma unit_chars:
  "unit_char CHR ''s''" "unit_char CHR ''m''" "unit_char CHR ''h''"
  "map_of unitMap ''s'' = Some 1000000000" "map_of unitMap ''m'' = Some 60000000000"
  "map_of unitMap ''h'' = Some 3600000000000"
  by (simp_all add: unit_char_def is_digit_def less_eq_char_def unitMap_def)

lemma hd_itoa: "is_digit (hd (itoa n @ xs))"
  using itoa_digits [of n] by (cases "itoa n") auto

lemma duration_loop_Nil [simp]: "duration_loop frac orig d [] = Inr d"
  by (subst duration_loop.simps) simp

lemma duration_loop_secs:
  assumes "d + n * 1000000000 \<le> 2 ^ 63"
  shows "duration_loop frac orig d (itoa n @ ''s'') = Inr (d + n * 1000000000)"
  using duration_loop_whole [OF itoa_digits itoa_not_Nil unit_chars(1,4), of "[]"] assms by simp

lemma duration_loop_mins:
  assumes "d + m * 60000000000 + n * 1000000000 \<le> 2 ^ 63"
  shows "duration_loop frac orig d (itoa m @ ''m'' @ itoa n @ ''s'') = Inr (d + m * 60000000000 + n * 1000000000)"
  using duration_loop_whole [OF itoa_digits itoa_not_Nil unit_chars(2,5), of "itoa n @ ''s''" d m]
    hd_itoa [of n "''s''"] assms by (simp add: duration_loop_secs)

lemma duration_loop_hours:
  assumes "d + h * 3600000000000 + m * 60000000000 + n * 1000000000 \<le> 2 ^ 63"
  shows "duration_loop frac orig d (itoa h @ ''h'' @ itoa m @ ''m'' @ itoa n @ ''s'') =
    Inr (d + h * 3600000000000 + m * 60000000000 + n * 1000000000)"
  using duration_loop_whole [OF itoa_digits itoa_not_Nil unit_chars(3,6), of "itoa m @ ''m'' @ itoa n @ ''s''" d h]
    hd_itoa [of m] assms duration_loop_mins [of "d + h * 3600000000000" m n]
  by simp

lemma secs_split:
  fixes secs :: nat
  shows "secs = 3600 * (secs div 60 div 60) + 60 * (secs div 60 mod 60) + secs mod 60"
proof -
  have "secs = 60 * (secs div 60) + secs mod 60" by simp
  moreover have "secs div 60 = 60 * (secs div 60 div 60) + secs div 60 mod 60" by simp
  ultimately show ?thesis by linarith
qed

lemma duration_loop_string:
  assumes "secs * 1000000000 \<le> 2 ^ 63"
  shows "duration_loop frac orig 0 (duration_string secs) = Inr (secs * 1000000000)"
proof -
  define h m n where "h = secs div 60 div 60" and "m = secs div 60 mod 60" and "n = secs mod 60"
  have val: "secs * 1000000000 = h * 3600000000000 + m * 60000000000 + n * 1000000000"
    using secs_split [of secs] unfolding h_def m_def n_def by simp
  consider "secs div 60 = 0" | "secs div 60 \<noteq> 0" "h = 0" | "h \<noteq> 0" unfolding h_def by fastforce
  then show ?thesis
  proof cases
    case 1
    then have str: "duration_string secs = itoa n @ ''s''" and "m = 0" "h = 0"
      by (simp_all add: duration_string_def m_def n_def h_def)
    with val assms show ?thesis by (simp only: str) (simp add: duration_loop_secs)
  next
    case 2
    then have str: "duration_string secs = itoa m @ ''m'' @ itoa n @ ''s''"
      by (simp add: duration_string_def Let_def m_def n_def h_def)
    have "0 + m * 60000000000 + n * 1000000000 \<le> 2 ^ 63" using val assms 2(2) by simp
    from duration_loop_mins [OF this] show ?thesis unfolding str val using 2(2) by simp
  next
    case 3
    then have str: "duration_string secs = itoa h @ ''h'' @ itoa m @ ''m'' @ itoa n @ ''s''"
      by (auto simp: duration_string_def Let_def m_def n_def h_def)
    have "0 + h * 3600000000000 + m * 60000000000 + n * 1000000000 \<le> 2 ^ 63" using val assms by simp
    from duration_loop_hours [OF this] show ?thesis unfolding str val by simp
  qed
qed

lemma duration_string_shape: "duration_string secs \<noteq> []" "is_digit (hd (duration_string secs))"
  "duration_string secs \<noteq> ''0''"
proof -
  show "is_digit (hd (duration_string secs))"
    unfolding duration_string_def Let_def using hd_itoa by (auto split: if_splits)
  show "duration_string secs \<noteq> []" unfolding duration_string_def Let_def by simp
  have "last (duration_string secs) = CHR ''s''" unfolding duration_string_def Let_def by simp
  then show "duration_string secs \<noteq> ''0''" by auto
qed

lemma ParseDuration_whole:
  assumes "secs * 1000000000 < 2 ^ 63"
  shows "ParseDuration frac (duration_string secs) = Inr (int secs * 1000000000)"
proof -
  obtain c cs where s: "duration_string secs = c # cs" and c: "is_digit c"
    using duration_string_shape [of secs] by (cases "duration_string secs") auto
  then have "atoi_sign (duration_string secs) = (False, duration_string secs)"
    by (auto simp: atoi_sign_def)
  moreover have "duration_loop frac (duration_string secs) 0 (duration_string secs) = Inr (secs * 1000000000)"
    using assms by (intro duration_loop_string) simp
  ultimately show ?thesis
    using assms duration_string_shape [of secs] by (simp add: ParseDuration_def)
qed

lemma ParseDuration_Nil: "ParseDuration frac [] = Inl (errInvalidDuration [])"
  by (simp add: ParseDuration_def atoi_sign_def)

end
