(* ===== verification/Namespace_Request.thy ===== *)
theory Namespace_Request
  imports Cluster_Spec Durations
begin

text \<open>
  \<open>pkg/m3admin/namespace/namespace.go\<close> and \<open>presets.go\<close>: how a namespace of the cluster spec
  becomes a request to the coordinator. The \<open>m3ns\<close> and \<open>admin\<close> message types are records with
  the fields the code sets. Two parameters stand for code outside the repository or in floating
  point: \<open>frac\<close> of \<open>ParseDuration\<close> and \<open>pbStruct\<close>, the conversion of the extended options to a
  protobuf struct (\<open>json.Marshal\<close> and \<open>jsonpb.Unmarshal\<close>).
\<close>

record pb_retention =
  pbr_RetentionPeriodNanos :: int
  pbr_BlockSizeNanos :: int
  pbr_BufferFutureNanos :: int
  pbr_BufferPastNanos :: int
  pbr_BlockDataExpiry :: bool
  pbr_BlockDataExpiryAfterNotAccessPeriodNanos :: int

record pb_index =
  pbx_Enabled :: bool
  pbx_BlockSizeNanos :: int

record pb_attributes =
  pba_ResolutionNanos :: int
  pba_DownsampleAll :: bool

record pb_aggregation =
  pbg_Aggregated :: bool
  pbg_Attributes :: "pb_attributes option"

record pb_extended =
  pbe_Type :: string
  pbe_Options :: opaque

record pb_namespace_options =
  pbn_BootstrapEnabled :: bool
  pbn_FlushEnabled :: bool
  pbn_WritesToCommitLog :: bool
  pbn_CleanupEnabled :: bool
  pbn_RepairEnabled :: bool
  pbn_RetentionOptions :: pb_retention
  pbn_SnapshotEnabled :: bool
  pbn_IndexOptions :: pb_index
  pbn_ColdWritesEnabled :: bool
  pbn_AggregationOptions :: "pb_aggregation list option"
  pbn_ExtendedOptions :: "pb_extended option"

record namespace_add_request =
  nar_Name :: string
  nar_Options :: pb_namespace_options

text \<open>A parsed duration, with the error message of the field.\<close>

definition parse_field :: "(string \<Rightarrow> nat \<Rightarrow> nat) \<Rightarrow> string \<Rightarrow> string \<Rightarrow> gerror + int" where
  "parse_field frac msg s = (case ParseDuration frac s of Inl err \<Rightarrow> Inl (Errorf msg [AErr err]) | Inr d \<Rightarrow> Inr d)"

definition m3dbRetentionOptsFromSpec :: "(string \<Rightarrow> nat \<Rightarrow> nat) \<Rightarrow> retention_options \<Rightarrow> gerror + pb_retention" where
  "m3dbRetentionOptsFromSpec frac opts =
     res_bind (parse_field frac ''failed to parse retention option RetentionPeriod: %v'' (ro_RetentionPeriod opts)) (\<lambda>retention.
     res_bind (parse_field frac ''failed to parse retention option BlockSize: %v'' (ro_BlockSize opts)) (\<lambda>blockSize.
     res_bind (parse_field frac ''failed to parse retention option BufferFuture: %v'' (ro_BufferFuture opts)) (\<lambda>bufferFuture.
     res_bind (parse_field frac ''failed to parse retention option BufferPast: %v'' (ro_BufferPast opts)) (\<lambda>bufferPast.
     res_bind (parse_field frac ''failed to parse retention option BlockDataExpiryAfterNotAccessPeriod: %v''
                 (ro_BlockDataExpiryAfterNotAccessPeriod opts)) (\<lambda>expiryNanos.
     Inr \<lparr>pbr_RetentionPeriodNanos = retention, pbr_BlockSizeNanos = blockSize,
          pbr_BufferFutureNanos = bufferFuture, pbr_BufferPastNanos = bufferPast,
          pbr_BlockDataExpiry = ro_BlockDataExpiry opts,
          pbr_BlockDataExpiryAfterNotAccessPeriodNanos = expiryNanos\<rparr>)))))"

definition m3dbIndexOptsFromSpec :: "(string \<Rightarrow> nat \<Rightarrow> nat) \<Rightarrow> index_options \<Rightarrow> gerror + pb_index" where
  "m3dbIndexOptsFromSpec frac opts =
     res_bind (parse_field frac ''failed to parse index option BlockSize: %v'' (io_BlockSize opts)) (\<lambda>blockSize.
     Inr \<lparr>pbx_Enabled = io_Enabled opts, pbx_BlockSizeNanos = blockSize\<rparr>)"

text \<open>One turn of the loop over the aggregations.\<close>

definition aggregation_from_spec :: "(string \<Rightarrow> nat \<Rightarrow> nat) \<Rightarrow> aggregation \<Rightarrow> gerror + pb_aggregation" where
  "aggregation_from_spec frac specAgg =
     (if ag_Aggregated specAgg then
        res_bind (parse_field frac ''failed to parse aggregation option Resolution: %w''
                    (aa_Resolution (ag_Attributes specAgg))) (\<lambda>resolution.
        Inr \<lparr>pbg_Aggregated = True,
             pbg_Attributes = Some \<lparr>pba_ResolutionNanos = resolution,
               pba_DownsampleAll = (case aa_DownsampleOptions (ag_Attributes specAgg) of
                   None \<Rightarrow> True | Some d \<Rightarrow> do_All d)\<rparr>\<rparr>)
      else Inr \<lparr>pbg_Aggregated = False, pbg_Attributes = None\<rparr>)"

definition m3dbAggregationOptsFromSpec ::
  "(string \<Rightarrow> nat \<Rightarrow> nat) \<Rightarrow> aggregation_options \<Rightarrow> gerror + pb_aggregation list option" where
  "m3dbAggregationOptsFromSpec frac opts =
     (if length (ao_Aggregations opts) = 0 then Inr None
      else res_bind (res_map (aggregation_from_spec frac) (ao_Aggregations opts)) (\<lambda>aggs. Inr (Some aggs)))"

definition m3dbExtendedOptsFromSpec ::
  "(opaque gomap \<Rightarrow> gerror + opaque) \<Rightarrow> extended_options option \<Rightarrow> gerror + pb_extended option" where
  "m3dbExtendedOptsFromSpec pbStruct opts = (case opts of
      None \<Rightarrow> Inr None
    | Some eo \<Rightarrow> res_bind (pbStruct (eo_Options eo)) (\<lambda>st. Inr (Some \<lparr>pbe_Type = eo_Type eo, pbe_Options = st\<rparr>)))"

definition m3dbNamespaceOptsFromSpec ::
  "(string \<Rightarrow> nat \<Rightarrow> nat) \<Rightarrow> (opaque gomap \<Rightarrow> gerror + opaque) \<Rightarrow> namespace_options \<Rightarrow> gerror + pb_namespace_options" where
  "m3dbNamespaceOptsFromSpec frac pbStruct opts =
     res_bind (m3dbRetentionOptsFromSpec frac (no_RetentionOptions opts)) (\<lambda>retentionOpts.
     res_bind (m3dbIndexOptsFromSpec frac (no_IndexOptions opts)) (\<lambda>indexOpts.
     res_bind (m3dbAggregationOptsFromSpec frac (no_AggregationOptions opts)) (\<lambda>aggOpts.
     res_bind (m3dbExtendedOptsFromSpec pbStruct (no_ExtendedOptions opts)) (\<lambda>extOpts.
     Inr \<lparr>pbn_BootstrapEnabled = no_BootstrapEnabled opts,
          pbn_FlushEnabled = no_FlushEnabled opts,
          pbn_WritesToCommitLog = no_WritesToCommitLog opts,
          pbn_CleanupEnabled = no_CleanupEnabled opts,
          pbn_RepairEnabled = no_RepairEnabled opts,
          pbn_RetentionOptions = retentionOpts,
          pbn_SnapshotEnabled = no_SnapshotEnabled opts,
          pbn_IndexOptions = indexOpts,
          pbn_ColdWritesEnabled = no_ColdWritesEnabled opts,
          pbn_AggregationOptions = aggOpts,
          pbn_ExtendedOptions = extOpts\<rparr>))))"

section \<open>Presets (\<open>presets.go\<close>)\<close>

definition PresetTenSecondsTwoDaysIndexed :: string where
  "PresetTenSecondsTwoDaysIndexed = ''10s:2d''"

definition PresetOneMinuteFourtyDaysIndexed :: string where
  "PresetOneMinuteFourtyDaysIndexed = ''1m:40d''"

definition hours :: "nat \<Rightarrow> nat" where "hours n = n * 3600"
definition minutes :: "nat \<Rightarrow> nat" where "minutes n = n * 60"

definition presetTenSecondsTwoDaysIndexed :: namespace_options where
  "presetTenSecondsTwoDaysIndexed = \<lparr>
     no_BootstrapEnabled = True, no_FlushEnabled = True, no_WritesToCommitLog = True,
     no_CleanupEnabled = True, no_RepairEnabled = False, no_SnapshotEnabled = True,
     no_RetentionOptions = \<lparr>
       ro_RetentionPeriod = duration_string (hours (2 * 24)),
       ro_BlockSize = duration_string (hours 2),
       ro_BufferFuture = duration_string (minutes 10),
       ro_BufferPast = duration_string (minutes 10),
       ro_BlockDataExpiry = True,
       ro_BlockDataExpiryAfterNotAccessPeriod = duration_string (minutes 5)\<rparr>,
     no_IndexOptions = \<lparr>io_Enabled = True, io_BlockSize = duration_string (hours 2)\<rparr>,
     no_ColdWritesEnabled = False,
     no_AggregationOptions = \<lparr>ao_Aggregations = [\<lparr>ag_Aggregated = True,
       ag_Attributes = \<lparr>aa_Resolution = duration_string 10, aa_DownsampleOptions = None\<rparr>\<rparr>]\<rparr>,
     no_ExtendedOptions = None\<rparr>"

definition presetOneMinuteFourtyDaysIndexed :: namespace_options where
  "presetOneMinuteFourtyDaysIndexed = \<lparr>
     no_BootstrapEnabled = True, no_FlushEnabled = True, no_WritesToCommitLog = True,
     no_CleanupEnabled = True, no_RepairEnabled = False, no_SnapshotEnabled = True,
     no_RetentionOptions = \<lparr>
       ro_RetentionPeriod = duration_string (hours (40 * 24)),
       ro_BlockSize = duration_string (hours 24),
       ro_BufferFuture = duration_string (minutes 10),
       ro_BufferPast = duration_string (minutes 20),
       ro_BlockDataExpiry = True,
       ro_BlockDataExpiryAfterNotAccessPeriod = duration_string (minutes 10)\<rparr>,
     no_IndexOptions = \<lparr>io_Enabled = True, io_BlockSize = duration_string (hours 24)\<rparr>,
     no_ColdWritesEnabled = False,
     no_AggregationOptions = \<lparr>ao_Aggregations = [\<lparr>ag_Aggregated = True,
       ag_Attributes = \<lparr>aa_Resolution = duration_string (minutes 1), aa_DownsampleOptions = None\<rparr>\<rparr>]\<rparr>,
     no_ExtendedOptions = None\<rparr>"

section \<open>\<open>RequestFromSpec\<close>\<close>

definition RequestFromSpec ::
  "(string \<Rightarrow> nat \<Rightarrow> nat) \<Rightarrow> (opaque gomap \<Rightarrow> gerror + opaque) \<Rightarrow> ns_spec \<Rightarrow> gerror + namespace_add_request" where
  "RequestFromSpec frac pbStruct ns =
     (if ns_Name ns = [] then Inl (Errors_New ''must set namespace name'')
      else if ns_Preset ns \<noteq> [] \<and> ns_Options ns \<noteq> None then
        Inl (Errors_New ''must set only one of preset or options'')
      else if ns_Preset ns = [] \<and> ns_Options ns = None then
        Inl (Errors_New ''must set either preset or options'')
      else case ns_Options ns of
        Some specOpts \<Rightarrow>
          res_bind (m3dbNamespaceOptsFromSpec frac pbStruct specOpts) (\<lambda>opts.
          Inr \<lparr>nar_Name = ns_Name ns, nar_Options = opts\<rparr>)
      | None \<Rightarrow>
          res_bind
            (if ns_Preset ns = PresetTenSecondsTwoDaysIndexed then Inr presetTenSecondsTwoDaysIndexed
             else if ns_Preset ns = PresetOneMinuteFourtyDaysIndexed then Inr presetOneMinuteFourtyDaysIndexed
             else Inl (Errorf ''preset '%s' not found'' [AStr (ns_Preset ns)])) (\<lambda>opts.
          res_bind (m3dbNamespaceOptsFromSpec frac pbStruct opts) (\<lambda>requestOpts.
          Inr \<lparr>nar_Name = ns_Name ns, nar_Options = requestOpts\<rparr>)))"

section \<open>Lemmas\<close>

lemma parse_field_Inr: "parse_field frac msg s = Inr d \<longleftrightarrow> ParseDuration frac s = Inr d"
  by (auto simp: parse_field_def split: sum.splits)

lemma parse_field_whole:
  "secs * 1000000000 < 2 ^ 63 \<Longrightarrow> parse_field frac msg (duration_string secs) = Inr (int secs * 1000000000)"
  by (simp add: parse_field_def ParseDuration_whole)

lemma RequestFromSpec_name: "RequestFromSpec frac pb ns = Inr r \<Longrightarrow> nar_Name r = ns_Name ns \<and> ns_Name ns \<noteq> []"
  by (auto simp: RequestFromSpec_def res_bind_Inr split: if_splits option.splits)

section \<open>Properties\<close>

text \<open>
  C29: Durations survive the way from the spec to the request: whole numbers of seconds, written the
  way \<open>Duration.String\<close> writes them, arrive as their nanoseconds for every duration that fits in
  an \<open>int64\<close>, together with the name and the switches of the spec.
\<close>

theorem RequestFromSpec_roundtrip:
  assumes "name \<noteq> []" and fit: "list_all (\<lambda>secs. secs * 1000000000 < 2 ^ 63) [ret, block, future, past, expiry, index]"
    and "no_RetentionOptions opts = \<lparr>ro_RetentionPeriod = duration_string ret, ro_BlockSize = duration_string block,
      ro_BufferFuture = duration_string future, ro_BufferPast = duration_string past, ro_BlockDataExpiry = exp,
      ro_BlockDataExpiryAfterNotAccessPeriod = duration_string expiry\<rparr>"
    and "no_IndexOptions opts = \<lparr>io_Enabled = en, io_BlockSize = duration_string index\<rparr>"
    and "ao_Aggregations (no_AggregationOptions opts) = []" and "no_ExtendedOptions opts = None"
  shows "RequestFromSpec frac pb \<lparr>ns_Name = name, ns_Preset = [], ns_Options = Some opts\<rparr> = Inr \<lparr>nar_Name = name,
    nar_Options = \<lparr>pbn_BootstrapEnabled = no_BootstrapEnabled opts, pbn_FlushEnabled = no_FlushEnabled opts,
      pbn_WritesToCommitLog = no_WritesToCommitLog opts, pbn_CleanupEnabled = no_CleanupEnabled opts,
      pbn_RepairEnabled = no_RepairEnabled opts,
      pbn_RetentionOptions = \<lparr>pbr_RetentionPeriodNanos = int ret * 1000000000,
        pbr_BlockSizeNanos = int block * 1000000000, pbr_BufferFutureNanos = int future * 1000000000,
        pbr_BufferPastNanos = int past * 1000000000, pbr_BlockDataExpiry = exp,
        pbr_BlockDataExpiryAfterNotAccessPeriodNanos = int expiry * 1000000000\<rparr>,
      pbn_SnapshotEnabled = no_SnapshotEnabled opts,
      pbn_IndexOptions = \<lparr>pbx_Enabled = en, pbx_BlockSizeNanos = int index * 1000000000\<rparr>,
      pbn_ColdWritesEnabled = no_ColdWritesEnabled opts, pbn_AggregationOptions = None,
      pbn_ExtendedOptions = None\<rparr>\<rparr>"
  using assms
  by (simp add: RequestFromSpec_def m3dbNamespaceOptsFromSpec_def m3dbRetentionOptsFromSpec_def
      m3dbIndexOptsFromSpec_def m3dbAggregationOptsFromSpec_def m3dbExtendedOptsFromSpec_def parse_field_whole)

definition plain_ns_options :: namespace_options where
  "plain_ns_options = presetTenSecondsTwoDaysIndexed\<lparr>no_AggregationOptions := \<lparr>ao_Aggregations = []\<rparr>\<rparr>"

theorem RequestFromSpec_roundtrip_witness:
  "\<exists>r. RequestFromSpec (\<lambda>_ _. 0) (\<lambda>_. Inr []) \<lparr>ns_Name = ''metrics'', ns_Preset = [], ns_Options = Some plain_ns_options\<rparr> = Inr r
     \<and> pbr_RetentionPeriodNanos (pbn_RetentionOptions (nar_Options r)) = 172800000000000
     \<and> pbx_BlockSizeNanos (pbn_IndexOptions (nar_Options r)) = 7200000000000"
  using RequestFromSpec_roundtrip [of "''metrics''" "hours 48" "hours 2" "minutes 10" "minutes 10" "minutes 5" "hours 2"
      plain_ns_options True True "\<lambda>_ _. 0" "\<lambda>_. Inr []"]
  by (simp add: plain_ns_options_def presetTenSecondsTwoDaysIndexed_def hours_def minutes_def)

text \<open>
  The two presets, written in the source as durations, become requests with exactly these
  nanosecond values (retention 2 days, blocks of 2 hours, resolution 10 seconds; retention 40 days,
  blocks of 24 hours, resolution 1 minute), whatever name the namespace has.
\<close>

theorem RequestFromSpec_presets:
  assumes "name \<noteq> []"
  shows "(\<exists>r. RequestFromSpec frac pb \<lparr>ns_Name = name, ns_Preset = PresetTenSecondsTwoDaysIndexed, ns_Options = None\<rparr> = Inr r
      \<and> nar_Name r = name
      \<and> pbn_RetentionOptions (nar_Options r) = \<lparr>pbr_RetentionPeriodNanos = 172800000000000,
          pbr_BlockSizeNanos = 7200000000000, pbr_BufferFutureNanos = 600000000000,
          pbr_BufferPastNanos = 600000000000, pbr_BlockDataExpiry = True,
          pbr_BlockDataExpiryAfterNotAccessPeriodNanos = 300000000000\<rparr>
      \<and> pbn_AggregationOptions (nar_Options r) = Some [\<lparr>pbg_Aggregated = True,
          pbg_Attributes = Some \<lparr>pba_ResolutionNanos = 10000000000, pba_DownsampleAll = True\<rparr>\<rparr>])
    \<and> (\<exists>r. RequestFromSpec frac pb \<lparr>ns_Name = name, ns_Preset = PresetOneMinuteFourtyDaysIndexed, ns_Options = None\<rparr> = Inr r
      \<and> nar_Name r = name
      \<and> pbn_RetentionOptions (nar_Options r) = \<lparr>pbr_RetentionPeriodNanos = 3456000000000000,
          pbr_BlockSizeNanos = 86400000000000, pbr_BufferFutureNanos = 600000000000,
          pbr_BufferPastNanos = 1200000000000, pbr_BlockDataExpiry = True,
          pbr_BlockDataExpiryAfterNotAccessPeriodNanos = 600000000000\<rparr>
      \<and> pbn_AggregationOptions (nar_Options r) = Some [\<lparr>pbg_Aggregated = True,
          pbg_Attributes = Some \<lparr>pba_ResolutionNanos = 60000000000, pba_DownsampleAll = True\<rparr>\<rparr>])"
  using assms
  by (simp add: RequestFromSpec_def PresetTenSecondsTwoDaysIndexed_def PresetOneMinuteFourtyDaysIndexed_def
      presetTenSecondsTwoDaysIndexed_def presetOneMinuteFourtyDaysIndexed_def m3dbNamespaceOptsFromSpec_def
      m3dbRetentionOptsFromSpec_def m3dbIndexOptsFromSpec_def m3dbAggregationOptsFromSpec_def
      m3dbExtendedOptsFromSpec_def aggregation_from_spec_def parse_field_whole hours_def minutes_def)

theorem RequestFromSpec_presets_witness:
  "''metrics'' \<noteq> ([] :: string) \<and>
   (\<exists>r. RequestFromSpec (\<lambda>_ _. 0) (\<lambda>_. Inr []) \<lparr>ns_Name = ''metrics'', ns_Preset = ''10s:2d'', ns_Options = None\<rparr> = Inr r
      \<and> pbr_RetentionPeriodNanos (pbn_RetentionOptions (nar_Options r)) = 172800000000000)"
proof -
  have "''metrics'' \<noteq> ([] :: string)" by simp
  from RequestFromSpec_presets [OF this, of "\<lambda>_ _. 0" "\<lambda>_. Inr []"] show ?thesis
    by (auto simp: PresetTenSecondsTwoDaysIndexed_def)
qed

text \<open>
  a namespace with custom options is accepted only if its name is set, no preset is named and
  all five retention durations and the index block size parse; in particular none of them may be
  left out, the expiry period and the block size of a disabled index included.
\<close>

theorem RequestFromSpec_durations_required:
  assumes "RequestFromSpec frac pb ns = Inr r" and "ns_Options ns = Some opts"
  shows "ns_Name ns \<noteq> [] \<and> ns_Preset ns = []
    \<and> ro_RetentionPeriod (no_RetentionOptions opts) \<noteq> []
    \<and> ro_BlockSize (no_RetentionOptions opts) \<noteq> []
    \<and> ro_BufferFuture (no_RetentionOptions opts) \<noteq> []
    \<and> ro_BufferPast (no_RetentionOptions opts) \<noteq> []
    \<and> ro_BlockDataExpiryAfterNotAccessPeriod (no_RetentionOptions opts) \<noteq> []
    \<and> io_BlockSize (no_IndexOptions opts) \<noteq> []
    \<and> ParseDuration frac (ro_RetentionPeriod (no_RetentionOptions opts))
        = Inr (pbr_RetentionPeriodNanos (pbn_RetentionOptions (nar_Options r)))"
  using assms
  by (auto simp: RequestFromSpec_def m3dbNamespaceOptsFromSpec_def m3dbRetentionOptsFromSpec_def
      m3dbIndexOptsFromSpec_def res_bind_Inr parse_field_Inr ParseDuration_Nil split: if_splits)

definition ex_ns_options :: namespace_options where
  "ex_ns_options = presetTenSecondsTwoDaysIndexed"

theorem RequestFromSpec_durations_required_witness:
  "\<exists>r. RequestFromSpec (\<lambda>_ _. 0) (\<lambda>_. Inr []) \<lparr>ns_Name = ''metrics'', ns_Preset = [], ns_Options = Some ex_ns_options\<rparr> = Inr r
     \<and> ro_BlockDataExpiryAfterNotAccessPeriod (no_RetentionOptions ex_ns_options) \<noteq> []
     \<and> ParseDuration (\<lambda>_ _. 0) (ro_RetentionPeriod (no_RetentionOptions ex_ns_options))
        = Inr (pbr_RetentionPeriodNanos (pbn_RetentionOptions (nar_Options r)))"
proof -
  let ?ns = "\<lparr>ns_Name = ''metrics'', ns_Preset = [], ns_Options = Some ex_ns_options\<rparr>"
  obtain r where r: "RequestFromSpec (\<lambda>_ _. 0) (\<lambda>_. Inr []) ?ns = Inr r"
    by (simp add: RequestFromSpec_def ex_ns_options_def presetTenSecondsTwoDaysIndexed_def
        m3dbNamespaceOptsFromSpec_def m3dbRetentionOptsFromSpec_def m3dbIndexOptsFromSpec_def
        m3dbAggregationOptsFromSpec_def m3dbExtendedOptsFromSpec_def aggregation_from_spec_def
        parse_field_whole hours_def minutes_def)
  with RequestFromSpec_durations_required [OF r, of ex_ns_options] show ?thesis by auto
qed

end
