(* ===== verification/Identity_Json.thy ===== *)
theory Identity_Json
  imports Cluster_Spec Go_Monad
begin

text \<open>
  \<open>podidentity.IdentityJSON\<close>: the JSON text of a pod identity, which is the ID of the pod's
  instance in the placement and the value of its identity annotation. \<open>json.Marshal\<close> writes the
  non-empty fields in the order of the struct and escapes strings: some ASCII characters and the line
  separators U+2028 and U+2029 are written as escapes, other UTF-8 sequences are copied, and every byte
  that is not part of one is replaced by the escape of U+FFFD. On identities of valid UTF-8 the encoding
  is injective, so that two pods have the same placement ID only if their identities are equal; names of
  Kubernetes objects are ASCII.
\<close>

definition hex_char :: "nat \<Rightarrow> char" where
  "hex_char n = (if n < 10 then char_of (48 + n) else char_of (87 + n))"

text \<open>The escapes of \<open>encoding/json\<close> (with HTML escaping, the default of \<open>Marshal\<close>).\<close>

definition json_escape :: "char \<Rightarrow> string" where
  "json_escape c =
     (if c = CHR 0x22 \<or> c = CHR 0x5C then [CHR 0x5C, c]
      else if c = CHR 0x0A then [CHR 0x5C, CHR ''n'']
      else if c = CHR 0x0D then [CHR 0x5C, CHR ''r'']
      else if c = CHR 0x09 then [CHR 0x5C, CHR ''t'']
      else if of_char c < (0x20 :: nat) \<or> c = CHR ''<'' \<or> c = CHR ''>'' \<or> c = CHR ''&'' then
        CHR 0x5C # CHR ''u'' # CHR ''0'' # CHR ''0'' # hex_char (of_char c div 16) # [hex_char (of_char c mod 16)]
      else [c])"

text \<open>
  \<open>utf8.DecodeRuneInString\<close>: the first byte gives the length of a sequence of several bytes and the
  range of its second byte; the others are continuation bytes. The length is 0 for an invalid byte.
\<close>

definition rune_head :: "char \<Rightarrow> (nat \<times> nat \<times> nat) option" where
  "rune_head c = (let b = of_char c :: nat in
     if b < 0xC2 \<or> 0xF4 < b then None
     else if b < 0xE0 then Some (2, 0x80, 0xBF)
     else if b = 0xE0 then Some (3, 0xA0, 0xBF)
     else if b = 0xED then Some (3, 0x80, 0x9F)
     else if b < 0xF0 then Some (3, 0x80, 0xBF)
     else if b = 0xF0 then Some (4, 0x90, 0xBF)
     else if b = 0xF4 then Some (4, 0x80, 0x8F)
     else Some (4, 0x80, 0xBF))"

definition byte_in :: "nat \<Rightarrow> nat \<Rightarrow> char \<Rightarrow> bool" where
  "byte_in lo hi c \<longleftrightarrow> lo \<le> of_char c \<and> of_char c \<le> hi"

definition rune_len :: "char \<Rightarrow> string \<Rightarrow> nat" where
  "rune_len c cs = (case rune_head c of
      None \<Rightarrow> 0
    | Some (n, lo, hi) \<Rightarrow> (case take (n - 1) cs of
        [] \<Rightarrow> 0
      | d # ds \<Rightarrow> if length ds = n - 2 \<and> byte_in lo hi d \<and> list_all (byte_in 0x80 0xBF) ds then n else 0))"

definition json_rune :: "string \<Rightarrow> string" where
  "json_rune u =
     (if u = [CHR 0xE2, CHR 0x80, CHR 0xA8] then CHR 0x5C # ''u2028''
      else if u = [CHR 0xE2, CHR 0x80, CHR 0xA9] then CHR 0x5C # ''u2029''
      else u)"

text \<open>The loop of \<open>encodeState.string\<close> over the bytes of a string.\<close>

fun json_text :: "string \<Rightarrow> string" where
  "json_text [] = []"
| "json_text (c # cs) =
     (if of_char c < (0x80 :: nat) then json_escape c @ json_text cs
      else case rune_len c cs of
          0 \<Rightarrow> (CHR 0x5C # ''ufffd'') @ json_text cs
        | Suc k \<Rightarrow> json_rune (c # take k cs) @ json_text (drop k cs))"

definition json_string :: "string \<Rightarrow> string" where
  "json_string s = CHR 0x22 # json_text s @ [CHR 0x22]"

text \<open>The fields with their JSON names; \<open>omitempty\<close> leaves the empty ones out.\<close>

definition identity_struct :: "pod_identity \<Rightarrow> string gomap" where
  "identity_struct pid =
     [(''name'', pi_Name pid), (''uid'', pi_UID pid), (''nodeName'', pi_NodeName pid),
      (''nodeExternalID'', pi_NodeExternalID pid), (''nodeProviderID'', pi_NodeProviderID pid)]"

definition identity_fields :: "pod_identity \<Rightarrow> string gomap" where
  "identity_fields pid = filter (\<lambda>(k, v). v \<noteq> []) (identity_struct pid)"

definition json_field :: "string \<times> string \<Rightarrow> string" where
  "json_field kv = json_string (fst kv) @ [CHR '':''] @ json_string (snd kv)"

definition IdentityJSON :: "pod_identity \<Rightarrow> gerror + string" where
  "IdentityJSON pid = Inr (CHR ''{'' # str_join '','' (map json_field (identity_fields pid)) @ [CHR ''}''])"

section \<open>The escaped text determines the string\<close>

fun valid_utf8 :: "string \<Rightarrow> bool" where
  "valid_utf8 [] = True"
| "valid_utf8 (c # cs) =
     (if of_char c < (0x80 :: nat) then valid_utf8 cs
      else case rune_len c cs of 0 \<Rightarrow> False | Suc k \<Rightarrow> valid_utf8 (drop k cs))"

definition unhex :: "char \<Rightarrow> nat" where
  "unhex c = (if of_char c < (58 :: nat) then of_char c - 48 else of_char c - 87)"

text \<open>A reader for the escapes above, up to the closing quote.\<close>

definition unicode :: "string \<Rightarrow> string" where
  "unicode d =
     (if d = ''2028'' then [CHR 0xE2, CHR 0x80, CHR 0xA8] else if d = ''2029'' then [CHR 0xE2, CHR 0x80, CHR 0xA9]
      else if d = ''fffd'' then [CHR 0xEF, CHR 0xBF, CHR 0xBD]
      else case drop 2 d of h # l # _ \<Rightarrow> [char_of (16 * unhex h + unhex l)] | _ \<Rightarrow> [])"

fun json_unescape :: "string \<Rightarrow> (string \<times> string) option" where
  "json_unescape [] = None"
| "json_unescape (c # cs) =
     (if c = CHR 0x22 then Some ([], cs)
      else if c = CHR 0x5C then
        (case cs of
           [] \<Rightarrow> None
         | e # ds \<Rightarrow>
             if e = CHR ''u'' then map_option (\<lambda>(s, r). (unicode (take 4 ds) @ s, r)) (json_unescape (drop 4 ds))
             else map_option (\<lambda>(s, r).
                 ((if e = CHR ''n'' then CHR 0x0A else if e = CHR ''r'' then CHR 0x0D
                   else if e = CHR ''t'' then CHR 0x09 else e) # s, r)) (json_unescape ds))
      else map_option (\<lambda>(s, r). (c # s, r)) (json_unescape cs))"

lemma unhex_hex [simp]: "n < 16 \<Longrightarrow> unhex (hex_char n) = n"
  by (auto simp: unhex_def hex_char_def)

lemma hex_pair [simp]:
  "char_of (16 * unhex (hex_char (of_char c div 16)) + unhex (hex_char (of_char c mod 16))) = (c :: char)"
proof -
  have "of_char c < (256 :: nat)" by simp
  then have "of_char c div 16 < (16 :: nat)" by (simp add: less_mult_imp_div_less)
  then show ?thesis by (simp add: mult.commute)
qed

lemma html_chars: "char_of (60 :: nat) = CHR ''<''" "char_of (62 :: nat) = CHR ''>''" "char_of (38 :: nat) = CHR ''&''"
  by code_simp+

lemma unicode_hex:
  "unicode (CHR ''0'' # CHR ''0'' # hex_char (of_char c div 16) # [hex_char (of_char c mod 16)]) = [c :: char]"
  using hex_pair [of c] by (simp add: unicode_def del: unhex_hex)

lemma json_unescape_escape:
  "json_unescape (json_escape c @ xs) = map_option (\<lambda>(s, r). (c # s, r)) (json_unescape xs)"
  using unicode_hex [of c] by (auto simp: json_escape_def split: option.splits)

lemma json_unescape_raw:
  "list_all (\<lambda>c. (0x80 :: nat) \<le> of_char c) u \<Longrightarrow>
     json_unescape (u @ xs) = map_option (\<lambda>(s, r). (u @ s, r)) (json_unescape xs)"
  by (induction u) (auto simp: option.map_comp comp_def case_prod_unfold option.map_ident split: if_splits)

lemma rune_len_bytes:
  assumes "rune_len c cs = Suc k"
  shows "list_all (\<lambda>c. (0x80 :: nat) \<le> of_char c) (c # take k cs)"
  using assms
  by (auto simp: rune_len_def rune_head_def byte_in_def list_all_iff Let_def split: option.splits if_splits list.splits)

lemma json_unescape_rune:
  assumes "rune_len c cs = Suc k"
  shows "json_unescape (json_rune (c # take k cs) @ xs) = map_option (\<lambda>(s, r). ((c # take k cs) @ s, r)) (json_unescape xs)"
  using json_unescape_raw [OF rune_len_bytes [OF assms], of xs] by (auto simp: json_rune_def unicode_def)

lemma json_unescape_text: "valid_utf8 s \<Longrightarrow> json_unescape (json_text s @ CHR 0x22 # r) = Some (s, r)"
proof (induction s rule: json_text.induct)
  case (2 c cs)
  show ?case
  proof (cases "of_char c < (0x80 :: nat)")
    case True
    with 2 show ?thesis by (simp add: json_unescape_escape)
  next
    case False
    with "2.prems" obtain k where k: "rune_len c cs = Suc k" "valid_utf8 (drop k cs)" by (auto split: nat.splits)
    with "2.IH"(3) [OF False k(1) k(2)] False show ?thesis by (simp add: json_unescape_rune)
  qed
qed simp

definition non_empty :: "string \<Rightarrow> string option" where
  "non_empty s = (if s = [] then None else Some s)"

lemma map_of_filter_non_empty:
  "map_ok m \<Longrightarrow> map_of (filter (\<lambda>(k, v). v \<noteq> []) m) k = Option.bind (map_of m k) non_empty"
proof (induction m)
  case Nil
  then show ?case by simp
next
  case (Cons kv m)
  obtain l v where "kv = (l, v)" by force
  with Cons show ?case by (cases "l = k") (simp_all add: non_empty_def)
qed

lemma map_ok_identity_struct: "map_ok (identity_struct i)"
  by (simp add: identity_struct_def)

lemma identity_fields_get: "map_of (identity_fields i) k = Option.bind (map_of (identity_struct i) k) non_empty"
  unfolding identity_fields_def by (rule map_of_filter_non_empty [OF map_ok_identity_struct])

lemma identity_fields_lookup:
  "map_of (identity_fields i) ''name'' = non_empty (pi_Name i)"
  "map_of (identity_fields i) ''uid'' = non_empty (pi_UID i)"
  "map_of (identity_fields i) ''nodeName'' = non_empty (pi_NodeName i)"
  "map_of (identity_fields i) ''nodeExternalID'' = non_empty (pi_NodeExternalID i)"
  "map_of (identity_fields i) ''nodeProviderID'' = non_empty (pi_NodeProviderID i)"
  unfolding identity_fields_get by (simp_all add: identity_struct_def)

section \<open>Reading an identity back\<close>

text \<open>
  A reader for the texts above: the fields of an object of strings (the number bounds how many), and
  the identity with these fields. It is an instance of what \<open>json.Unmarshal\<close> documents.
\<close>

fun read_fields :: "nat \<Rightarrow> string \<Rightarrow> string gomap" where
  "read_fields 0 s = []"
| "read_fields (Suc n) s =
     (case json_unescape (tl s) of
        None \<Rightarrow> []
      | Some (k, r) \<Rightarrow> (case json_unescape (drop 2 r) of
          None \<Rightarrow> []
        | Some (v, r') \<Rightarrow> (k, v) # read_fields n (tl r')))"

definition read_identity :: "string \<Rightarrow> pod_identity" where
  "read_identity s =
     (let m = read_fields (length s) (tl s); get = (\<lambda>k. case map_of m k of None \<Rightarrow> [] | Some v \<Rightarrow> v)
      in \<lparr>pi_Name = get ''name'', pi_UID = get ''uid'', pi_NodeName = get ''nodeName'',
          pi_NodeExternalID = get ''nodeExternalID'', pi_NodeProviderID = get ''nodeProviderID''\<rparr>)"

lemma read_field:
  "valid_utf8 k \<Longrightarrow> valid_utf8 v \<Longrightarrow> read_fields (Suc n) (json_field (k, v) @ c # r) = (k, v) # read_fields n r"
  by (simp add: json_field_def json_string_def json_unescape_text)

lemma read_fields_end: "read_fields n ''}'' = []"
  by (cases n) simp_all

lemma read_fields_join:
  "length fs \<le> n \<Longrightarrow> list_all (\<lambda>(k, v). valid_utf8 k \<and> valid_utf8 v) fs \<Longrightarrow>
     read_fields n (str_join '','' (map json_field fs) @ ''}'') = fs"
proof (induction fs arbitrary: n)
  case Nil
  show ?case by (simp add: read_fields_end)
next
  case (Cons kv fs)
  then obtain m where n: "n = Suc m" "length fs \<le> m" by (cases n) auto
  obtain k v where kv: "kv = (k, v)" by force
  with Cons.prems(2) have valid: "valid_utf8 k" "valid_utf8 v" "list_all (\<lambda>(k, v). valid_utf8 k \<and> valid_utf8 v) fs" by simp_all
  show ?case
  proof (cases fs)
    case Nil
    with read_field [OF valid(1,2), of m "CHR ''}''" "[]"] show ?thesis by (cases m) (simp_all add: n kv)
  next
    case (Cons x xs)
    with read_field [OF valid(1,2), of m "CHR '',''"] Cons.IH [OF n(2) valid(3)] show ?thesis by (simp add: n kv)
  qed
qed

lemma join_fields_length: "length fs \<le> length (str_join '','' (map json_field fs))"
proof (induction fs)
  case (Cons kv fs)
  have "length (json_field kv) \<ge> 1" by (simp add: json_field_def json_string_def)
  with Cons show ?case by (cases fs) auto
qed simp

definition utf8_identity :: "pod_identity \<Rightarrow> bool" where
  "utf8_identity pid \<longleftrightarrow> list_all valid_utf8 (map snd (identity_struct pid))"

lemma field_names_utf8: "list_all valid_utf8 (map fst (identity_struct pid))"
  by (simp add: identity_struct_def)

lemma read_IdentityJSON:
  assumes "IdentityJSON pid = Inr b" and "utf8_identity pid"
  shows "read_identity b = pid"
proof -
  have txt_eq: "b = CHR ''{'' # str_join '','' (map json_field (identity_fields pid)) @ ''}''"
    using assms(1) by (simp add: IdentityJSON_def)
  have "list_all (\<lambda>(k, v). valid_utf8 k \<and> valid_utf8 v) (identity_fields pid)"
    using assms(2) field_names_utf8 [of pid] by (auto simp: identity_fields_def utf8_identity_def list_all_iff)
  then have "read_fields (length b) (tl b) = identity_fields pid"
    unfolding txt_eq list.sel using join_fields_length [of "identity_fields pid"] by (intro read_fields_join) simp_all
  moreover have "(case non_empty s of None \<Rightarrow> [] | Some v \<Rightarrow> v) = s" for s by (simp add: non_empty_def)
  ultimately show ?thesis by (simp add: read_identity_def identity_fields_lookup Let_def)
qed

text \<open>The name comes first and can be read whatever the other fields hold.\<close>

lemma IdentityJSON_name:
  assumes "IdentityJSON pid = Inr b" and "pi_Name pid \<noteq> []" "valid_utf8 (pi_Name pid)"
  shows "\<exists>r. json_unescape (drop 9 b) = Some (pi_Name pid, r)"
proof -
  obtain fs where "identity_fields pid = (''name'', pi_Name pid) # fs"
    using assms(2) by (simp add: identity_fields_def identity_struct_def)
  moreover have "\<exists>r. str_join '','' (map json_field (x # fs)) @ ''}'' = json_field x @ r" for x by (cases fs) auto
  ultimately obtain r where "b = CHR ''{'' # json_field (''name'', pi_Name pid) @ r"
    using assms(1) by (auto simp: IdentityJSON_def)
  then have "drop 9 b = json_text (pi_Name pid) @ CHR 0x22 # r"
    by (simp add: json_field_def json_string_def json_escape_def)
  with json_unescape_text [OF assms(3)] show ?thesis by simp
qed

section \<open>Properties\<close>

text \<open>
  C25: The JSON text of a pod identity determines the identity: \<open>IdentityJSON\<close> always succeeds; for
  identities whose fields are valid UTF-8, as all names and IDs of Kubernetes are, two identities have
  the same text only if all their fields are equal, and a reader of JSON objects of strings gets the
  identity back from its text. (Bytes that are not UTF-8 are all written as U+FFFD.)
\<close>

theorem IdentityJSON_injective:
  "(\<forall>pid. \<exists>b. IdentityJSON pid = Inr b) \<and> inj_on IdentityJSON {pid. utf8_identity pid}
   \<and> (\<forall>pid b. utf8_identity pid \<longrightarrow> IdentityJSON pid = Inr b \<longrightarrow> read_identity b = pid)"
proof (intro conjI)
  show some: "\<forall>pid. \<exists>b. IdentityJSON pid = Inr b" by (simp add: IdentityJSON_def)
  show "inj_on IdentityJSON {pid. utf8_identity pid}"
  proof (rule inj_onI)
    fix x y
    assume valid: "x \<in> {pid. utf8_identity pid}" "y \<in> {pid. utf8_identity pid}" and eq: "IdentityJSON x = IdentityJSON y"
    obtain b where "IdentityJSON x = Inr b" using some by blast
    with valid eq read_IdentityJSON show "x = y" by (metis mem_Collect_eq)
  qed
qed (blast intro: read_IdentityJSON)

text \<open>A name with two-, three- and four-byte sequences, a line separator and characters that are escaped.\<close>

definition example_identity :: pod_identity where
  "example_identity = \<lparr>pi_Name = [CHR 0xC3, CHR 0xA9, CHR 0x22, CHR 0xE2, CHR 0x80, CHR 0xA8, CHR 0xF0, CHR 0x9F, CHR 0x98, CHR 0x80],
     pi_UID = ''a<b'', pi_NodeName = [], pi_NodeExternalID = [], pi_NodeProviderID = [CHR 0x0A]\<rparr>"

theorem IdentityJSON_injective_witness:
  "utf8_identity example_identity
   \<and> (\<exists>b. IdentityJSON example_identity = Inr b \<and> read_identity b = example_identity)"
proof -
  have "utf8_identity example_identity" by code_simp
  with IdentityJSON_injective show ?thesis by blast
qed

text \<open>Without UTF-8 the text does not determine the identity.\<close>

lemma IdentityJSON_invalid_bytes:
  "IdentityJSON (example_identity\<lparr>pi_Name := [CHR 0xFF]\<rparr>) = IdentityJSON (example_identity\<lparr>pi_Name := [CHR 0xFE]\<rparr>)"
  by code_simp

end
