(* ===== verification/Environment.thy ===== *)
theory Environment
  imports Cluster_Spec Namespace_Request Identity_Json Generators
begin

text \<open>
  What the controller talks to. The Kubernetes API, the informer caches (listers), the HTTP
  transport and the clock are functions on an abstract world \<open>'w\<close> (record \<open>env\<close>); each call may
  change the world arbitrarily, so whatever other processes do between two calls is covered. Code
  of other packages that computes without effects is in the record \<open>lib\<close>. Every request the
  controller sends and every event it posts is appended to \<open>st_calls\<close>, in order: the properties
  of the controller are statements about this log.
\<close>

section \<open>Messages exchanged with the M3 coordinator\<close>

text \<open>A placement as read through the interface \<open>placement.Placement\<close> of M3.\<close>

record m3_instance =
  in_ID :: string
  in_IsolationGroup :: string
  in_Hostname :: string
  in_IsAvailable :: bool

type_synonym m3_placement = "m3_instance list"

definition pl_Instance :: "m3_placement \<Rightarrow> string \<Rightarrow> m3_instance option" where
  "pl_Instance pl idStr = find (\<lambda>i. in_ID i = idStr) pl"

record pb_instance =
  pb_Id :: string
  pb_IsolationGroup :: string
  pb_Zone :: string
  pb_Weight :: int
  pb_Endpoint :: string
  pb_Hostname :: string
  pb_Port :: int

record placement_init_request =
  pir_NumShards :: int
  pir_ReplicationFactor :: int
  pir_Instances :: "pb_instance list"

datatype message =
    Msg_NamespaceAdd namespace_add_request
  | Msg_NamespaceReady string
  | Msg_PlacementInit placement_init_request
  | Msg_PlacementSet opaque
  | Msg_PlacementAdd "pb_instance list"
  | Msg_PlacementRemove "string list"
  | Msg_PlacementReplace "string list" "pb_instance list"
  | Msg_TopicInit opaque
  | Msg_TopicAdd opaque

datatype staging_status = UNKNOWN | INITIALIZING | READY

record ns_entry =
  ne_StagingState :: "staging_status option"
  ne_rest :: opaque

type_synonym registry = "ns_entry gomap"

record endpoint_context =
  epc_PodName :: string
  epc_M3DBService :: string
  epc_PodNamespace :: string
  epc_Port :: int

text \<open>\<open>podID\<close>: a pod and its ordinal.\<close>

record podID =
  pid_pod :: pod
  pid_id :: int

record http_request =
  hr_method :: string
  hr_url :: string
  hr_headers :: "(string \<times> string) list"
  hr_body :: "string option"

record http_response =
  rs_code :: int
  rs_body :: string

section \<open>Code outside the repository without effects\<close>

record lib =
  IsNotFound :: "gerror \<Rightarrow> bool"
  IsAlreadyExists :: "gerror \<Rightarrow> bool"
  Cause :: "gerror \<Rightarrow> gerror"
  DeepDerivative :: "statefulset_spec \<Rightarrow> statefulset_spec \<Rightarrow> bool"
  IsControlledBy :: "object_meta \<Rightarrow> object_meta \<Rightarrow> bool"
  GetControllerOf :: "object_meta \<Rightarrow> owner_ref option"
  sts_merge_patch :: "statefulset \<Rightarrow> statefulset \<Rightarrow> gerror + string"
  pod_Marshal :: "pod \<Rightarrow> gerror + string"
  CreateMergePatch :: "string \<Rightarrow> string \<Rightarrow> gerror + string"
  cm_merge_patch :: "config_map \<Rightarrow> config_map \<Rightarrow> gerror + string"
  NewRequirement :: "requirement \<Rightarrow> gerror option"
  render_config :: "config_data \<Rightarrow> gerror + string"
  tmpl_parse :: "string \<Rightarrow> gerror option"
  tmpl_execute :: "string \<Rightarrow> endpoint_context \<Rightarrow> gerror + string"
  frac_nanos :: "string \<Rightarrow> nat \<Rightarrow> nat"
  pb_struct :: "opaque gomap \<Rightarrow> gerror + opaque"
  json_identity :: "string \<Rightarrow> gerror + pod_identity"
  ParseRequestURI :: "string \<Rightarrow> gerror option"
  NewRequest :: "string \<Rightarrow> string \<Rightarrow> gerror option"
  JSONPBMarshal :: "message \<Rightarrow> gerror + string"
  decode_registry :: "string \<Rightarrow> gerror + registry option"
  decode_placement :: "string \<Rightarrow> gerror + opaque option"
  decode_topic :: "string \<Rightarrow> gerror + opaque option"
  decode_ready :: "string \<Rightarrow> gerror + unit"
  decode_error :: "string \<Rightarrow> gerror + string"
  decode_health :: "string \<Rightarrow> gerror + bool \<times> bool"
  NewPlacementFromProto :: "opaque \<Rightarrow> gerror + m3_placement"
  NewTopicFromProto :: "opaque \<Rightarrow> gerror + opaque"
  MetaNamespaceKeyFunc :: "object_meta \<Rightarrow> gerror + string"
  SplitMetaNamespaceKey :: "string \<Rightarrow> gerror + string \<times> string"
  sprintf_url :: "string \<Rightarrow> string \<Rightarrow> string"
  tie_groups :: "isolation_group \<Rightarrow> nat"
  tie_pods :: "podID \<Rightarrow> nat"
  tie_names :: "pod \<Rightarrow> nat"
  tie_insts :: "m3_instance \<Rightarrow> nat"
  tie_ns :: "ns_spec \<Rightarrow> nat"

section \<open>The Kubernetes API, the caches and the network\<close>

datatype event_type = Normal | Warning

datatype call =
    Cm_Get string string
  | Cm_Create string config_map
  | Cm_Patch string string string
  | Svc_Get string string
  | Svc_Create string service
  | Svc_Delete string string
  | Sts_Create string statefulset
  | Sts_Update string statefulset
  | Sts_UpdateStatus string statefulset
  | Sts_Patch string string string
  | Pod_Delete string string
  | Pod_Patch string string string
  | Crd_Update string m3db_cluster
  | Crd_UpdateStatus string m3db_cluster
  | Http http_request
  | Event event_type string string "garg list"

text \<open>The options of an m3admin client (\<open>pkg/m3admin/options.go\<close>).\<close>

datatype admin_option = WithLogger | WithHTTPClient | WithEnvironment string | WithZone string

record 'w env =
  e_lib :: lib
  e_kubectlProxy :: bool
  e_adminOpts :: "admin_option list"
  api_cm_get :: "string \<Rightarrow> string \<Rightarrow> ('w, config_map) io"
  api_cm_create :: "string \<Rightarrow> config_map \<Rightarrow> ('w, config_map) io"
  api_cm_patch :: "string \<Rightarrow> string \<Rightarrow> string \<Rightarrow> ('w, config_map) io"
  api_svc_get :: "string \<Rightarrow> string \<Rightarrow> ('w, service) io"
  api_svc_create :: "string \<Rightarrow> service \<Rightarrow> ('w, service) io"
  api_svc_delete :: "string \<Rightarrow> string \<Rightarrow> ('w, unit) io"
  api_sts_create :: "string \<Rightarrow> statefulset \<Rightarrow> ('w, statefulset) io"
  api_sts_update :: "string \<Rightarrow> statefulset \<Rightarrow> ('w, statefulset) io"
  api_sts_updateStatus :: "string \<Rightarrow> statefulset \<Rightarrow> ('w, statefulset) io"
  api_sts_patch :: "string \<Rightarrow> string \<Rightarrow> string \<Rightarrow> ('w, statefulset) io"
  api_pod_delete :: "string \<Rightarrow> string \<Rightarrow> ('w, unit) io"
  api_pod_patch :: "string \<Rightarrow> string \<Rightarrow> string \<Rightarrow> ('w, pod) io"
  api_crd_update :: "string \<Rightarrow> m3db_cluster \<Rightarrow> ('w, m3db_cluster) io"
  api_crd_updateStatus :: "string \<Rightarrow> m3db_cluster \<Rightarrow> ('w, m3db_cluster) io"
  api_http :: "http_request \<Rightarrow> ('w, http_response) io"
  api_event :: "call \<Rightarrow> 'w \<Rightarrow> 'w"
  api_now :: "'w \<Rightarrow> string \<times> 'w"
  list_sts :: "string \<Rightarrow> selector \<Rightarrow> ('w, statefulset list) io"
  list_pods :: "string \<Rightarrow> selector \<Rightarrow> ('w, pod list option) io"
  get_pod :: "string \<Rightarrow> string \<Rightarrow> ('w, pod option) io"
  get_cluster :: "string \<Rightarrow> string \<Rightarrow> ('w, m3db_cluster option) io"
  get_node :: "string \<Rightarrow> ('w, node) io"

text \<open>
  A client of the admin API: the environment and zone it sends as headers, and the base URL; or
  the client that answers every request with an error.
\<close>

record admin_client =
  ac_environment :: string
  ac_zone :: string

datatype svc_client = Client string admin_client | Error_Client gerror

record 'w st =
  st_world :: 'w
  st_calls :: "call list"
  st_nsClients :: "svc_client gomap"
  st_plClients :: "svc_client gomap"
  st_tpClients :: "svc_client gomap"

section \<open>Primitive operations\<close>

text \<open>A request that is logged, a read of a cache that is not, an event, the clock.\<close>

definition request :: "call \<Rightarrow> ('w, 'a) io \<Rightarrow> ('w st, 'a) io" where
  "request c m = (\<lambda>s. case m (st_world s) of
     (r, w) \<Rightarrow> (r, s\<lparr>st_world := w, st_calls := st_calls s @ [c]\<rparr>))"

definition read_cache :: "('w, 'a) io \<Rightarrow> ('w st, 'a) io" where
  "read_cache m = (\<lambda>s. case m (st_world s) of (r, w) \<Rightarrow> (r, s\<lparr>st_world := w\<rparr>))"

definition post_event :: "'w env \<Rightarrow> event_type \<Rightarrow> string \<Rightarrow> string \<Rightarrow> garg list \<Rightarrow> ('w st, unit) io" where
  "post_event env t reason msg args = (\<lambda>s. let c = Event t reason msg args in
     (Inr (), s\<lparr>st_world := api_event env c (st_world s), st_calls := st_calls s @ [c]\<rparr>))"

definition now :: "'w env \<Rightarrow> ('w st, string) io" where
  "now env = (\<lambda>s. case api_now env (st_world s) of (t, w) \<Rightarrow> (Inr t, s\<lparr>st_world := w\<rparr>))"

section \<open>The calls of a run\<close>

text \<open>All calls a run adds to the log satisfy \<open>P\<close>.\<close>

definition only :: "(call \<Rightarrow> bool) \<Rightarrow> 'w st \<Rightarrow> 'w st \<Rightarrow> bool" where
  "only P s t \<longleftrightarrow> (\<exists>cs. st_calls t = st_calls s @ cs \<and> list_all P cs)"

interpretation only: run_relation "only P" for P
proof unfold_locales
  show "only P s s" for s :: "'a st" by (simp add: only_def)
next
  fix s t u :: "'a st"
  assume "only P s t" "only P t u"
  then show "only P s u" by (fastforce simp: only_def)
qed

lemma keeps_only_request: "P c \<Longrightarrow> keeps (only P) (request c m)"
  by (simp add: keeps_def request_def only_def split: prod.splits)

lemma keeps_only_read [simp]: "keeps (only P) (read_cache m)"
  by (simp add: keeps_def read_cache_def only_def split: prod.splits)

lemma keeps_only_event: "P (Event t r m a) \<Longrightarrow> keeps (only P) (post_event env t r m a)"
  by (simp add: keeps_def post_event_def only_def Let_def)

lemma keeps_only_now [simp]: "keeps (only P) (now env)"
  by (simp add: keeps_def now_def only_def split: prod.splits)

lemma keeps_only_mono: "keeps (only P) m \<Longrightarrow> (\<And>c. P c \<Longrightarrow> Q c) \<Longrightarrow> keeps (only Q) m"
  unfolding keeps_def only_def by (metis (mono_tags, lifting) list_all_iff)

text \<open>What a run adds to the calls: \<open>appends\<close> on the log of the state.\<close>

abbreviation emits :: "('w st, 'a) io \<Rightarrow> (gerror + 'a \<Rightarrow> call list \<Rightarrow> bool) \<Rightarrow> bool" where
  "emits m Q \<equiv> appends st_calls m Q"

lemmas emits_def = appends_def [where log = st_calls]
lemmas emitsD = appendsD [where log = st_calls]
lemmas emits_mono = appends_mono [where log = st_calls]
lemmas emits_ok = appends_ok [where log = st_calls]
lemmas emits_fail = appends_fail [where log = st_calls]
lemmas emits_lift_res = appends_lift_res [where log = st_calls]
lemmas emits_bindE = appends_bindE [where log = st_calls]
lemmas emits_catchE = appends_catchE [where log = st_calls]
lemmas emits_for_until = appends_for_until [where log = st_calls]
lemmas emits_if = appends_if [where log = st_calls]
lemmas emits_conj = appends_conj [where log = st_calls]

lemma emits_only: "keeps (only P) m \<Longrightarrow> emits m (\<lambda>r cs. list_all P cs)"
  unfolding emits_def keeps_def only_def by blast

lemma emits_request: "(\<And>r. Q r [c]) \<Longrightarrow> emits (request c m) Q"
  by (simp add: emits_def request_def split: prod.splits)

lemma emits_read: "(\<And>r. Q r []) \<Longrightarrow> emits (read_cache m) Q"
  by (simp add: emits_def read_cache_def split: prod.splits)

lemma emits_now: "(\<And>x. Q (Inr x) []) \<Longrightarrow> emits (now env) Q"
  by (simp add: emits_def now_def split: prod.splits)

lemma emits_event: "Q (Inr ()) [Event t r m a] \<Longrightarrow> emits (post_event env t r m a) Q"
  by (simp add: emits_def post_event_def Let_def)

lemma emits_keeps: "(\<And>r cs. list_all P cs \<Longrightarrow> Q r cs) \<Longrightarrow> keeps (only P) m \<Longrightarrow> emits m Q"
  by (rule emits_mono [OF emits_only])

lemma emits_silent:
  assumes "keeps (only (\<lambda>_. False)) m" and "returns m Q"
  shows "emits m (\<lambda>r cs. cs = [] \<and> (\<forall>x. r = Inr x \<longrightarrow> Q x))"
  unfolding emits_def
proof
  fix s
  have "st_calls (snd (m s)) = st_calls s"
    using assms(1) by (auto simp: keeps_def only_def list_all_iff)
  moreover have "fst (m s) = Inr x \<Longrightarrow> Q x" for x
    using assms(2) by (metis prod.collapse returnsD)
  ultimately show "\<exists>cs. st_calls (snd (m s)) = st_calls s @ cs \<and> cs = [] \<and> (\<forall>x. fst (m s) = Inr x \<longrightarrow> Q x)"
    by simp
qed

text \<open>What follows a silent computation that returns only values with \<open>P\<close>.\<close>

lemma emits_after_silent:
  assumes "keeps (only (\<lambda>_. False)) m" and "returns m P"
    and "\<And>x. P x \<Longrightarrow> emits (f x) Q" and "\<And>e. Q (Inl e) []"
  shows "emits (bindE m f) Q"
  unfolding emits_def
proof
  fix s
  from assms(1) have log: "st_calls (snd (m s)) = st_calls s"
    by (auto simp: keeps_def only_def list_all_iff)
  show "\<exists>cs. st_calls (snd (bindE m f s)) = st_calls s @ cs \<and> Q (fst (bindE m f s)) cs"
  proof (cases "fst (m s)")
    case (Inl e)
    with log assms(4) show ?thesis by (simp add: bindE_run)
  next
    case (Inr x)
    with assms(2) have "P x" by (metis prod.collapse returnsD)
    from assms(3) [OF this] Inr log show ?thesis by (simp add: bindE_run emits_def) (metis log)
  qed
qed

end
