(* ===== verification/Example_Cluster.thy ===== *)
theory Example_Cluster
  imports Environment
begin

text \<open>
  Concrete clusters and environments on which the hypotheses of the properties hold. The
  environments are deterministic: \<open>offline_env\<close> answers every request with an error, and the
  properties that need more override single fields of it.
\<close>

section \<open>A library\<close>

definition not_found :: gerror where "not_found = External ''not found''"
definition already_exists :: gerror where "already_exists = External ''already exists''"
definition offline :: gerror where "offline = External ''offline''"

fun example_Cause :: "gerror \<Rightarrow> gerror" where
  "example_Cause (With_Message e m a) = example_Cause e"
| "example_Cause (Wrap e m) = example_Cause e"
| "example_Cause e = e"

definition example_lib :: lib where
  "example_lib = \<lparr>
     IsNotFound = (\<lambda>e. e = not_found),
     IsAlreadyExists = (\<lambda>e. e = already_exists),
     Cause = example_Cause,
     DeepDerivative = (\<lambda>a b. a = b),
     IsControlledBy = (\<lambda>m c. list_ex (\<lambda>r. or_uid r = om_uid c \<and> or_controller r) (om_owner_refs m)),
     GetControllerOf = (\<lambda>m. find or_controller (om_owner_refs m)),
     sts_merge_patch = (\<lambda>a b. Inr ''patch''),
     pod_Marshal = (\<lambda>a. Inr (om_name (pod_meta a))),
     CreateMergePatch = (\<lambda>a b. Inr ''patch''),
     cm_merge_patch = (\<lambda>a b. Inr ''patch''),
     NewRequirement = (\<lambda>r. None),
     render_config = (\<lambda>d. Inr ''config''),
     tmpl_parse = (\<lambda>f. None),
     tmpl_execute = (\<lambda>f c. Inr (epc_PodName c @ ''.'' @ epc_M3DBService c @ '':'' @ itoa_int (epc_Port c))),
     frac_nanos = (\<lambda>f u. 0),
     pb_struct = (\<lambda>m. Inr []),
     json_identity = (\<lambda>s. Inl offline),
     ParseRequestURI = (\<lambda>u. None),
     NewRequest = (\<lambda>m u. None),
     JSONPBMarshal = (\<lambda>m. Inr []),
     decode_registry = (\<lambda>b. Inr (Some [])),
     decode_placement = (\<lambda>b. Inr (Some [])),
     decode_topic = (\<lambda>b. Inr (Some [])),
     decode_ready = (\<lambda>b. Inr ()),
     decode_error = (\<lambda>b. Inr b),
     decode_health = (\<lambda>b. Inr (True, True)),
     NewPlacementFromProto = (\<lambda>b. Inr []),
     NewTopicFromProto = (\<lambda>b. Inr b),
     MetaNamespaceKeyFunc = (\<lambda>m. Inr (om_namespace m @ ''/'' @ om_name m)),
     SplitMetaNamespaceKey = (\<lambda>k. case split_on (CHR ''/'') k of [a, b] \<Rightarrow> Inr (a, b) | _ \<Rightarrow> Inl offline),
     sprintf_url = (\<lambda>u n. u @ n),
     tie_groups = (\<lambda>_. 0), tie_pods = (\<lambda>_. 0), tie_names = (\<lambda>_. 0), tie_insts = (\<lambda>_. 0), tie_ns = (\<lambda>_. 0)\<rparr>"

definition unreachable :: "('w, 'a) io" where
  "unreachable = (\<lambda>w. (Inl offline, w))"

definition offline_env :: "lib \<Rightarrow> 'w env" where
  "offline_env lb = \<lparr>e_lib = lb, e_kubectlProxy = False, e_adminOpts = [WithLogger],
     api_cm_get = (\<lambda>_ _. unreachable), api_cm_create = (\<lambda>_ _. unreachable), api_cm_patch = (\<lambda>_ _ _. unreachable),
     api_svc_get = (\<lambda>_ _. unreachable), api_svc_create = (\<lambda>_ _. unreachable), api_svc_delete = (\<lambda>_ _. unreachable),
     api_sts_create = (\<lambda>_ _. unreachable), api_sts_update = (\<lambda>_ _. unreachable),
     api_sts_updateStatus = (\<lambda>_ _. unreachable), api_sts_patch = (\<lambda>_ _ _. unreachable),
     api_pod_delete = (\<lambda>_ _. unreachable), api_pod_patch = (\<lambda>_ _ _. unreachable),
     api_crd_update = (\<lambda>_ _. unreachable), api_crd_updateStatus = (\<lambda>_ _. unreachable),
     api_http = (\<lambda>_. unreachable), api_event = (\<lambda>_ w. w), api_now = (\<lambda>w. (''now'', w)),
     list_sts = (\<lambda>_ _. unreachable), list_pods = (\<lambda>_ _. unreachable), get_pod = (\<lambda>_ _. unreachable),
     get_cluster = (\<lambda>_ _. unreachable), get_node = (\<lambda>_. unreachable)\<rparr>"

definition start :: "'w \<Rightarrow> 'w st" where
  "start w = \<lparr>st_world = w, st_calls = [], st_nsClients = [], st_plClients = [], st_tpClients = []\<rparr>"

section \<open>A cluster\<close>

definition example_group :: "string \<Rightarrow> int \<Rightarrow> isolation_group" where
  "example_group n k = \<lparr>ig_Name = n, ig_NodeAffinityTerms = [], ig_UsePodAntiAffinity = False,
     ig_PodAffinityToplogyKey = [], ig_NumInstances = k, ig_StorageClassName = []\<rparr>"

definition example_spec :: "isolation_group list \<Rightarrow> cluster_spec" where
  "example_spec gs = \<lparr>cs_Image = ''m3db'', cs_ReplicationFactor = int (length gs), cs_NumberOfShards = 8,
     cs_IsolationGroups = gs, cs_Namespaces = [], cs_EtcdEndpoints = [''http://etcd:2379''],
     cs_KeepEtcdDataOnDelete = False, cs_EnableCarbonIngester = False, cs_ConfigMapName = None,
     cs_PodIdentityConfig = None, cs_ContainerResources = [], cs_DataDirVolumeClaimTemplate = None,
     cs_PodSecurityContext = None, cs_SecurityContext = None, cs_ImagePullSecrets = [], cs_EnvVars = [],
     cs_Labels = [], cs_Annotations = [], cs_Tolerations = [], cs_PriorityClassName = [],
     cs_NodeEndpointFormat = [], cs_HostNetwork = False, cs_DNSPolicy = None, cs_ExternalCoordinator = None,
     cs_InitContainers = [], cs_InitVolumes = [], cs_PodMetadata = zero_meta, cs_ParallelPodManagement = None,
     cs_ServiceAccountName = [], cs_Frozen = False, cs_SidecarContainers = [], cs_SidecarVolumes = [],
     cs_OnDeleteUpdateStrategy = False, cs_Zone = [], cs_PreventScaleDown = False\<rparr>"

definition example_cluster :: "isolation_group list \<Rightarrow> m3db_cluster" where
  "example_cluster gs = \<lparr>cl_meta = zero_meta\<lparr>om_name := ''c'', om_namespace := ''ns'', om_uid := ''u''\<rparr>,
     cl_spec = example_spec gs,
     cl_status = \<lparr>ms_State = [], ms_Conditions = [], ms_Message = [], ms_ObservedGeneration = 0\<rparr>\<rparr>"

definition frozen_cluster :: m3db_cluster where
  "frozen_cluster = (example_cluster [])\<lparr>cl_spec := (example_spec [])\<lparr>cs_Frozen := True\<rparr>\<rparr>"

definition deleted_cluster :: m3db_cluster where
  "deleted_cluster = (example_cluster [])\<lparr>cl_meta := zero_meta\<lparr>om_name := ''c'', om_namespace := ''ns'',
     om_finalizers := [''a'', EtcdDeletionFinalizer], om_deletion := Some 1\<rparr>\<rparr>"

definition example_pod :: "string \<Rightarrow> pod" where
  "example_pod n = \<lparr>pod_meta = zero_meta\<lparr>om_name := n, om_namespace := ''ns'', om_uid := ''uid-'' @ n,
     om_labels := [(IsolationGroup, ''g''), (Cluster, ''c'')]\<rparr>, pod_nodeName = ''node'', pod_rest = []\<rparr>"

definition example_podSpec :: pod_spec where
  "example_podSpec = \<lparr>ps_priorityClassName = [], ps_securityContext = None, ps_imagePullSecrets = [],
     ps_initContainers = [], ps_containers = [], ps_volumes = [], ps_serviceAccountName = [],
     ps_affinity = None, ps_tolerations = [], ps_hostNetwork = False, ps_dnsPolicy = []\<rparr>"

text \<open>A set with a name, a replica count and a number of ready replicas.\<close>

definition example_sts :: "string \<Rightarrow> int \<Rightarrow> int \<Rightarrow> statefulset" where
  "example_sts n replicas ready = \<lparr>sts_meta = zero_meta\<lparr>om_name := n, om_namespace := ''ns'',
       om_labels := [(IsolationGroup, ''a'')],
       om_owner_refs := [\<lparr>or_group = [], or_version = [], or_kind = ''m3dbcluster'', or_name = ''c'', or_uid = ''u'',
         or_controller = True\<rparr>]\<rparr>,
     sts_spec = \<lparr>ss_serviceName = [], ss_selector = [], ss_replicas = Some replicas, ss_templateLabels = [],
       ss_templateAnnotations = [], ss_podSpec = example_podSpec, ss_podManagementPolicy = [],
       ss_updateStrategy = RollingUpdate, ss_volumeClaimTemplates = []\<rparr>,
     sts_status = zero_status\<lparr>st_readyReplicas := ready\<rparr>\<rparr>"

lemmas example_defs = example_lib_def offline_env_def start_def example_group_def example_spec_def
  example_cluster_def frozen_cluster_def deleted_cluster_def example_pod_def unreachable_def example_podSpec_def example_sts_def

lemma example_cluster_simps [simp]:
  "cl_groups (example_cluster gs) = gs" "cl_name (example_cluster gs) = ''c''"
  "cl_namespace (example_cluster gs) = ''ns''"
  "ig_Name (example_group n k) = n" "ig_NumInstances (example_group n k) = k"
  by (simp_all add: example_cluster_def example_spec_def example_group_def)

end
