(* ===== verification/M3admin_Http.thy ===== *)
theory M3admin_Http
  imports Environment Example_Cluster
begin

text \<open>
  \<open>pkg/m3admin\<close>: the HTTP client of the coordinator's admin API and the clients for namespaces,
  placements, topics and node health built on it. A client that could not be made
  (\<open>errorNamespaceClient\<close> and its siblings of \<open>pkg/controller/m3admin_client.go\<close>) answers each
  operation with its error. Error values made by \<open>errors.New\<close> are compared by their text: no two
  of them in the repository have the same one.
\<close>

section \<open>\<open>client.go\<close>\<close>

definition ErrNotOk :: gerror where
  "ErrNotOk = Errors_New ''status not ok''"

definition ErrNotFound :: gerror where
  "ErrNotFound = Errors_New ''status not found''"

definition ErrMethodNotAllowed :: gerror where
  "ErrMethodNotAllowed = Errors_New ''method not allowed''"

definition m3EnvironmentHeader :: string where
  "m3EnvironmentHeader = ''Cluster-Environment-Name''"

definition m3HeaderClusterZoneName :: string where
  "m3HeaderClusterZoneName = ''Cluster-Zone-Name''"

fun execute_admin :: "admin_option \<Rightarrow> admin_client \<Rightarrow> admin_client" where
  "execute_admin WithLogger opts = opts"
| "execute_admin WithHTTPClient opts = opts"
| "execute_admin (WithEnvironment e) opts = opts\<lparr>ac_environment := e\<rparr>"
| "execute_admin (WithZone z) opts = opts\<lparr>ac_zone := z\<rparr>"

definition NewClient :: "admin_option list \<Rightarrow> admin_client" where
  "NewClient clientOpts = fold execute_admin clientOpts \<lparr>ac_environment = [], ac_zone = []\<rparr>"

text \<open>\<open>WithHeader\<close> options of a request, applied in order.\<close>

definition request_headers :: "(string \<times> string) list \<Rightarrow> string gomap" where
  "request_headers opts = fold (\<lambda>(name, value) m. AList.update name value m) opts []"

text \<open>The headers \<open>DoHTTPRequest\<close> adds, in the order of the calls of \<open>Header.Add\<close>.\<close>

definition all_headers :: "admin_client \<Rightarrow> (string \<times> string) list \<Rightarrow> (string \<times> string) list" where
  "all_headers c opts = request_headers opts @ [(''Content-Type'', ''application/json'')]
     @ (if ac_environment c \<noteq> [] then [(m3EnvironmentHeader, ac_environment c)] else [])
     @ (if ac_zone c \<noteq> [] then [(m3HeaderClusterZoneName, ac_zone c)] else [])"

definition parseResponseError :: "lib \<Rightarrow> http_response \<Rightarrow> gerror + string" where
  "parseResponseError lb r = (case decode_error lb (rs_body r) of Inl e \<Rightarrow> Inl e | Inr m \<Rightarrow> Inr m)"

definition check_status :: "lib \<Rightarrow> http_response \<Rightarrow> gerror + http_response" where
  "check_status lb r =
     (if 200 \<le> rs_code r \<and> rs_code r < 300 then Inr r
      else let errMsg = (case parseResponseError lb r of Inl _ \<Rightarrow> [] | Inr m \<Rightarrow> m) in
        if rs_code r = 404 then Inl (With_Message ErrNotFound errMsg [])
        else if rs_code r = 405 then Inl (With_Message ErrMethodNotAllowed errMsg [])
        else Inl (With_Message ErrNotOk errMsg []))"

definition DoHTTPRequest :: "'w env \<Rightarrow> admin_client \<Rightarrow> string \<Rightarrow> string \<Rightarrow> string option
    \<Rightarrow> (string \<times> string) list \<Rightarrow> ('w st, http_response) io" where
  "DoHTTPRequest env c action url data opts =
     (case NewRequest (e_lib env) action url of
        Some err \<Rightarrow> fail err
      | None \<Rightarrow>
          let req = \<lparr>hr_method = action, hr_url = url, hr_headers = all_headers c opts, hr_body = data\<rparr> in
          bindE (request (Http req) (api_http env req)) (\<lambda>response.
          lift_res (check_status (e_lib env) response)))"

text \<open>
  \<open>DoHTTPJSONPBRequest\<close>: \<open>req = None\<close> is a nil request; \<open>decode\<close> reads the body into the response
  (\<open>discard\<close> when the response is nil).
\<close>

definition discard :: "string \<Rightarrow> gerror + unit" where
  "discard body = Inr ()"

definition DoHTTPJSONPBRequest :: "'w env \<Rightarrow> admin_client \<Rightarrow> string \<Rightarrow> string \<Rightarrow> message option
    \<Rightarrow> (string \<Rightarrow> gerror + 'b) \<Rightarrow> (string \<times> string) list \<Rightarrow> ('w st, 'b) io" where
  "DoHTTPJSONPBRequest env c action url req decode opts =
     bindE (case req of None \<Rightarrow> ok None
                      | Some m \<Rightarrow> bindE (lift_res (JSONPBMarshal (e_lib env) m)) (\<lambda>b. ok (Some b))) (\<lambda>data.
     bindE (DoHTTPRequest env c action url data opts) (\<lambda>r.
     lift_res (decode (rs_body r))))"

section \<open>The service clients\<close>

text \<open>The options of a service client; the first error stops the constructor.\<close>

datatype svc_option = WithURL string | SvcWithLogger | WithClient admin_client

fun execute_svc :: "lib \<Rightarrow> svc_option \<Rightarrow> string \<times> admin_client \<Rightarrow> gerror + string \<times> admin_client" where
  "execute_svc lb (WithURL u) (url, cl) =
     (case ParseRequestURI lb u of Some err \<Rightarrow> Inl err | None \<Rightarrow> Inr (u, cl))"
| "execute_svc lb SvcWithLogger (url, cl) = Inr (url, cl)"
| "execute_svc lb (WithClient c) (url, cl) = Inr (url, c)"

fun execute_all :: "lib \<Rightarrow> svc_option list \<Rightarrow> string \<times> admin_client \<Rightarrow> gerror + string \<times> admin_client" where
  "execute_all lb [] c = Inr c"
| "execute_all lb (opt # opts) c = res_bind (execute_svc lb opt c) (execute_all lb opts)"

definition NewClient_namespace :: "lib \<Rightarrow> svc_option list \<Rightarrow> gerror + svc_client" where
  "NewClient_namespace lb opts =
     res_bind (execute_all lb opts ([], NewClient [])) (\<lambda>(url, cl). Inr (Client url cl))"

definition NewClient_placement :: "lib \<Rightarrow> svc_option list \<Rightarrow> gerror + svc_client" where
  "NewClient_placement lb opts =
     res_bind (execute_all lb opts ([], NewClient [])) (\<lambda>(url, cl). Inr (Client url cl))"

definition NewClient_topic :: "lib \<Rightarrow> svc_option list \<Rightarrow> gerror + svc_client" where
  "NewClient_topic lb opts =
     res_bind (execute_all lb opts ([], NewClient [])) (\<lambda>(url, cl). Inr (Client url cl))"

definition with_client :: "svc_client \<Rightarrow> (string \<Rightarrow> admin_client \<Rightarrow> ('w st, 'a) io) \<Rightarrow> ('w st, 'a) io" where
  "with_client c f = (case c of Error_Client e \<Rightarrow> fail e | Client url cl \<Rightarrow> f url cl)"

subsection \<open>\<open>namespace/client.go\<close>\<close>

definition namespaceBaseURL :: string where
  "namespaceBaseURL = ''/api/v1/services/m3db/namespace''"

definition namespaceReadyURL :: string where
  "namespaceReadyURL = namespaceBaseURL @ ''/ready''"

text \<open>
  \<open>fmt.Sprintf(n.url+namespaceDeleteFmt, namespace)\<close>: the base URL is part of the format, so a
  percent sign in it is read as a verb (\<open>sprintf_url\<close>).
\<close>

definition namespace_delete_url :: "lib \<Rightarrow> string \<Rightarrow> string \<Rightarrow> string" where
  "namespace_delete_url lb url namespace =
     (if CHR ''%'' \<in> set url then sprintf_url lb url namespace
      else url @ namespaceBaseURL @ ''/'' @ namespace)"

definition ns_Create :: "'w env \<Rightarrow> svc_client \<Rightarrow> namespace_add_request \<Rightarrow> ('w st, unit) io" where
  "ns_Create env c req = with_client c (\<lambda>url cl.
     DoHTTPJSONPBRequest env cl ''POST'' (url @ namespaceBaseURL) (Some (Msg_NamespaceAdd req)) discard [])"

definition ns_List :: "'w env \<Rightarrow> svc_client \<Rightarrow> ('w st, registry) io" where
  "ns_List env c = with_client c (\<lambda>url cl.
     bindE (DoHTTPJSONPBRequest env cl ''GET'' (url @ namespaceBaseURL) None
       (decode_registry (e_lib env)) []) (\<lambda>resp.
     case resp of None \<Rightarrow> fail (Errors_New ''nil registry from coordinator'') | Some reg \<Rightarrow> ok reg))"

definition ns_Delete :: "'w env \<Rightarrow> svc_client \<Rightarrow> string \<Rightarrow> ('w st, unit) io" where
  "ns_Delete env c namespace = with_client c (\<lambda>url cl.
     DoHTTPJSONPBRequest env cl ''DELETE'' (namespace_delete_url (e_lib env) url namespace) None discard [])"

definition ns_Ready :: "'w env \<Rightarrow> svc_client \<Rightarrow> string \<Rightarrow> ('w st, unit) io" where
  "ns_Ready env c name = with_client c (\<lambda>url cl.
     DoHTTPJSONPBRequest env cl ''POST'' (url @ namespaceReadyURL) (Some (Msg_NamespaceReady name))
       (decode_ready (e_lib env)) [])"

subsection \<open>\<open>placement/client.go\<close>\<close>

definition placementBaseURL :: string where
  "placementBaseURL = ''/api/v1/services/m3db/placement''"

definition pl_Init :: "'w env \<Rightarrow> svc_client \<Rightarrow> placement_init_request \<Rightarrow> ('w st, unit) io" where
  "pl_Init env c req = with_client c (\<lambda>url cl.
     DoHTTPJSONPBRequest env cl ''POST'' (url @ placementBaseURL @ ''/init'')
       (Some (Msg_PlacementInit req)) discard [])"

definition pl_Set :: "'w env \<Rightarrow> svc_client \<Rightarrow> opaque \<Rightarrow> ('w st, unit) io" where
  "pl_Set env c req = with_client c (\<lambda>url cl.
     DoHTTPJSONPBRequest env cl ''POST'' (url @ placementBaseURL @ ''/set'')
       (Some (Msg_PlacementSet req)) discard [])"

definition pl_Delete :: "'w env \<Rightarrow> svc_client \<Rightarrow> ('w st, unit) io" where
  "pl_Delete env c = with_client c (\<lambda>url cl.
     DoHTTPJSONPBRequest env cl ''DELETE'' (url @ placementBaseURL) None discard [])"

definition pl_Get :: "'w env \<Rightarrow> svc_client \<Rightarrow> ('w st, m3_placement) io" where
  "pl_Get env c = with_client c (\<lambda>url cl.
     bindE (DoHTTPJSONPBRequest env cl ''GET'' (url @ placementBaseURL) None
       (decode_placement (e_lib env)) []) (\<lambda>resp.
     case resp of None \<Rightarrow> fail (Errors_New ''nil placement fetch'')
     | Some pl \<Rightarrow> lift_res (NewPlacementFromProto (e_lib env) pl)))"

definition pl_Add :: "'w env \<Rightarrow> svc_client \<Rightarrow> pb_instance list \<Rightarrow> ('w st, unit) io" where
  "pl_Add env c instances = with_client c (\<lambda>url cl.
     DoHTTPJSONPBRequest env cl ''POST'' (url @ placementBaseURL)
       (Some (Msg_PlacementAdd instances)) discard [])"

definition pl_Remove :: "'w env \<Rightarrow> svc_client \<Rightarrow> string list \<Rightarrow> ('w st, unit) io" where
  "pl_Remove env c instanceIds = with_client c (\<lambda>url cl.
     DoHTTPJSONPBRequest env cl ''POST'' (url @ placementBaseURL @ ''/remove'')
       (Some (Msg_PlacementRemove instanceIds)) discard [])"

definition pl_Replace :: "'w env \<Rightarrow> svc_client \<Rightarrow> string \<Rightarrow> pb_instance \<Rightarrow> ('w st, unit) io" where
  "pl_Replace env c leavingInstanceID newInst = with_client c (\<lambda>url cl.
     DoHTTPJSONPBRequest env cl ''POST'' (url @ placementBaseURL @ ''/replace'')
       (Some (Msg_PlacementReplace [leavingInstanceID] [newInst])) discard [])"

subsection \<open>\<open>topic/client.go\<close>\<close>

definition topicBaseURL :: string where
  "topicBaseURL = ''/api/v1/topic''"

definition withTopicName :: "string \<Rightarrow> string \<times> string" where
  "withTopicName name = (''topic-name'', name)"

definition tp_Init :: "'w env \<Rightarrow> svc_client \<Rightarrow> string \<Rightarrow> opaque \<Rightarrow> ('w st, unit) io" where
  "tp_Init env c name req = with_client c (\<lambda>url cl.
     DoHTTPJSONPBRequest env cl ''POST'' (url @ topicBaseURL @ ''/init'')
       (Some (Msg_TopicInit req)) discard [withTopicName name])"

definition tp_Delete :: "'w env \<Rightarrow> svc_client \<Rightarrow> string \<Rightarrow> ('w st, unit) io" where
  "tp_Delete env c topicName = with_client c (\<lambda>url cl.
     DoHTTPJSONPBRequest env cl ''DELETE'' (url @ topicBaseURL) None discard [withTopicName topicName])"

definition tp_Get :: "'w env \<Rightarrow> svc_client \<Rightarrow> string \<Rightarrow> ('w st, opaque) io" where
  "tp_Get env c topicName = with_client c (\<lambda>url cl.
     bindE (DoHTTPJSONPBRequest env cl ''GET'' (url @ topicBaseURL) None
       (decode_topic (e_lib env)) [withTopicName topicName]) (\<lambda>resp.
     case resp of None \<Rightarrow> fail (Errors_New ''nil topic fetch'')
     | Some tp \<Rightarrow> lift_res (NewTopicFromProto (e_lib env) tp)))"

definition tp_Add :: "'w env \<Rightarrow> svc_client \<Rightarrow> string \<Rightarrow> opaque \<Rightarrow> ('w st, unit) io" where
  "tp_Add env c topicName consumerSvc = with_client c (\<lambda>url cl.
     DoHTTPJSONPBRequest env cl ''POST'' (url @ topicBaseURL)
       (Some (Msg_TopicAdd consumerSvc)) discard [withTopicName topicName])"

subsection \<open>\<open>health/client.go\<close>\<close>

record health_client =
  hc_client :: admin_client
  hc_url :: string
  hc_port :: int

text \<open>The options; an empty URL is accepted and means the default one of the pod.\<close>

datatype health_option = HWithURL string | HWithClient admin_client | HWithPort int

fun execute_health :: "lib \<Rightarrow> health_option \<Rightarrow> health_client \<Rightarrow> gerror + health_client" where
  "execute_health lb (HWithURL u) h =
     (case (if u = [] then None else ParseRequestURI lb u) of
        Some err \<Rightarrow> Inl err | None \<Rightarrow> Inr (h\<lparr>hc_url := u\<rparr>))"
| "execute_health lb (HWithClient cl) h = Inr (h\<lparr>hc_client := cl\<rparr>)"
| "execute_health lb (HWithPort port) h = Inr (h\<lparr>hc_port := port\<rparr>)"

fun NewClient_health_loop :: "lib \<Rightarrow> health_option list \<Rightarrow> health_client \<Rightarrow> gerror + health_client" where
  "NewClient_health_loop lb [] h = Inr h"
| "NewClient_health_loop lb (opt # opts) h = res_bind (execute_health lb opt h) (NewClient_health_loop lb opts)"

definition NewClient_health :: "lib \<Rightarrow> health_option list \<Rightarrow> gerror + health_client" where
  "NewClient_health lb opts =
     NewClient_health_loop lb opts \<lparr>hc_client = NewClient [], hc_url = [], hc_port = 0\<rparr>"

text \<open>\<open>http://%s.%s.%s:%d\<close>, with the constant \<open>m3dbServiceName\<close>.\<close>

definition getPodURL :: "string \<Rightarrow> string \<Rightarrow> int \<Rightarrow> string" where
  "getPodURL namespace podName port =
     ''http://'' @ podName @ ''.m3dbnode-m3-cluster-short.'' @ namespace @ '':'' @ itoa_int port"

definition Bootstrapped :: "'w env \<Rightarrow> health_client \<Rightarrow> string \<Rightarrow> string \<Rightarrow> ('w st, bool) io" where
  "Bootstrapped env h namespace podName =
     (let port = (if hc_port h = 0 then PortM3DBHTTPNode else hc_port h);
          url = (if hc_url h = [] then getPodURL namespace podName port else hc_url h)
      in bindE (DoHTTPRequest env (hc_client h) ''GET'' (url @ ''/health'') None []) (\<lambda>resp.
         bindE (lift_res (decode_health (e_lib env) (rs_body resp))) (\<lambda>(okay, boot).
         ok (boot \<and> okay))))"

section \<open>Lemmas\<close>

lemmas client_op_defs = ns_Create_def ns_List_def ns_Delete_def ns_Ready_def pl_Init_def pl_Set_def
  pl_Delete_def pl_Get_def pl_Add_def pl_Remove_def pl_Replace_def tp_Init_def tp_Delete_def
  tp_Get_def tp_Add_def

text \<open>The HTTP request an operation sends, and the test on the log used for it.\<close>

fun is_http :: "(http_request \<Rightarrow> bool) \<Rightarrow> call \<Rightarrow> bool" where
  "is_http P (Http r) = P r"
| "is_http P _ = False"

lemma check_status_Inr: "check_status lb r = Inr r' \<longleftrightarrow> r' = r \<and> 200 \<le> rs_code r \<and> rs_code r < 300"
  by (auto simp: check_status_def Let_def)

lemma keeps_only_DoHTTPRequest:
  assumes "P (Http \<lparr>hr_method = action, hr_url = url, hr_headers = all_headers c opts, hr_body = data\<rparr>)"
  shows "keeps (only P) (DoHTTPRequest env c action url data opts)"
  unfolding DoHTTPRequest_def Let_def
  by (intro only.keeps_intros keeps_only_request assms)

lemma keeps_only_DoHTTPJSONPBRequest:
  assumes "\<And>b. P (Http \<lparr>hr_method = action, hr_url = url, hr_headers = all_headers c opts, hr_body = b\<rparr>)"
  shows "keeps (only P) (DoHTTPJSONPBRequest env c action url req dec opts)"
  unfolding DoHTTPJSONPBRequest_def
  by (intro only.keeps_intros keeps_only_DoHTTPRequest assms)

lemma keeps_only_with_client:
  "(\<And>url cl. c = Client url cl \<Longrightarrow> keeps (only P) (f url cl)) \<Longrightarrow> keeps (only P) (with_client c f)"
  unfolding with_client_def by (cases c) (auto intro: only.keeps_intros)

lemma keeps_only_client_ops:
  assumes "\<And>r. P (Http r)"
  shows "keeps (only P) (ns_Create env c req)" "keeps (only P) (ns_List env c)"
    "keeps (only P) (ns_Delete env c n)" "keeps (only P) (ns_Ready env c n)"
    "keeps (only P) (pl_Init env c i)" "keeps (only P) (pl_Delete env c)"
    "keeps (only P) (pl_Get env c)" "keeps (only P) (pl_Add env c is)"
    "keeps (only P) (pl_Remove env c ids)" "keeps (only P) (pl_Replace env c l b)"
  unfolding client_op_defs
  by (intro only.keeps_intros keeps_only_with_client keeps_only_DoHTTPJSONPBRequest assms)+

section \<open>Properties\<close>

text \<open>What \<open>errors.Cause\<close> of \<open>pkg/errors\<close> documents: it unwraps messages.\<close>

definition cause_unwraps :: "lib \<Rightarrow> bool" where
  "cause_unwraps lb \<longleftrightarrow> (\<forall>m. Cause lb (Errors_New m) = Errors_New m)
     \<and> (\<forall>e m a. Cause lb (With_Message e m a) = Cause lb e)"

lemma check_status_cause:
  assumes "cause_unwraps lb" and "check_status lb r = Inl e"
  shows "Cause lb e = (if rs_code r = 404 then ErrNotFound
    else if rs_code r = 405 then ErrMethodNotAllowed else ErrNotOk)"
  using assms
  by (auto simp: check_status_def cause_unwraps_def Let_def ErrNotFound_def ErrMethodNotAllowed_def
      ErrNotOk_def split: if_splits)

lemma admin_errors_distinct [simp]:
  "ErrNotFound \<noteq> ErrMethodNotAllowed" "ErrNotFound \<noteq> ErrNotOk" "ErrMethodNotAllowed \<noteq> ErrNotFound"
  "ErrNotOk \<noteq> ErrNotFound" "ErrMethodNotAllowed \<noteq> ErrNotOk" "ErrNotOk \<noteq> ErrMethodNotAllowed"
  by (simp_all add: ErrNotFound_def ErrMethodNotAllowed_def ErrNotOk_def)

text \<open>
  C33: One call of \<open>DoHTTPRequest\<close> without header options sends one request, carrying the environment
  and zone of the client as headers exactly when they are set, and its outcome follows the status: the response
  for 2xx, and otherwise an error whose cause tells 404 and 405 from every other status.
\<close>

theorem DoHTTPRequest_outcome:
  assumes cause: "cause_unwraps (e_lib env)" and made: "NewRequest (e_lib env) action url = None"
    and sent: "\<And>req. fst (api_http env req (st_world s)) = Inr resp"
    and run: "DoHTTPRequest env c action url data [] s = (r, s')"
  shows "\<exists>req. st_calls s' = st_calls s @ [Http req] \<and> hr_method req = action \<and> hr_url req = url
      \<and> hr_body req = data
      \<and> (\<forall>v. (m3EnvironmentHeader, v) \<in> set (hr_headers req) \<longleftrightarrow> v = ac_environment c \<and> v \<noteq> [])
      \<and> (\<forall>v. (m3HeaderClusterZoneName, v) \<in> set (hr_headers req) \<longleftrightarrow> v = ac_zone c \<and> v \<noteq> [])
      \<and> (case r of Inr x \<Rightarrow> x = resp \<and> 200 \<le> rs_code resp \<and> rs_code resp < 300
         | Inl e \<Rightarrow> (rs_code resp < 200 \<or> 300 \<le> rs_code resp)
             \<and> (Cause (e_lib env) e = ErrNotFound \<longleftrightarrow> rs_code resp = 404)
             \<and> (Cause (e_lib env) e = ErrMethodNotAllowed \<longleftrightarrow> rs_code resp = 405))"
proof -
  let ?req = "\<lparr>hr_method = action, hr_url = url, hr_headers = all_headers c [], hr_body = data\<rparr>"
  obtain w where w: "api_http env ?req (st_world s) = (Inr resp, w)"
    using sent [of ?req] by (metis prod.collapse)
  from run made w have r: "r = check_status (e_lib env) resp"
    and s': "s' = s\<lparr>st_world := w, st_calls := st_calls s @ [Http ?req]\<rparr>"
    by (auto simp: DoHTTPRequest_def Let_def bindE_def request_def)
  have "case r of Inr x \<Rightarrow> x = resp \<and> 200 \<le> rs_code resp \<and> rs_code resp < 300
         | Inl e \<Rightarrow> (rs_code resp < 200 \<or> 300 \<le> rs_code resp)
             \<and> (Cause (e_lib env) e = ErrNotFound \<longleftrightarrow> rs_code resp = 404)
             \<and> (Cause (e_lib env) e = ErrMethodNotAllowed \<longleftrightarrow> rs_code resp = 405)"
  proof (cases r)
    case (Inl e)
    have "\<not> (200 \<le> rs_code resp \<and> rs_code resp < 300)"
      using r Inl by (auto simp: check_status_def)
    moreover have "Cause (e_lib env) e = (if rs_code resp = 404 then ErrNotFound
        else if rs_code resp = 405 then ErrMethodNotAllowed else ErrNotOk)"
      using r Inl by (intro check_status_cause [OF cause]) simp
    ultimately show ?thesis by (simp add: Inl) linarith
  next
    case (Inr x)
    with r have "check_status (e_lib env) resp = Inr x" by simp
    then show ?thesis unfolding Inr by (simp add: check_status_Inr)
  qed
  then show ?thesis using s'
    by (intro exI [of _ ?req]) (auto simp: all_headers_def request_headers_def m3EnvironmentHeader_def
        m3HeaderClusterZoneName_def)
qed

definition gone_env :: "unit env" where
  "gone_env = (offline_env example_lib)\<lparr>api_http := (\<lambda>_ w. (Inr \<lparr>rs_code = 404, rs_body = ''gone''\<rparr>, w))\<rparr>"

theorem DoHTTPRequest_outcome_witness:
  "\<exists>e s' req. DoHTTPRequest gone_env \<lparr>ac_environment = ''ns/c'', ac_zone = []\<rparr> ''GET'' ''http://x'' None [] (start ()) = (Inl e, s')
     \<and> Cause (e_lib gone_env) e = ErrNotFound \<and> st_calls s' = [Http req]
     \<and> (m3EnvironmentHeader, ''ns/c'') \<in> set (hr_headers req)"
proof -
  let ?c = "\<lparr>ac_environment = ''ns/c'', ac_zone = []\<rparr>"
  obtain r s' where run: "DoHTTPRequest gone_env ?c ''GET'' ''http://x'' None [] (start ()) = (r, s')" by force
  have "cause_unwraps (e_lib gone_env)" "NewRequest (e_lib gone_env) ''GET'' ''http://x'' = None"
    "\<And>req. fst (api_http gone_env req (st_world (start ()))) = Inr \<lparr>rs_code = 404, rs_body = ''gone''\<rparr>"
    by (simp_all add: cause_unwraps_def gone_env_def offline_env_def example_lib_def)
  from DoHTTPRequest_outcome [OF this run] run show ?thesis
    by (cases r) (auto simp: start_def)
qed

end
