(* ===== verification/Admin_Clients.thy ===== *)
theory Admin_Clients
  imports M3admin_Http
begin

text \<open>
  \<open>pkg/controller/m3admin_client.go\<close>: one namespace, placement and topic client per cluster,
  made on first use and cached. The first part is the code of a call that runs alone; the second
  splits the code at its lock operations and lets calls interleave, with the identity of the
  client objects, to show that all callers of a cluster share one client.
\<close>

definition clusterKey :: "m3db_cluster \<Rightarrow> string \<Rightarrow> string" where
  "clusterKey cluster url =
     cl_namespace cluster @ ''/'' @ cl_name cluster @ ''/'' @ cs_Zone (cl_spec cluster) @ ''/'' @ url"

text \<open>\<open>http://%s.%s:%d\<close>\<close>

definition clusterURL :: "m3db_cluster \<Rightarrow> string" where
  "clusterURL cluster =
     (let default = ''http://'' @ CoordinatorServiceName (cl_name cluster) @ ''.'' @ cl_namespace cluster
        @ '':'' @ itoa_int PortM3Coordinator
      in case cs_ExternalCoordinator (cl_spec cluster) of
           Some ec \<Rightarrow> if ec_ServiceEndpoint ec \<noteq> [] then ''http://'' @ ec_ServiceEndpoint ec else default
         | None \<Rightarrow> default)"

definition clusterURLProxy :: "m3db_cluster \<Rightarrow> string" where
  "clusterURLProxy cluster = ''http://localhost:8001/api/v1/namespaces/'' @ cl_namespace cluster
     @ ''/services/'' @ CoordinatorServiceName (cl_name cluster) @ '':coordinator/proxy''"

text \<open>The field \<open>clusterURLFn\<close>: \<open>clusterURL\<close>, replaced by \<open>clusterURLProxy\<close> with the proxy option.\<close>

definition clusterURLFn :: "'w env \<Rightarrow> m3db_cluster \<Rightarrow> string" where
  "clusterURLFn env cluster = (if e_kubectlProxy env then clusterURLProxy cluster else clusterURL cluster)"

definition adminClientForCluster :: "'w env \<Rightarrow> m3db_cluster \<Rightarrow> admin_client" where
  "adminClientForCluster env cluster =
     NewClient (e_adminOpts env @ [WithEnvironment (DefaultM3ClusterEnvironmentName (cl_meta cluster)),
       WithZone (cs_Zone (cl_spec cluster))])"

definition newMultiAdminClient :: "'w st \<Rightarrow> 'w st" where
  "newMultiAdminClient s = s\<lparr>st_nsClients := [], st_plClients := [], st_tpClients := []\<rparr>"

definition client_options :: "'w env \<Rightarrow> m3db_cluster \<Rightarrow> svc_option list" where
  "client_options env cluster =
     [WithClient (adminClientForCluster env cluster), SvcWithLogger, WithURL (clusterURLFn env cluster)]"

definition namespaceClientForCluster :: "'w env \<Rightarrow> m3db_cluster \<Rightarrow> ('w st, svc_client) io" where
  "namespaceClientForCluster env cluster = (\<lambda>s.
     let key = clusterKey cluster (clusterURLFn env cluster) in
     case map_of (st_nsClients s) key of
       Some client \<Rightarrow> (Inr client, s)
     | None \<Rightarrow> (case NewClient_namespace (e_lib env) (client_options env cluster) of
         Inl err \<Rightarrow> (Inr (Error_Client err), s)
       | Inr client \<Rightarrow> (case map_of (st_nsClients s) key of
           Some mapClient \<Rightarrow> (Inr mapClient, s)
         | None \<Rightarrow> (Inr client, s\<lparr>st_nsClients := AList.update key client (st_nsClients s)\<rparr>))))"

definition placementClientForCluster :: "'w env \<Rightarrow> m3db_cluster \<Rightarrow> ('w st, svc_client) io" where
  "placementClientForCluster env cluster = (\<lambda>s.
     let key = clusterKey cluster (clusterURLFn env cluster) in
     case map_of (st_plClients s) key of
       Some client \<Rightarrow> (Inr client, s)
     | None \<Rightarrow> (case NewClient_placement (e_lib env) (client_options env cluster) of
         Inl err \<Rightarrow> (Inr (Error_Client err), s)
       | Inr client \<Rightarrow> (case map_of (st_plClients s) key of
           Some mapClient \<Rightarrow> (Inr mapClient, s)
         | None \<Rightarrow> (Inr client, s\<lparr>st_plClients := AList.update key client (st_plClients s)\<rparr>))))"

definition topicClientForCluster :: "'w env \<Rightarrow> m3db_cluster \<Rightarrow> ('w st, svc_client) io" where
  "topicClientForCluster env cluster = (\<lambda>s.
     let key = clusterKey cluster (clusterURLFn env cluster) in
     case map_of (st_tpClients s) key of
       Some client \<Rightarrow> (Inr client, s)
     | None \<Rightarrow> (case NewClient_topic (e_lib env) (client_options env cluster) of
         Inl err \<Rightarrow> (Inr (Error_Client err), s)
       | Inr client \<Rightarrow> (case map_of (st_tpClients s) key of
           Some mapClient \<Rightarrow> (Inr mapClient, s)
         | None \<Rightarrow> (Inr client, s\<lparr>st_tpClients := AList.update key client (st_tpClients s)\<rparr>))))"

section \<open>The clients of a cluster\<close>

text \<open>The client a cluster should be served by.\<close>

definition own_client :: "'w env \<Rightarrow> m3db_cluster \<Rightarrow> svc_client" where
  "own_client env cluster = Client (clusterURLFn env cluster)
     \<lparr>ac_environment = DefaultM3ClusterEnvironmentName (cl_meta cluster), ac_zone = cs_Zone (cl_spec cluster)\<rparr>"

text \<open>A cluster whose name, namespace and zone have no slash, as Kubernetes names do.\<close>

definition plain_names :: "m3db_cluster \<Rightarrow> bool" where
  "plain_names cluster \<longleftrightarrow> CHR ''/'' \<notin> set (cl_namespace cluster) \<and> CHR ''/'' \<notin> set (cl_name cluster)
     \<and> CHR ''/'' \<notin> set (cs_Zone (cl_spec cluster))"

text \<open>The invariant of a cache: every entry is the own client of a cluster with that key.\<close>

definition cache_ok :: "'w env \<Rightarrow> svc_client gomap \<Rightarrow> bool" where
  "cache_ok env m \<longleftrightarrow> map_ok m \<and> (\<forall>(k, c) \<in> set m. \<exists>cluster. plain_names cluster
     \<and> k = clusterKey cluster (clusterURLFn env cluster) \<and> c = own_client env cluster)"

lemma adminClientForCluster_fields:
  "adminClientForCluster env cluster =
     \<lparr>ac_environment = DefaultM3ClusterEnvironmentName (cl_meta cluster), ac_zone = cs_Zone (cl_spec cluster)\<rparr>"
  by (simp add: adminClientForCluster_def NewClient_def)

lemma NewClient_own:
  "NewClient_namespace (e_lib env) (client_options env cluster) =
     (case ParseRequestURI (e_lib env) (clusterURLFn env cluster) of
        Some err \<Rightarrow> Inl err | None \<Rightarrow> Inr (own_client env cluster))"
  "NewClient_placement lb opts = NewClient_namespace lb opts"
  "NewClient_topic lb opts = NewClient_namespace lb opts"
  by (simp_all add: NewClient_namespace_def NewClient_placement_def NewClient_topic_def client_options_def
      own_client_def adminClientForCluster_fields split: option.splits)

lemma append_slash_inject:
  "c \<notin> set a \<Longrightarrow> c \<notin> set b \<Longrightarrow> a @ c # x = b @ c # y \<longleftrightarrow> a = b \<and> x = y"
proof (induction a arbitrary: b)
  case Nil
  then show ?case by (cases b) auto
next
  case (Cons z a)
  then show ?case by (cases b) auto
qed

lemma update_entry: "x \<in> set (AList.update k v m) \<Longrightarrow> x = (k, v) \<or> x \<in> set m"
  by (induction m) (auto split: if_splits)

lemma clusterKey_own_client:
  assumes "plain_names c" and "plain_names d"
    and "clusterKey c (clusterURLFn env c) = clusterKey d (clusterURLFn env d)"
  shows "own_client env c = own_client env d"
  using assms
  by (simp add: clusterKey_def plain_names_def own_client_def append_slash_inject
      DefaultM3ClusterEnvironmentName_def)

text \<open>
  The three caches follow one contract: a lookup \<open>find_client\<close>, whose effect on its cache \<open>cache\<close>
  is to keep what is there and to add at most the own client of the cluster.
\<close>

locale client_cache =
  fixes env :: "'w env"
    and cache :: "'w st \<Rightarrow> svc_client gomap"
    and find_client :: "m3db_cluster \<Rightarrow> ('w st, svc_client) io"
  assumes hit: "map_of (cache s) (clusterKey cluster (clusterURLFn env cluster)) = Some c
      \<Longrightarrow> find_client cluster s = (Inr c, s)"
    and miss_error: "map_of (cache s) (clusterKey cluster (clusterURLFn env cluster)) = None
      \<Longrightarrow> ParseRequestURI (e_lib env) (clusterURLFn env cluster) = Some err
      \<Longrightarrow> find_client cluster s = (Inr (Error_Client err), s)"
    and miss: "map_of (cache s) (clusterKey cluster (clusterURLFn env cluster)) = None
      \<Longrightarrow> ParseRequestURI (e_lib env) (clusterURLFn env cluster) = None
      \<Longrightarrow> \<exists>s'. find_client cluster s = (Inr (own_client env cluster), s') \<and> st_calls s' = st_calls s
        \<and> cache s' = AList.update (clusterKey cluster (clusterURLFn env cluster)) (own_client env cluster) (cache s)"
begin

lemma find_client_cases:
  obtains c where "map_of (cache s) (clusterKey cluster (clusterURLFn env cluster)) = Some c"
      "find_client cluster s = (Inr c, s)"
  | err where "ParseRequestURI (e_lib env) (clusterURLFn env cluster) = Some err"
      "find_client cluster s = (Inr (Error_Client err), s)"
  | s' where "find_client cluster s = (Inr (own_client env cluster), s')" "st_calls s' = st_calls s"
      "ParseRequestURI (e_lib env) (clusterURLFn env cluster) = None"
      "cache s' = AList.update (clusterKey cluster (clusterURLFn env cluster)) (own_client env cluster) (cache s)"
proof (cases "map_of (cache s) (clusterKey cluster (clusterURLFn env cluster))")
  case (Some c)
  from Some hit [OF Some] show thesis by (rule that(1))
next
  case None
  show thesis
  proof (cases "ParseRequestURI (e_lib env) (clusterURLFn env cluster)")
    case (Some err)
    from Some miss_error [OF None Some] show thesis by (rule that(2))
  next
    case uri: None
    from miss [OF None uri] uri show thesis by (auto intro: that(3))
  qed
qed

lemma find_client_total: "\<exists>c s'. find_client cluster s = (Inr c, s') \<and> st_calls s' = st_calls s"
  by (rule find_client_cases [of s cluster]) auto

lemma cached_own:
  assumes "cache_ok env m" and "plain_names cluster"
    and "map_of m (clusterKey cluster (clusterURLFn env cluster)) = Some c"
  shows "c = own_client env cluster"
proof -
  from assms(3) have "(clusterKey cluster (clusterURLFn env cluster), c) \<in> set m" by (rule map_of_SomeD)
  with assms(1) obtain d where "plain_names d" "c = own_client env d"
    "clusterKey cluster (clusterURLFn env cluster) = clusterKey d (clusterURLFn env d)"
    by (auto simp: cache_ok_def)
  with assms(2) show ?thesis by (metis clusterKey_own_client)
qed

lemma cache_ok_update:
  assumes "cache_ok env m" and "plain_names cluster"
  shows "cache_ok env (AList.update (clusterKey cluster (clusterURLFn env cluster)) (own_client env cluster) m)"
  using assms unfolding cache_ok_def by (auto dest!: update_entry)

lemma coherent:
  assumes ok: "cache_ok env (cache s)" and names: "plain_names cluster"
    and run: "find_client cluster s = (r, s')"
  shows "cache_ok env (cache s') \<and> (\<exists>c. r = Inr c \<and> (c = own_client env cluster
    \<or> (\<exists>err. ParseRequestURI (e_lib env) (clusterURLFn env cluster) = Some err \<and> c = Error_Client err)))"
proof (rule find_client_cases [of s cluster])
  fix c assume "map_of (cache s) (clusterKey cluster (clusterURLFn env cluster)) = Some c"
    "find_client cluster s = (Inr c, s)"
  with ok names run cached_own show ?thesis by auto
qed (use ok names run cache_ok_update in auto)

end

interpretation ns_cache: client_cache env st_nsClients "namespaceClientForCluster env" for env
  by unfold_locales (auto simp: namespaceClientForCluster_def NewClient_own Let_def)

interpretation pl_cache: client_cache env st_plClients "placementClientForCluster env" for env
  by unfold_locales (auto simp: placementClientForCluster_def NewClient_own Let_def)

interpretation tp_cache: client_cache env st_tpClients "topicClientForCluster env" for env
  by unfold_locales (auto simp: topicClientForCluster_def NewClient_own Let_def)

lemma keeps_only_clientForCluster [simp]:
  "keeps (only P) (namespaceClientForCluster env cluster)"
  "keeps (only P) (placementClientForCluster env cluster)"
  "keeps (only P) (topicClientForCluster env cluster)"
  unfolding keeps_def only_def
  by (metis append_Nil2 list.pred_inject(1) ns_cache.find_client_total snd_conv,
      metis append_Nil2 list.pred_inject(1) pl_cache.find_client_total snd_conv,
      metis append_Nil2 list.pred_inject(1) tp_cache.find_client_total snd_conv)

section \<open>Callers that interleave\<close>

text \<open>
  The code of \<open>namespaceClientForCluster\<close> (and of its two siblings) between its lock operations,
  for any number of goroutines. A client object is a value with an identity \<open>n\<close>, new for every
  call of the constructor. \<open>key\<close> and \<open>mk\<close> stand for the map key of a cluster and the
  constructor.
\<close>

type_synonym client_object = "nat \<times> svc_client"

datatype caller =
    Entered m3db_cluster
  | Missed m3db_cluster
  | Made m3db_cluster client_object
  | Returned m3db_cluster client_object
  | Failed m3db_cluster gerror

record shared_cache =
  sc_map :: "client_object gomap"
  sc_next :: nat
  sc_callers :: "caller list"

inductive cache_step ::
  "(m3db_cluster \<Rightarrow> string) \<Rightarrow> (m3db_cluster \<Rightarrow> gerror + svc_client) \<Rightarrow> shared_cache \<Rightarrow> shared_cache \<Rightarrow> bool"
  for key mk where
  read_hit: "i < length (sc_callers s) \<Longrightarrow> sc_callers s ! i = Entered c \<Longrightarrow> map_of (sc_map s) (key c) = Some x
     \<Longrightarrow> cache_step key mk s (s\<lparr>sc_callers := (sc_callers s)[i := Returned c x]\<rparr>)"
| read_miss: "i < length (sc_callers s) \<Longrightarrow> sc_callers s ! i = Entered c \<Longrightarrow> map_of (sc_map s) (key c) = None
     \<Longrightarrow> cache_step key mk s (s\<lparr>sc_callers := (sc_callers s)[i := Missed c]\<rparr>)"
| make_ok: "i < length (sc_callers s) \<Longrightarrow> sc_callers s ! i = Missed c \<Longrightarrow> mk c = Inr cl
     \<Longrightarrow> cache_step key mk s (s\<lparr>sc_next := Suc (sc_next s),
           sc_callers := (sc_callers s)[i := Made c (sc_next s, cl)]\<rparr>)"
| make_fail: "i < length (sc_callers s) \<Longrightarrow> sc_callers s ! i = Missed c \<Longrightarrow> mk c = Inl err
     \<Longrightarrow> cache_step key mk s (s\<lparr>sc_callers := (sc_callers s)[i := Failed c err]\<rparr>)"
| lock_lost: "i < length (sc_callers s) \<Longrightarrow> sc_callers s ! i = Made c x \<Longrightarrow> map_of (sc_map s) (key c) = Some y
     \<Longrightarrow> cache_step key mk s (s\<lparr>sc_callers := (sc_callers s)[i := Returned c y]\<rparr>)"
| lock_won: "i < length (sc_callers s) \<Longrightarrow> sc_callers s ! i = Made c x \<Longrightarrow> map_of (sc_map s) (key c) = None
     \<Longrightarrow> cache_step key mk s (s\<lparr>sc_map := AList.update (key c) x (sc_map s),
           sc_callers := (sc_callers s)[i := Returned c x]\<rparr>)"

definition entered :: "m3db_cluster list \<Rightarrow> shared_cache" where
  "entered cs = \<lparr>sc_map = [], sc_next = 0, sc_callers = map Entered cs\<rparr>"

text \<open>Every caller that has returned holds the object the map has for its cluster.\<close>

definition returned_shared :: "(m3db_cluster \<Rightarrow> string) \<Rightarrow> shared_cache \<Rightarrow> bool" where
  "returned_shared key s \<longleftrightarrow>
     (\<forall>c x. Returned c x \<in> set (sc_callers s) \<longrightarrow> map_of (sc_map s) (key c) = Some x)"

lemma cache_step_map_mono:
  "cache_step key mk s t \<Longrightarrow> map_of (sc_map s) k = Some x \<Longrightarrow> map_of (sc_map t) k = Some x"
  by (induction rule: cache_step.induct) auto

lemma returned_shared_step:
  assumes "cache_step key mk s t" and "returned_shared key s"
  shows "returned_shared key t"
  using assms
proof (induction rule: cache_step.induct)
  case (lock_won i s c x)
  have old: "map_of (sc_map s) (key d) = Some y" if "Returned d y \<in> set (sc_callers s)" for d y
    using lock_won.prems that unfolding returned_shared_def by blast
  show ?case
    unfolding returned_shared_def
  proof (intro allI impI)
    fix d y assume "Returned d y \<in> set (sc_callers (s\<lparr>sc_map := AList.update (key c) x (sc_map s),
           sc_callers := (sc_callers s)[i := Returned c x]\<rparr>))"
    then consider "d = c" "y = x" | "Returned d y \<in> set (sc_callers s)"
      using set_update_subset_insert by fastforce
    then show "map_of (sc_map (s\<lparr>sc_map := AList.update (key c) x (sc_map s),
           sc_callers := (sc_callers s)[i := Returned c x]\<rparr>)) (key d) = Some y"
      by cases (use old lock_won.hyps(3) in \<open>fastforce+\<close>)
  qed
qed (auto simp: returned_shared_def dest!: subsetD [OF set_update_subset_insert])

lemma returned_shared_steps:
  "(cache_step key mk)\<^sup>*\<^sup>* s t \<Longrightarrow> returned_shared key s \<Longrightarrow> returned_shared key t"
  by (induction rule: rtranclp_induct) (auto intro: returned_shared_step)

lemma entered_shared: "returned_shared key (entered cs)"
  by (auto simp: returned_shared_def entered_def)

text \<open>The steps a caller still has to take, at most.\<close>

fun caller_steps :: "caller \<Rightarrow> nat" where
  "caller_steps (Entered _) = 3"
| "caller_steps (Missed _) = 2"
| "caller_steps (Made _ _) = 1"
| "caller_steps (Returned _ _) = 0"
| "caller_steps (Failed _ _) = 0"

lemma sum_list_update_less:
  fixes f :: "'a \<Rightarrow> nat"
  assumes "i < length xs" and "f x < f (xs ! i)"
  shows "sum_list (map f (xs[i := x])) < sum_list (map f xs)"
  using assms by (induction xs arbitrary: i) (auto simp: nth_Cons split: nat.splits)

lemma cache_step_decreases:
  "cache_step key mk s t \<Longrightarrow>
   sum_list (map caller_steps (sc_callers t)) < sum_list (map caller_steps (sc_callers s))"
  by (induction rule: cache_step.induct) (auto intro!: sum_list_update_less)

lemma cache_steps_bound:
  "(cache_step key mk ^^ n) s t \<Longrightarrow>
   n + sum_list (map caller_steps (sc_callers t)) \<le> sum_list (map caller_steps (sc_callers s))"
  by (induction n arbitrary: t) (force dest: cache_step_decreases)+

lemma caller_can_step:
  assumes "i < length (sc_callers s)" and "caller_steps (sc_callers s ! i) \<noteq> 0"
  shows "\<exists>t. cache_step key mk s t"
proof (cases "sc_callers s ! i")
  case (Entered c)
  with assms(1) show ?thesis by (cases "map_of (sc_map s) (key c)") (blast intro: cache_step.intros)+
next
  case (Missed c)
  with assms(1) show ?thesis by (cases "mk c") (blast intro: cache_step.intros)+
next
  case (Made c x)
  with assms(1) show ?thesis by (cases "map_of (sc_map s) (key c)") (blast intro: cache_step.intros)+
qed (use assms in auto)

section \<open>Properties\<close>

text \<open>
  C21: Any number of goroutines ask for the client of their clusters. Whatever the interleaving,
  they take at most three steps each; when none can take a step, each has returned a client or
  the constructor's error; and callers that returned for one cluster key hold the same object,
  the one in the map.
\<close>

theorem callers_share_client:
  assumes run: "(cache_step key mk ^^ n) (entered cs) t"
  shows "n \<le> 3 * length cs
    \<and> ((\<nexists>u. cache_step key mk t u) \<longrightarrow> list_all (\<lambda>p. caller_steps p = 0) (sc_callers t))
    \<and> (\<forall>c d x y. Returned c x \<in> set (sc_callers t) \<longrightarrow> Returned d y \<in> set (sc_callers t) \<longrightarrow>
          key c = key d \<longrightarrow> x = y \<and> map_of (sc_map t) (key c) = Some x)"
proof (intro conjI)
  have "sum_list (map caller_steps (map Entered cs)) = 3 * length cs" by (induction cs) auto
  with cache_steps_bound [OF run] show "n \<le> 3 * length cs" by (simp add: entered_def)
next
  show "(\<nexists>u. cache_step key mk t u) \<longrightarrow> list_all (\<lambda>p. caller_steps p = 0) (sc_callers t)"
    using caller_can_step [of _ t key mk] by (auto simp: list_all_length)
next
  from run have "(cache_step key mk)\<^sup>*\<^sup>* (entered cs) t" by (rule relpowp_imp_rtranclp)
  then have "returned_shared key t" using entered_shared by (rule returned_shared_steps)
  then show "\<forall>c d x y. Returned c x \<in> set (sc_callers t) \<longrightarrow> Returned d y \<in> set (sc_callers t) \<longrightarrow>
          key c = key d \<longrightarrow> x = y \<and> map_of (sc_map t) (key c) = Some x"
    unfolding returned_shared_def by (metis option.inject)
qed

theorem callers_share_client_witness:
  "\<exists>t. (cache_step (\<lambda>_. ''k'') (\<lambda>_. Inr (Client ''u'' (NewClient [])))  ^^ 6)
        (entered [example_cluster [], example_cluster []]) t
     \<and> sc_callers t = [Returned (example_cluster []) (0, Client ''u'' (NewClient [])),
          Returned (example_cluster []) (0, Client ''u'' (NewClient []))]
     \<and> map_of (sc_map t) ''k'' = Some (0, Client ''u'' (NewClient []))"
proof -
  let ?c = "example_cluster []" and ?cl = "Client ''u'' (NewClient [])"
  let ?step = "cache_step (\<lambda>_. ''k'') (\<lambda>_. Inr ?cl)"
  let ?s = "\<lambda>m n ps. \<lparr>sc_map = m, sc_next = n, sc_callers = ps\<rparr>"
  have s1: "?step (?s [] 0 [Entered ?c, Entered ?c]) (?s [] 0 [Missed ?c, Entered ?c])"
    using cache_step.read_miss [of 0 "?s [] 0 [Entered ?c, Entered ?c]" ?c] by simp
  have s2: "?step (?s [] 0 [Missed ?c, Entered ?c]) (?s [] 0 [Missed ?c, Missed ?c])"
    using cache_step.read_miss [of 1 "?s [] 0 [Missed ?c, Entered ?c]" ?c] by simp
  have s3: "?step (?s [] 0 [Missed ?c, Missed ?c]) (?s [] 1 [Made ?c (0, ?cl), Missed ?c])"
    using cache_step.make_ok [of 0 "?s [] 0 [Missed ?c, Missed ?c]" ?c "\<lambda>_. Inr ?cl"] by simp
  have s4: "?step (?s [] 1 [Made ?c (0, ?cl), Missed ?c]) (?s [] 2 [Made ?c (0, ?cl), Made ?c (1, ?cl)])"
    using cache_step.make_ok [of 1 "?s [] 1 [Made ?c (0, ?cl), Missed ?c]" ?c "\<lambda>_. Inr ?cl"] by (simp add: numeral_2_eq_2)
  have s5: "?step (?s [] 2 [Made ?c (0, ?cl), Made ?c (1, ?cl)])
      (?s [(''k'', 0, ?cl)] 2 [Returned ?c (0, ?cl), Made ?c (1, ?cl)])"
    using cache_step.lock_won [of 0 "?s [] 2 [Made ?c (0, ?cl), Made ?c (1, ?cl)]" ?c "(0, ?cl)" "\<lambda>_. ''k''"] by simp
  have s6: "?step (?s [(''k'', 0, ?cl)] 2 [Returned ?c (0, ?cl), Made ?c (1, ?cl)])
      (?s [(''k'', 0, ?cl)] 2 [Returned ?c (0, ?cl), Returned ?c (0, ?cl)])"
    using cache_step.lock_lost [of 1 "?s [(''k'', 0, ?cl)] 2 [Returned ?c (0, ?cl), Made ?c (1, ?cl)]" ?c "(1, ?cl)"
        "\<lambda>_. ''k''"] by simp
  have "(?step ^^ 6) (entered [?c, ?c]) (?s [(''k'', 0, ?cl)] 2 [Returned ?c (0, ?cl), Returned ?c (0, ?cl)])"
    using s1 s2 s3 s4 s5 s6 unfolding entered_def
    by (simp add: eval_nat_numeral relcompp.simps) blast
  moreover from this have "map_of (sc_map (?s [(''k'', 0, ?cl)] 2 [Returned ?c (0, ?cl), Returned ?c (0, ?cl)])) ''k''
      = Some (0, ?cl)"
    using callers_share_client [of 6 "\<lambda>_. ''k''" "\<lambda>_. Inr ?cl" "[?c, ?c]"] by fastforce
  ultimately show ?thesis by fastforce
qed

text \<open>
  A namespace client lookup keeps the invariant of the cache and returns a client with the
  cluster's own URL, environment and zone (or, when the URL does not parse, the client that
  answers with that error): clusters never get each other's client.
\<close>

theorem namespaceClientForCluster_own:
  assumes "cache_ok env (st_nsClients s)" and "plain_names cluster"
    and "namespaceClientForCluster env cluster s = (r, s')"
  shows "cache_ok env (st_nsClients s') \<and> (\<exists>c. r = Inr c \<and> (c = own_client env cluster
    \<or> (\<exists>err. ParseRequestURI (e_lib env) (clusterURLFn env cluster) = Some err \<and> c = Error_Client err)))"
  using assms by (rule ns_cache.coherent)

theorem namespaceClientForCluster_own_witness:
  "\<exists>s'. namespaceClientForCluster (offline_env example_lib) (example_cluster []) (start ()) =
       (Inr (own_client (offline_env example_lib :: unit env) (example_cluster [])), s')
     \<and> cache_ok (offline_env example_lib :: unit env) (st_nsClients s')"
proof -
  have "cache_ok (offline_env example_lib :: unit env) (st_nsClients (start ()))"
    by (simp add: cache_ok_def start_def)
  moreover have "plain_names (example_cluster [])"
    by (simp add: plain_names_def example_defs)
  moreover have "ParseRequestURI (e_lib (offline_env example_lib :: unit env)) = (\<lambda>_. None)"
    by (simp add: offline_env_def example_lib_def)
  then have "\<exists>s'. namespaceClientForCluster (offline_env example_lib) (example_cluster []) (start ()) =
      (Inr (own_client (offline_env example_lib :: unit env) (example_cluster [])), s')"
    by (simp add: namespaceClientForCluster_def NewClient_own start_def Let_def)
  ultimately show ?thesis using namespaceClientForCluster_own by blast
qed

end
