(* ===== verification/Pod_Identity.thy ===== *)
theory Pod_Identity
  imports Environment Example_Cluster
begin

text \<open>
  \<open>pkg/k8sops/podidentity/provider.go\<close> and \<open>pkg/k8sops/m3db/placement.go\<close>: the identity of a pod
  from the sources the cluster configures, and the placement instance of a pod. Nodes are read
  from a lister.
\<close>

section \<open>\<open>podidentity\<close>\<close>

definition errEmptyPodSourceName :: gerror where
  "errEmptyPodSourceName = Errors_New ''pod name cannot by empty with id source == name''"

definition errEmptyPodSourceUID :: gerror where
  "errEmptyPodSourceUID = Errors_New ''pod UID cannot be empty with id source == UID''"

definition errEmptyNodeProviderID :: gerror where
  "errEmptyNodeProviderID = Errors_New ''node provider ID cannot be empty with source == prodiverID''"

text \<open>The options of the provider: \<open>validate\<close> requires a node lister.\<close>

record provider_options =
  po_logger :: bool
  po_nodeLister :: bool

datatype provider_option = POWithLogger bool | POWithNodeLister bool

fun execute_provider :: "provider_option \<Rightarrow> provider_options \<Rightarrow> provider_options" where
  "execute_provider (POWithLogger l) opts = opts\<lparr>po_logger := l\<rparr>"
| "execute_provider (POWithNodeLister n) opts = opts\<lparr>po_nodeLister := n\<rparr>"

definition validate_provider :: "provider_options \<Rightarrow> gerror option" where
  "validate_provider opts = (if \<not> po_nodeLister opts
     then Some (Errors_New ''ID provider node informer cannot be empty'') else None)"

definition NewProvider :: "provider_option list \<Rightarrow> gerror + provider_options" where
  "NewProvider opts = (let pOpts = fold execute_provider opts \<lparr>po_logger = True, po_nodeLister = False\<rparr> in
     case validate_provider pOpts of Some err \<Rightarrow> Inl err | None \<Rightarrow> Inr pOpts)"

definition nodeForPod :: "'w env \<Rightarrow> pod \<Rightarrow> ('w st, node) io" where
  "nodeForPod env pd =
     (if pod_nodeName pd = [] then fail (Errorf ''pod %s not yet scheduled'' [AStr (pod_name pd)])
      else read_cache (get_node env (pod_nodeName pd)))"

text \<open>One iteration of the loop over the sources, on the identity built so far.\<close>

definition Identity_source :: "'w env \<Rightarrow> pod \<Rightarrow> pod_identity_source \<Rightarrow> pod_identity \<Rightarrow> ('w st, pod_identity) io" where
  "Identity_source env pd source pid =
     (if source = PodIdentitySourcePodUID then
        (if om_uid (pod_meta pd) = [] then fail errEmptyPodSourceUID
         else ok (pid\<lparr>pi_UID := om_uid (pod_meta pd)\<rparr>))
      else if source = PodIdentitySourceNodeSpecProviderID then
        bindE (nodeForPod env pd) (\<lambda>nd.
          if node_providerID nd = [] then fail errEmptyNodeProviderID
          else ok (pid\<lparr>pi_NodeProviderID := node_providerID nd\<rparr>))
      else if source = PodIdentitySourceNodeName then
        bindE (nodeForPod env pd) (\<lambda>nd. ok (pid\<lparr>pi_NodeName := node_name nd\<rparr>))
      else fail (Errorf ''unrecognized pod identity source %s'' [AStr source]))"

fun Identity_loop :: "'w env \<Rightarrow> pod \<Rightarrow> pod_identity_source list \<Rightarrow> pod_identity \<Rightarrow> ('w st, pod_identity) io" where
  "Identity_loop env pd [] pid = ok pid"
| "Identity_loop env pd (source # sources) pid =
     bindE (Identity_source env pd source pid) (Identity_loop env pd sources)"

definition name_identity :: "string \<Rightarrow> pod_identity" where
  "name_identity n = \<lparr>pi_Name = n, pi_UID = [], pi_NodeName = [], pi_NodeExternalID = [], pi_NodeProviderID = []\<rparr>"

definition Identity :: "'w env \<Rightarrow> pod \<Rightarrow> m3db_cluster \<Rightarrow> ('w st, pod_identity) io" where
  "Identity env pd cluster =
     (let config = (case cs_PodIdentityConfig (cl_spec cluster) of
            None \<Rightarrow> \<lparr>pic_Sources = [PodIdentitySourcePodUID]\<rparr> | Some c \<Rightarrow> c)
      in if pod_name pd = [] then fail errEmptyPodSourceName
         else Identity_loop env pd (pic_Sources config) (name_identity (pod_name pd)))"

section \<open>\<open>PlacementInstanceFromPod\<close>\<close>

definition zoneEmbedded :: string where "zoneEmbedded = ''embedded''"
definition defaultM3DBPort :: int where "defaultM3DBPort = 9000"
definition defaultNodeEndpointFormat :: string where
  "defaultNodeEndpointFormat = ''{{ .PodName }}.{{ .M3DBService }}:{{ .Port }}''"

definition pod_endpoint :: "lib \<Rightarrow> m3db_cluster \<Rightarrow> pod \<Rightarrow> gerror + string" where
  "pod_endpoint lb cluster pd =
     (let epFmt = (if cs_NodeEndpointFormat (cl_spec cluster) = [] then defaultNodeEndpointFormat
            else cs_NodeEndpointFormat (cl_spec cluster));
          epCtx = \<lparr>epc_PodName = pod_name pd, epc_M3DBService = HeadlessServiceName (cl_name cluster),
            epc_PodNamespace = om_namespace (pod_meta pd), epc_Port = defaultM3DBPort\<rparr>
      in case tmpl_parse lb epFmt of
           Some err \<Rightarrow> Inl (With_Message err ''cannot construct node endpoint template'' [])
         | None \<Rightarrow> (case tmpl_execute lb epFmt epCtx of
             Inl err \<Rightarrow> Inl (With_Message err ''cannot execute node endpoint template'' [])
           | Inr s \<Rightarrow> Inr s))"

definition PlacementInstanceFromPod :: "'w env \<Rightarrow> m3db_cluster \<Rightarrow> pod \<Rightarrow> ('w st, pb_instance) io" where
  "PlacementInstanceFromPod env cluster pd =
     (case map_of (om_labels (pod_meta pd)) IsolationGroup of
        None \<Rightarrow> fail (Errorf ''could not find label %s in %v''
            [AStr IsolationGroup, AStrs (map fst (om_labels (pod_meta pd)))])
      | Some isoGroup \<Rightarrow>
          bindE (Identity env pd cluster) (\<lambda>pid.
          bindE (lift_res (IdentityJSON pid)) (\<lambda>idStr.
          bindE (lift_res (pod_endpoint (e_lib env) cluster pd)) (\<lambda>endpoint.
          ok \<lparr>pb_Id = idStr, pb_IsolationGroup = isoGroup,
              pb_Zone = (if cs_Zone (cl_spec cluster) = [] then zoneEmbedded else cs_Zone (cl_spec cluster)),
              pb_Weight = 100, pb_Endpoint = endpoint,
              pb_Hostname = pod_name pd @ ''.'' @ HeadlessServiceName (cl_name cluster),
              pb_Port = defaultM3DBPort\<rparr>))))"

section \<open>Lemmas\<close>

lemma keeps_only_nodeForPod [simp]: "keeps (only P) (nodeForPod env pd)"
  unfolding nodeForPod_def by (intro only.keeps_intros) simp

lemma keeps_only_Identity_source: "keeps (only P) (Identity_source env pd source pid)"
  unfolding Identity_source_def by (intro only.keeps_intros keeps_only_nodeForPod)

lemma keeps_only_Identity_loop: "keeps (only P) (Identity_loop env pd sources pid)"
  by (induction sources arbitrary: pid) (auto intro!: only.keeps_intros keeps_only_Identity_source)

lemma keeps_only_Identity [simp]: "keeps (only P) (Identity env pd cluster)"
  unfolding Identity_def Let_def by (intro only.keeps_intros keeps_only_Identity_loop)

lemma keeps_only_PlacementInstanceFromPod [simp]: "keeps (only P) (PlacementInstanceFromPod env cluster pd)"
  unfolding PlacementInstanceFromPod_def by (intro only.keeps_intros keeps_only_Identity)

lemma Identity_source_name:
  "returns (Identity_source env pd source pid) (\<lambda>p. pi_Name p = pi_Name pid)"
  unfolding Identity_source_def
  by (auto intro!: returns_fail returns_ok returns_bindE [OF returns_any])

lemma Identity_loop_name:
  "returns (Identity_loop env pd sources pid) (\<lambda>p. pi_Name p = pi_Name pid)"
proof (induction sources arbitrary: pid)
  case Nil
  show ?case unfolding Identity_loop.simps by (rule returns_ok) (rule refl)
next
  case (Cons source sources)
  show ?case
    unfolding Identity_loop.simps
    by (rule returns_bindE [OF Identity_source_name]) (use Cons.IH in \<open>metis (mono_tags, lifting) returns_mono\<close>)
qed

lemma Identity_name: "returns (Identity env pd cluster) (\<lambda>p. pi_Name p = pod_name pd \<and> pod_name pd \<noteq> [])"
  using Identity_loop_name [of env pd _ "name_identity (pod_name pd)"]
  unfolding Identity_def Let_def by (auto intro: returns_fail simp: name_identity_def)

text \<open>What the instance of a pod tells of the pod.\<close>

lemma PlacementInstanceFromPod_shape:
  "returns (PlacementInstanceFromPod env cluster pd) (\<lambda>i.
     map_of (om_labels (pod_meta pd)) IsolationGroup = Some (pb_IsolationGroup i)
     \<and> (\<exists>pid. pi_Name pid = pod_name pd \<and> pod_name pd \<noteq> [] \<and> IdentityJSON pid = Inr (pb_Id i))
     \<and> pb_Hostname i = pod_name pd @ ''.'' @ HeadlessServiceName (cl_name cluster))"
proof (cases "map_of (om_labels (pod_meta pd)) IsolationGroup")
  case None
  then show ?thesis by (simp add: PlacementInstanceFromPod_def returns_fail)
next
  case (Some g)
  have "returns (bindE (lift_res (IdentityJSON pid)) (\<lambda>idStr.
      bindE (lift_res (pod_endpoint (e_lib env) cluster pd)) (\<lambda>endpoint. ok (i idStr endpoint))))
    (\<lambda>x. \<exists>js ep. IdentityJSON pid = Inr js \<and> x = i js ep)" for pid and i :: "string \<Rightarrow> string \<Rightarrow> pb_instance"
    by (rule returns_bindE [OF returns_lift_res [of _ "\<lambda>js. IdentityJSON pid = Inr js"]])
      (auto intro!: returns_bindE [OF returns_any] returns_ok)
  note tail = this
  show ?thesis
    unfolding PlacementInstanceFromPod_def Some option.case
    by (rule returns_bindE [OF Identity_name], rule returns_mono, rule tail) auto
qed

section \<open>Properties\<close>

text \<open>
  C26: The instance made from a pod has the text of an identity with the pod's name as its ID, the
  isolation group of the pod's label and the pod's name under the headless service as its host, and two
  pods with different names (of valid UTF-8, as every name of a Kubernetes object) never get the same
  instance ID, whatever identity sources their clusters configure and whatever these return.
\<close>

theorem PlacementInstanceFromPod_identifies:
  assumes p: "PlacementInstanceFromPod env c1 p s = (Inr i, s')"
    and q: "PlacementInstanceFromPod env c2 q t = (Inr j, t')"
  shows "map_of (om_labels (pod_meta p)) IsolationGroup = Some (pb_IsolationGroup i)
    \<and> (\<exists>pid. pi_Name pid = pod_name p \<and> IdentityJSON pid = Inr (pb_Id i))
    \<and> pb_Hostname i = pod_name p @ ''.'' @ HeadlessServiceName (cl_name c1)
    \<and> (valid_utf8 (pod_name p) \<longrightarrow> valid_utf8 (pod_name q) \<longrightarrow> pod_name p \<noteq> pod_name q \<longrightarrow> pb_Id i \<noteq> pb_Id j)"
proof -
  note i = returnsD [OF PlacementInstanceFromPod_shape p]
  note j = returnsD [OF PlacementInstanceFromPod_shape q]
  have named: "\<exists>r. json_unescape (drop 9 b) = Some (n, r)"
    if "\<exists>pid. pi_Name pid = n \<and> n \<noteq> [] \<and> IdentityJSON pid = Inr b" "valid_utf8 n" for b n
    using that IdentityJSON_name by blast
  have "pod_name p = pod_name q" if "valid_utf8 (pod_name p)" "valid_utf8 (pod_name q)" "pb_Id i = pb_Id j"
    using named [of "pod_name p" "pb_Id i"] named [of "pod_name q" "pb_Id j"] i j that by auto
  with i show ?thesis by blast
qed

theorem PlacementInstanceFromPod_identifies_witness:
  "\<exists>i j. PlacementInstanceFromPod (offline_env example_lib) (example_cluster []) (example_pod ''p-0'') (start ()) = (Inr i, start ())
     \<and> PlacementInstanceFromPod (offline_env example_lib) (example_cluster []) (example_pod ''p-1'') (start ()) = (Inr j, start ())
     \<and> pb_Id i \<noteq> pb_Id j \<and> pb_IsolationGroup i = ''g''"
proof -
  have run: "\<exists>i. PlacementInstanceFromPod (offline_env example_lib) (example_cluster []) (example_pod n) (start ())
      = (Inr i, start ())" if "n \<noteq> []" for n
    using that
    by (simp add: PlacementInstanceFromPod_def Identity_def Identity_source_def pod_endpoint_def IdentityJSON_def
        example_pod_def example_cluster_def example_spec_def example_lib_def offline_env_def Let_def bindE_def)
  obtain i where i: "PlacementInstanceFromPod (offline_env example_lib) (example_cluster []) (example_pod ''p-0'') (start ())
      = (Inr i, start ())" using run [of "''p-0''"] by auto
  obtain j where j: "PlacementInstanceFromPod (offline_env example_lib) (example_cluster []) (example_pod ''p-1'') (start ())
      = (Inr j, start ())" using run [of "''p-1''"] by auto
  have "valid_utf8 ''p-0''" "valid_utf8 ''p-1''" by code_simp+
  with PlacementInstanceFromPod_identifies [OF i j] i j show ?thesis by (auto simp: example_pod_def)
qed

end
