(* ===== verification/Add_Cluster.thy ===== *)
theory Add_Cluster
  imports Environment
begin

text \<open>
  \<open>pkg/k8sops/m3db/services.go\<close>, \<open>pkg/util/eventer\<close> and \<open>pkg/controller/add_cluster.go\<close>: the
  services and the ConfigMap a cluster needs before it has any pod.
\<close>

section \<open>\<open>eventer\<close>\<close>

definition ReasonAdding :: string where "ReasonAdding = ''Adding''"
definition ReasonFailedToDelete :: string where "ReasonFailedToDelete = ''FailedToDelete''"
definition ReasonSuccessfulDelete :: string where "ReasonSuccessfulDelete = ''SuccessfulDelete''"
definition ReasonCreating :: string where "ReasonCreating = ''Creating''"
definition ReasonFailedCreate :: string where "ReasonFailedCreate = ''FailedToCreate''"
definition ReasonSuccessfulCreate :: string where "ReasonSuccessfulCreate = ''SuccessfulCreate''"
definition ReasonFailedToUpdate :: string where "ReasonFailedToUpdate = ''FailedToUpdate''"
definition ReasonSuccessfulUpdate :: string where "ReasonSuccessfulUpdate = ''SuccessfulUpdate''"
definition ReasonFailSync :: string where "ReasonFailSync = ''FailedToSync''"
definition ReasonLongerThanUsual :: string where "ReasonLongerThanUsual = ''TimeLongerThanUsual''"
definition ReasonUnknown :: string where "ReasonUnknown = ''Unknown''"

definition NormalEvent :: "'w env \<Rightarrow> string \<Rightarrow> string \<Rightarrow> garg list \<Rightarrow> ('w st, unit) io" where
  "NormalEvent env reason message args = post_event env Normal reason message args"

definition WarningEvent :: "'w env \<Rightarrow> string \<Rightarrow> string \<Rightarrow> garg list \<Rightarrow> ('w st, unit) io" where
  "WarningEvent env reason message args = post_event env Warning reason message args"

section \<open>Services\<close>

definition GetService :: "'w env \<Rightarrow> m3db_cluster \<Rightarrow> string \<Rightarrow> ('w st, service) io" where
  "GetService env cluster name =
     request (Svc_Get (cl_namespace cluster) name) (api_svc_get env (cl_namespace cluster) name)"

definition DeleteService :: "'w env \<Rightarrow> m3db_cluster \<Rightarrow> string \<Rightarrow> ('w st, unit) io" where
  "DeleteService env cluster name =
     request (Svc_Delete (cl_namespace cluster) name) (api_svc_delete env (cl_namespace cluster) name)"

definition EnsureService :: "'w env \<Rightarrow> m3db_cluster \<Rightarrow> service \<Rightarrow> ('w st, unit) io" where
  "EnsureService env cluster svc =
     catchE (GetService env cluster (om_name (svc_meta svc))) (\<lambda>r. case r of
        Inr _ \<Rightarrow> ok ()
      | Inl err \<Rightarrow>
          if IsNotFound (e_lib env) err then
            let svc' = svc\<lparr>svc_meta := (svc_meta svc)\<lparr>om_owner_refs := [GenerateOwnerRef cluster]\<rparr>\<rparr>
            in bindE (request (Svc_Create (cl_namespace cluster) svc')
                 (api_svc_create env (cl_namespace cluster) svc')) (\<lambda>_. ok ())
          else if IsAlreadyExists (e_lib env) err then ok ()
          else fail err)"

definition ensure_service_step :: "'w env \<Rightarrow> m3db_cluster \<Rightarrow> service \<Rightarrow> ('w st, unit) io" where
  "ensure_service_step env cluster svc =
     catchE (EnsureService env cluster svc) (\<lambda>r. case r of
       Inr _ \<Rightarrow> ok ()
     | Inl e \<Rightarrow>
         let err = Errorf ''error creating service '%s': %v'' [AStr (om_name (svc_meta svc)), AErr e] in
         bindE (WarningEvent env ReasonFailedCreate [] [AErr err]) (\<lambda>_. fail err))"

definition ensureServices :: "'w env \<Rightarrow> m3db_cluster \<Rightarrow> ('w st, unit) io" where
  "ensureServices env cluster =
     bindE (lift_res (GenerateCoordinatorService cluster)) (\<lambda>coordSvc.
     bindE (lift_res (GenerateM3DBService cluster)) (\<lambda>m3dbSvc.
     for_each (ensure_service_step env cluster) [coordSvc, m3dbSvc]))"

section \<open>ConfigMap\<close>

definition errEmptyConfigMap :: gerror where
  "errEmptyConfigMap = Errors_New ''ConfigMapName cannot be empty if non-nil''"

definition ensureConfigMap :: "'w env \<Rightarrow> m3db_cluster \<Rightarrow> ('w st, unit) io" where
  "ensureConfigMap env cluster =
     (case cs_ConfigMapName (cl_spec cluster) of
        Some name \<Rightarrow> if name = [] then fail errEmptyConfigMap else ok ()
      | None \<Rightarrow>
          bindE (lift_res (GenerateDefaultConfigMap (render_config (e_lib env)) cluster)) (\<lambda>wantCM.
          let ns = cl_namespace cluster; name = om_name (cm_meta wantCM) in
          catchE (request (Cm_Get ns name) (api_cm_get env ns name)) (\<lambda>r. case r of
            Inl err \<Rightarrow>
              if \<not> IsNotFound (e_lib env) err then fail err
              else bindE (request (Cm_Create ns wantCM) (api_cm_create env ns wantCM)) (\<lambda>_. ok ())
          | Inr cm \<Rightarrow>
              if map_eq (cm_data cm) (cm_data wantCM) then ok ()
              else bindE (lift_res (cm_merge_patch (e_lib env) cm (cm\<lparr>cm_data := cm_data wantCM\<rparr>)))
                (\<lambda>patchBytes.
                 bindE (request (Cm_Patch ns (om_name (cm_meta cm)) patchBytes)
                   (api_cm_patch env ns (om_name (cm_meta cm)) patchBytes)) (\<lambda>_. ok ())))))"

section \<open>Lemmas\<close>

text \<open>The requests of this theory.\<close>

fun is_service_call :: "call \<Rightarrow> bool" where
  "is_service_call (Svc_Get _ _) = True"
| "is_service_call (Svc_Create _ _) = True"
| "is_service_call (Event Warning _ _ _) = True"
| "is_service_call _ = False"

fun is_configmap_call :: "call \<Rightarrow> bool" where
  "is_configmap_call (Cm_Get _ _) = True"
| "is_configmap_call (Cm_Create _ _) = True"
| "is_configmap_call (Cm_Patch _ _ _) = True"
| "is_configmap_call _ = False"

lemma keeps_only_WarningEvent: "(\<And>t. P (Event t r m a)) \<Longrightarrow> keeps (only P) (WarningEvent env r m a)"
  unfolding WarningEvent_def by (rule keeps_only_event)

lemma keeps_only_NormalEvent: "(\<And>t. P (Event t r m a)) \<Longrightarrow> keeps (only P) (NormalEvent env r m a)"
  unfolding NormalEvent_def by (rule keeps_only_event)

lemma keeps_only_EnsureService:
  assumes "\<And>n m. P (Svc_Get n m)" and "\<And>n v. P (Svc_Create n v)"
  shows "keeps (only P) (EnsureService env cluster svc)"
  unfolding EnsureService_def GetService_def Let_def
  by (intro only.keeps_intros keeps_only_request assms)

lemma keeps_only_ensureServices: "keeps (only is_service_call) (ensureServices env cluster)"
  unfolding ensureServices_def ensure_service_step_def Let_def WarningEvent_def
  by (intro only.keeps_intros keeps_only_EnsureService keeps_only_event) simp_all

lemma keeps_only_ensureConfigMap: "keeps (only is_configmap_call) (ensureConfigMap env cluster)"
  unfolding ensureConfigMap_def Let_def
  by (intro only.keeps_intros keeps_only_request) simp_all

section \<open>Properties\<close>

text \<open>
  \<open>EnsureService\<close> looks the service up and creates it, owned by the cluster, exactly when the
  lookup says that it does not exist; an existing service is left as it is, and any other lookup
  error is returned without a creation (one that says that the service already exists counts as
  success).
\<close>

theorem EnsureService_creates_iff_absent:
  "st_calls (snd (EnsureService env c svc s)) = st_calls s @ Svc_Get (cl_namespace c) (om_name (svc_meta svc))
     # (case fst (api_svc_get env (cl_namespace c) (om_name (svc_meta svc)) (st_world s)) of
          Inr _ \<Rightarrow> []
        | Inl err \<Rightarrow> if IsNotFound (e_lib env) err
            then [Svc_Create (cl_namespace c) (svc\<lparr>svc_meta := (svc_meta svc)\<lparr>om_owner_refs := [GenerateOwnerRef c]\<rparr>\<rparr>)]
            else [])
   \<and> (case fst (api_svc_get env (cl_namespace c) (om_name (svc_meta svc)) (st_world s)) of
          Inr _ \<Rightarrow> fst (EnsureService env c svc s) = Inr ()
        | Inl err \<Rightarrow> IsNotFound (e_lib env) err \<or> fst (EnsureService env c svc s) =
            (if IsAlreadyExists (e_lib env) err then Inr () else Inl err))"
  by (auto simp: EnsureService_def GetService_def catchE_run bindE_run request_def Let_def
      split: prod.splits sum.splits)

end
