(* ===== verification/Cluster_Status.thy ===== *)
theory Cluster_Status
  imports Admin_Clients Add_Cluster
begin

text \<open>
  The parts of \<open>pkg/controller/update_cluster.go\<close> that write the cluster object: status
  conditions, the etcd finalizer, and the cleanup of etcd data before the finalizer is removed.
\<close>

section \<open>Status conditions\<close>

definition crd_UpdateStatus :: "'w env \<Rightarrow> m3db_cluster \<Rightarrow> ('w st, m3db_cluster) io" where
  "crd_UpdateStatus env cluster =
     request (Crd_UpdateStatus (cl_namespace cluster) cluster)
       (api_crd_updateStatus env (cl_namespace cluster) cluster)"

definition set_condition :: "m3db_cluster \<Rightarrow> cluster_condition \<Rightarrow> m3db_cluster" where
  "set_condition cluster cond = cluster\<lparr>cl_status := UpdateCondition (cl_status cluster) cond\<rparr>"

definition setStatusPlacementCreated :: "'w env \<Rightarrow> m3db_cluster \<Rightarrow> ('w st, m3db_cluster) io" where
  "setStatusPlacementCreated env cluster =
     bindE (now env) (\<lambda>t.
     let cluster' = set_condition cluster \<lparr>cc_Type = PlacementInitialized, cc_Status = ConditionTrue,
           cc_LastUpdateTime = t, cc_LastTransitionTime = [], cc_Reason = ''PlacementCreated'',
           cc_Message = ''Created placement''\<rparr>
     in catchE (crd_UpdateStatus env cluster') (\<lambda>r. case r of
          Inl err \<Rightarrow> bindE (WarningEvent env ReasonFailSync ''failed to update placement status: %v'' [AErr err])
            (\<lambda>_. fail err)
        | Inr c \<Rightarrow> ok c))"

text \<open>
  \<open>setStatus\<close> changes the object it is given before it sends it: the first component of the result is
  that object after the call, the second what the API returned.
\<close>

definition setStatus_in_place :: "'w env \<Rightarrow> m3db_cluster \<Rightarrow> condition_type \<Rightarrow> condition_status \<Rightarrow> string \<Rightarrow> string
    \<Rightarrow> ('w st, m3db_cluster \<times> m3db_cluster) io" where
  "setStatus_in_place env cluster condition status reason message =
     (let found = GetCondition (cl_status cluster) condition;
          cond = (case found of
              Some c \<Rightarrow> c
            | None \<Rightarrow> \<lparr>cc_Type = condition, cc_Status = ConditionUnknown, cc_LastUpdateTime = [],
                cc_LastTransitionTime = [], cc_Reason = [], cc_Message = []\<rparr>)
      in if found \<noteq> None \<and> cc_Status cond = status then ok (cluster, cluster)
         else bindE (now env) (\<lambda>curTime.
           let cond1 = (if cc_Status cond \<noteq> status then cond\<lparr>cc_LastTransitionTime := curTime\<rparr> else cond);
               cluster' = set_condition cluster
                 (cond1\<lparr>cc_Status := status, cc_LastUpdateTime := curTime, cc_Reason := reason, cc_Message := message\<rparr>)
           in bindE (crd_UpdateStatus env cluster') (\<lambda>updated. ok (cluster', updated))))"

definition setStatus :: "'w env \<Rightarrow> m3db_cluster \<Rightarrow> condition_type \<Rightarrow> condition_status \<Rightarrow> string \<Rightarrow> string
    \<Rightarrow> ('w st, m3db_cluster) io" where
  "setStatus env cluster condition status reason message =
     bindE (setStatus_in_place env cluster condition status reason message) (\<lambda>(_, updated). ok updated)"

definition setStatusPodsBootstrapping :: "'w env \<Rightarrow> m3db_cluster \<Rightarrow> condition_status \<Rightarrow> string \<Rightarrow> string
    \<Rightarrow> ('w st, m3db_cluster) io" where
  "setStatusPodsBootstrapping env cluster status reason message =
     setStatus env cluster PodsBootstrapping status reason message"

definition reconcileBootstrappingStatus :: "'w env \<Rightarrow> m3db_cluster \<Rightarrow> m3_placement \<Rightarrow> ('w st, m3db_cluster) io" where
  "reconcileBootstrappingStatus env cluster pl =
     (if list_ex (\<lambda>inst. \<not> in_IsAvailable inst) pl then ok cluster
      else setStatus env cluster PodsBootstrapping ConditionFalse ''BootstrapComplete'' ''no bootstraps in progress'')"

section \<open>The etcd finalizer\<close>

fun stringArrayContains :: "string list \<Rightarrow> string \<Rightarrow> bool" where
  "stringArrayContains [] s = False"
| "stringArrayContains (str # arr) s = (if str = s then True else stringArrayContains arr s)"

definition updateFinalizers :: "'w env \<Rightarrow> m3db_cluster \<Rightarrow> ('w st, m3db_cluster) io" where
  "updateFinalizers env cluster =
     catchE (request (Crd_Update (cl_namespace cluster) cluster)
              (api_crd_update env (cl_namespace cluster) cluster)) (\<lambda>r. case r of
       Inl err \<Rightarrow> fail (With_Message err ''error updating cluster finalizers'' [])
     | Inr c \<Rightarrow> ok c)"

definition set_finalizers :: "m3db_cluster \<Rightarrow> string list \<Rightarrow> m3db_cluster" where
  "set_finalizers cluster fs = cluster\<lparr>cl_meta := (cl_meta cluster)\<lparr>om_finalizers := fs\<rparr>\<rparr>"

definition ensureEtcdFinalizer :: "'w env \<Rightarrow> m3db_cluster \<Rightarrow> ('w st, m3db_cluster) io" where
  "ensureEtcdFinalizer env cluster =
     (if stringArrayContains (om_finalizers (cl_meta cluster)) EtcdDeletionFinalizer then ok cluster
      else updateFinalizers env
        (set_finalizers cluster (om_finalizers (cl_meta cluster) @ [EtcdDeletionFinalizer])))"

definition removeEtcdFinalizer :: "'w env \<Rightarrow> m3db_cluster \<Rightarrow> ('w st, m3db_cluster) io" where
  "removeEtcdFinalizer env cluster =
     (if \<not> stringArrayContains (om_finalizers (cl_meta cluster)) EtcdDeletionFinalizer then ok cluster
      else updateFinalizers env
        (set_finalizers cluster (filter (\<lambda>f. f \<noteq> EtcdDeletionFinalizer) (om_finalizers (cl_meta cluster)))))"

section \<open>Cleanup\<close>

text \<open>\<open>List\<close> never returns a nil registry, so \<open>errNilNamespaceRegistry\<close> is never returned here.\<close>

definition deleteAllNamespaces :: "'w env \<Rightarrow> m3db_cluster \<Rightarrow> ('w st, unit) io" where
  "deleteAllNamespaces env cluster =
     bindE (namespaceClientForCluster env cluster) (\<lambda>nsClient.
     catchE (ns_List env nsClient) (\<lambda>r. case r of
       Inl err \<Rightarrow> fail (With_Message err ''error listing namespaces for deletion'' [])
     | Inr registry \<Rightarrow> for_each (\<lambda>name.
         catchE (ns_Delete env nsClient name) (\<lambda>r. case r of
           Inl err \<Rightarrow> fail (With_Message err ''error deleting namespace %s'' [AStr name])
         | Inr _ \<Rightarrow> ok ())) (map fst registry)))"

definition deletePlacement :: "'w env \<Rightarrow> m3db_cluster \<Rightarrow> ('w st, unit) io" where
  "deletePlacement env cluster =
     bindE (placementClientForCluster env cluster) (\<lambda>plClient.
     catchE (pl_Get env plClient) (\<lambda>r. case r of
       Inl err \<Rightarrow>
         if Cause (e_lib env) err = ErrNotFound then ok ()
         else fail (With_Message err ''error fetching placement to delete'' [])
     | Inr _ \<Rightarrow> catchE (pl_Delete env plClient) (\<lambda>r. case r of
         Inl err \<Rightarrow> fail (With_Message err ''error deleting placement for cluster %s'' [AStr (cl_name cluster)])
       | Inr _ \<Rightarrow> ok ())))"

section \<open>Lemmas\<close>

lemma setStatus_eq:
  "setStatus env cluster condition status reason message =
     (let found = GetCondition (cl_status cluster) condition;
          cond = (case found of
              Some c \<Rightarrow> c
            | None \<Rightarrow> \<lparr>cc_Type = condition, cc_Status = ConditionUnknown, cc_LastUpdateTime = [],
                cc_LastTransitionTime = [], cc_Reason = [], cc_Message = []\<rparr>)
      in if found \<noteq> None \<and> cc_Status cond = status then ok cluster
         else bindE (now env) (\<lambda>curTime.
           let cond1 = (if cc_Status cond \<noteq> status then cond\<lparr>cc_LastTransitionTime := curTime\<rparr> else cond)
           in crd_UpdateStatus env (set_condition cluster
                (cond1\<lparr>cc_Status := status, cc_LastUpdateTime := curTime, cc_Reason := reason, cc_Message := message\<rparr>))))"
  unfolding setStatus_def setStatus_in_place_def Let_def by (simp add: bindE_assoc if_distrib [of "\<lambda>m. bindE m _"] del: ok_run)

lemma stringArrayContains_iff [simp]: "stringArrayContains xs s \<longleftrightarrow> s \<in> set xs"
  by (induction xs) auto

lemma keeps_only_crd_UpdateStatus:
  "(\<And>n c. P (Crd_UpdateStatus n c)) \<Longrightarrow> keeps (only P) (crd_UpdateStatus env cluster)"
  unfolding crd_UpdateStatus_def by (intro keeps_only_request)

lemma keeps_only_setStatus_in_place:
  "(\<And>n c. P (Crd_UpdateStatus n c)) \<Longrightarrow> keeps (only P) (setStatus_in_place env cluster ct st rs msg)"
  unfolding setStatus_in_place_def Let_def by (intro only.keeps_intros keeps_only_crd_UpdateStatus keeps_only_now)

lemma keeps_only_setStatus:
  "(\<And>n c. P (Crd_UpdateStatus n c)) \<Longrightarrow> keeps (only P) (setStatus env cluster ct st rs msg)"
  unfolding setStatus_eq Let_def by (intro only.keeps_intros keeps_only_crd_UpdateStatus keeps_only_now)

lemma keeps_only_setStatusPodsBootstrapping:
  "(\<And>n c. P (Crd_UpdateStatus n c)) \<Longrightarrow> keeps (only P) (setStatusPodsBootstrapping env cluster st rs msg)"
  unfolding setStatusPodsBootstrapping_def by (rule keeps_only_setStatus)

lemma keeps_only_reconcileBootstrappingStatus:
  "(\<And>n c. P (Crd_UpdateStatus n c)) \<Longrightarrow> keeps (only P) (reconcileBootstrappingStatus env cluster pl)"
  unfolding reconcileBootstrappingStatus_def by (intro only.keeps_intros keeps_only_setStatus)

lemma keeps_only_setStatusPlacementCreated:
  "(\<And>n c. P (Crd_UpdateStatus n c)) \<Longrightarrow> (\<And>r m a. P (Event Warning r m a)) \<Longrightarrow>
   keeps (only P) (setStatusPlacementCreated env cluster)"
  unfolding setStatusPlacementCreated_def Let_def WarningEvent_def
  by (intro only.keeps_intros keeps_only_crd_UpdateStatus keeps_only_now keeps_only_event)

lemma keeps_only_updateFinalizers:
  "(\<And>n c. P (Crd_Update n c)) \<Longrightarrow> keeps (only P) (updateFinalizers env cluster)"
  unfolding updateFinalizers_def by (intro only.keeps_intros keeps_only_request)

lemma st_calls_updateFinalizers:
  "st_calls (snd (updateFinalizers env c s)) = st_calls s @ [Crd_Update (cl_namespace c) c]"
  by (auto simp: updateFinalizers_def catchE_run request_def split: prod.splits sum.splits)

lemma keeps_only_ensureEtcdFinalizer:
  "(\<And>n c. P (Crd_Update n c)) \<Longrightarrow> keeps (only P) (ensureEtcdFinalizer env cluster)"
  unfolding ensureEtcdFinalizer_def by (intro only.keeps_intros keeps_only_updateFinalizers)

lemma keeps_only_removeEtcdFinalizer:
  "(\<And>n c. P (Crd_Update n c)) \<Longrightarrow> keeps (only P) (removeEtcdFinalizer env cluster)"
  unfolding removeEtcdFinalizer_def by (intro only.keeps_intros keeps_only_updateFinalizers)

lemma keeps_only_deleteAllNamespaces:
  "(\<And>r. P (Http r)) \<Longrightarrow> keeps (only P) (deleteAllNamespaces env cluster)"
  unfolding deleteAllNamespaces_def
  by (intro only.keeps_intros keeps_only_clientForCluster keeps_only_client_ops)

lemma keeps_only_deletePlacement:
  "(\<And>r. P (Http r)) \<Longrightarrow> keeps (only P) (deletePlacement env cluster)"
  unfolding deletePlacement_def
  by (intro only.keeps_intros keeps_only_clientForCluster keeps_only_client_ops)

section \<open>Properties\<close>

definition example_status :: m3db_status where
  "example_status = \<lparr>ms_State = [], ms_Conditions = [\<lparr>cc_Type = PlacementInitialized,
     cc_Status = ConditionFalse, cc_LastUpdateTime = [], cc_LastTransitionTime = [], cc_Reason = [],
     cc_Message = []\<rparr>], ms_Message = [], ms_ObservedGeneration = 0\<rparr>"

definition example_condition :: cluster_condition where
  "example_condition = \<lparr>cc_Type = PodsBootstrapping, cc_Status = ConditionTrue,
     cc_LastUpdateTime = ''t'', cc_LastTransitionTime = [], cc_Reason = [], cc_Message = []\<rparr>"

text \<open>
  \<open>UpdateCondition\<close> keeps the types of the conditions unique; afterwards \<open>GetCondition\<close> and
  \<open>hasConditionTrue\<close> read the new condition for its type and what they read before for every
  other type.
\<close>

theorem UpdateCondition_lookup:
  assumes "conditions_ok s"
  shows "conditions_ok (UpdateCondition s new)
    \<and> GetCondition (UpdateCondition s new) t = (if t = cc_Type new then Some new else GetCondition s t)
    \<and> hasConditionTrue (UpdateCondition s new) t =
        (if t = cc_Type new then cc_Status new = ConditionTrue else hasConditionTrue s t)"
  using assms conditions_ok_UpdateCondition [OF assms]
  by (simp add: GetCondition_UpdateCondition hasConditionTrue_GetCondition)

theorem UpdateCondition_lookup_witness:
  "conditions_ok example_status \<and> conditions_ok (UpdateCondition example_status example_condition)
   \<and> HasPodsBootstrapping (UpdateCondition example_status example_condition)
   \<and> \<not> HasInitializedPlacement (UpdateCondition example_status example_condition)"
proof -
  have ok: "conditions_ok example_status" by (simp add: conditions_ok_def example_status_def)
  from UpdateCondition_lookup [OF ok, of example_condition PodsBootstrapping]
    UpdateCondition_lookup [OF ok, of example_condition PlacementInitialized] ok
  show ?thesis
    by (simp add: HasPodsBootstrapping_def HasInitializedPlacement_def example_condition_def
        example_status_def hasConditionTrue_def)
qed

text \<open>
  The etcd finalizer is written only when it changes: \<open>ensureEtcdFinalizer\<close> sends one update of
  the cluster with the finalizer appended when it is absent and nothing otherwise, and
  \<open>removeEtcdFinalizer\<close> one with every occurrence removed and the others kept in order, or nothing.
\<close>

theorem etcd_finalizer_updates:
  "st_calls (snd (ensureEtcdFinalizer env c s)) = st_calls s @
     (if EtcdDeletionFinalizer \<in> set (om_finalizers (cl_meta c)) then []
      else [Crd_Update (cl_namespace c) (set_finalizers c (om_finalizers (cl_meta c) @ [EtcdDeletionFinalizer]))])
   \<and> st_calls (snd (removeEtcdFinalizer env c s)) = st_calls s @
     (if EtcdDeletionFinalizer \<in> set (om_finalizers (cl_meta c))
      then [Crd_Update (cl_namespace c)
              (set_finalizers c (removeAll EtcdDeletionFinalizer (om_finalizers (cl_meta c))))]
      else [])"
proof -
  note upd = st_calls_updateFinalizers
  have ns: "cl_namespace (set_finalizers c fs) = cl_namespace c" for fs
    by (simp add: set_finalizers_def)
  have "filter (\<lambda>f. f \<noteq> EtcdDeletionFinalizer) xs = removeAll EtcdDeletionFinalizer xs" for xs
    by (induction xs) auto
  then show ?thesis
    by (simp add: ensureEtcdFinalizer_def removeEtcdFinalizer_def upd ns)
qed

text \<open>
  \<open>setStatus\<close> writes the cluster's status only when the condition changes: nothing is sent if the
  condition has the status already, and otherwise one status update in which this condition has the
  new status, reason and message, and all other conditions, the spec and the metadata are as before.
\<close>

theorem setStatus_writes_changes_only:
  "if (\<exists>x. GetCondition (cl_status c) ct = Some x \<and> cc_Status x = st)
   then setStatus env c ct st reason msg s = (Inr c, s)
   else \<exists>c' cond. st_calls (snd (setStatus env c ct st reason msg s)) = st_calls s @ [Crd_UpdateStatus (cl_namespace c) c']
     \<and> cl_meta c' = cl_meta c \<and> cl_spec c' = cl_spec c
     \<and> GetCondition (cl_status c') = (GetCondition (cl_status c))(ct := Some cond)
     \<and> cc_Status cond = st \<and> cc_Reason cond = reason \<and> cc_Message cond = msg"
proof (cases "\<exists>x. GetCondition (cl_status c) ct = Some x \<and> cc_Status x = st")
  case True
  then show ?thesis by (auto simp: setStatus_eq Let_def)
next
  case False
  have ty: "cc_Type x = ct" if "GetCondition (cl_status c) ct = Some x" for x
    using that by (auto simp: GetCondition_def dest!: find_SomeD)
  have upd: "GetCondition (cl_status (set_condition c k)) = (GetCondition (cl_status c))(ct := Some k)"
    if "cc_Type k = ct" for k
    using that by (auto simp: set_condition_def GetCondition_UpdateCondition)
  have frame: "cl_meta (set_condition c k) = cl_meta c" "cl_spec (set_condition c k) = cl_spec c" for k
    by (simp_all add: set_condition_def)
  have calls: "st_calls (snd (bindE (now env) (\<lambda>t. crd_UpdateStatus env (set_condition c (f t))) s)) =
      st_calls s @ [Crd_UpdateStatus (cl_namespace c) (set_condition c (f (fst (api_now env (st_world s)))))]" for f
    by (simp add: bindE_def now_def crd_UpdateStatus_def request_def frame split: prod.splits)
  define old where "old = (case GetCondition (cl_status c) ct of Some x \<Rightarrow> x
    | None \<Rightarrow> \<lparr>cc_Type = ct, cc_Status = ConditionUnknown, cc_LastUpdateTime = [],
        cc_LastTransitionTime = [], cc_Reason = [], cc_Message = []\<rparr>)"
  define new where "new t = (if cc_Status old \<noteq> st then old\<lparr>cc_LastTransitionTime := t\<rparr> else old)
    \<lparr>cc_Status := st, cc_LastUpdateTime := t, cc_Reason := reason, cc_Message := msg\<rparr>" for t
  have new: "cc_Type (new t) = ct" "cc_Status (new t) = st" "cc_Reason (new t) = reason" "cc_Message (new t) = msg" for t
    using ty by (auto simp: new_def old_def split: option.splits)
  have "setStatus env c ct st reason msg = bindE (now env) (\<lambda>t. crd_UpdateStatus env (set_condition c (new t)))"
    using False unfolding setStatus_eq Let_def old_def [symmetric] new_def by (auto simp: old_def)
  with calls [of new] have "st_calls (snd (setStatus env c ct st reason msg s)) = st_calls s @
      [Crd_UpdateStatus (cl_namespace c) (set_condition c (new (fst (api_now env (st_world s)))))]" by simp
  with False show ?thesis using upd new frame by (simp only: if_False) blast
qed

end
