(* ===== verification/Namespaces_Reconcile.thy ===== *)
theory Namespaces_Reconcile
  imports Cluster_Status
begin

text \<open>
  The namespace half of \<open>pkg/controller/update_cluster.go\<close>: the registry of the coordinator is
  brought to the namespaces of the spec, by deletions, creations and ready calls.
\<close>

section \<open>What to create, delete and mark ready\<close>

fun namespacesToCreate :: "registry \<Rightarrow> ns_spec list \<Rightarrow> ns_spec list" where
  "namespacesToCreate registry [] = []"
| "namespacesToCreate registry (ns # specNs) =
     (if \<not> mhas registry (ns_Name ns) then ns # namespacesToCreate registry specNs
      else namespacesToCreate registry specNs)"

definition in_spec :: "ns_spec list \<Rightarrow> unit gomap" where
  "in_spec specNs = fold (\<lambda>ns m. AList.update (ns_Name ns) () m) specNs []"

definition namespacesToDelete :: "registry \<Rightarrow> ns_spec list \<Rightarrow> string list" where
  "namespacesToDelete registry specNs = filter (\<lambda>ns. \<not> mhas (in_spec specNs) ns) (map fst registry)"

definition ready_map :: "registry \<Rightarrow> ns_spec list \<Rightarrow> ns_spec gomap" where
  "ready_map registry specNs =
     fold (\<lambda>(name, options) m.
         case ne_StagingState options of
           Some status \<Rightarrow> if status \<noteq> READY
             then AList.update name \<lparr>ns_Name = name, ns_Preset = [], ns_Options = None\<rparr> m else m
         | None \<Rightarrow> m) registry
       (fold (\<lambda>ns m. if \<not> mhas registry (ns_Name ns) then AList.update (ns_Name ns) ns m else m) specNs [])"

text \<open>The last loop ranges over the map, in an unspecified order (\<open>tie_ns\<close>).\<close>

definition namespacesToReady :: "lib \<Rightarrow> registry \<Rightarrow> ns_spec list \<Rightarrow> ns_spec list" where
  "namespacesToReady lb registry specNs = sort_key (tie_ns lb) (map snd (ready_map registry specNs))"

section \<open>The operations\<close>

text \<open>One iteration of each loop, and the loops.\<close>

definition prune_namespace :: "'w env \<Rightarrow> m3db_cluster \<Rightarrow> string \<Rightarrow> ('w st, unit) io" where
  "prune_namespace env cluster ns =
     bindE (namespaceClientForCluster env cluster) (\<lambda>nsClient.
     catchE (ns_Delete env nsClient ns) (\<lambda>r. case r of
       Inr _ \<Rightarrow> NormalEvent env ''Deleting'' (''deleted namespace '' @ ns) []
     | Inl err \<Rightarrow> if Cause (e_lib env) err = ErrNotFound then ok () else fail err))"

definition pruneNamespaces :: "'w env \<Rightarrow> m3db_cluster \<Rightarrow> registry \<Rightarrow> ('w st, unit) io" where
  "pruneNamespaces env cluster registry =
     for_each (prune_namespace env cluster) (namespacesToDelete registry (cs_Namespaces (cl_spec cluster)))"

definition create_namespace :: "'w env \<Rightarrow> m3db_cluster \<Rightarrow> ns_spec \<Rightarrow> ('w st, unit) io" where
  "create_namespace env cluster ns =
     (case RequestFromSpec (frac_nanos (e_lib env)) (pb_struct (e_lib env)) ns of
        Inl err \<Rightarrow> fail (Errorf ''error forming request for namespace '%s': %v'' [AStr (ns_Name ns), AErr err])
      | Inr req \<Rightarrow>
          bindE (namespaceClientForCluster env cluster) (\<lambda>nsClient.
          catchE (ns_Create env nsClient req) (\<lambda>r. case r of
            Inl err \<Rightarrow> fail (Errorf ''error creating namespace '%s': %w'' [AStr (ns_Name ns), AErr err])
          | Inr _ \<Rightarrow> NormalEvent env ReasonCreating (''created namespace '' @ ns_Name ns) [])))"

definition createNamespaces :: "'w env \<Rightarrow> m3db_cluster \<Rightarrow> registry \<Rightarrow> ('w st, unit) io" where
  "createNamespaces env cluster registry =
     for_each (create_namespace env cluster) (namespacesToCreate registry (cs_Namespaces (cl_spec cluster)))"

text \<open>A status of 404 or 405 ends the ready loop without an error.\<close>

definition ready_namespace :: "'w env \<Rightarrow> m3db_cluster \<Rightarrow> ns_spec \<Rightarrow> ('w st, bool) io" where
  "ready_namespace env cluster ns =
     bindE (namespaceClientForCluster env cluster) (\<lambda>nsClient.
     catchE (ns_Ready env nsClient (ns_Name ns)) (\<lambda>r. case r of
       Inr _ \<Rightarrow> ok False
     | Inl err \<Rightarrow>
         if Cause (e_lib env) err = ErrNotFound \<or> Cause (e_lib env) err = ErrMethodNotAllowed then ok True
         else fail (Errorf ''error readying namespace '%s': %v'' [AStr (ns_Name ns), AErr err])))"

definition readyNamespaces :: "'w env \<Rightarrow> m3db_cluster \<Rightarrow> registry \<Rightarrow> ('w st, unit) io" where
  "readyNamespaces env cluster registry =
     (if cs_ExternalCoordinator (cl_spec cluster) \<noteq> None then ok ()
      else bindE (for_until (ready_namespace env cluster)
             (namespacesToReady (e_lib env) registry (cs_Namespaces (cl_spec cluster)))) (\<lambda>_. ok ()))"

definition reconcileNamespaces :: "'w env \<Rightarrow> m3db_cluster \<Rightarrow> ('w st, unit) io" where
  "reconcileNamespaces env cluster =
     bindE (namespaceClientForCluster env cluster) (\<lambda>nsClient.
     catchE (ns_List env nsClient) (\<lambda>r. case r of
       Inl err \<Rightarrow> bindE (WarningEvent env ReasonFailSync [] [AErr err]) (\<lambda>_. fail err)
     | Inr registry \<Rightarrow>
         bindE (pruneNamespaces env cluster registry) (\<lambda>_.
         bindE (createNamespaces env cluster registry) (\<lambda>_.
         readyNamespaces env cluster registry))))"

section \<open>Lemmas\<close>

lemma namespacesToCreate_filter:
  "namespacesToCreate registry specNs = filter (\<lambda>ns. ns_Name ns \<notin> fst ` set registry) specNs"
  by (induction specNs) (auto simp: mhas_iff)

lemma map_of_in_spec_fold:
  "map_of (fold (\<lambda>ns m. AList.update (ns_Name ns) () m) specNs m) k =
     (if k \<in> ns_Name ` set specNs then Some () else map_of m k)"
  by (induction specNs arbitrary: m) auto

lemma mhas_in_spec [simp]: "mhas (in_spec specNs) k \<longleftrightarrow> k \<in> ns_Name ` set specNs"
  by (simp add: mhas_def in_spec_def map_of_in_spec_fold)

lemma namespacesToDelete_filter:
  "namespacesToDelete registry specNs = filter (\<lambda>k. k \<notin> ns_Name ` set specNs) (map fst registry)"
  by (simp add: namespacesToDelete_def)

lemma ready_names_spec:
  "fst ` set (fold (\<lambda>ns m. if \<not> mhas reg (ns_Name ns) then AList.update (ns_Name ns) ns m else m) specNs m)
     = fst ` set m \<union> {n \<in> ns_Name ` set specNs. \<not> mhas reg n}"
  by (induction specNs arbitrary: m) (auto simp: dom_update)

lemma ready_names_reg:
  "fst ` set (fold (\<lambda>(name, options) m.
         case ne_StagingState options of
           Some status \<Rightarrow> if status \<noteq> READY
             then AList.update name \<lparr>ns_Name = name, ns_Preset = [], ns_Options = None\<rparr> m else m
         | None \<Rightarrow> m) reg m)
     = fst ` set m \<union> {n. \<exists>o'. (n, o') \<in> set reg \<and> ne_StagingState o' \<notin> {None, Some READY}}"
proof (induction reg arbitrary: m)
  case Nil
  then show ?case by simp
next
  case (Cons kv reg)
  obtain k v where kv: "kv = (k, v)" by force
  show ?case
    unfolding kv fold_Cons comp_def split_conv Cons.IH
    by (cases "ne_StagingState v") (auto simp: dom_update)
qed

text \<open>Every entry of the map is stored under its own name.\<close>

definition own_names :: "ns_spec gomap \<Rightarrow> bool" where
  "own_names m \<longleftrightarrow> (\<forall>(k, ns) \<in> set m. ns_Name ns = k)"

lemma own_names_update: "own_names m \<Longrightarrow> ns_Name ns = k \<Longrightarrow> own_names (AList.update k ns m)"
  unfolding own_names_def by (auto dest!: update_entry)

lemma own_names_fold:
  "own_names m \<Longrightarrow> (\<And>x m. own_names m \<Longrightarrow> own_names (f x m)) \<Longrightarrow> own_names (fold f xs m)"
  by (induction xs arbitrary: m) auto

lemma own_names_ready_map: "own_names (ready_map registry specNs)"
  unfolding ready_map_def
  by (intro own_names_fold)
    (auto simp: own_names_def dest!: update_entry split: option.splits if_splits prod.splits)

lemma namespacesToReady_names:
  "ns_Name ` set (namespacesToReady lb registry specNs) =
     {n \<in> ns_Name ` set specNs. n \<notin> fst ` set registry}
     \<union> {n. \<exists>o'. (n, o') \<in> set registry \<and> ne_StagingState o' \<notin> {None, Some READY}}"
proof -
  have "ns_Name ` snd ` set m = fst ` set m" if "own_names m" for m
    using that unfolding own_names_def image_image by (intro image_cong) auto
  note names = this [OF own_names_ready_map, of registry specNs]
  have "fst ` set (ready_map registry specNs) = {n \<in> ns_Name ` set specNs. n \<notin> fst ` set registry}
     \<union> {n. \<exists>o'. (n, o') \<in> set registry \<and> ne_StagingState o' \<notin> {None, Some READY}}"
    unfolding ready_map_def ready_names_reg ready_names_spec by (simp add: mhas_iff)
  with names show ?thesis unfolding namespacesToReady_def set_sort set_map by simp
qed

lemma keeps_only_pruneNamespaces:
  "(\<And>r. P (Http r)) \<Longrightarrow> (\<And>t r m a. P (Event t r m a)) \<Longrightarrow> keeps (only P) (pruneNamespaces env cluster reg)"
  unfolding pruneNamespaces_def prune_namespace_def
  by (intro only.keeps_intros keeps_only_clientForCluster keeps_only_client_ops keeps_only_NormalEvent)

lemma keeps_only_createNamespaces:
  "(\<And>r. P (Http r)) \<Longrightarrow> (\<And>t r m a. P (Event t r m a)) \<Longrightarrow> keeps (only P) (createNamespaces env cluster reg)"
  unfolding createNamespaces_def create_namespace_def
  by (intro only.keeps_intros keeps_only_clientForCluster keeps_only_client_ops keeps_only_NormalEvent)

lemma keeps_only_readyNamespaces:
  "(\<And>r. P (Http r)) \<Longrightarrow> keeps (only P) (readyNamespaces env cluster reg)"
  unfolding readyNamespaces_def ready_namespace_def
  by (intro only.keeps_intros keeps_only_clientForCluster keeps_only_client_ops)

lemma keeps_only_reconcileNamespaces:
  "(\<And>r. P (Http r)) \<Longrightarrow> (\<And>t r m a. P (Event t r m a)) \<Longrightarrow> keeps (only P) (reconcileNamespaces env cluster)"
  unfolding reconcileNamespaces_def
  by (intro only.keeps_intros keeps_only_clientForCluster keeps_only_client_ops keeps_only_WarningEvent
      keeps_only_pruneNamespaces keeps_only_createNamespaces keeps_only_readyNamespaces)

end
