(* ===== verification/Placement_Ops.thy ===== *)
theory Placement_Ops
  imports Cluster_Status Pod_Identity
begin

text \<open>
  The placement half of \<open>pkg/controller/update_cluster.go\<close>: initialising the placement, adding,
  replacing and removing instances, and the order of the pods of a set by ordinal.
\<close>

section \<open>Errors\<close>

definition errEmptyPodList :: gerror where
  "errEmptyPodList = Errors_New ''cannot find removal candidate in empty list''"

definition errPodNotInPlacement :: gerror where
  "errPodNotInPlacement = Errors_New ''instance not found in placement''"

definition errPodNotAbsentFromPlacement :: gerror where
  "errPodNotAbsentFromPlacement = Errors_New ''could not find pod absent from placement''"

section \<open>Pods in order\<close>

definition pod_ordinal :: "pod \<Rightarrow> gerror + podID" where
  "pod_ordinal pd =
     (let parts = split_on (CHR ''-'') (pod_name pd) in
      if length parts = 0 then Inl (Errorf (''invalid pod name: '%s'' @ [CHR 0x27]) [AStr (pod_name pd)])
      else case Atoi (last parts) of
          Inl err \<Rightarrow> Inl (Errorf ''error parsing pod '%s' ID: %v'' [AStr (pod_name pd), AErr err])
        | Inr idN \<Rightarrow> Inr \<lparr>pid_pod = pd, pid_id = idN\<rparr>)"

text \<open>\<open>None\<close> is the nil slice.\<close>

definition sortPods :: "lib \<Rightarrow> pod list option \<Rightarrow> gerror + podID list" where
  "sortPods lb pods = (case pods of
      None \<Rightarrow> Inl errEmptyPodList
    | Some ps \<Rightarrow> res_bind (res_map pod_ordinal ps) (\<lambda>podIDs. Inr (go_sort (tie_pods lb) pid_id podIDs)))"

definition pods_list :: "pod list option \<Rightarrow> pod list" where
  "pods_list pods = (case pods of None \<Rightarrow> [] | Some ps \<Rightarrow> ps)"

definition sort_podsByName :: "lib \<Rightarrow> pod list \<Rightarrow> pod list" where
  "sort_podsByName lb pods = go_sort (tie_names lb) (\<lambda>p. pod_name p) pods"

section \<open>Initialising the placement\<close>

definition placement_selector :: "m3db_cluster \<Rightarrow> selector" where
  "placement_selector cluster =
     SelectorFromSet (AList.update Component ComponentM3DBNode
       (mput_all (cs_Labels (cl_spec cluster)) (BaseLabels cluster)))"

definition validatePlacementWithStatus :: "'w env \<Rightarrow> m3db_cluster \<Rightarrow> ('w st, m3db_cluster) io" where
  "validatePlacementWithStatus env cluster =
     bindE (placementClientForCluster env cluster) (\<lambda>plClient.
     catchE (pl_Get env plClient) (\<lambda>r. case r of
       Inr _ \<Rightarrow>
         if \<not> HasInitializedPlacement (cl_status cluster) then setStatusPlacementCreated env cluster
         else ok cluster
     | Inl err \<Rightarrow>
         if Cause (e_lib env) err \<noteq> ErrNotFound
         then fail (Errorf ''error from m3admin placement get: %v'' [AErr err])
         else
           bindE (read_cache (list_pods env (cl_namespace cluster) (placement_selector cluster))) (\<lambda>pods.
           bindE (map_each (PlacementInstanceFromPod env cluster) (pods_list pods)) (\<lambda>instances.
           bindE (pl_Init env plClient \<lparr>pir_NumShards = cs_NumberOfShards (cl_spec cluster),
               pir_ReplicationFactor = cs_ReplicationFactor (cl_spec cluster),
               pir_Instances = instances\<rparr>) (\<lambda>_.
           setStatusPlacementCreated env cluster)))))"

section \<open>Adding and replacing instances\<close>

definition addPodsToPlacement :: "'w env \<Rightarrow> m3db_cluster \<Rightarrow> pod list \<Rightarrow> ('w st, unit) io" where
  "addPodsToPlacement env cluster pods =
     bindE (map_each (PlacementInstanceFromPod env cluster) pods) (\<lambda>instances.
     let reason = ''adding pods to placement ('' @ str_join '', '' (map (\<lambda>p. pod_name p) pods) @ '')'' in
     bindE (setStatusPodsBootstrapping env cluster ConditionTrue ''PodAdded'' reason) (\<lambda>_.
     bindE (placementClientForCluster env cluster) (\<lambda>plClient.
     pl_Add env plClient instances)))"

text \<open>
  The instance of a pod whose identity has changed: the inner loop runs over the instances, the
  outer one over the pods by ordinal. \<open>None\<close> is the empty result.
\<close>

fun find_replaced :: "lib \<Rightarrow> pod \<Rightarrow> pod_identity \<Rightarrow> m3_instance list \<Rightarrow> gerror + string option" where
  "find_replaced lb pd clusterPodID [] = Inr None"
| "find_replaced lb pd clusterPodID (inst # insts) =
     (if EqualFold (hd (split_on (CHR ''.'') (in_Hostname inst))) (pod_name pd) then
        (case json_identity lb (in_ID inst) of
           Inl err \<Rightarrow> Inl err
         | Inr instancePodID \<Rightarrow>
             if clusterPodID \<noteq> instancePodID then Inr (Some (in_ID inst))
             else find_replaced lb pd clusterPodID insts)
      else find_replaced lb pd clusterPodID insts)"

fun check_pods :: "'w env \<Rightarrow> m3db_cluster \<Rightarrow> m3_instance list \<Rightarrow> podID list \<Rightarrow> ('w st, (string \<times> pod) option) io" where
  "check_pods env cluster insts [] = ok None"
| "check_pods env cluster insts (p # ps) =
     bindE (Identity env (pid_pod p) cluster) (\<lambda>clusterPodID.
     bindE (lift_res (find_replaced (e_lib env) (pid_pod p) clusterPodID insts)) (\<lambda>found.
     case found of
       Some idStr \<Rightarrow> ok (Some (idStr, pid_pod p))
     | None \<Rightarrow> check_pods env cluster insts ps))"

definition checkPodsForReplacement :: "'w env \<Rightarrow> m3db_cluster \<Rightarrow> pod list option \<Rightarrow> m3_placement
    \<Rightarrow> ('w st, (string \<times> pod) option) io" where
  "checkPodsForReplacement env cluster pods pl =
     (let insts = go_sort (tie_insts (e_lib env)) in_ID pl in
      case sortPods (e_lib env) pods of
        Inl err \<Rightarrow> fail (Errorf ''cannot sort pods: %v'' [AErr err])
      | Inr sortedPods \<Rightarrow> check_pods env cluster insts sortedPods)"

text \<open>The result is the cluster as the status update has changed it in place.\<close>

definition replacePodInPlacement :: "'w env \<Rightarrow> m3db_cluster \<Rightarrow> string \<Rightarrow> pod \<Rightarrow> ('w st, m3db_cluster) io" where
  "replacePodInPlacement env cluster leavingInstanceID newPod =
     bindE (PlacementInstanceFromPod env cluster newPod) (\<lambda>newInst.
     let reason = ''replacing '' @ pod_name newPod @ '' pod in placement'' in
     bindE (setStatus_in_place env cluster PodsBootstrapping ConditionTrue ''PodReplaced'' reason) (\<lambda>(cluster, _).
     bindE (placementClientForCluster env cluster) (\<lambda>plClient.
     bindE (pl_Replace env plClient leavingInstanceID newInst) (\<lambda>_.
     ok cluster))))"

section \<open>Expanding and shrinking\<close>

definition instancesInIsoGroup :: "m3_placement \<Rightarrow> string \<Rightarrow> m3_instance list" where
  "instancesInIsoGroup pl isoGroup = filter (\<lambda>inst. in_IsolationGroup inst = isoGroup) pl"

text \<open>The identity of a pod as the text of an instance ID.\<close>

definition pod_instance_id :: "'w env \<Rightarrow> m3db_cluster \<Rightarrow> pod \<Rightarrow> ('w st, string) io" where
  "pod_instance_id env cluster pd =
     bindE (Identity env pd cluster) (\<lambda>pid. lift_res (IdentityJSON pid))"

definition expandPlacementForSet :: "'w env \<Rightarrow> m3db_cluster \<Rightarrow> statefulset \<Rightarrow> isolation_group \<Rightarrow> m3_placement
    \<Rightarrow> ('w st, unit) io" where
  "expandPlacementForSet env cluster sset grp pl =
     (let existInsts = instancesInIsoGroup pl (ig_Name grp) in
      if int (length existInsts) \<ge> ig_NumInstances grp then ok ()
      else if st_readyReplicas (sts_status sset) < ig_NumInstances grp
      then fail (Errorf ''cannot expand set '%s', not yet ready'' [AStr (sts_name sset)])
      else
        bindE (read_cache (list_pods env (cl_namespace cluster) (SelectorFromSet (om_labels (sts_meta sset))))) (\<lambda>pods.
        bindE (collect_each (\<lambda>pd.
            bindE (pod_instance_id env cluster pd) (\<lambda>idStr.
            ok (if pl_Instance pl idStr = None then Some pd else None)))
          (sort_podsByName (e_lib env) (pods_list pods))) (\<lambda>podsToAdd.
        if podsToAdd = [] then fail errPodNotAbsentFromPlacement
        else addPodsToPlacement env cluster podsToAdd)))"

definition findPodInPlacement :: "'w env \<Rightarrow> m3db_cluster \<Rightarrow> m3_placement \<Rightarrow> pod \<Rightarrow> ('w st, m3_instance) io" where
  "findPodInPlacement env cluster pl pd =
     bindE (pod_instance_id env cluster pd) (\<lambda>idStr.
     case pl_Instance pl idStr of
       None \<Rightarrow> fail errPodNotInPlacement
     | Some inst \<Rightarrow> ok inst)"

definition findPodsAndInstancesToRemove :: "'w env \<Rightarrow> m3db_cluster \<Rightarrow> m3_placement \<Rightarrow> pod list option \<Rightarrow> int
    \<Rightarrow> ('w st, (pod \<times> m3_instance) list) io" where
  "findPodsAndInstancesToRemove env cluster pl pods desiredInstanceCount =
     (if pods_list pods = [] then fail errEmptyPodList
      else if desiredInstanceCount \<le> 0
      then fail (Errorf ''desired instance count should be positive, but is: %d'' [AInt desiredInstanceCount])
      else case sortPods (e_lib env) pods of
        Inl err \<Rightarrow> fail (With_Message err ''cannot sort pods'' [])
      | Inr podIDs \<Rightarrow>
          collect_each (\<lambda>p.
            catchE (findPodInPlacement env cluster pl (pid_pod p)) (\<lambda>r. case r of
              Inr inst \<Rightarrow> ok (Some (pid_pod p, inst))
            | Inl err \<Rightarrow>
                if Cause (e_lib env) err = errPodNotInPlacement then ok None
                else fail (With_Message err ''error finding pod in placement'' [])))
          (rev (drop (nat desiredInstanceCount) podIDs)))"

definition shrinkPlacementForSet :: "'w env \<Rightarrow> m3db_cluster \<Rightarrow> statefulset \<Rightarrow> m3_placement \<Rightarrow> int
    \<Rightarrow> ('w st, unit) io" where
  "shrinkPlacementForSet env cluster sset pl desiredInstanceCount =
     (if cs_PreventScaleDown (cl_spec cluster)
      then fail (Errorf ''cannot remove nodes from %s/%s, preventScaleDown is true''
        [AStr (cl_namespace cluster), AStr (cl_name cluster)])
      else
        bindE (read_cache (list_pods env (cl_namespace cluster) (SelectorFromSet (om_labels (sts_meta sset))))) (\<lambda>pods.
        bindE (findPodsAndInstancesToRemove env cluster pl pods desiredInstanceCount) (\<lambda>remove.
        if remove = [] then ok ()
        else bindE (placementClientForCluster env cluster) (\<lambda>plClient.
          pl_Remove env plClient (map (\<lambda>(p, inst). in_ID inst) remove)))))"

section \<open>Frame lemmas\<close>

lemma keeps_only_pod_instance_id [simp]: "keeps (only P) (pod_instance_id env cluster pd)"
  unfolding pod_instance_id_def by (intro only.keeps_intros keeps_only_Identity)

lemma keeps_only_validatePlacementWithStatus:
  "(\<And>r. P (Http r)) \<Longrightarrow> (\<And>n c. P (Crd_UpdateStatus n c)) \<Longrightarrow> (\<And>r m a. P (Event Warning r m a)) \<Longrightarrow>
   keeps (only P) (validatePlacementWithStatus env cluster)"
  unfolding validatePlacementWithStatus_def
  by (intro only.keeps_intros keeps_only_clientForCluster keeps_only_client_ops keeps_only_read
      keeps_only_setStatusPlacementCreated keeps_only_PlacementInstanceFromPod)

lemma keeps_only_addPodsToPlacement:
  "(\<And>r. P (Http r)) \<Longrightarrow> (\<And>n c. P (Crd_UpdateStatus n c)) \<Longrightarrow> keeps (only P) (addPodsToPlacement env cluster pods)"
  unfolding addPodsToPlacement_def Let_def
  by (intro only.keeps_intros keeps_only_clientForCluster keeps_only_client_ops
      keeps_only_setStatusPodsBootstrapping keeps_only_PlacementInstanceFromPod)

lemma keeps_only_check_pods: "keeps (only P) (check_pods env cluster insts ps)"
  by (induction ps) (auto simp del: lift_res_Inl lift_res_Inr ok_run simp: only.keeps_ok
      intro!: only.keeps_bindE only.keeps_lift_res keeps_case_option keeps_only_Identity)

lemma keeps_only_checkPodsForReplacement [simp]: "keeps (only P) (checkPodsForReplacement env cluster pods pl)"
  unfolding checkPodsForReplacement_def Let_def by (intro only.keeps_intros keeps_only_check_pods)

lemma keeps_only_replacePodInPlacement:
  "(\<And>r. P (Http r)) \<Longrightarrow> (\<And>n c. P (Crd_UpdateStatus n c)) \<Longrightarrow> keeps (only P) (replacePodInPlacement env cluster l p)"
  unfolding replacePodInPlacement_def Let_def
  by (intro only.keeps_intros keeps_only_clientForCluster keeps_only_client_ops
      keeps_only_setStatus_in_place keeps_only_PlacementInstanceFromPod)

lemma keeps_only_expandPlacementForSet:
  "(\<And>r. P (Http r)) \<Longrightarrow> (\<And>n c. P (Crd_UpdateStatus n c)) \<Longrightarrow> keeps (only P) (expandPlacementForSet env cluster sset g pl)"
  unfolding expandPlacementForSet_def Let_def
  by (intro only.keeps_intros keeps_only_read keeps_only_pod_instance_id keeps_only_addPodsToPlacement)

lemma keeps_only_findPodInPlacement [simp]: "keeps (only P) (findPodInPlacement env cluster pl pd)"
  unfolding findPodInPlacement_def by (intro only.keeps_intros keeps_only_pod_instance_id)

lemma keeps_only_findPodsAndInstancesToRemove [simp]:
  "keeps (only P) (findPodsAndInstancesToRemove env cluster pl pods d)"
  unfolding findPodsAndInstancesToRemove_def by (intro only.keeps_intros keeps_only_findPodInPlacement)

lemma keeps_only_shrinkPlacementForSet:
  "(\<And>r. P (Http r)) \<Longrightarrow> keeps (only P) (shrinkPlacementForSet env cluster sset pl d)"
  unfolding shrinkPlacementForSet_def
  by (intro only.keeps_intros keeps_only_read keeps_only_findPodsAndInstancesToRemove
      keeps_only_clientForCluster keeps_only_client_ops)

end
