(* ===== verification/Sts_Update.thy ===== *)
theory Sts_Update
  imports Placement_Ops
begin

text \<open>
  The parts of \<open>pkg/controller/controller.go\<close> that read and change StatefulSets: the sets of a
  cluster, validation of the isolation groups, the decision to update a set and what the update
  is, restarting pods under the OnDelete strategy, and removing the progress annotation.
\<close>

section \<open>Reading\<close>

definition errInvalidNumIsoGroups :: gerror where
  "errInvalidNumIsoGroups = Errors_New ''number of isolationgroups not equal to replication factor''"

definition errNonUniqueIsoGroups :: gerror where
  "errNonUniqueIsoGroups = Errors_New ''isolation group names are not unique''"

definition group_names :: "isolation_group list \<Rightarrow> unit gomap" where
  "group_names groups = fold (\<lambda>g m. AList.update (ig_Name g) () m) groups []"

definition validateIsolationGroups :: "m3db_cluster \<Rightarrow> gerror option" where
  "validateIsolationGroups cluster =
     (let groups = cl_groups cluster; names = group_names groups in
      if cs_ReplicationFactor (cl_spec cluster) \<noteq> i32 (int (length groups))
      then Some (With_Message errInvalidNumIsoGroups
        ''replication factor is %d but number of isogroups is %d''
        [AInt (cs_ReplicationFactor (cl_spec cluster)), AInt (int (length groups))])
      else if length names \<noteq> length groups
      then Some (With_Message errNonUniqueIsoGroups ''found %d isolationGroups but %d unique names''
        [AInt (int (length groups)), AInt (int (length names))])
      else None)"

definition getChildStatefulSets :: "'w env \<Rightarrow> m3db_cluster \<Rightarrow> ('w st, statefulset list) io" where
  "getChildStatefulSets env cluster =
     bindE (read_cache (list_sts env (cl_namespace cluster) (SelectorFromSet (BaseLabels cluster)))) (\<lambda>statefulSets.
     ok (filter (\<lambda>sts. IsControlledBy (e_lib env) (sts_meta sts) (cl_meta cluster)) statefulSets))"

section \<open>The update of a set\<close>

definition put_annotation :: "string \<Rightarrow> string \<Rightarrow> statefulset \<Rightarrow> statefulset" where
  "put_annotation k v sts =
     sts\<lparr>sts_meta := (sts_meta sts)\<lparr>om_annotations := AList.update k v (sts_annotations sts)\<rparr>\<rparr>"

definition delete_annotation :: "string \<Rightarrow> statefulset \<Rightarrow> statefulset" where
  "delete_annotation k sts =
     sts\<lparr>sts_meta := (sts_meta sts)\<lparr>om_annotations := AList.delete k (sts_annotations sts)\<rparr>\<rparr>"

text \<open>One iteration of the loop over the annotations of the actual set.\<close>

definition copyAnnotation :: "string \<times> string \<Rightarrow> statefulset \<Rightarrow> statefulset" where
  "copyAnnotation kv expected = (case kv of (k, v) \<Rightarrow>
     if k = Update then
       (if ss_updateStrategy (sts_spec expected) = OnDelete
        then put_annotation ParallelUpdateInProgress ''1'' expected else expected)
     else if k = ParallelUpdate then put_annotation ParallelUpdateInProgress v expected
     else if \<not> mhas (sts_annotations expected) k then put_annotation k v expected
     else expected)"

definition copyAnnotations :: "statefulset \<Rightarrow> statefulset \<Rightarrow> statefulset" where
  "copyAnnotations expected actual = fold copyAnnotation (sts_annotations actual) expected"

text \<open>Whether the annotations of a set ask for an update: \<open>Inr False\<close> is \<open>return nil, false, nil\<close>.\<close>

definition update_requested :: "string gomap \<Rightarrow> gerror + bool" where
  "update_requested annots =
     (if map_of annots Update = Some EnabledVal then Inr True
      else case map_of annots ParallelUpdate of
          None \<Rightarrow> Inr False
        | Some str \<Rightarrow> (case Atoi str of
            Inl err \<Rightarrow> Inl err
          | Inr parallelVal \<Rightarrow> if parallelVal < 1
              then Inl (Errorf ''parallel update value invalid: %v'' [AStr str]) else Inr True))"

text \<open>\<open>None\<close> is \<open>nil, false, nil\<close>; \<open>Some s\<close> is \<open>s, true, nil\<close>.\<close>

definition updatedStatefulSet :: "lib \<Rightarrow> statefulset \<Rightarrow> m3db_cluster \<Rightarrow> isolation_group
    \<Rightarrow> gerror + statefulset option" where
  "updatedStatefulSet lb actual cluster isoGroup =
     res_bind (update_requested (sts_annotations actual)) (\<lambda>requested.
     if \<not> requested then Inr None
     else res_bind (GenerateStatefulSet cluster (ig_Name isoGroup) (ig_NumInstances isoGroup)) (\<lambda>generated.
       let expected = generated\<lparr>sts_spec := (sts_spec generated)\<lparr>ss_replicas := ss_replicas (sts_spec actual)\<rparr>\<rparr>;
           update = (\<not> DeepDerivative lb (sts_spec expected) (sts_spec actual)
             \<or> \<not> map_eq (om_labels (sts_meta expected)) (om_labels (sts_meta actual)))
       in if \<not> update then Inr (Some (delete_annotation ParallelUpdate (delete_annotation Update actual)))
          else Inr (Some (copyAnnotations
            (expected\<lparr>sts_meta := (sts_meta actual)\<lparr>om_annotations := []\<rparr>, sts_status := sts_status actual\<rparr>)
            actual))))"

definition applyStatefulSetUpdate :: "'w env \<Rightarrow> m3db_cluster \<Rightarrow> statefulset \<Rightarrow> ('w st, statefulset) io" where
  "applyStatefulSetUpdate env cluster expected =
     request (Sts_Update (cl_namespace cluster) expected) (api_sts_update env (cl_namespace cluster) expected)"

text \<open>
  \<open>patchStatefulSet\<close>; \<open>set\<close> is overwritten by the result of \<open>Patch\<close> before the error is formatted,
  and the result of a failed call of client-go is an empty object.
\<close>

definition patchStatefulSet :: "'w env \<Rightarrow> statefulset \<Rightarrow> (statefulset \<Rightarrow> statefulset) \<Rightarrow> ('w st, unit) io" where
  "patchStatefulSet env sset action =
     bindE (lift_res (sts_merge_patch (e_lib env) sset (action sset))) (\<lambda>patchBytes.
     let ns = om_namespace (sts_meta (action sset)); name = sts_name (action sset) in
     catchE (request (Sts_Patch ns name patchBytes) (api_sts_patch env ns name patchBytes)) (\<lambda>r. case r of
       Inl err \<Rightarrow> fail (Errorf ''error updating statefulset %s: %w'' [AStr [], AErr err])
     | Inr _ \<Rightarrow> ok ()))"

definition cleanupAnnotations :: "'w env \<Rightarrow> statefulset list \<Rightarrow> ('w st, unit) io" where
  "cleanupAnnotations env childrenSets =
     for_each (\<lambda>sset.
       if \<not> mhas (sts_annotations sset) ParallelUpdateInProgress then ok ()
       else patchStatefulSet env sset (delete_annotation ParallelUpdateInProgress)) childrenSets"

section \<open>Restarting pods\<close>

definition getMaxPodsToUpdate :: "statefulset \<Rightarrow> gerror + int" where
  "getMaxPodsToUpdate actual =
     (case map_of (sts_annotations actual) ParallelUpdateInProgress of
        None \<Rightarrow> Inl (Errors_New ''parallel update annotation missing during statefulset update'')
      | Some rawVal \<Rightarrow> (case Atoi rawVal of
          Inl _ \<Rightarrow> Inl (Errorf ''failed to parse parallel update annotation: %v'' [AStr rawVal])
        | Inr n \<Rightarrow> Inr n))"

definition generatePodSelector :: "lib \<Rightarrow> string \<Rightarrow> statefulset \<Rightarrow> gerror + selector" where
  "generatePodSelector lb updateRev sts =
     (let revReq = Req_NotEquals ''controller-revision-hash'' updateRev;
          stsReq = Req_Equals StatefulSet (sts_name sts)
      in case NewRequirement lb revReq of
           Some err \<Rightarrow> Inl err
         | None \<Rightarrow> (case NewRequirement lb stsReq of
             Some err \<Rightarrow> Inl err
           | None \<Rightarrow> Inr [revReq, stsReq]))"

fun podsToUpdate_loop :: "int \<Rightarrow> pod list \<Rightarrow> podID list \<Rightarrow> pod list" where
  "podsToUpdate_loop numPods toUpdate [] = toUpdate"
| "podsToUpdate_loop numPods toUpdate (p # sortedPods) =
     (let toUpdate' = toUpdate @ [pid_pod p] in
      if int (length toUpdate') = numPods then toUpdate'
      else podsToUpdate_loop numPods toUpdate' sortedPods)"

definition podsToUpdate :: "'w env \<Rightarrow> string \<Rightarrow> statefulset \<Rightarrow> int \<Rightarrow> ('w st, pod list) io" where
  "podsToUpdate env namespace sts numPods =
     (let currRev = st_currentRevision (sts_status sts); updateRev = st_updateRevision (sts_status sts) in
      if currRev = [] then fail (Errors_New ''currentRevision empty'')
      else if updateRev = [] then fail (Errors_New ''updateRevision empty'')
      else if currRev = updateRev then ok []
      else
        bindE (lift_res (generatePodSelector (e_lib env) updateRev sts)) (\<lambda>podSelector.
        bindE (read_cache (list_pods env namespace podSelector)) (\<lambda>pods.
        if pods_list pods = [] then ok []
        else bindE (lift_res (sortPods (e_lib env) pods)) (\<lambda>sortedPods.
          ok (podsToUpdate_loop numPods [] sortedPods)))))"

definition delete_pod :: "'w env \<Rightarrow> pod \<Rightarrow> ('w st, unit) io" where
  "delete_pod env pd =
     (let ns = om_namespace (pod_meta pd) in
      catchE (request (Pod_Delete ns (pod_name pd)) (api_pod_delete env ns (pod_name pd))) (\<lambda>r. case r of
        Inr _ \<Rightarrow> ok ()
      | Inl err \<Rightarrow> if IsNotFound (e_lib env) err then ok () else fail err))"

definition updateStatefulSetPods :: "'w env \<Rightarrow> m3db_cluster \<Rightarrow> statefulset \<Rightarrow> ('w st, bool) io" where
  "updateStatefulSetPods env cluster sts =
     (if \<not> mhas (sts_annotations sts) ParallelUpdateInProgress then ok False
      else
        bindE (lift_res (getMaxPodsToUpdate sts)) (\<lambda>numPods.
        if numPods = 0
        then fail (Errors_New ''parallel update annotation set to 0. will not perform pod updates'')
        else
          bindE (podsToUpdate env (cl_namespace cluster) sts numPods) (\<lambda>pods.
          if length pods > 0 then bindE (for_each (delete_pod env) pods) (\<lambda>_. ok True)
          else
            let sts' = sts\<lparr>sts_status := (sts_status sts)\<lparr>st_currentReplicas := st_updatedReplicas (sts_status sts),
                  st_currentRevision := st_updateRevision (sts_status sts)\<rparr>\<rparr> in
            bindE (request (Sts_UpdateStatus (cl_namespace cluster) sts')
              (api_sts_updateStatus env (cl_namespace cluster) sts')) (\<lambda>_.
            ok False))))"

section \<open>Frame lemmas\<close>

lemma keeps_only_getChildStatefulSets [simp]: "keeps (only P) (getChildStatefulSets env cluster)"
  unfolding getChildStatefulSets_def by (intro only.keeps_intros keeps_only_read)

lemma keeps_only_patchStatefulSet:
  "(\<And>n m b. P (Sts_Patch n m b)) \<Longrightarrow> keeps (only P) (patchStatefulSet env sset action)"
  unfolding patchStatefulSet_def Let_def by (intro only.keeps_intros keeps_only_request)

lemma keeps_only_cleanupAnnotations:
  "(\<And>n m b. P (Sts_Patch n m b)) \<Longrightarrow> keeps (only P) (cleanupAnnotations env sets)"
  unfolding cleanupAnnotations_def by (intro only.keeps_intros keeps_only_patchStatefulSet)

lemma keeps_only_applyStatefulSetUpdate:
  "(\<And>n t. P (Sts_Update n t)) \<Longrightarrow> keeps (only P) (applyStatefulSetUpdate env cluster t)"
  unfolding applyStatefulSetUpdate_def by (rule keeps_only_request)

lemma keeps_only_podsToUpdate [simp]: "keeps (only P) (podsToUpdate env ns sts n)"
  unfolding podsToUpdate_def Let_def by (intro only.keeps_intros keeps_only_read)

lemma keeps_only_updateStatefulSetPods:
  "(\<And>n p. P (Pod_Delete n p)) \<Longrightarrow> (\<And>n t. P (Sts_UpdateStatus n t)) \<Longrightarrow>
   keeps (only P) (updateStatefulSetPods env cluster sts)"
  unfolding updateStatefulSetPods_def delete_pod_def Let_def
  by (intro only.keeps_intros keeps_only_request keeps_only_podsToUpdate)

end
