(* ===== verification/Controller.thy ===== *)
theory Controller
  imports Sts_Update Namespaces_Reconcile
begin

text \<open>
  \<open>handleClusterUpdate\<close> of \<open>pkg/controller/controller.go\<close>, one pass of the control loop over a
  cluster, cut into the phases the source separates by comments; and \<open>handleClusterEvent\<close>,
  \<open>handlePodEvent\<close> and the functions below them. A phase that can end the pass without an error
  returns \<open>True\<close> when it does.
\<close>

section \<open>The phases\<close>

definition marked_deleted :: "m3db_cluster \<Rightarrow> bool" where
  "marked_deleted cluster \<longleftrightarrow> om_deletion (cl_meta cluster) \<noteq> None \<and> om_deletion (cl_meta cluster) \<noteq> Some 0"

text \<open>The cluster has been marked for deletion.\<close>

definition delete_phase :: "'w env \<Rightarrow> m3db_cluster \<Rightarrow> ('w st, unit) io" where
  "delete_phase env cluster =
     (if \<not> stringArrayContains (om_finalizers (cl_meta cluster)) EtcdDeletionFinalizer then ok ()
      else
        bindE (if cs_KeepEtcdDataOnDelete (cl_spec cluster) then ok ()
               else bindE (deleteAllNamespaces env cluster) (\<lambda>_. deletePlacement env cluster)) (\<lambda>_.
        catchE (removeEtcdFinalizer env cluster) (\<lambda>r. case r of
          Inl err \<Rightarrow> fail (With_Message err ''error removing etcd cluster finalizer'' [])
        | Inr _ \<Rightarrow> ok ())))"

text \<open>Finalizer, ConfigMap and services, before any StatefulSet.\<close>

definition ensure_configmap_step :: "'w env \<Rightarrow> m3db_cluster \<Rightarrow> ('w st, unit) io" where
  "ensure_configmap_step env cluster =
     catchE (ensureConfigMap env cluster) (\<lambda>r. case r of
       Inl err \<Rightarrow> bindE (WarningEvent env ReasonFailSync ''failed to ensure configmap: %s'' [AErr err])
         (\<lambda>_. fail err)
     | Inr _ \<Rightarrow> ok ())"

definition prepare_phase :: "'w env \<Rightarrow> m3db_cluster \<Rightarrow> ('w st, m3db_cluster) io" where
  "prepare_phase env cluster0 =
     bindE (if \<not> cs_KeepEtcdDataOnDelete (cl_spec cluster0) then ensureEtcdFinalizer env cluster0
            else ok cluster0) (\<lambda>cluster.
     bindE (ensure_configmap_step env cluster) (\<lambda>_.
     bindE (ensureServices env cluster) (\<lambda>_.
     ok cluster)))"

definition sets_by_name :: "statefulset list \<Rightarrow> statefulset gomap" where
  "sets_by_name sets = fold (\<lambda>sts m. AList.update (sts_name sts) sts m) sets []"

text \<open>Create the first missing StatefulSet: one iteration, and the loop.\<close>

definition create_set :: "'w env \<Rightarrow> m3db_cluster \<Rightarrow> isolation_group list \<Rightarrow> statefulset gomap \<Rightarrow> nat
    \<Rightarrow> ('w st, bool) io" where
  "create_set env cluster isoGroups childrenSetsByName i =
     (if mhas childrenSetsByName (StatefulSetName (cl_name cluster) i) then ok False
      else
        bindE (lift_res (GenerateStatefulSet cluster (ig_Name (isoGroups ! i)) (ig_NumInstances (isoGroups ! i)))) (\<lambda>sts.
        catchE (request (Sts_Create (cl_namespace cluster) sts)
                 (api_sts_create env (cl_namespace cluster) sts)) (\<lambda>r. case r of
          Inr _ \<Rightarrow> ok True
        | Inl err \<Rightarrow> if IsAlreadyExists (e_lib env) err then ok True else fail err)))"

definition create_phase :: "'w env \<Rightarrow> m3db_cluster \<Rightarrow> isolation_group list \<Rightarrow> statefulset gomap
    \<Rightarrow> ('w st, bool) io" where
  "create_phase env cluster isoGroups childrenSetsByName =
     for_until (create_set env cluster isoGroups childrenSetsByName) [0..<length isoGroups]"

fun check_generations :: "statefulset list \<Rightarrow> gerror option" where
  "check_generations [] = None"
| "check_generations (sts # sets) =
     (if om_generation (sts_meta sts) \<noteq> st_observedGeneration (sts_status sts)
      then Some (Errorf ''set %s generation is not up to date (current: %d, observed: %d)''
        [AStr (sts_name sts), AInt (om_generation (sts_meta sts)), AInt (st_observedGeneration (sts_status sts))])
      else check_generations sets)"

definition set_ready :: "statefulset \<Rightarrow> bool" where
  "set_ready sts = (case ss_replicas (sts_spec sts) of
      None \<Rightarrow> True
    | Some replicas \<Rightarrow>
        let ready = (replicas = st_readyReplicas (sts_status sts)) in
        if st_updateRevision (sts_status sts) \<noteq> [] \<and> ss_updateStrategy (sts_spec sts) = RollingUpdate
        then ready \<and> replicas = st_updatedReplicas (sts_status sts)
        else ready)"

fun all_ready :: "statefulset list \<Rightarrow> bool" where
  "all_ready [] = True"
| "all_ready (sts # sets) = (if \<not> set_ready sts then False else all_ready sets)"

text \<open>
  Update the first set that needs it. Every set exists here: the pass ends in \<open>create_phase\<close>
  otherwise. A missing entry would be a nil dereference.
\<close>

definition nil_dereference :: gerror where
  "nil_dereference = External ''nil pointer dereference''"

definition update_set :: "'w env \<Rightarrow> m3db_cluster \<Rightarrow> isolation_group list \<Rightarrow> statefulset gomap \<Rightarrow> nat
    \<Rightarrow> ('w st, bool) io" where
  "update_set env cluster isoGroups childrenSetsByName i =
     (case map_of childrenSetsByName (StatefulSetName (cl_name cluster) i) of
        None \<Rightarrow> fail nil_dereference
      | Some actual \<Rightarrow>
          bindE (lift_res (updatedStatefulSet (e_lib env) actual cluster (isoGroups ! i))) (\<lambda>update.
          case update of
            Some expected \<Rightarrow> bindE (applyStatefulSetUpdate env cluster expected) (\<lambda>_. ok True)
          | None \<Rightarrow>
              if ss_updateStrategy (sts_spec actual) = OnDelete
              then updateStatefulSetPods env cluster actual
              else ok False))"

definition update_phase :: "'w env \<Rightarrow> m3db_cluster \<Rightarrow> isolation_group list \<Rightarrow> statefulset gomap
    \<Rightarrow> ('w st, bool) io" where
  "update_phase env cluster isoGroups childrenSetsByName =
     for_until (update_set env cluster isoGroups childrenSetsByName) [0..<length isoGroups]"

text \<open>Placement and namespaces; the pass goes on with the cluster the API returned.\<close>

definition data_phase :: "'w env \<Rightarrow> m3db_cluster \<Rightarrow> ('w st, m3db_cluster) io" where
  "data_phase env cluster0 =
     bindE (if \<not> HasInitializedPlacement (cl_status cluster0) then validatePlacementWithStatus env cluster0
            else ok cluster0) (\<lambda>cluster.
     bindE (catchE (reconcileNamespaces env cluster) (\<lambda>r. case r of
         Inl err \<Rightarrow> bindE (WarningEvent env ReasonFailedCreate ''failed to create namespace: %s'' [AErr err])
           (\<lambda>_. fail err)
       | Inr _ \<Rightarrow> ok ())) (\<lambda>_.
     bindE (if cs_Namespaces (cl_spec cluster) = []
            then WarningEvent env ReasonUnknown ''cluster %s has no namespaces'' [AStr (cl_name cluster)]
            else ok ()) (\<lambda>_.
     ok cluster)))"

text \<open>Swap in a pod whose identity has changed; the pass goes on with the cluster whose status this has changed.\<close>

definition replace_phase :: "'w env \<Rightarrow> m3db_cluster \<Rightarrow> pod list option \<Rightarrow> m3_placement \<Rightarrow> ('w st, m3db_cluster) io" where
  "replace_phase env cluster pods pl =
     bindE (checkPodsForReplacement env cluster pods pl) (\<lambda>found. case found of
       None \<Rightarrow> ok cluster
     | Some (leavingInstanceID, podToReplace) \<Rightarrow>
         catchE (replacePodInPlacement env cluster leavingInstanceID podToReplace) (\<lambda>r. case r of
           Inl err \<Rightarrow> bindE (WarningEvent env ReasonFailedToUpdate
               (''could not replace instance: '' @ leavingInstanceID) []) (\<lambda>_. fail err)
         | Inr cluster \<Rightarrow> bindE (NormalEvent env ReasonSuccessfulUpdate
               (''successfully replaced instance: '' @ leavingInstanceID) []) (\<lambda>_. ok cluster)))"

definition set_replicas :: "int \<Rightarrow> statefulset \<Rightarrow> statefulset" where
  "set_replicas n sset = sset\<lparr>sts_spec := (sts_spec sset)\<lparr>ss_replicas := Some n\<rparr>\<rparr>"

text \<open>One iteration of the resize loop: the part after its guards, and the whole.\<close>

definition resize_set :: "'w env \<Rightarrow> m3db_cluster \<Rightarrow> m3_placement \<Rightarrow> statefulset \<Rightarrow> isolation_group \<Rightarrow> int
    \<Rightarrow> ('w st, bool) io" where
  "resize_set env cluster pl sset grp current =
     (let desired = ig_NumInstances grp;
          inPlacement = i32 (int (length (instancesInIsoGroup pl (ig_Name grp))))
      in if desired = current \<and> current = inPlacement then ok False
         else if desired = current \<and> inPlacement < current
         then bindE (expandPlacementForSet env cluster sset grp pl) (\<lambda>_. ok True)
         else if inPlacement > desired
         then bindE (shrinkPlacementForSet env cluster sset pl desired) (\<lambda>_. ok True)
         else if current < desired
         then bindE (patchStatefulSet env sset (set_replicas (i32 (current + 1)))) (\<lambda>_. ok True)
         else if cs_PreventScaleDown (cl_spec cluster)
         then fail (Errorf ''cannot shrink statefulset %s/%s, preventScaleDown is true''
           [AStr (om_namespace (sts_meta sset)), AStr (sts_name sset)])
         else bindE (patchStatefulSet env sset (set_replicas (i32 (current - 1)))) (\<lambda>_. ok True))"

definition resize_child :: "'w env \<Rightarrow> m3db_cluster \<Rightarrow> isolation_group list \<Rightarrow> m3_placement \<Rightarrow> statefulset
    \<Rightarrow> ('w st, bool) io" where
  "resize_child env cluster isoGroups pl sset =
     (case map_of (om_labels (sts_meta sset)) IsolationGroup of
        None \<Rightarrow> fail (Errorf ''statefulset %s has no isolation-group label'' [AStr (sts_name sset)])
      | Some zone \<Rightarrow> (case GetByName isoGroups zone of
          None \<Rightarrow> fail (Errorf ''zone %s not found in cluster isoGroups %v''
            [AStr zone, AStrs (map ig_Name isoGroups)])
        | Some grp \<Rightarrow> (case ss_replicas (sts_spec sset) of
            None \<Rightarrow> fail (Errorf ''set %s has unset spec replica'' [AStr (sts_name sset)])
          | Some current \<Rightarrow>
              if ss_updateStrategy (sts_spec sset) = OnDelete
                 \<and> \<not> mhas (sts_annotations sset) ParallelUpdateInProgress
              then ok False
              else resize_set env cluster pl sset grp current)))"

definition resize_phase :: "'w env \<Rightarrow> m3db_cluster \<Rightarrow> isolation_group list \<Rightarrow> m3_placement \<Rightarrow> statefulset list
    \<Rightarrow> ('w st, bool) io" where
  "resize_phase env cluster isoGroups pl childrenSets =
     for_until (resize_child env cluster isoGroups pl) childrenSets"

text \<open>Nothing is left to do: bootstrapping status and progress annotations.\<close>

definition finish_phase :: "'w env \<Rightarrow> m3db_cluster \<Rightarrow> statefulset list \<Rightarrow> ('w st, unit) io" where
  "finish_phase env cluster childrenSets =
     bindE (placementClientForCluster env cluster) (\<lambda>plClient.
     catchE (pl_Get env plClient) (\<lambda>r. case r of
       Inl err \<Rightarrow> fail (Errorf ''error fetching placement: %v'' [AErr err])
     | Inr pl \<Rightarrow>
         catchE (reconcileBootstrappingStatus env cluster pl) (\<lambda>r. case r of
           Inl err \<Rightarrow> fail (Errorf ''error reconciling bootstrap status: %v'' [AErr err])
         | Inr _ \<Rightarrow>
             catchE (cleanupAnnotations env childrenSets) (\<lambda>r. case r of
               Inl err \<Rightarrow> fail (Errorf ''error cleaning up annotations for on delete strategy: %w'' [AErr err])
             | Inr _ \<Rightarrow> ok ()))))"

text \<open>From the pods of the cluster to the end of the pass.\<close>

definition placement_phase :: "'w env \<Rightarrow> m3db_cluster \<Rightarrow> isolation_group list \<Rightarrow> ('w st, unit) io" where
  "placement_phase env cluster isoGroups =
     catchE (read_cache (list_pods env (cl_namespace cluster) (SelectorFromSet (BaseLabels cluster)))) (\<lambda>r. case r of
       Inl err \<Rightarrow> fail (Errorf ''error listing pods to construct placement: %v'' [AErr err])
     | Inr pods \<Rightarrow>
         bindE (placementClientForCluster env cluster) (\<lambda>plClient.
         catchE (pl_Get env plClient) (\<lambda>r. case r of
           Inl err \<Rightarrow> fail (Errorf ''error fetching active placement: %v'' [AErr err])
         | Inr pl \<Rightarrow>
             let unavailInsts = map in_ID (filter (\<lambda>inst. \<not> in_IsAvailable inst) pl) in
             if length unavailInsts > 0
             then WarningEvent env ReasonLongerThanUsual ''current unavailable instances: %d''
               [AInt (int (length unavailInsts))]
             else
               bindE (getChildStatefulSets env cluster) (\<lambda>childrenSets.
               bindE (replace_phase env cluster pods pl) (\<lambda>cluster.
               bindE (resize_phase env cluster isoGroups pl childrenSets) (\<lambda>stop.
               if stop then ok () else finish_phase env cluster childrenSets))))))"

section \<open>\<open>handleClusterUpdate\<close>\<close>

text \<open>The pass once no set is missing.\<close>

definition rest_phase :: "'w env \<Rightarrow> m3db_cluster \<Rightarrow> isolation_group list \<Rightarrow> statefulset list \<Rightarrow> ('w st, unit) io" where
  "rest_phase env cluster isoGroups childrenSets =
     (case check_generations childrenSets of
        Some err \<Rightarrow> fail err
      | None \<Rightarrow>
          if \<not> all_ready childrenSets then ok ()
          else
            bindE (update_phase env cluster isoGroups (sets_by_name childrenSets)) (\<lambda>updated.
            if updated then ok ()
            else
              bindE (data_phase env cluster) (\<lambda>cluster.
              placement_phase env cluster isoGroups)))"

definition sets_phase :: "'w env \<Rightarrow> m3db_cluster \<Rightarrow> ('w st, unit) io" where
  "sets_phase env cluster =
     (let isoGroups = sort_groups (tie_groups (e_lib env)) (cl_groups cluster) in
      bindE (getChildStatefulSets env cluster) (\<lambda>childrenSets.
      bindE (create_phase env cluster isoGroups (sets_by_name childrenSets)) (\<lambda>created.
      if created then ok () else rest_phase env cluster isoGroups childrenSets)))"

definition handleClusterUpdate :: "'w env \<Rightarrow> m3db_cluster \<Rightarrow> ('w st, unit) io" where
  "handleClusterUpdate env cluster =
     (if cs_Frozen (cl_spec cluster) then ok ()
      else if marked_deleted cluster then delete_phase env cluster
      else case validateIsolationGroups cluster of
        Some err \<Rightarrow> bindE (WarningEvent env ReasonFailSync [] [AErr err]) (\<lambda>_. fail err)
      | None \<Rightarrow>
          bindE (prepare_phase env cluster) (\<lambda>cluster.
          if cl_groups cluster = [] then ok () else sets_phase env cluster))"

definition handleClusterEvent :: "'w env \<Rightarrow> string \<Rightarrow> ('w st, unit) io" where
  "handleClusterEvent env key =
     (case SplitMetaNamespaceKey (e_lib env) key of
        Inl _ \<Rightarrow> ok ()
      | Inr (namespace, name) \<Rightarrow>
          catchE (read_cache (get_cluster env namespace name)) (\<lambda>r. case r of
            Inl err \<Rightarrow> if IsNotFound (e_lib env) err then ok () else fail err
          | Inr None \<Rightarrow> fail (Errors_New (''got nil cluster for '' @ key))
          | Inr (Some cluster) \<Rightarrow> handleClusterUpdate env cluster))"

section \<open>Pods\<close>

definition errOrphanedPod :: gerror where
  "errOrphanedPod = Errors_New ''pod does not belong to an m3db cluster''"

definition getClusterValue :: "pod \<Rightarrow> gerror + string" where
  "getClusterValue pd = (case map_of (om_labels (pod_meta pd)) Cluster of
      None \<Rightarrow> Inl errOrphanedPod | Some cluster \<Rightarrow> Inr cluster)"

definition getParentCluster :: "'w env \<Rightarrow> pod \<Rightarrow> ('w st, m3db_cluster option) io" where
  "getParentCluster env pd =
     bindE (lift_res (getClusterValue pd)) (\<lambda>clusterName.
     read_cache (get_cluster env (om_namespace (pod_meta pd)) clusterName))"

definition annotate_identity :: "string \<Rightarrow> pod \<Rightarrow> pod" where
  "annotate_identity idStr pd = pd\<lparr>pod_meta := (pod_meta pd)\<lparr>om_annotations :=
     AList.update AnnotationKeyPodIdentity idStr (om_annotations (pod_meta pd))\<rparr>\<rparr>"

definition handlePodUpdate :: "'w env \<Rightarrow> pod \<Rightarrow> ('w st, unit) io" where
  "handlePodUpdate env pd =
     (case getClusterValue pd of
        Inl _ \<Rightarrow> ok ()
      | Inr _ \<Rightarrow>
          bindE (lift_res (pod_Marshal (e_lib env) pd)) (\<lambda>podBytes.
          bindE (getParentCluster env pd) (\<lambda>found. case found of
            None \<Rightarrow> fail nil_dereference
          | Some cluster \<Rightarrow>
              bindE (Identity env pd cluster) (\<lambda>pid.
              bindE (lift_res (IdentityJSON pid)) (\<lambda>idStr.
              if mhas (om_annotations (pod_meta pd)) AnnotationKeyPodIdentity then ok ()
              else
                bindE (lift_res (pod_Marshal (e_lib env) (annotate_identity idStr pd))) (\<lambda>podModifiedBytes.
                bindE (lift_res (CreateMergePatch (e_lib env) podBytes podModifiedBytes)) (\<lambda>patchBytes.
                let ns = om_namespace (pod_meta pd) in
                bindE (request (Pod_Patch ns (pod_name pd) patchBytes)
                  (api_pod_patch env ns (pod_name pd) patchBytes)) (\<lambda>_.
                NormalEvent env ''SuccessfulSync'' ''updated pod %s with ID annotation'' [AStr (pod_name pd)]))))))))"

definition handlePodEvent :: "'w env \<Rightarrow> string \<Rightarrow> ('w st, unit) io" where
  "handlePodEvent env key =
     (case SplitMetaNamespaceKey (e_lib env) key of
        Inl _ \<Rightarrow> ok ()
      | Inr (namespace, name) \<Rightarrow>
          catchE (read_cache (get_pod env namespace name)) (\<lambda>r. case r of
            Inl err \<Rightarrow> if IsNotFound (e_lib env) err then ok () else fail err
          | Inr None \<Rightarrow> fail (Errors_New (''got nil pod for key '' @ key))
          | Inr (Some pd) \<Rightarrow> handlePodUpdate env pd))"

end
