(* ===== verification/Work_Queue.thy ===== *)
theory Work_Queue
  imports Controller
begin

text \<open>
  The event handlers and work queues of \<open>pkg/controller/controller.go\<close>, and the options of the
  controller. The queues belong to client-go; what the controller does with them is recorded as a
  sequence of operations. An item taken from a queue may have any type (\<open>Other_Item\<close>).
\<close>

section \<open>Queues\<close>

datatype queue_item = Key string | Other_Item opaque

datatype queue_op = AddRateLimited string | Done queue_item | Forget queue_item

record 'w qst =
  q_st :: "'w st"
  q_cluster :: "queue_op list"
  q_pod :: "queue_op list"

definition on_cluster_queue :: "queue_op \<Rightarrow> 'w qst \<Rightarrow> 'w qst" where
  "on_cluster_queue x q = q\<lparr>q_cluster := q_cluster q @ [x]\<rparr>"

definition on_pod_queue :: "queue_op \<Rightarrow> 'w qst \<Rightarrow> 'w qst" where
  "on_pod_queue x q = q\<lparr>q_pod := q_pod q @ [x]\<rparr>"

text \<open>An object of an informer: with metadata, a tombstone, or something else.\<close>

datatype informer_obj = Object object_meta | Tombstone "object_meta option" | Invalid

definition key_of :: "lib \<Rightarrow> informer_obj \<Rightarrow> gerror + string" where
  "key_of lb obj = (case obj of
      Object m \<Rightarrow> MetaNamespaceKeyFunc lb m
    | _ \<Rightarrow> Inl (External ''object has no meta''))"

definition enqueueCluster :: "'w env \<Rightarrow> informer_obj \<Rightarrow> 'w qst \<Rightarrow> 'w qst" where
  "enqueueCluster env obj q = (case key_of (e_lib env) obj of
      Inl _ \<Rightarrow> q | Inr key \<Rightarrow> on_cluster_queue (AddRateLimited key) q)"

definition enqueuePod :: "'w env \<Rightarrow> informer_obj \<Rightarrow> 'w qst \<Rightarrow> 'w qst" where
  "enqueuePod env obj q = (case key_of (e_lib env) obj of
      Inl _ \<Rightarrow> q | Inr key \<Rightarrow> on_pod_queue (AddRateLimited key) q)"

definition run_world :: "('w st, 'a) io \<Rightarrow> 'w qst \<Rightarrow> (gerror + 'a) \<times> 'w qst" where
  "run_world m q = (case m (q_st q) of (r, s) \<Rightarrow> (r, q\<lparr>q_st := s\<rparr>))"

definition handleStatefulSetUpdate :: "'w env \<Rightarrow> informer_obj \<Rightarrow> 'w qst \<Rightarrow> 'w qst" where
  "handleStatefulSetUpdate env obj q =
     (let found = (case obj of Object m \<Rightarrow> Some m | Tombstone t \<Rightarrow> t | Invalid \<Rightarrow> None) in
      case found of
        None \<Rightarrow> q
      | Some object \<Rightarrow> (case GetControllerOf (e_lib env) object of
          None \<Rightarrow> q
        | Some owner \<Rightarrow>
            if or_kind owner \<noteq> ''m3dbcluster'' then q
            else (case run_world (read_cache (get_cluster env (om_namespace object) (or_name owner))) q of
                (Inl _, q') \<Rightarrow> q'
              | (Inr None, q') \<Rightarrow> enqueueCluster env Invalid q'
              | (Inr (Some cluster), q') \<Rightarrow> enqueueCluster env (Object (cl_meta cluster)) q')))"

text \<open>The handlers \<open>NewM3DBController\<close> registers with the informers.\<close>

datatype informer_event =
    Cluster_Added informer_obj
  | Cluster_Updated informer_obj informer_obj
  | Cluster_Deleted informer_obj
  | Sts_Added informer_obj
  | Sts_Updated object_meta object_meta
  | Sts_Deleted informer_obj
  | Pod_Added informer_obj
  | Pod_Updated informer_obj informer_obj
  | Pod_Deleted informer_obj

fun informer_handlers :: "'w env \<Rightarrow> informer_event \<Rightarrow> 'w qst \<Rightarrow> 'w qst" where
  "informer_handlers env (Cluster_Added obj) q = enqueueCluster env obj q"
| "informer_handlers env (Cluster_Updated old new) q = enqueueCluster env new q"
| "informer_handlers env (Cluster_Deleted obj) q = q"
| "informer_handlers env (Sts_Added obj) q = handleStatefulSetUpdate env obj q"
| "informer_handlers env (Sts_Updated old new) q =
     (if om_resource_version new = om_resource_version old then q
      else handleStatefulSetUpdate env (Object new) q)"
| "informer_handlers env (Sts_Deleted obj) q = handleStatefulSetUpdate env obj q"
| "informer_handlers env (Pod_Added obj) q = enqueuePod env obj q"
| "informer_handlers env (Pod_Updated old new) q = enqueuePod env new q"
| "informer_handlers env (Pod_Deleted obj) q = q"

section \<open>Workers\<close>

text \<open>
  One round of a worker on the item \<open>Get\<close> returned (\<open>None\<close>: the queue is shut down). The closure
  defers \<open>Done\<close>, so it comes after the handler and after \<open>Forget\<close>. The result says whether the
  loop goes on; an error is only logged (\<open>runtime.HandleError\<close>).
\<close>

definition processClusterQueueItem :: "'w env \<Rightarrow> queue_item option \<Rightarrow> 'w qst \<Rightarrow> bool \<times> 'w qst" where
  "processClusterQueueItem env item q = (case item of
      None \<Rightarrow> (False, q)
    | Some (Other_Item x) \<Rightarrow>
        (True, on_cluster_queue (Done (Other_Item x)) (on_cluster_queue (Forget (Other_Item x)) q))
    | Some (Key key) \<Rightarrow> (case run_world (handleClusterEvent env key) q of
        (Inl _, q') \<Rightarrow> (True, on_cluster_queue (Done (Key key)) q')
      | (Inr _, q') \<Rightarrow> (True, on_cluster_queue (Done (Key key)) (on_cluster_queue (Forget (Key key)) q'))))"

definition processPodQueueItem :: "'w env \<Rightarrow> queue_item option \<Rightarrow> 'w qst \<Rightarrow> bool \<times> 'w qst" where
  "processPodQueueItem env item q = (case item of
      None \<Rightarrow> (False, q)
    | Some (Other_Item x) \<Rightarrow>
        (True, on_pod_queue (Done (Other_Item x)) (on_pod_queue (Forget (Other_Item x)) q))
    | Some (Key key) \<Rightarrow> (case run_world (handlePodEvent env key) q of
        (Inl _, q') \<Rightarrow> (True, on_pod_queue (Done (Key key)) q')
      | (Inr _, q') \<Rightarrow> (True, on_pod_queue (Done (Key key)) (on_pod_queue (Forget (Key key)) q'))))"

text \<open>The loops on the items the queue hands out, until it is shut down.\<close>

fun runClusterLoop :: "'w env \<Rightarrow> queue_item option list \<Rightarrow> 'w qst \<Rightarrow> 'w qst" where
  "runClusterLoop env [] q = q"
| "runClusterLoop env (item # items) q = (case processClusterQueueItem env item q of
     (False, q') \<Rightarrow> q' | (True, q') \<Rightarrow> runClusterLoop env items q')"

fun runPodLoop :: "'w env \<Rightarrow> queue_item option list \<Rightarrow> 'w qst \<Rightarrow> 'w qst" where
  "runPodLoop env [] q = q"
| "runPodLoop env (item # items) q = (case processPodQueueItem env item q of
     (False, q') \<Rightarrow> q' | (True, q') \<Rightarrow> runPodLoop env items q')"

section \<open>Options (\<open>options.go\<close>)\<close>

text \<open>Which of the fields are set (not nil).\<close>

record controller_options =
  opt_logger :: bool
  opt_scope :: bool
  opt_kclient :: bool
  opt_podIDProvider :: bool
  opt_crdClient :: bool
  opt_kubeClient :: bool
  opt_kubeInformerFactory :: bool
  opt_filteredInformerFactory :: bool
  opt_m3dbClusterInformerFactory :: bool
  opt_kubectlProxy :: bool

datatype controller_option =
    CWithScope bool | CWithLogger bool | CWithKClient bool | CWithCRDClient bool | CWithKubeClient bool
  | CWithKubeInformerFactory bool | CWithFilteredInformerFactory bool
  | CWithM3DBClusterInformerFactory bool | CWithKubectlProxy bool | CWithPodIdentityProvider bool

fun execute_option :: "controller_option \<Rightarrow> controller_options \<Rightarrow> controller_options" where
  "execute_option (CWithScope s) opts = opts\<lparr>opt_scope := s\<rparr>"
| "execute_option (CWithLogger l) opts = opts\<lparr>opt_logger := l\<rparr>"
| "execute_option (CWithKClient kc) opts = opts\<lparr>opt_kclient := kc\<rparr>"
| "execute_option (CWithCRDClient cl) opts = opts\<lparr>opt_crdClient := cl\<rparr>"
| "execute_option (CWithKubeClient cl) opts = opts\<lparr>opt_kubeClient := cl\<rparr>"
| "execute_option (CWithKubeInformerFactory f) opts = opts\<lparr>opt_kubeInformerFactory := f\<rparr>"
| "execute_option (CWithFilteredInformerFactory f) opts = opts\<lparr>opt_filteredInformerFactory := f\<rparr>"
| "execute_option (CWithM3DBClusterInformerFactory f) opts = opts\<lparr>opt_m3dbClusterInformerFactory := f\<rparr>"
| "execute_option (CWithKubectlProxy u) opts = opts\<lparr>opt_kubectlProxy := u\<rparr>"
| "execute_option (CWithPodIdentityProvider p) opts = opts\<lparr>opt_podIDProvider := p\<rparr>"

definition validate_options :: "controller_options \<Rightarrow> gerror option" where
  "validate_options opts =
     (if \<not> opt_kclient opts then Some (Errors_New ''k8sops client cannot be nil'')
      else if \<not> opt_crdClient opts then Some (Errors_New ''CRD client cannot be nil'')
      else if \<not> opt_kubeClient opts then Some (Errors_New ''kubeclient cannot be nil'')
      else if \<not> opt_kubeInformerFactory opts then Some (Errors_New ''kubeInformerFactory cannot be nil'')
      else if \<not> opt_m3dbClusterInformerFactory opts
      then Some (Errors_New ''m3dbClusterInformerFactory cannot be nil'')
      else if \<not> opt_podIDProvider opts then Some (Errors_New ''pod ID provider cannot be nil'')
      else None)"

section \<open>\<open>NewM3DBController\<close>\<close>

text \<open>The event recorder and its options; without a logger a silent one is used.\<close>

record eventer_options =
  ev_kubeClient :: bool
  ev_logger :: bool
  ev_namespace :: string
  ev_component :: string

datatype eventer_option = EWithClient bool | EWithLogger bool | EWithNamespace string | EWithComponent string

fun execute_eventer :: "eventer_option \<Rightarrow> eventer_options \<Rightarrow> eventer_options" where
  "execute_eventer (EWithClient c) opts = opts\<lparr>ev_kubeClient := c\<rparr>"
| "execute_eventer (EWithLogger l) opts = opts\<lparr>ev_logger := l\<rparr>"
| "execute_eventer (EWithNamespace ns) opts = opts\<lparr>ev_namespace := ns\<rparr>"
| "execute_eventer (EWithComponent c) opts = opts\<lparr>ev_component := c\<rparr>"

definition NewEventRecorder :: "eventer_option list \<Rightarrow> gerror + eventer_options" where
  "NewEventRecorder eventerOpts =
     (let opts = fold execute_eventer eventerOpts
        \<lparr>ev_kubeClient = False, ev_logger = False, ev_namespace = [], ev_component = []\<rparr>
      in if \<not> ev_kubeClient opts then Inl (Errorf ''kubeClient must not be nil'' [])
         else Inr (opts\<lparr>ev_logger := True\<rparr>))"

definition controllerName :: string where
  "controllerName = ''m3db-controller''"

text \<open>
  What the constructor makes of its options: the recorder, the options of the admin clients and the
  choice of \<open>clusterURLFn\<close>, which are the fields of the environment the handlers run in. The
  informers are taken from \<open>filteredInformerFactory\<close> without a check.
\<close>

record new_controller =
  nc_recorder :: eventer_options
  nc_adminOpts :: "admin_option list"
  nc_kubectlProxy :: bool

definition no_options :: controller_options where
  "no_options = \<lparr>opt_logger = False, opt_scope = False, opt_kclient = False, opt_podIDProvider = False,
     opt_crdClient = False, opt_kubeClient = False, opt_kubeInformerFactory = False,
     opt_filteredInformerFactory = False, opt_m3dbClusterInformerFactory = False, opt_kubectlProxy = False\<rparr>"

definition NewM3DBController :: "controller_option list \<Rightarrow> gerror + new_controller" where
  "NewM3DBController opts =
     (let options = fold execute_option opts no_options in
      case validate_options options of
        Some err \<Rightarrow> Inl err
      | None \<Rightarrow>
          if \<not> opt_filteredInformerFactory options then Inl nil_dereference
          else res_bind (NewEventRecorder [EWithClient (opt_kubeClient options), EWithLogger True,
              EWithComponent controllerName])
            (\<lambda>r. Inr \<lparr>nc_recorder = r, nc_adminOpts = [WithLogger], nc_kubectlProxy = opt_kubectlProxy options\<rparr>))"

text \<open>Options that pass the validation but make the constructor dereference a nil factory.\<close>

lemma validated_options_without_filtered_factory:
  "validate_options options = None \<Longrightarrow> fold execute_option opts no_options = options \<Longrightarrow>
   \<not> opt_filteredInformerFactory options \<Longrightarrow> NewM3DBController opts = Inl nil_dereference"
  by (simp add: NewM3DBController_def Let_def)

text \<open>The validated options give a recorder: the constructor has no other error.\<close>

lemma NewM3DBController_Inr:
  "(\<exists>c. NewM3DBController opts = Inr c) \<longleftrightarrow>
     validate_options (fold execute_option opts no_options) = None
     \<and> opt_filteredInformerFactory (fold execute_option opts no_options)"
  by (auto simp: NewM3DBController_def NewEventRecorder_def validate_options_def Let_def split: if_splits)

section \<open>Properties\<close>

text \<open>Whether a worker's handler accepts an item.\<close>

definition handled :: "(string \<Rightarrow> ('w st, unit) io) \<Rightarrow> queue_item \<Rightarrow> 'w qst \<Rightarrow> bool" where
  "handled h it q = (case it of Other_Item _ \<Rightarrow> True | Key k \<Rightarrow> fst (h k (q_st q)) = Inr ())"

text \<open>
  C32: A worker settles every item it takes from its queue: the item is marked done exactly once, as
  the last operation, and forgotten just before that if and only if it was handled without an
  error or is not a key. The worker goes on in every case, touches no other queue, and adds nothing
  back to the queue: an item whose handling failed is retried only on a later event.
\<close>

theorem worker_settles_items:
  "fst (processClusterQueueItem env (Some it) q)
   \<and> q_cluster (snd (processClusterQueueItem env (Some it) q)) =
       q_cluster q @ (if handled (handleClusterEvent env) it q then [Forget it, Done it] else [Done it])
   \<and> q_pod (snd (processClusterQueueItem env (Some it) q)) = q_pod q
   \<and> fst (processPodQueueItem env (Some it) q)
   \<and> q_pod (snd (processPodQueueItem env (Some it) q)) =
       q_pod q @ (if handled (handlePodEvent env) it q then [Forget it, Done it] else [Done it])
   \<and> q_cluster (snd (processPodQueueItem env (Some it) q)) = q_cluster q"
  by (cases it) (auto simp: processClusterQueueItem_def processPodQueueItem_def run_world_def handled_def
      on_cluster_queue_def on_pod_queue_def split: prod.splits sum.splits)

text \<open>
  An event of a StatefulSet enqueues at most the cluster that controls the set, as found by the
  owner's name in the set's namespace, and only if the owner is an M3DB cluster; it never touches
  the pod queue or sends a request.
\<close>

theorem sts_event_enqueues_owner:
  "\<exists>ks. q_cluster (handleStatefulSetUpdate env obj q) = q_cluster q @ map AddRateLimited ks
     \<and> q_pod (handleStatefulSetUpdate env obj q) = q_pod q
     \<and> st_calls (q_st (handleStatefulSetUpdate env obj q)) = st_calls (q_st q)
     \<and> (ks = [] \<or> (\<exists>m owner cluster k. (obj = Object m \<or> obj = Tombstone (Some m))
          \<and> GetControllerOf (e_lib env) m = Some owner \<and> or_kind owner = ''m3dbcluster''
          \<and> fst (get_cluster env (om_namespace m) (or_name owner) (st_world (q_st q))) = Inr (Some cluster)
          \<and> MetaNamespaceKeyFunc (e_lib env) (cl_meta cluster) = Inr k \<and> ks = [k]))"
proof -
  have enq: "enqueueCluster env Invalid q' = q'" for q'
    by (simp add: enqueueCluster_def key_of_def)
  show ?thesis
  proof (cases "case obj of Object m \<Rightarrow> Some m | Tombstone t \<Rightarrow> t | Invalid \<Rightarrow> None")
    case None
    then have "handleStatefulSetUpdate env obj q = q" by (simp add: handleStatefulSetUpdate_def)
    then show ?thesis by (intro exI [of _ "[]"]) simp
  next
    case (Some m)
    then have obj: "obj = Object m \<or> obj = Tombstone (Some m)" by (cases obj) auto
    show ?thesis
    proof (cases "GetControllerOf (e_lib env) m")
      case None
      with Some have "handleStatefulSetUpdate env obj q = q" by (simp add: handleStatefulSetUpdate_def)
      then show ?thesis by (intro exI [of _ "[]"]) simp
    next
      case (Some owner)
      note owner = Some
      obtain r w where r: "get_cluster env (om_namespace m) (or_name owner) (st_world (q_st q)) = (r, w)" by force
      have run: "handleStatefulSetUpdate env obj q = (if or_kind owner \<noteq> ''m3dbcluster'' then q
          else case r of Inl _ \<Rightarrow> q\<lparr>q_st := (q_st q)\<lparr>st_world := w\<rparr>\<rparr>
            | Inr None \<Rightarrow> q\<lparr>q_st := (q_st q)\<lparr>st_world := w\<rparr>\<rparr>
            | Inr (Some cluster) \<Rightarrow> enqueueCluster env (Object (cl_meta cluster)) (q\<lparr>q_st := (q_st q)\<lparr>st_world := w\<rparr>\<rparr>))"
        using obj owner r
        by (auto simp: handleStatefulSetUpdate_def run_world_def read_cache_def enq split: sum.splits option.splits)
      show ?thesis
      proof (cases "\<exists>cluster k. or_kind owner = ''m3dbcluster'' \<and> r = Inr (Some cluster)
          \<and> MetaNamespaceKeyFunc (e_lib env) (cl_meta cluster) = Inr k")
        case True
        then obtain cluster k where "or_kind owner = ''m3dbcluster''" "r = Inr (Some cluster)"
          "MetaNamespaceKeyFunc (e_lib env) (cl_meta cluster) = Inr k" by blast
        with run obj owner r show ?thesis
          by (intro exI [of _ "[k]"]) (auto simp: enqueueCluster_def key_of_def on_cluster_queue_def)
      next
        case False
        then have "handleStatefulSetUpdate env obj q \<in> {q, q\<lparr>q_st := (q_st q)\<lparr>st_world := w\<rparr>\<rparr>}"
          using run by (auto simp: enqueueCluster_def key_of_def split: sum.splits option.splits if_splits)
        then show ?thesis by (intro exI [of _ "[]"]) auto
      qed
    qed
  qed
qed

end
