(* ===== verification/Generators_Props.thy ===== *)
theory Generators_Props
  imports Generators Example_Cluster
begin

text \<open>
  What the generators of \<open>pkg/k8sops/m3db\<close> produce: when a StatefulSet can be generated, its shape,
  and that the headless service selects its pods.
\<close>

section \<open>Properties\<close>

text \<open>
  C31: \<open>GenerateStatefulSet\<close> succeeds exactly when the named isolation group is in the spec, the
  affinity settings of the first group with that name are complete, and the cluster does not
  name an empty config map; every other input is an error.
\<close>

theorem GenerateStatefulSet_succeeds_iff:
  "(\<exists>s. GenerateStatefulSet c n k = Inr s) \<longleftrightarrow>
     (\<exists>i g. find_group (cl_groups c) n = Some (i, g) \<and> affinity_ok g) \<and>
     cs_ConfigMapName (cl_spec c) \<noteq> Some []"
proof (cases "find_group (cl_groups c) n")
  case None
  then show ?thesis by (simp add: GenerateStatefulSet_def)
next
  case (Some ig)
  obtain i g where ig: "ig = (i, g)" by force
  show ?thesis
    using Some ig GenerateStatefulSetAffinity_ok [of g] buildConfigMapComponents_ok [of c]
    by (auto simp: GenerateStatefulSet_def res_bind_Inr split: sum.splits)
qed

text \<open>
  C30: a generated StatefulSet is named after the index of its group in the spec, has the asked
  number of replicas, is owned by the cluster through one controller reference, has one label map
  as its own labels, its selector and the labels of its pods, and has the update strategy the
  spec asks for; its first container is the M3DB node with the container ports of the spec, every
  volume it mounts is a volume of the pod or a claim template, and no two are mounted in one place.
\<close>

theorem GenerateStatefulSet_shape:
  assumes "GenerateStatefulSet c n k = Inr s"
  shows "\<exists>i g ct cts. find_group (cl_groups c) n = Some (i, g)
      \<and> sts_name s = StatefulSetName (cl_name c) i
      \<and> ss_replicas (sts_spec s) = Some k
      \<and> om_owner_refs (sts_meta s) = [GenerateOwnerRef c]
      \<and> om_labels (sts_meta s) = sts_objLabels (sts_name s) n c
      \<and> ss_selector (sts_spec s) = om_labels (sts_meta s)
      \<and> ss_templateLabels (sts_spec s) = om_labels (sts_meta s)
      \<and> ss_updateStrategy (sts_spec s) = (if cs_OnDeleteUpdateStrategy (cl_spec c) then OnDelete else RollingUpdate)
      \<and> ps_containers (ss_podSpec (sts_spec s)) = ct # cts
      \<and> ct_name ct = sts_name s \<and> ct_ports ct = generateContainerPorts c
      \<and> cts = cs_SidecarContainers (cl_spec c)
      \<and> vm_name ` set (ct_volumeMounts ct) \<subseteq>
          vol_name ` set (ps_volumes (ss_podSpec (sts_spec s))) \<union> pvc_name ` set (ss_volumeClaimTemplates (sts_spec s))
      \<and> distinct (map vm_mountPath (ct_volumeMounts ct))"
proof -
  obtain i g a config where s: "find_group (cl_groups c) n = Some (i, g)" "GenerateStatefulSetAffinity g = Inr a"
    "buildConfigMapComponents c = Inr config" "s = assemble_statefulset c n k i g a config"
    using assms by (rule GenerateStatefulSet_Inr)
  have config: "vol_name (fst config) = ''m3-configuration''" "vm_name (snd config) = ''m3-configuration''" "vm_mountPath (snd config) = ''/etc/m3db/''"
    using s(3) by (auto simp: buildConfigMapComponents_def Let_def split: if_splits)
  have "''m3db-data'' \<in> vol_name ` set (fst (data_claims c g)) \<union> pvc_name ` set (snd (data_claims c g))"
    by (simp add: data_claims_def split: option.splits)
  with s(1) config show ?thesis unfolding s(4)
    by (auto simp: assemble_simps generateDownwardAPIVolume_def generateDownwardAPIVolumeMount_def)
qed

text \<open>
  the headless Service selects the pods of every StatefulSet generated for the same cluster:
  each label its selector asks for is on the pod template, unless the spec has a label of its own
  under the component, isolation group or StatefulSet key.
\<close>

theorem M3DBService_selects_pods:
  assumes sts: "GenerateStatefulSet c n k = Inr s"
    and svc: "GenerateM3DBService c = Inr v"
    and labels: "map_ok (cs_Labels (cl_spec c))"
    and free: "\<not> mhas (cs_Labels (cl_spec c)) Component"
            "\<not> mhas (cs_Labels (cl_spec c)) IsolationGroup" "\<not> mhas (cs_Labels (cl_spec c)) StatefulSet"
  shows "map_of (svc_selector v) \<subseteq>\<^sub>m map_of (ss_templateLabels (sts_spec s))"
proof -
  have sel: "map_of (svc_selector v) = (map_of (BaseLabels c))(Component \<mapsto> ComponentM3DBNode)"
    using svc by (auto simp: GenerateM3DBService_def Let_def split: if_splits)
  have tmpl: "map_of (ss_templateLabels (sts_spec s)) =
      (map_of (BaseLabels c))(IsolationGroup \<mapsto> n, StatefulSet \<mapsto> sts_name s, Component \<mapsto> ComponentM3DBNode)
        ++ map_of (cs_Labels (cl_spec c))"
    using GenerateStatefulSet_labels [OF sts] map_of_sts_objLabels [OF labels] by simp
  have base: "map_of (BaseLabels c) = [App \<mapsto> AppM3DB, Cluster \<mapsto> cl_name c] ++ map_of (cs_Labels (cl_spec c))"
    by (rule map_of_BaseLabels [OF labels])
  have keys: "IsolationGroup \<noteq> App" "IsolationGroup \<noteq> Cluster" "StatefulSet \<noteq> App" "StatefulSet \<noteq> Cluster"
    by (simp_all add: label_defs)
  show ?thesis
    using free keys unfolding map_le_def sel tmpl base
    by (auto simp: mhas_def map_add_def split: option.splits)
qed

lemma example_set_generates:
  "\<exists>t. GenerateStatefulSet (example_cluster [example_group ''a'' 3]) ''a'' 3 = Inr t"
  by (simp add: GenerateStatefulSet_def example_cluster_def example_spec_def example_group_def
      GenerateStatefulSetAffinity_def buildConfigMapComponents_def defaultConfigMapName_def Let_def)

theorem GenerateStatefulSet_shape_witness:
  "\<exists>t. GenerateStatefulSet (example_cluster [example_group ''a'' 3]) ''a'' 3 = Inr t
     \<and> sts_name t = StatefulSetName ''c'' 0 \<and> ss_replicas (sts_spec t) = Some 3"
proof -
  obtain t where t: "GenerateStatefulSet (example_cluster [example_group ''a'' 3]) ''a'' 3 = Inr t"
    using example_set_generates by blast
  from GenerateStatefulSet_shape [OF t] t show ?thesis by auto
qed

theorem M3DBService_selects_pods_witness:
  "\<exists>t v. GenerateStatefulSet (example_cluster [example_group ''a'' 3]) ''a'' 3 = Inr t
     \<and> GenerateM3DBService (example_cluster [example_group ''a'' 3]) = Inr v
     \<and> map_of (svc_selector v) \<subseteq>\<^sub>m map_of (ss_templateLabels (sts_spec t))"
proof -
  let ?c = "example_cluster [example_group ''a'' 3]"
  obtain t where t: "GenerateStatefulSet ?c ''a'' 3 = Inr t" using example_set_generates by blast
  obtain v where v: "GenerateM3DBService ?c = Inr v" by (simp add: GenerateM3DBService_def Let_def)
  have "map_ok (cs_Labels (cl_spec ?c))" "\<not> mhas (cs_Labels (cl_spec ?c)) k" for k
    by (simp_all add: example_cluster_def example_spec_def mhas_def)
  from M3DBService_selects_pods [OF t v this(1) this(2) this(2) this(2)] t v show ?thesis by blast
qed

end
