(* ===== verification/Settled_Objects.thy ===== *)
theory Settled_Objects
  imports Controller Example_Cluster
begin

text \<open>
  Objects that one successful run brings to their final form: the default ConfigMap of a cluster,
  which a second run only reads, and the identity annotation of a pod, which is written once.
\<close>

section \<open>The ConfigMap\<close>

text \<open>
  What the API server promises of ConfigMaps: a read changes nothing and returns the object of that
  name, an object that was created is read back with its data, and an object that was patched with
  the difference between what was read and a modified copy is read back with the modified data.
\<close>

definition configmap_reads :: "'w env \<Rightarrow> bool" where
  "configmap_reads env \<longleftrightarrow> (\<forall>ns n w. snd (api_cm_get env ns n w) = w
     \<and> (\<forall>cm. fst (api_cm_get env ns n w) = Inr cm \<longrightarrow> om_name (cm_meta cm) = n))"

definition holds_data :: "'w env \<Rightarrow> string \<Rightarrow> string \<Rightarrow> string gomap \<Rightarrow> 'w \<Rightarrow> bool" where
  "holds_data env ns n d w \<longleftrightarrow> (case fst (api_cm_get env ns n w) of Inl _ \<Rightarrow> False | Inr cm \<Rightarrow> map_eq (cm_data cm) d)"

definition configmap_writes :: "'w env \<Rightarrow> bool" where
  "configmap_writes env \<longleftrightarrow>
     (\<forall>ns cm w x w'. api_cm_create env ns cm w = (Inr x, w') \<longrightarrow> holds_data env ns (om_name (cm_meta cm)) (cm_data cm) w')
     \<and> (\<forall>ns n w cm cm' p x w'. fst (api_cm_get env ns n w) = Inr cm \<longrightarrow> cm_merge_patch (e_lib env) cm cm' = Inr p
          \<longrightarrow> api_cm_patch env ns n p w = (Inr x, w') \<longrightarrow> holds_data env ns n (cm_data cm') w')"

lemma patch_held:
  "configmap_writes env \<Longrightarrow> fst (api_cm_get env ns n w) = Inr cm \<Longrightarrow> cm_merge_patch (e_lib env) cm cm' = Inr p \<Longrightarrow>
   api_cm_patch env ns n p w = (Inr x, w') \<Longrightarrow> holds_data env ns n (cm_data cm') w'"
  unfolding configmap_writes_def by blast

lemma GenerateDefaultConfigMap_name:
  "GenerateDefaultConfigMap render cluster = Inr cm \<Longrightarrow> om_name (cm_meta cm) = defaultConfigMapName (cl_name cluster)"
  by (auto simp: GenerateDefaultConfigMap_def res_bind_Inr split: if_splits)

text \<open>After a successful run the ConfigMap the operator owns has the generated data.\<close>

lemma ensureConfigMap_data:
  assumes laws: "configmap_reads env" "configmap_writes env"
    and own: "cs_ConfigMapName (cl_spec cluster) = None"
    and gen: "GenerateDefaultConfigMap (render_config (e_lib env)) cluster = Inr want"
    and run: "ensureConfigMap env cluster s = (Inr (), s')"
  shows "holds_data env (cl_namespace cluster) (om_name (cm_meta want)) (cm_data want) (st_world s')"
proof -
  let ?ns = "cl_namespace cluster" and ?n = "om_name (cm_meta want)"
  obtain r where get: "api_cm_get env ?ns ?n (st_world s) = (r, st_world s)"
    using laws(1) by (metis configmap_reads_def prod.collapse)
  show ?thesis
  proof (cases r)
    case (Inl err)
    with run own gen get obtain x where "api_cm_create env ?ns want (st_world s) = (Inr x, st_world s')"
      by (auto simp: ensureConfigMap_def Let_def catchE_run bindE_run request_def split: if_splits prod.splits sum.splits)
    with laws(2) show ?thesis by (auto simp: configmap_writes_def)
  next
    case (Inr cm)
    with laws(1) get have name: "om_name (cm_meta cm) = ?n" by (metis configmap_reads_def fst_conv)
    show ?thesis
    proof (cases "map_eq (cm_data cm) (cm_data want)")
      case True
      with run own gen get Inr have "st_world s' = st_world s"
        by (auto simp: ensureConfigMap_def Let_def catchE_run bindE_run request_def)
      with True get Inr show ?thesis by (simp add: holds_data_def)
    next
      case False
      with run own gen get Inr name obtain p x
        where "cm_merge_patch (e_lib env) cm (cm\<lparr>cm_data := cm_data want\<rparr>) = Inr p"
          and "api_cm_patch env ?ns ?n p (st_world s) = (Inr x, st_world s')"
        by (auto simp: ensureConfigMap_def Let_def catchE_run bindE_run request_def split: prod.splits sum.splits)
      from patch_held [OF laws(2) _ this] get Inr show ?thesis by simp
    qed
  qed
qed

text \<open>A run that finds the generated data only reads.\<close>

lemma ensureConfigMap_settled:
  assumes "configmap_reads env" "cs_ConfigMapName (cl_spec cluster) = None"
    and "GenerateDefaultConfigMap (render_config (e_lib env)) cluster = Inr want"
    and "holds_data env (cl_namespace cluster) (om_name (cm_meta want)) (cm_data want) (st_world s)"
  shows "ensureConfigMap env cluster s =
    (Inr (), s\<lparr>st_calls := st_calls s @ [Cm_Get (cl_namespace cluster) (om_name (cm_meta want))]\<rparr>)"
proof -
  obtain cm where "api_cm_get env (cl_namespace cluster) (om_name (cm_meta want)) (st_world s) = (Inr cm, st_world s)"
    "map_eq (cm_data cm) (cm_data want)"
    using assms(1,4) unfolding holds_data_def configmap_reads_def by (metis (no_types, lifting) obj_sumE prod.collapse sum.simps(5) sum.simps(6))
  with assms(2,3) show ?thesis
    by (simp add: ensureConfigMap_def Let_def catchE_run bindE_run request_def)
qed

section \<open>The identity annotation\<close>

text \<open>The calls of a pod update: none, or the patch that adds the annotation and then the event.\<close>

definition annotates :: "'w env \<Rightarrow> pod \<Rightarrow> bool \<Rightarrow> call list \<Rightarrow> bool" where
  "annotates env pd success cs \<longleftrightarrow> (\<exists>pid idStr a b patch. pi_Name pid = pod_name pd \<and> IdentityJSON pid = Inr idStr
     \<and> pod_Marshal (e_lib env) pd = Inr a \<and> pod_Marshal (e_lib env) (annotate_identity idStr pd) = Inr b
     \<and> CreateMergePatch (e_lib env) a b = Inr patch
     \<and> cs = Pod_Patch (om_namespace (pod_meta pd)) (pod_name pd) patch
         # (if success then [Event Normal ''SuccessfulSync'' ''updated pod %s with ID annotation'' [AStr (pod_name pd)]] else []))"

lemma emits_patch_pod:
  assumes pid: "pi_Name pid = pod_name pd \<and> pod_name pd \<noteq> []" and old: "pod_Marshal (e_lib env) pd = Inr podBytes"
  shows "emits (bindE (lift_res (IdentityJSON pid)) (\<lambda>idStr.
      if mhas (om_annotations (pod_meta pd)) AnnotationKeyPodIdentity then ok ()
      else bindE (lift_res (pod_Marshal (e_lib env) (annotate_identity idStr pd))) (\<lambda>podModifiedBytes.
        bindE (lift_res (CreateMergePatch (e_lib env) podBytes podModifiedBytes)) (\<lambda>patchBytes.
        let ns = om_namespace (pod_meta pd) in
        bindE (request (Pod_Patch ns (pod_name pd) patchBytes) (api_pod_patch env ns (pod_name pd) patchBytes)) (\<lambda>_.
        NormalEvent env ''SuccessfulSync'' ''updated pod %s with ID annotation'' [AStr (pod_name pd)])))))
    (\<lambda>r cs. cs = [] \<or> mhas (om_annotations (pod_meta pd)) AnnotationKeyPodIdentity = False \<and> annotates env pd (r = Inr ()) cs)"
  unfolding emits_def
  using pid old by (auto simp: annotates_def NormalEvent_def bindE_run request_def post_event_def Let_def
      split: sum.splits prod.splits)

lemma emits_handlePodUpdate:
  "emits (handlePodUpdate env pd) (\<lambda>r cs. cs = [] \<or> mhas (om_labels (pod_meta pd)) Cluster
     \<and> mhas (om_annotations (pod_meta pd)) AnnotationKeyPodIdentity = False \<and> annotates env pd (r = Inr ()) cs)"
proof (cases "map_of (om_labels (pod_meta pd)) Cluster")
  case None
  then show ?thesis by (simp add: handlePodUpdate_def getClusterValue_def emits_ok del: ok_run)
next
  case (Some c)
  then have label: "mhas (om_labels (pod_meta pd)) Cluster" by (simp add: mhas_def)
  show ?thesis
  proof (cases "pod_Marshal (e_lib env) pd")
    case (Inl e)
    with Some show ?thesis by (simp add: handlePodUpdate_def getClusterValue_def emits_fail)
  next
    case (Inr podBytes)
    with Some label show ?thesis
    unfolding handlePodUpdate_def getClusterValue_def getParentCluster_def
    by (auto simp del: ok_run fail_run lift_res_Inl intro!: emits_after_silent [OF keeps_only_read returns_any]
        emits_after_silent [OF keeps_only_Identity Identity_name] emits_fail emits_mono [OF emits_patch_pod]
        split: option.splits)
  qed
qed

section \<open>Properties\<close>

text \<open>
  C22: \<open>ensureConfigMap\<close> is idempotent: after a successful run a second one succeeds, leaves the API
  server as it is and only reads the default ConfigMap; with a ConfigMap of the user's it sends
  nothing at all.
\<close>

theorem ensureConfigMap_idempotent:
  assumes "configmap_reads env" "configmap_writes env"
    and "ensureConfigMap env cluster s = (Inr (), s')"
  shows "ensureConfigMap env cluster s' = (Inr (), s'\<lparr>st_calls := st_calls s' @
     (if cs_ConfigMapName (cl_spec cluster) = None
      then [Cm_Get (cl_namespace cluster) (defaultConfigMapName (cl_name cluster))] else [])\<rparr>)"
proof (cases "cs_ConfigMapName (cl_spec cluster)")
  case None
  with assms(3) obtain want where gen: "GenerateDefaultConfigMap (render_config (e_lib env)) cluster = Inr want"
    by (auto simp: ensureConfigMap_def bindE_run split: sum.splits)
  from ensureConfigMap_settled [OF assms(1) None gen ensureConfigMap_data [OF assms(1,2) None gen assms(3)]]
  show ?thesis by (simp add: None GenerateDefaultConfigMap_name [OF gen])
next
  case (Some name)
  with assms(3) show ?thesis by (auto simp: ensureConfigMap_def split: if_splits)
qed

text \<open>An API server with room for one ConfigMap; a patch is the new text of \<open>m3.yml\<close>.\<close>

definition one_configmap_lib :: lib where
  "one_configmap_lib = example_lib\<lparr>cm_merge_patch := (\<lambda>a b. case cm_data b of
     [(k, v)] \<Rightarrow> if k = ''m3.yml'' then Inr v else Inl offline | _ \<Rightarrow> Inl offline)\<rparr>"

definition one_configmap_env :: "config_map option env" where
  "one_configmap_env = (offline_env one_configmap_lib)\<lparr>
     api_cm_get := (\<lambda>ns n w. (case w of
        Some cm \<Rightarrow> if om_name (cm_meta cm) = n then Inr cm else Inl not_found | None \<Rightarrow> Inl not_found, w)),
     api_cm_create := (\<lambda>ns cm w. (Inr cm, Some cm)),
     api_cm_patch := (\<lambda>ns n p w. case w of
        Some cm \<Rightarrow> (Inr cm, Some (cm\<lparr>cm_data := [(''m3.yml'', p)]\<rparr>)) | None \<Rightarrow> (Inl not_found, None))\<rparr>"

lemma one_configmap_env_sel [simp]:
  "api_cm_get one_configmap_env ns n w = (case w of
     Some cm \<Rightarrow> if om_name (cm_meta cm) = n then Inr cm else Inl not_found | None \<Rightarrow> Inl not_found, w)"
  "api_cm_create one_configmap_env ns cm w = (Inr cm, Some cm)"
  "api_cm_patch one_configmap_env ns n p w = (case w of
     Some cm \<Rightarrow> (Inr cm, Some (cm\<lparr>cm_data := [(''m3.yml'', p)]\<rparr>)) | None \<Rightarrow> (Inl not_found, None))"
  "cm_merge_patch (e_lib one_configmap_env) a b = (case cm_data b of
     [(k, v)] \<Rightarrow> if k = ''m3.yml'' then Inr v else Inl offline | _ \<Rightarrow> Inl offline)"
  "render_config (e_lib one_configmap_env) d = Inr ''config''"
  "IsNotFound (e_lib one_configmap_env) e \<longleftrightarrow> e = not_found"
  by (simp_all add: one_configmap_env_def one_configmap_lib_def offline_env_def example_lib_def)

theorem ensureConfigMap_idempotent_witness:
  "\<exists>s'. ensureConfigMap one_configmap_env (example_cluster []) (start None) = (Inr (), s')
     \<and> st_world s' \<noteq> None
     \<and> ensureConfigMap one_configmap_env (example_cluster []) s' =
         (Inr (), s'\<lparr>st_calls := st_calls s' @ [Cm_Get ''ns'' ''m3db-config-map-c'']\<rparr>)"
proof -
  have "configmap_reads one_configmap_env" by (auto simp: configmap_reads_def split: option.splits if_splits)
  moreover have "configmap_writes one_configmap_env"
    by (auto simp: configmap_writes_def holds_data_def map_eq_iff split: option.splits if_splits list.splits)
  moreover have "cs_ConfigMapName (cl_spec (example_cluster [])) = None" "cs_EtcdEndpoints (cl_spec (example_cluster [])) \<noteq> []"
    by (simp_all add: example_cluster_def example_spec_def)
  moreover from this obtain s' where "ensureConfigMap one_configmap_env (example_cluster []) (start None) = (Inr (), s')"
    "st_world s' \<noteq> None"
    by (simp add: ensureConfigMap_def GenerateDefaultConfigMap_def start_def catchE_run bindE_run request_def Let_def)
  ultimately show ?thesis
    using ensureConfigMap_idempotent [of one_configmap_env "example_cluster []" "start None"]
    by (auto simp: defaultConfigMapName_def)
qed

text \<open>
  C23: A pod update sends nothing for a pod without the cluster label or with an identity annotation
  already; otherwise it sends at most one patch, which adds the JSON text of an identity with the
  pod's own name as that annotation and nothing else, and announces it only when the patch and with
  it the whole update succeeded.
\<close>

theorem handlePodUpdate_annotates_once:
  "\<exists>cs. st_calls (snd (handlePodUpdate env pd s)) = st_calls s @ cs \<and> (cs = [] \<or>
     mhas (om_labels (pod_meta pd)) Cluster \<and> mhas (om_annotations (pod_meta pd)) AnnotationKeyPodIdentity = False
     \<and> annotates env pd (fst (handlePodUpdate env pd s) = Inr ()) cs)"
  using emits_handlePodUpdate unfolding emits_def by blast

end
