(* ===== verification/Controller_Safety.thy ===== *)
theory Controller_Safety
  imports Controller Example_Cluster
begin

text \<open>
  Safety of one pass of the control loop, as statements about the requests it sends, for every
  behaviour of the API server, the caches and the coordinator.
\<close>

section \<open>Classes of requests\<close>

text \<open>Creation or replacement of a StatefulSet.\<close>

fun is_sts_change :: "call \<Rightarrow> bool" where
  "is_sts_change (Sts_Create _ _) = True"
| "is_sts_change (Sts_Update _ _) = True"
| "is_sts_change _ = False"

abbreviation no_change :: "call \<Rightarrow> bool" where
  "no_change \<equiv> \<lambda>c. \<not> is_sts_change c"

fun is_sts_call :: "call \<Rightarrow> bool" where
  "is_sts_call (Sts_Create _ _) = True"
| "is_sts_call (Sts_Update _ _) = True"
| "is_sts_call (Sts_UpdateStatus _ _) = True"
| "is_sts_call (Sts_Patch _ _ _) = True"
| "is_sts_call (Pod_Delete _ _) = True"
| "is_sts_call _ = False"

fun is_create :: "call \<Rightarrow> bool" where
  "is_create (Sts_Create _ _) = True"
| "is_create _ = False"

text \<open>At most one such request, and nothing after it.\<close>

definition one_change :: "call list \<Rightarrow> bool" where
  "one_change cs \<longleftrightarrow> list_all no_change cs
     \<or> (\<exists>pre c. cs = pre @ [c] \<and> list_all no_change pre \<and> is_sts_change c)"

lemma one_change_none: "list_all no_change cs \<Longrightarrow> one_change cs"
  by (simp add: one_change_def)

lemma one_change_single: "one_change [c]"
  by (simp add: one_change_def)

lemma one_change_append: "list_all no_change cs \<Longrightarrow> one_change ds \<Longrightarrow> one_change (cs @ ds)"
  unfolding one_change_def by (metis append_assoc list_all_append)

section \<open>What each phase sends\<close>

lemma keeps_only_delete_phase:
  "(\<And>r. P (Http r)) \<Longrightarrow> (\<And>n c. P (Crd_Update n c)) \<Longrightarrow> keeps (only P) (delete_phase env cluster)"
  unfolding delete_phase_def
  by (intro only.keeps_intros keeps_only_deleteAllNamespaces keeps_only_deletePlacement
      keeps_only_removeEtcdFinalizer)

text \<open>A successful \<open>ensureServices\<close> has looked up both services.\<close>

lemma EnsureService_gets:
  "emits (EnsureService env cluster svc) (\<lambda>r cs. list_all is_service_call cs
     \<and> Svc_Get (cl_namespace cluster) (om_name (svc_meta svc)) \<in> set cs)"
  unfolding EnsureService_def GetService_def Let_def
  by (rule emits_catchE [OF emits_request [of "\<lambda>r cs. cs = [_]"] emits_only [of is_service_call]])
    (auto intro!: only.keeps_intros keeps_only_request)

lemma ensure_service_step_gets:
  "emits (ensure_service_step env cluster svc) (\<lambda>r cs. list_all is_service_call cs
     \<and> Svc_Get (cl_namespace cluster) (om_name (svc_meta svc)) \<in> set cs)"
  unfolding ensure_service_step_def Let_def WarningEvent_def
  by (rule emits_catchE [OF EnsureService_gets emits_only [of is_service_call]])
    (auto intro!: only.keeps_intros keeps_only_event)

lemma ensureServices_gets:
  "emits (ensureServices env cluster) (\<lambda>r cs. list_all is_service_call cs \<and>
     (r = Inr () \<longrightarrow> Svc_Get (cl_namespace cluster) (CoordinatorServiceName (cl_name cluster)) \<in> set cs
       \<and> Svc_Get (cl_namespace cluster) (HeadlessServiceName (cl_name cluster)) \<in> set cs))"
proof (cases "cl_name cluster = []")
  case True
  then show ?thesis
    by (simp add: ensureServices_def GenerateCoordinatorService_def emits_fail)
next
  case False
  then obtain a b where gen: "GenerateCoordinatorService cluster = Inr a" "GenerateM3DBService cluster = Inr b"
    "om_name (svc_meta a) = CoordinatorServiceName (cl_name cluster)"
    "om_name (svc_meta b) = HeadlessServiceName (cl_name cluster)"
    by (simp add: GenerateCoordinatorService_def GenerateM3DBService_def Let_def)
  let ?step = "ensure_service_step env cluster"
  have eq: "ensureServices env cluster = bindE (?step a) (\<lambda>_. bindE (?step b) (\<lambda>_. ok ()))"
    by (simp add: ensureServices_def gen(1,2))
  have tail: "emits (bindE (?step b) (\<lambda>_. ok ())) (\<lambda>r cs. list_all is_service_call cs
      \<and> Svc_Get (cl_namespace cluster) (om_name (svc_meta b)) \<in> set cs)"
    by (rule emits_bindE [OF ensure_service_step_gets emits_ok [of "\<lambda>r cs. cs = []"]]) auto
  show ?thesis unfolding eq
    by (rule emits_bindE [OF ensure_service_step_gets tail]) (use gen(3,4) in auto)
qed

text \<open>The requests of the preparation, and what a successful one implies.\<close>

fun is_prepare_call :: "call \<Rightarrow> bool" where
  "is_prepare_call (Crd_Update _ _) = True"
| "is_prepare_call c = (is_configmap_call c \<or> is_service_call c)"

definition services_looked_up :: "m3db_cluster \<Rightarrow> call list \<Rightarrow> bool" where
  "services_looked_up cluster cs \<longleftrightarrow>
     Svc_Get (cl_namespace cluster) (CoordinatorServiceName (cl_name cluster)) \<in> set cs
     \<and> Svc_Get (cl_namespace cluster) (HeadlessServiceName (cl_name cluster)) \<in> set cs"

lemma prepare_calls: "is_service_call c \<Longrightarrow> is_prepare_call c" "is_configmap_call c \<Longrightarrow> is_prepare_call c"
  by (cases c; simp)+

lemma keeps_only_ensure_configmap_step: "keeps (only is_prepare_call) (ensure_configmap_step env cluster)"
  unfolding ensure_configmap_step_def WarningEvent_def
  by (intro only.keeps_intros keeps_only_event keeps_only_mono [OF keeps_only_ensureConfigMap])
    (auto intro: prepare_calls)

lemma prepare_phase_gets:
  "emits (prepare_phase env cluster0) (\<lambda>r cs. list_all is_prepare_call cs
     \<and> (\<forall>cluster. r = Inr cluster \<longrightarrow> services_looked_up cluster cs))"
proof -
  have svcs: "emits (bindE (ensureServices env cluster) (\<lambda>_. ok cluster))
      (\<lambda>r cs. list_all is_prepare_call cs \<and> (\<forall>c. r = Inr c \<longrightarrow> c = cluster \<and> services_looked_up c cs))" for cluster
    by (rule emits_bindE [OF ensureServices_gets emits_ok [of "\<lambda>r cs. r = Inr cluster \<and> cs = []"]])
      (auto simp: services_looked_up_def list_all_iff prepare_calls)
  have tail: "emits (bindE (ensure_configmap_step env cluster) (\<lambda>_. bindE (ensureServices env cluster) (\<lambda>_. ok cluster)))
      (\<lambda>r cs. list_all is_prepare_call cs \<and> (\<forall>c. r = Inr c \<longrightarrow> c = cluster \<and> services_looked_up c cs))" for cluster
    by (rule emits_bindE [OF emits_only [OF keeps_only_ensure_configmap_step] svcs])
      (auto simp: services_looked_up_def)
  have fin: "emits (if \<not> cs_KeepEtcdDataOnDelete (cl_spec cluster0) then ensureEtcdFinalizer env cluster0
            else ok cluster0) (\<lambda>r cs. list_all is_prepare_call cs)"
    by (rule emits_only, intro only.keeps_intros keeps_only_ensureEtcdFinalizer) simp
  show ?thesis unfolding prepare_phase_def
    by (rule emits_bindE [OF fin tail]) (auto simp: services_looked_up_def)
qed

text \<open>A creation ends the pass.\<close>

definition creation_of :: "m3db_cluster \<Rightarrow> call list \<Rightarrow> bool" where
  "creation_of cluster cs \<longleftrightarrow> (\<exists>t n k. cs = [Sts_Create (cl_namespace cluster) t]
     \<and> GenerateStatefulSet cluster n k = Inr t)"

lemma create_set_creates:
  "emits (create_set env cluster groups byName i)
     (\<lambda>r cs. if r = Inr False then cs = [] else cs = [] \<or> creation_of cluster cs)"
proof -
  have after: "emits (case r of Inr _ \<Rightarrow> ok True
         | Inl err \<Rightarrow> if IsAlreadyExists (e_lib env) err then ok True else fail err)
      (\<lambda>r' cs. r' \<noteq> Inr False \<and> cs = [])" for r :: "gerror + statefulset"
    by (auto simp del: ok_run fail_run intro!: emits_ok emits_fail split: sum.splits)
  have make: "emits (catchE (request (Sts_Create (cl_namespace cluster) sts)
                  (api_sts_create env (cl_namespace cluster) sts)) (\<lambda>r. case r of
           Inr _ \<Rightarrow> ok True
         | Inl err \<Rightarrow> if IsAlreadyExists (e_lib env) err then ok True else fail err))
      (\<lambda>r cs. r \<noteq> Inr False \<and> cs = [Sts_Create (cl_namespace cluster) sts])" for sts
    by (rule emits_catchE [OF emits_request [of "\<lambda>r cs. cs = [_]"] after]) auto
  let ?gen = "GenerateStatefulSet cluster (ig_Name (groups ! i)) (ig_NumInstances (groups ! i))"
  have gen: "emits (lift_res ?gen) (\<lambda>r cs. r = ?gen \<and> cs = [])"
    by (rule emits_lift_res) simp
  show ?thesis unfolding create_set_def
    by (intro emits_if emits_ok emits_bindE [OF gen make]) (auto simp: creation_of_def dest!: sym [of "Inr _"])
qed

lemma create_phase_creates:
  "emits (create_phase env cluster groups byName)
     (\<lambda>r cs. if r = Inr False then cs = [] else cs = [] \<or> creation_of cluster cs)"
  unfolding create_phase_def by (rule emits_for_until [OF create_set_creates]) auto

text \<open>So does an update.\<close>

lemma update_set_updates:
  "emits (update_set env cluster groups byName i)
     (\<lambda>r cs. if r = Inr False then list_all no_change cs else one_change cs)"
proof (cases "map_of byName (StatefulSetName (cl_name cluster) i)")
  case None
  then show ?thesis by (simp add: update_set_def emits_fail one_change_none del: fail_run)
next
  case (Some actual)
  have apply_upd: "emits (bindE (applyStatefulSetUpdate env cluster t) (\<lambda>_. ok True))
      (\<lambda>r cs. r \<noteq> Inr False \<and> cs = [Sts_Update (cl_namespace cluster) t])" for t
    unfolding applyStatefulSetUpdate_def
    by (rule emits_bindE [OF emits_request [of "\<lambda>r cs. cs = [_]"] emits_ok [of "\<lambda>r cs. r = Inr True \<and> cs = []"]]) auto
  have pods: "emits (updateStatefulSetPods env cluster actual) (\<lambda>r cs. list_all no_change cs)"
    by (rule emits_only, rule keeps_only_updateStatefulSetPods) simp_all
  have step: "emits (case update of
            Some expected \<Rightarrow> bindE (applyStatefulSetUpdate env cluster expected) (\<lambda>_. ok True)
          | None \<Rightarrow> if ss_updateStrategy (sts_spec actual) = OnDelete
              then updateStatefulSetPods env cluster actual else ok False)
      (\<lambda>r cs. if r = Inr False then list_all no_change cs else one_change cs)" for update
    by (auto simp del: ok_run split: option.splits simp: one_change_single one_change_none intro!: emits_ok
        intro: emits_mono [OF pods] emits_mono [OF apply_upd])
  show ?thesis unfolding update_set_def Some option.case
    by (rule emits_bindE [OF emits_lift_res [of "\<lambda>r cs. cs = []"] step]) (auto simp: one_change_none)
qed

lemma update_phase_updates:
  "emits (update_phase env cluster groups byName)
     (\<lambda>r cs. if r = Inr False then list_all no_change cs else one_change cs)"
  unfolding update_phase_def
  by (rule emits_for_until [OF update_set_updates]) (simp_all add: one_change_append)

lemma keeps_only_data_phase:
  assumes "\<And>r. P (Http r)" and "\<And>n c. P (Crd_UpdateStatus n c)" and "\<And>t r m a. P (Event t r m a)"
  shows "keeps (only P) (data_phase env cluster)"
  unfolding data_phase_def
  by (intro only.keeps_intros keeps_only_validatePlacementWithStatus keeps_only_reconcileNamespaces
      keeps_only_WarningEvent assms)

lemma keeps_only_replace_phase:
  assumes "\<And>r. P (Http r)" and "\<And>n c. P (Crd_UpdateStatus n c)" and "\<And>t r m a. P (Event t r m a)"
  shows "keeps (only P) (replace_phase env cluster pods pl)"
  unfolding replace_phase_def
  by (intro only.keeps_intros keeps_only_checkPodsForReplacement keeps_only_replacePodInPlacement
      keeps_only_WarningEvent keeps_only_NormalEvent assms)

lemma keeps_only_resize_phase:
  assumes "\<And>r. P (Http r)" and "\<And>n c. P (Crd_UpdateStatus n c)" and "\<And>n m b. P (Sts_Patch n m b)"
  shows "keeps (only P) (resize_phase env cluster groups pl sets)"
  unfolding resize_phase_def resize_child_def resize_set_def Let_def
  by (intro only.keeps_intros keeps_only_expandPlacementForSet keeps_only_shrinkPlacementForSet
      keeps_only_patchStatefulSet assms)

lemma keeps_only_finish_phase:
  assumes "\<And>r. P (Http r)" and "\<And>n c. P (Crd_UpdateStatus n c)" and "\<And>n m b. P (Sts_Patch n m b)"
  shows "keeps (only P) (finish_phase env cluster sets)"
  unfolding finish_phase_def
  by (intro only.keeps_intros keeps_only_clientForCluster keeps_only_client_ops
      keeps_only_reconcileBootstrappingStatus keeps_only_cleanupAnnotations assms)

lemma keeps_only_placement_phase:
  assumes "\<And>r. P (Http r)" and "\<And>n c. P (Crd_UpdateStatus n c)" and "\<And>n m b. P (Sts_Patch n m b)"
    and "\<And>t r m a. P (Event t r m a)"
  shows "keeps (only P) (placement_phase env cluster groups)"
  unfolding placement_phase_def Let_def
  by (intro only.keeps_intros keeps_only_read keeps_only_clientForCluster keeps_only_client_ops
      keeps_only_WarningEvent keeps_only_getChildStatefulSets keeps_only_replace_phase
      keeps_only_resize_phase keeps_only_finish_phase assms)

lemma keeps_only_update_phase:
  assumes "\<And>n t. P (Sts_Update n t)" and "\<And>n p. P (Pod_Delete n p)" and "\<And>n t. P (Sts_UpdateStatus n t)"
  shows "keeps (only P) (update_phase env cluster groups byName)"
  unfolding update_phase_def update_set_def
  by (intro only.keeps_intros keeps_only_applyStatefulSetUpdate keeps_only_updateStatefulSetPods assms)

lemma rest_phase_changes: "emits (rest_phase env cluster groups sets) (\<lambda>r cs. one_change cs \<and> list_all (\<lambda>c. \<not> is_create c) cs)"
proof (rule emits_conj)
  show "emits (rest_phase env cluster groups sets) (\<lambda>r cs. list_all (\<lambda>c. \<not> is_create c) cs)"
    unfolding rest_phase_def Let_def
    by (rule emits_only, intro only.keeps_intros keeps_only_update_phase keeps_only_data_phase keeps_only_placement_phase)
      simp_all
next
  have tail: "emits (if updated then ok ()
            else bindE (data_phase env cluster) (\<lambda>cluster. placement_phase env cluster groups))
      (\<lambda>r cs. list_all no_change cs \<and> (updated \<longrightarrow> cs = []))" for updated groups
    by (auto simp del: ok_run intro!: emits_ok emits_only only.keeps_intros keeps_only_data_phase
        keeps_only_placement_phase)
  show "emits (rest_phase env cluster groups sets) (\<lambda>r cs. one_change cs)"
    unfolding rest_phase_def Let_def
    by (auto simp del: ok_run fail_run split: option.splits simp: one_change_none
        intro!: emits_ok emits_fail emits_bindE [OF update_phase_updates tail])
      (auto split: if_splits intro: one_change_none)
qed

lemma sets_phase_changes:
  "emits (sets_phase env cluster) (\<lambda>r cs. creation_of cluster cs \<or> (one_change cs \<and> list_all (\<lambda>c. \<not> is_create c) cs))"
proof -
  have tail: "emits (if created then ok () else rest_phase env cluster groups sets)
      (\<lambda>r cs. one_change cs \<and> list_all (\<lambda>c. \<not> is_create c) cs \<and> (created \<longrightarrow> cs = []))" for created groups sets
    using rest_phase_changes by (auto simp del: ok_run intro!: emits_ok simp: one_change_none)
  have make: "emits (bindE (create_phase env cluster groups byName) (\<lambda>created.
        if created then ok () else rest_phase env cluster groups sets))
      (\<lambda>r cs. creation_of cluster cs \<or> (one_change cs \<and> list_all (\<lambda>c. \<not> is_create c) cs))" for groups byName sets
    by (rule emits_bindE [OF create_phase_creates tail]) (auto split: if_splits simp: one_change_none)
  have child: "emits (getChildStatefulSets env cluster) (\<lambda>r cs. cs = [])"
    unfolding getChildStatefulSets_def
    by (rule emits_bindE [OF emits_read [of "\<lambda>r cs. cs = []"] emits_ok [of "\<lambda>r cs. cs = []"]]) auto
  show ?thesis unfolding sets_phase_def Let_def
    by (rule emits_bindE [OF child make]) (auto simp: one_change_none)
qed

text \<open>Every creation comes after a lookup of the service that the set names.\<close>

definition created_after_service :: "call list \<Rightarrow> bool" where
  "created_after_service cs \<longleftrightarrow> (\<forall>ns t. Sts_Create ns t \<in> set cs \<longrightarrow>
     Svc_Get ns (ss_serviceName (sts_spec t)) \<in> set (takeWhile (\<lambda>c. c \<noteq> Sts_Create ns t) cs))"

lemma created_after_service_none: "list_all (\<lambda>c. \<not> is_create c) cs \<Longrightarrow> created_after_service cs"
  by (force simp: created_after_service_def list_all_iff)

lemma no_change_no_create: "no_change c \<Longrightarrow> \<not> is_create c"
  by (cases c) auto

lemma quiet_pass: "list_all no_change cs \<Longrightarrow> one_change cs \<and> created_after_service cs"
  using no_change_no_create by (auto simp: one_change_none list_all_iff intro!: created_after_service_none)

lemma created_after_service_create:
  assumes cs: "list_all no_change cs" and looked: "services_looked_up c cs" and make: "creation_of c ds"
  shows "one_change (cs @ ds) \<and> created_after_service (cs @ ds)"
proof -
  obtain t n k where t: "ds = [Sts_Create (cl_namespace c) t]" "GenerateStatefulSet c n k = Inr t"
    using make by (auto simp: creation_of_def)
  have "ss_serviceName (sts_spec t) = HeadlessServiceName (cl_name c)"
    using t(2) by (auto elim!: GenerateStatefulSet_Inr simp: assemble_simps)
  moreover have "takeWhile (\<lambda>x. x \<noteq> Sts_Create (cl_namespace c) t) (cs @ ds) = cs"
    using cs t(1) by (subst takeWhile_append2) (auto simp: list_all_iff)
  moreover have "Sts_Create ns u \<notin> set cs" for ns u
    using cs by (auto simp: list_all_iff)
  ultimately show ?thesis
    using looked t(1) cs by (auto simp: created_after_service_def services_looked_up_def one_change_append
        one_change_single)
qed

lemma prepare_no_change: "list_all is_prepare_call cs \<Longrightarrow> list_all no_change cs"
proof -
  have "is_prepare_call c \<Longrightarrow> no_change c" for c by (cases c) auto
  then show "list_all is_prepare_call cs \<Longrightarrow> list_all no_change cs" by (simp add: list_all_iff)
qed

lemma active_pass_changes:
  "emits (bindE (prepare_phase env cluster) (\<lambda>c. if cl_groups c = [] then ok () else sets_phase env c))
     (\<lambda>r cs. one_change cs \<and> created_after_service cs)"
proof -
  have tail: "emits (if cl_groups c = [] then ok () else sets_phase env c)
      (\<lambda>r cs. creation_of c cs \<or> (one_change cs \<and> list_all (\<lambda>c. \<not> is_create c) cs))" for c
    using sets_phase_changes by (auto simp del: ok_run intro!: emits_ok simp: one_change_none)
  show ?thesis
  proof (rule emits_bindE [OF prepare_phase_gets tail])
    fix e cs assume "list_all is_prepare_call cs \<and> (\<forall>c. Inl e = Inr c \<longrightarrow> services_looked_up c cs)"
    then show "one_change cs \<and> created_after_service cs" by (simp add: quiet_pass prepare_no_change)
  next
    fix c r cs ds
    assume pre: "list_all is_prepare_call cs \<and> (\<forall>c'. Inr c = Inr c' \<longrightarrow> services_looked_up c' cs)"
      and post: "creation_of c ds \<or> (one_change ds \<and> list_all (\<lambda>c. \<not> is_create c) ds)"
    from pre have cs: "list_all no_change cs" by (simp add: prepare_no_change)
    with no_change_no_create have "list_all (\<lambda>c. \<not> is_create c) cs" by (auto simp: list_all_iff)
    with post pre cs show "one_change (cs @ ds) \<and> created_after_service (cs @ ds)"
      using created_after_service_create by (auto intro: one_change_append created_after_service_none)
  qed
qed

lemma group_names_keys: "set (map fst (fold (\<lambda>g m. AList.update (ig_Name g) () m) gs m)) = ig_Name ` set gs \<union> fst ` set m"
  by (induction gs arbitrary: m) (auto simp: dom_update)

lemma group_names_distinct: "distinct (map fst m) \<Longrightarrow>
   distinct (map fst (fold (\<lambda>g m. AList.update (ig_Name g) () m) gs m))"
  by (induction gs arbitrary: m) (auto intro: distinct_update)

lemma length_group_names: "length (group_names gs) = card (ig_Name ` set gs)"
proof -
  have "distinct (map fst (group_names gs))"
    unfolding group_names_def by (rule group_names_distinct) simp
  then have "length (map fst (group_names gs)) = card (set (map fst (group_names gs)))"
    by (simp only: distinct_card)
  then show ?thesis unfolding group_names_def group_names_keys by simp
qed

lemma validateIsolationGroups_None:
  "validateIsolationGroups c = None \<longleftrightarrow> cs_ReplicationFactor (cl_spec c) = i32 (int (length (cl_groups c)))
     \<and> distinct (map ig_Name (cl_groups c))"
proof -
  have "length (group_names gs) = length gs \<longleftrightarrow> distinct (map ig_Name gs)" for gs
    unfolding length_group_names by (metis card_distinct distinct_card length_map set_map)
  then show ?thesis by (auto simp: validateIsolationGroups_def Let_def)
qed

lemma check_generations_None:
  "check_generations sets = None \<longleftrightarrow>
     (\<forall>t \<in> set sets. om_generation (sts_meta t) = st_observedGeneration (sts_status t))"
  by (induction sets) auto

lemma all_ready_iff: "all_ready sets \<longleftrightarrow> (\<forall>t \<in> set sets. set_ready t)"
  by (induction sets) auto

lemma rest_phase_blocked:
  assumes "check_generations sets \<noteq> None \<or> \<not> all_ready sets"
  shows "snd (rest_phase env cluster groups sets s) = s"
  using assms by (cases "check_generations sets") (auto simp: rest_phase_def)

lemma create_phase_False:
  assumes "create_phase env cluster groups byName s = (Inr False, s')"
  shows "s' = s \<and> (\<forall>i < length groups. mhas byName (StatefulSetName (cl_name cluster) i))"
proof -
  have one: "create_set env cluster groups byName i s = (Inr False, s') \<Longrightarrow>
      s' = s \<and> mhas byName (StatefulSetName (cl_name cluster) i)" for i s s'
    by (auto simp: create_set_def bindE_run catchE_run split: if_splits sum.splits)
  have "for_until (create_set env cluster groups byName) xs s = (Inr False, s') \<Longrightarrow>
      s' = s \<and> (\<forall>i \<in> set xs. mhas byName (StatefulSetName (cl_name cluster) i))" for xs
  proof (induction xs)
    case Nil
    then show ?case by simp
  next
    case (Cons i xs)
    obtain r s1 where r: "create_set env cluster groups byName i s = (r, s1)" by force
    show ?case
    proof (cases "r = Inr False")
      case True
      with r one have "s1 = s" "mhas byName (StatefulSetName (cl_name cluster) i)" by blast+
      with Cons r True show ?thesis by (simp add: bindE_run)
    next
      case False
      with Cons.prems r show ?thesis by (cases r) auto
    qed
  qed
  with assms show ?thesis by (simp add: create_phase_def)
qed

lemma handleClusterUpdate_changes:
  "emits (handleClusterUpdate env cluster) (\<lambda>r cs. one_change cs \<and> created_after_service cs)"
  unfolding handleClusterUpdate_def
proof (intro emits_if)
  show "emits (ok ()) (\<lambda>r cs. one_change cs \<and> created_after_service cs)"
    by (rule emits_ok) (simp add: quiet_pass)
  show "emits (delete_phase env cluster) (\<lambda>r cs. one_change cs \<and> created_after_service cs)"
    by (rule emits_keeps [where P = no_change]) (auto simp: quiet_pass intro!: keeps_only_delete_phase)
  show "emits (case validateIsolationGroups cluster of
      Some err \<Rightarrow> bindE (WarningEvent env ReasonFailSync [] [AErr err]) (\<lambda>_. fail err)
    | None \<Rightarrow> bindE (prepare_phase env cluster) (\<lambda>cluster.
        if cl_groups cluster = [] then ok () else sets_phase env cluster))
    (\<lambda>r cs. one_change cs \<and> created_after_service cs)"
  proof (cases "validateIsolationGroups cluster")
    case (Some err)
    show ?thesis unfolding Some option.case
      by (rule emits_keeps [where P = no_change])
        (auto simp: quiet_pass simp del: fail_run intro!: only.keeps_bindE only.keeps_fail keeps_only_WarningEvent)
  qed (simp add: active_pass_changes del: ok_run)
qed

section \<open>Properties\<close>

text \<open>
  C1: In one pass over a cluster, whatever the API server, the caches and the coordinator answer,
  at most one StatefulSet is created or replaced, no other request follows it, and a set is created
  only after the headless service its spec names has been looked up (and created if it was absent).
\<close>

theorem pass_changes_one_set:
  "\<exists>cs. st_calls (snd (handleClusterUpdate env cluster s)) = st_calls s @ cs
     \<and> one_change cs \<and> created_after_service cs"
  using handleClusterUpdate_changes unfolding emits_def by blast

text \<open>
  The update loop never dereferences a missing StatefulSet: when the creation loop lets the pass
  go on, it has sent nothing and every isolation group has its set among the cluster's sets.
\<close>

theorem create_phase_finds_all:
  assumes "create_phase env cluster groups byName s = (Inr False, s')" and "i < length groups"
  shows "s' = s \<and> (\<exists>t. map_of byName (StatefulSetName (cl_name cluster) i) = Some t)"
  using create_phase_False [OF assms(1)] assms(2) by (auto simp: mhas_def)

theorem create_phase_finds_all_witness:
  "create_phase (offline_env example_lib) (example_cluster [example_group ''a'' 1]) [example_group ''a'' 1]
     [(''c-rep0'', example_sts ''c-rep0'' 1 1)] (start ()) = (Inr False, start ())
   \<and> (\<exists>t. map_of [(''c-rep0'', example_sts ''c-rep0'' 1 1)] (StatefulSetName ''c'' 0) = Some t)"
proof -
  have n: "StatefulSetName ''c'' 0 = ''c-rep0''" by code_simp
  have "create_phase (offline_env example_lib) (example_cluster [example_group ''a'' 1]) [example_group ''a'' 1]
     [(''c-rep0'', example_sts ''c-rep0'' 1 1)] (start ()) = (Inr False, start ())"
    by (simp add: create_phase_def create_set_def mhas_def example_cluster_def n)
  from this create_phase_finds_all [OF this, of 0] show ?thesis by (simp add: example_cluster_def)
qed

text \<open>
  A pass over a frozen cluster, and over a deleted one without the etcd finalizer, returns
  without an error, sends nothing and leaves the whole state as it was.
\<close>

theorem frozen_or_released_untouched:
  assumes "cs_Frozen (cl_spec cluster)
    \<or> marked_deleted cluster \<and> EtcdDeletionFinalizer \<notin> set (om_finalizers (cl_meta cluster))"
  shows "handleClusterUpdate env cluster s = (Inr (), s)"
  using assms by (auto simp: handleClusterUpdate_def delete_phase_def)

theorem frozen_or_released_untouched_witness:
  "handleClusterUpdate (offline_env example_lib) frozen_cluster (start ()) = (Inr (), start ())"
  by (rule frozen_or_released_untouched) (simp add: example_defs)

text \<open>
  C27: A pass over a cluster refuses isolation groups that do not fit: they are accepted exactly when
  the replication factor is their number (as a 32-bit integer) and their names are distinct, and
  otherwise the pass returns the error and sends one warning event, nothing else.
\<close>

theorem invalid_groups_refused:
  assumes "\<not> cs_Frozen (cl_spec cluster)" "\<not> marked_deleted cluster"
  shows "case validateIsolationGroups cluster of
      None \<Rightarrow> cs_ReplicationFactor (cl_spec cluster) = i32 (int (length (cl_groups cluster)))
        \<and> distinct (map ig_Name (cl_groups cluster))
    | Some err \<Rightarrow> (cs_ReplicationFactor (cl_spec cluster) \<noteq> i32 (int (length (cl_groups cluster)))
          \<or> \<not> distinct (map ig_Name (cl_groups cluster)))
        \<and> fst (handleClusterUpdate env cluster s) = Inl err
        \<and> st_calls (snd (handleClusterUpdate env cluster s)) = st_calls s @ [Event Warning ReasonFailSync [] [AErr err]]"
proof (cases "validateIsolationGroups cluster")
  case None
  with validateIsolationGroups_None [of cluster] show ?thesis by simp
next
  case (Some err)
  with validateIsolationGroups_None [of cluster] assms show ?thesis
    by (auto simp: handleClusterUpdate_def WarningEvent_def post_event_def bindE_def Let_def)
qed

theorem invalid_groups_refused_witness:
  "\<exists>err. fst (handleClusterUpdate (offline_env example_lib) (example_cluster [example_group ''a'' 1, example_group ''a'' 2])
       (start ())) = Inl err
     \<and> st_calls (snd (handleClusterUpdate (offline_env example_lib)
         (example_cluster [example_group ''a'' 1, example_group ''a'' 2]) (start ()))) =
       [Event Warning ReasonFailSync [] [AErr err]]"
proof -
  let ?c = "example_cluster [example_group ''a'' 1, example_group ''a'' 2]"
  have "\<not> cs_Frozen (cl_spec ?c)" "\<not> marked_deleted ?c"
    by (simp_all add: example_cluster_def example_spec_def marked_deleted_def zero_meta_def)
  moreover have "validateIsolationGroups ?c \<noteq> None" by (simp add: validateIsolationGroups_None)
  ultimately show ?thesis
    using invalid_groups_refused [of ?c "offline_env example_lib" "start ()"] by (auto simp: start_def)
qed

text \<open>
  C3: While a StatefulSet of the cluster is not ready, or its status is older than its spec, the
  rest of the pass touches nothing: it can only create a set that is missing.
\<close>

theorem unready_sets_block:
  assumes sets: "getChildStatefulSets env cluster s = (Inr sets, s1)"
    and wait: "\<not> (\<forall>t \<in> set sets. set_ready t)
      \<or> (\<exists>t \<in> set sets. om_generation (sts_meta t) \<noteq> st_observedGeneration (sts_status t))"
  shows "\<exists>cs. st_calls (snd (sets_phase env cluster s)) = st_calls s @ cs \<and> length cs \<le> 1
    \<and> list_all is_create cs"
proof -
  let ?groups = "sort_groups (tie_groups (e_lib env)) (cl_groups cluster)"
  have calls: "st_calls s1 = st_calls s"
    using keepsD [OF keeps_only_getChildStatefulSets [of "\<lambda>_. False"] sets] by (auto simp: only_def list_all_iff)
  have "check_generations sets \<noteq> None \<or> \<not> all_ready sets"
    using wait check_generations_None [of sets] all_ready_iff [of sets] by fastforce
  note rest = rest_phase_blocked [OF this, of env cluster ?groups]
  obtain r s2 where r: "create_phase env cluster ?groups (sets_by_name sets) s1 = (r, s2)" by force
  obtain cs where cs: "st_calls s2 = st_calls s1 @ cs"
      "if r = Inr False then cs = [] else cs = [] \<or> creation_of cluster cs"
    using emitsD [OF create_phase_creates r] by blast
  have "st_calls (snd (sets_phase env cluster s)) = st_calls s2"
    using sets r rest [of s2] by (auto simp: sets_phase_def Let_def bindE_run split: sum.splits)
  moreover have "length cs \<le> 1 \<and> list_all is_create cs"
    using cs(2) by (auto simp: creation_of_def split: if_splits)
  ultimately show ?thesis using cs(1) calls by auto
qed

definition unready_env :: "unit env" where
  "unready_env = (offline_env example_lib)\<lparr>list_sts := (\<lambda>_ _. ok [example_sts ''c-rep0'' 2 1])\<rparr>"

theorem unready_sets_block_witness:
  "getChildStatefulSets unready_env (example_cluster [example_group ''a'' 2]) (start ()) =
     (Inr [example_sts ''c-rep0'' 2 1], start ())
   \<and> \<not> set_ready (example_sts ''c-rep0'' 2 1)
   \<and> (\<exists>cs. st_calls (snd (sets_phase unready_env (example_cluster [example_group ''a'' 2]) (start ()))) = cs
        \<and> length cs \<le> 1 \<and> list_all is_create cs)"
proof -
  have sets: "getChildStatefulSets unready_env (example_cluster [example_group ''a'' 2]) (start ()) =
     (Inr [example_sts ''c-rep0'' 2 1], start ())"
    by (simp add: getChildStatefulSets_def unready_env_def example_defs read_cache_def bindE_def zero_meta_def)
  have unready: "\<not> set_ready (example_sts ''c-rep0'' 2 1)"
    by (simp add: set_ready_def example_sts_def Let_def zero_status_def)
  have "\<not> (\<forall>t \<in> set [example_sts ''c-rep0'' 2 1]. set_ready t)
      \<or> (\<exists>t \<in> set [example_sts ''c-rep0'' 2 1]. om_generation (sts_meta t) \<noteq> st_observedGeneration (sts_status t))"
    using unready by simp
  from unready_sets_block [OF sets this] sets unready show ?thesis by (auto simp: start_def)
qed

end
