(* ===== verification/Scaling.thy ===== *)
theory Scaling
  imports Controller Example_Cluster
begin

text \<open>
  The resize loop of \<open>handleClusterUpdate\<close> as a decision on three numbers, the desired and the
  current size of a set and the number of its instances in the placement. The code is shown to
  take this decision, repeated passes to bring set and placement to the desired size, and
  \<open>preventScaleDown\<close> to exclude every request that takes something away.
\<close>

section \<open>The specification\<close>

datatype scale_action = Steady | Expand | Shrink | Resize int | Refuse

definition scale_decision :: "bool \<Rightarrow> int \<Rightarrow> int \<Rightarrow> int \<Rightarrow> scale_action" where
  "scale_decision preventScaleDown desired current inPlacement =
     (if inPlacement > desired then Shrink
      else if current < desired then Resize (current + 1)
      else if current > desired then (if preventScaleDown then Refuse else Resize (current - 1))
      else if inPlacement < desired then Expand
      else Steady)"

text \<open>
  What an action does once it has taken effect: a new size, all pods of the set in the placement,
  or at most the desired number of instances left in it.
\<close>

inductive scale_step :: "bool \<Rightarrow> int \<Rightarrow> int \<times> int \<Rightarrow> int \<times> int \<Rightarrow> bool" for prevent desired where
  resize: "scale_decision prevent desired current inPl = Resize n \<Longrightarrow> scale_step prevent desired (current, inPl) (n, inPl)"
| expand: "scale_decision prevent desired current inPl = Expand \<Longrightarrow> scale_step prevent desired (current, inPl) (current, current)"
| shrink: "scale_decision prevent desired current inPl = Shrink \<Longrightarrow> 0 \<le> inPl' \<Longrightarrow> inPl' \<le> desired \<Longrightarrow>
     scale_step prevent desired (current, inPl) (current, inPl')"

inductive_cases scale_stepE: "scale_step prevent desired s t"

definition scale_measure :: "int \<Rightarrow> int \<times> int \<Rightarrow> nat" where
  "scale_measure desired s = (case s of (current, inPl) \<Rightarrow>
     nat \<bar>desired - current\<bar> + (if inPl > desired then 2 else if inPl < desired then 1 else 0))"

lemma scale_step_decreases:
  "scale_step prevent desired s t \<Longrightarrow> scale_measure desired t < scale_measure desired s"
  by (erule scale_stepE) (auto simp: scale_decision_def scale_measure_def split: if_splits)

lemma scale_steps_bound:
  "(scale_step prevent desired ^^ n) s t \<Longrightarrow> n + scale_measure desired t \<le> scale_measure desired s"
  by (induction n arbitrary: t) (force dest: scale_step_decreases)+

section \<open>The code follows the specification\<close>

text \<open>How an action is carried out.\<close>

definition carry_out :: "'w env \<Rightarrow> m3db_cluster \<Rightarrow> m3_placement \<Rightarrow> statefulset \<Rightarrow> isolation_group \<Rightarrow> scale_action
    \<Rightarrow> ('w st, bool) io" where
  "carry_out env cluster pl sset grp act = (case act of
      Steady \<Rightarrow> ok False
    | Expand \<Rightarrow> bindE (expandPlacementForSet env cluster sset grp pl) (\<lambda>_. ok True)
    | Shrink \<Rightarrow> bindE (shrinkPlacementForSet env cluster sset pl (ig_NumInstances grp)) (\<lambda>_. ok True)
    | Resize n \<Rightarrow> bindE (patchStatefulSet env sset (set_replicas n)) (\<lambda>_. ok True)
    | Refuse \<Rightarrow> fail (Errorf ''cannot shrink statefulset %s/%s, preventScaleDown is true''
        [AStr (om_namespace (sts_meta sset)), AStr (sts_name sset)]))"

lemma resize_set_decision:
  assumes "is_i32 current" and "is_i32 (ig_NumInstances grp)" and "int (length pl) < 2 ^ 31"
  shows "resize_set env cluster pl sset grp current = carry_out env cluster pl sset grp
    (scale_decision (cs_PreventScaleDown (cl_spec cluster)) (ig_NumInstances grp) current
       (int (length (instancesInIsoGroup pl (ig_Name grp)))))"
proof -
  define n where "n = int (length (instancesInIsoGroup pl (ig_Name grp)))"
  have "length (instancesInIsoGroup pl (ig_Name grp)) \<le> length pl"
    by (simp add: instancesInIsoGroup_def)
  with assms(3) have "is_i32 n" by (simp add: is_i32_def n_def)
  then have n: "i32 n = n" by (rule i32_id)
  have up: "i32 (current + 1) = current + 1" if "current < ig_NumInstances grp"
    using that assms(1,2) by (intro i32_id) (auto simp: is_i32_def)
  have down: "i32 (current - 1) = current - 1" if "ig_NumInstances grp < current"
    using that assms(1,2) by (intro i32_id) (auto simp: is_i32_def)
  consider "n > ig_NumInstances grp" | "n \<le> ig_NumInstances grp" "current < ig_NumInstances grp"
    | "n \<le> ig_NumInstances grp" "current > ig_NumInstances grp"
    | "current = ig_NumInstances grp" "n < current" | "current = ig_NumInstances grp" "n = current"
    by linarith
  then show ?thesis
    unfolding resize_set_def Let_def n_def [symmetric] n
    by cases (auto simp: carry_out_def scale_decision_def up down simp del: ok_run fail_run)
qed

lemma scale_decision_Resize:
  assumes "scale_decision prevent desired current inPl = Resize n" and "is_i32 current" and "is_i32 desired"
  shows "is_i32 n \<and> \<bar>desired - n\<bar> + 1 = \<bar>desired - current\<bar> \<and> inPl \<le> desired \<and> (n < current \<longrightarrow> \<not> prevent)"
  using assms by (auto simp: scale_decision_def is_i32_def split: if_splits)

section \<open>Passes that take effect\<close>

text \<open>A request for the removal of instances.\<close>

definition is_removal :: "http_request \<Rightarrow> bool" where
  "is_removal r \<longleftrightarrow> drop (length (hr_url r) - 7) (hr_url r) = ''/remove''"

text \<open>
  The sizes of a set and of its part of the placement before and after the last request of a pass
  has taken effect.
\<close>

fun takes_effect :: "lib \<Rightarrow> statefulset \<Rightarrow> int \<Rightarrow> call \<Rightarrow> int \<times> int \<Rightarrow> int \<times> int \<Rightarrow> bool" where
  "takes_effect lb sset desired (Sts_Patch ns nm p) (c, i) (c', i') \<longleftrightarrow>
     sts_merge_patch lb sset (set_replicas c' sset) = Inr p \<and> i' = i"
| "takes_effect lb sset desired (Http r) (c, i) (c', i') \<longleftrightarrow>
     c' = c \<and> (if is_removal r then 0 \<le> i' \<and> i' \<le> desired else i' = c)"
| "takes_effect lb sset desired _ _ _ \<longleftrightarrow> False"

inductive resize_step :: "'w env \<Rightarrow> m3db_cluster \<Rightarrow> isolation_group \<Rightarrow> int \<times> int \<Rightarrow> int \<times> int \<Rightarrow> bool"
  for env cluster grp where
  pass: "resize_set env cluster pl sset grp c s = (Inr True, s') \<Longrightarrow> st_calls s' = st_calls s @ cs @ [x] \<Longrightarrow>
    takes_effect (e_lib env) sset (ig_NumInstances grp) x
      (c, int (length (instancesInIsoGroup pl (ig_Name grp)))) t \<Longrightarrow>
    is_i32 c \<Longrightarrow> int (length pl) < 2 ^ 31 \<Longrightarrow>
    resize_step env cluster grp (c, int (length (instancesInIsoGroup pl (ig_Name grp)))) t"

text \<open>A patch of the replica count determines the new count.\<close>

definition replica_patches_differ :: "lib \<Rightarrow> bool" where
  "replica_patches_differ lb \<longleftrightarrow> (\<forall>sset m n p. sts_merge_patch lb sset (set_replicas m sset) = Inr p \<longrightarrow>
     sts_merge_patch lb sset (set_replicas n sset) = Inr p \<longrightarrow> m = n)"

text \<open>Successful computations whose last call has a property.\<close>

definition ends :: "('w st, 'a) io \<Rightarrow> (call \<Rightarrow> bool) \<Rightarrow> bool" where
  "ends m Q \<longleftrightarrow> emits m (\<lambda>r cs. (\<exists>x. r = Inr x) \<longrightarrow> cs \<noteq> [] \<and> Q (last cs))"

lemma ends_fail: "ends (fail e) Q"
  by (simp add: ends_def emits_fail del: fail_run)

lemma ends_bindE:
  assumes "keeps (only (\<lambda>_. True)) m" and "\<And>x. ends (f x) Q"
  shows "ends (bindE m f) Q"
  unfolding ends_def
  by (rule emits_bindE [OF emits_only [OF assms(1)] assms(2) [unfolded ends_def]]) auto

lemma ends_bindE_ok: "ends m Q \<Longrightarrow> ends (bindE m (\<lambda>_. ok x)) Q"
  unfolding ends_def emits_def by (auto simp: bindE_run split: sum.splits)

lemma ends_request: "Q c \<Longrightarrow> ends (request c m) Q"
  by (simp add: ends_def emits_request)

lemma ends_post:
  assumes "\<And>b. Q (Http \<lparr>hr_method = action, hr_url = url, hr_headers = all_headers cl opts, hr_body = b\<rparr>)"
  shows "ends (DoHTTPJSONPBRequest env cl action url req dec opts) Q"
proof -
  have "ends (bindE (DoHTTPRequest env cl action url b opts) (\<lambda>r. lift_res (dec (rs_body r)))) Q" for b
    using assms unfolding ends_def emits_def
    by (auto simp: DoHTTPRequest_def bindE_run request_def Let_def split: option.splits sum.splits prod.splits)
  then show ?thesis unfolding DoHTTPJSONPBRequest_def
    by (rule ends_bindE [rotated]) (intro only.keeps_intros)
qed

lemma ends_with_client: "(\<And>url cl. ends (f url cl) Q) \<Longrightarrow> ends (with_client c f) Q"
  by (cases c) (simp_all add: with_client_def ends_fail del: fail_run)

lemma removal_urls [simp]:
  "is_removal \<lparr>hr_method = m, hr_url = url @ placementBaseURL @ ''/remove'', hr_headers = h, hr_body = b\<rparr>"
  "\<not> is_removal \<lparr>hr_method = m, hr_url = url @ placementBaseURL, hr_headers = h, hr_body = b\<rparr>"
  by (simp_all add: is_removal_def placementBaseURL_def)

lemma ends_expand:
  assumes "int (length (instancesInIsoGroup pl (ig_Name grp))) < ig_NumInstances grp"
  shows "ends (expandPlacementForSet env cluster sset grp pl) (\<lambda>c. \<exists>r. c = Http r \<and> \<not> is_removal r)"
  using assms unfolding expandPlacementForSet_def addPodsToPlacement_def pl_Add_def Let_def
  by (auto simp del: fail_run intro!: ends_fail ends_bindE ends_with_client ends_post keeps_only_clientForCluster
      keeps_only_setStatusPodsBootstrapping only.keeps_map_each only.keeps_collect_each only.keeps_bindE only.keeps_ok)

lemma ends_shrink:
  "emits (shrinkPlacementForSet env cluster sset pl d)
     (\<lambda>r cs. (\<exists>x. r = Inr x) \<longrightarrow> cs = [] \<or> (\<exists>q. last cs = Http q \<and> is_removal q))"
proof -
  have "ends (bindE (placementClientForCluster env cluster) (\<lambda>c. pl_Remove env c ids)) (\<lambda>c. \<exists>r. c = Http r \<and> is_removal r)"
    for ids unfolding pl_Remove_def by (intro ends_bindE ends_with_client ends_post keeps_only_clientForCluster) simp
  then have remove: "emits (bindE (placementClientForCluster env cluster) (\<lambda>c. pl_Remove env c ids))
      (\<lambda>r cs. (\<exists>x. r = Inr x) \<longrightarrow> cs = [] \<or> (\<exists>q. last cs = Http q \<and> is_removal q))" for ids
    unfolding ends_def by (rule emits_mono) blast
  show ?thesis unfolding shrinkPlacementForSet_def
    by (intro emits_if emits_fail emits_ok remove emits_after_silent [OF keeps_only_read returns_any]
        emits_after_silent [OF keeps_only_findPodsAndInstancesToRemove returns_any]) simp_all
qed

lemma bind_True: "bindE m (\<lambda>_. ok True) s = (Inr b, s') \<longleftrightarrow> b \<and> (\<exists>x. m s = (Inr x, s'))"
  by (auto simp: bindE_run split: sum.splits) (metis prod.collapse)

lemma patchStatefulSet_log:
  assumes "patchStatefulSet env sset act s = (Inr x, s')"
  shows "\<exists>ns nm p. st_calls s' = st_calls s @ [Sts_Patch ns nm p] \<and> sts_merge_patch (e_lib env) sset (act sset) = Inr p"
  using assms by (cases "sts_merge_patch (e_lib env) sset (act sset)")
    (auto simp: patchStatefulSet_def catchE_run request_def Let_def split: prod.splits sum.splits)

lemma resize_step_scale:
  assumes "resize_step env cluster grp u t"
    and differ: "replica_patches_differ (e_lib env)" and grp: "is_i32 (ig_NumInstances grp)"
  shows "scale_step (cs_PreventScaleDown (cl_spec cluster)) (ig_NumInstances grp) u t"
  using assms(1)
proof cases
  case (pass pl sset c s s' cs x)
  let ?i = "int (length (instancesInIsoGroup pl (ig_Name grp)))"
  define act where "act = scale_decision (cs_PreventScaleDown (cl_spec cluster)) (ig_NumInstances grp) c ?i"
  obtain c' i' where t: "t = (c', i')" by force
  have run: "carry_out env cluster pl sset grp act s = (Inr True, s')"
    using pass(2) unfolding act_def resize_set_decision [OF pass(5) grp pass(6)] .
  show ?thesis
  proof (cases act)
    case Expand
    with run obtain y where "expandPlacementForSet env cluster sset grp pl s = (Inr y, s')"
      by (auto simp: carry_out_def bind_True)
    moreover have "?i < ig_NumInstances grp" using Expand by (auto simp: act_def scale_decision_def split: if_splits)
    ultimately obtain r where "x = Http r" "\<not> is_removal r"
      using emitsD [OF ends_expand [unfolded ends_def]] pass(3) by (metis (no_types, lifting) last_snoc same_append_eq)
    with pass t Expand show ?thesis unfolding act_def by (auto intro: scale_step.expand)
  next
    case Shrink
    with run obtain y where "shrinkPlacementForSet env cluster sset pl (ig_NumInstances grp) s = (Inr y, s')"
      by (auto simp: carry_out_def bind_True)
    then obtain r where "x = Http r" "is_removal r"
      using emitsD [OF ends_shrink] pass(3) by (metis (no_types, lifting) last_snoc same_append_eq snoc_eq_iff_butlast)
    with pass t Shrink show ?thesis unfolding act_def by (auto intro: scale_step.shrink)
  next
    case (Resize n)
    with run obtain p where "x = p" "\<exists>ns nm q. p = Sts_Patch ns nm q \<and> sts_merge_patch (e_lib env) sset (set_replicas n sset) = Inr q"
      using patchStatefulSet_log [of env sset "set_replicas n" s _ s'] pass(3) by (auto simp: carry_out_def bind_True)
    with pass t differ have "t = (n, ?i)" by (auto simp: replica_patches_differ_def)
    with pass Resize show ?thesis unfolding act_def by (auto intro: scale_step.resize)
  qed (use run in \<open>auto simp: carry_out_def\<close>)
qed

lemma resize_steps_bound:
  assumes "replica_patches_differ (e_lib env)" and "is_i32 (ig_NumInstances grp)"
    and "(resize_step env cluster grp ^^ n) u t"
  shows "n + scale_measure (ig_NumInstances grp) t \<le> scale_measure (ig_NumInstances grp) u"
proof -
  have "(scale_step (cs_PreventScaleDown (cl_spec cluster)) (ig_NumInstances grp) ^^ n) u t"
    using assms(3) resize_step_scale [OF _ assms(1,2)] by (rule relpowp_mono [rotated])
  then show ?thesis by (rule scale_steps_bound)
qed

lemma resize_set_steady:
  assumes "is_i32 c" and "is_i32 (ig_NumInstances grp)" and "int (length pl) < 2 ^ 31"
    and "resize_set env cluster pl sset grp c s = (Inr False, s')"
  shows "c = ig_NumInstances grp \<and> int (length (instancesInIsoGroup pl (ig_Name grp))) = ig_NumInstances grp"
  using assms(4) resize_set_decision [OF assms(1-3), of env cluster sset]
  by (auto simp: carry_out_def scale_decision_def bind_True split: if_splits)

section \<open>Calls with scaling down prevented\<close>

text \<open>
  The calls of the resize loop that take nothing away: requests to the admin API other than the
  removal of instances, writes of the status, and patches that add one replica to a set.
\<close>

fun no_scale_down :: "lib \<Rightarrow> statefulset list \<Rightarrow> call \<Rightarrow> bool" where
  "no_scale_down lb sets (Http r) \<longleftrightarrow> \<not> is_removal r"
| "no_scale_down lb sets (Sts_Patch ns n p) \<longleftrightarrow> list_ex (\<lambda>sset. case ss_replicas (sts_spec sset) of
     None \<Rightarrow> False | Some k \<Rightarrow> sts_merge_patch lb sset (set_replicas (i32 (k + 1)) sset) = Inr p) sets"
| "no_scale_down lb sets (Crd_UpdateStatus n c) \<longleftrightarrow> True"
| "no_scale_down lb sets _ \<longleftrightarrow> False"

lemma keeps_expand_no_scale_down:
  "keeps (only (no_scale_down lb sets)) (expandPlacementForSet env cluster sset g pl)"
  unfolding expandPlacementForSet_def addPodsToPlacement_def pl_Add_def Let_def
  by (intro only.keeps_intros keeps_only_read keeps_only_pod_instance_id keeps_only_clientForCluster
      keeps_only_setStatusPodsBootstrapping keeps_only_PlacementInstanceFromPod keeps_only_with_client
      keeps_only_DoHTTPJSONPBRequest) simp_all

lemma keeps_patch_no_scale_down:
  assumes "sset \<in> set sets" and "ss_replicas (sts_spec sset) = Some k"
  shows "keeps (only (no_scale_down (e_lib env) sets)) (patchStatefulSet env sset (set_replicas (i32 (k + 1))))"
proof (cases "sts_merge_patch (e_lib env) sset (set_replicas (i32 (k + 1)) sset)")
  case (Inl e)
  then show ?thesis by (simp add: patchStatefulSet_def only.keeps_fail)
next
  case (Inr p)
  with assms have "no_scale_down (e_lib env) sets (Sts_Patch ns n p)" for ns n
    by (auto simp: list_ex_iff intro!: bexI [of _ sset])
  then show ?thesis unfolding patchStatefulSet_def Inr lift_res_Inr bindE_ok Let_def
    by (intro only.keeps_intros keeps_only_request)
qed

lemma keeps_resize_no_scale_down:
  assumes "cs_PreventScaleDown (cl_spec cluster)" and "sset \<in> set sets"
  shows "keeps (only (no_scale_down (e_lib env) sets)) (resize_child env cluster isoGroups pl sset)"
  unfolding resize_child_def resize_set_def shrinkPlacementForSet_def Let_def using assms
  by (intro only.keeps_intros keeps_expand_no_scale_down keeps_patch_no_scale_down) simp_all

section \<open>Properties\<close>

text \<open>
  C4: For replica counts that are 32-bit integers, the resize step of the control loop takes the
  decision of the specification. A new replica count differs from the current one by one, towards
  the desired count, and does not overflow; it is written only when no more instances than desired
  are in the placement, and a smaller one only when scaling down is allowed.
\<close>

theorem resize_set_refines:
  assumes "is_i32 current" and "is_i32 (ig_NumInstances grp)" and "int (length pl) < 2 ^ 31"
  shows "\<exists>act. act = scale_decision (cs_PreventScaleDown (cl_spec cluster)) (ig_NumInstances grp) current
        (int (length (instancesInIsoGroup pl (ig_Name grp))))
    \<and> resize_set env cluster pl sset grp current = carry_out env cluster pl sset grp act
    \<and> (\<forall>n. act = Resize n \<longrightarrow> is_i32 n \<and> \<bar>ig_NumInstances grp - n\<bar> + 1 = \<bar>ig_NumInstances grp - current\<bar>
         \<and> int (length (instancesInIsoGroup pl (ig_Name grp))) \<le> ig_NumInstances grp
         \<and> (n < current \<longrightarrow> \<not> cs_PreventScaleDown (cl_spec cluster)))"
  using resize_set_decision [OF assms] scale_decision_Resize [OF _ assms(1,2)] by blast

theorem resize_set_refines_witness:
  "\<exists>act. act = Resize 2
    \<and> resize_set (offline_env example_lib :: unit env) (example_cluster [example_group ''a'' 3]) []
        (example_sts ''c-rep0'' 1 1) (example_group ''a'' 3) 1
      = carry_out (offline_env example_lib) (example_cluster [example_group ''a'' 3]) []
        (example_sts ''c-rep0'' 1 1) (example_group ''a'' 3) act"
proof -
  have "is_i32 1" "is_i32 (ig_NumInstances (example_group ''a'' 3))" "int (length ([] :: m3_placement)) < 2 ^ 31"
    by (simp_all add: is_i32_def example_group_def)
  from resize_set_refines [OF this, of "example_cluster [example_group ''a'' 3]" "offline_env example_lib :: unit env"
      "example_sts ''c-rep0'' 1 1"]
  show ?thesis by (simp add: scale_decision_def instancesInIsoGroup_def example_group_def)
qed

text \<open>
  C5: Resizing converges. In a sequence of passes over one set that each end in a request which takes
  effect (the set has the patched size, all its pods are in the placement, or at most the desired
  number of its instances is left there), starting from any sizes, there are at most
  \<open>\<bar>desired - current\<bar> + 2\<close> passes; and a pass that finds nothing to do has reached the desired size
  of both the set and its part of the placement.
\<close>

theorem resizing_converges:
  assumes differ: "replica_patches_differ (e_lib env)" and grp: "is_i32 (ig_NumInstances grp)"
    and chain: "(resize_step env cluster grp ^^ n) (current, inPl) t"
  shows "n \<le> nat \<bar>ig_NumInstances grp - current\<bar> + 2
    \<and> (\<forall>c pl sset s s'. is_i32 c \<longrightarrow> int (length pl) < 2 ^ 31 \<longrightarrow>
         t = (c, int (length (instancesInIsoGroup pl (ig_Name grp)))) \<longrightarrow>
         resize_set env cluster pl sset grp c s = (Inr False, s') \<longrightarrow>
         t = (ig_NumInstances grp, ig_NumInstances grp))"
proof
  have "scale_measure (ig_NumInstances grp) (current, inPl) \<le> nat \<bar>ig_NumInstances grp - current\<bar> + 2"
    by (simp add: scale_measure_def)
  with resize_steps_bound [OF differ grp chain] show "n \<le> nat \<bar>ig_NumInstances grp - current\<bar> + 2" by linarith
qed (use resize_set_steady [OF _ grp] in fastforce)

text \<open>An API server that accepts every patch; a patch is the new replica count.\<close>

definition sizing_env :: "unit env" where
  "sizing_env = (offline_env (example_lib\<lparr>sts_merge_patch := (\<lambda>a b. case ss_replicas (sts_spec b) of
       None \<Rightarrow> Inl offline | Some n \<Rightarrow> Inr (replicate (nat (1 + \<bar>n\<bar>)) (if n < 0 then CHR ''-'' else CHR ''+'')))\<rparr>))
     \<lparr>api_sts_patch := (\<lambda>_ _ _ w. (Inr (example_sts ''c-rep0'' 1 1), w))\<rparr>"

lemma sizing_env_sel [simp]:
  "sts_merge_patch (e_lib sizing_env) a b = (case ss_replicas (sts_spec b) of
     None \<Rightarrow> Inl offline | Some n \<Rightarrow> Inr (replicate (nat (1 + \<bar>n\<bar>)) (if n < 0 then CHR ''-'' else CHR ''+'')))"
  "api_sts_patch sizing_env ns nm p w = (Inr (example_sts ''c-rep0'' 1 1), w)"
  by (simp_all add: sizing_env_def offline_env_def)

lemma sizing_patches_differ: "replica_patches_differ (e_lib sizing_env)"
  by (auto simp: replica_patches_differ_def set_replicas_def replicate_eq_replicate split: if_splits)

theorem resizing_converges_witness:
  "(resize_step sizing_env (example_cluster []) (example_group ''a'' 2) ^^ 1) (1, 0) (2, 0)
   \<and> (1 :: nat) \<le> nat \<bar>2 - 1\<bar> + 2"
proof -
  let ?sts = "example_sts ''c-rep0'' 1 1"
  obtain s' where run: "resize_set sizing_env (example_cluster []) [] ?sts (example_group ''a'' 2) 1 (start ()) = (Inr True, s')"
    and log: "st_calls s' = [] @ [Sts_Patch ''ns'' ''c-rep0'' (replicate 3 (CHR ''+''))]"
    by (simp add: resize_set_def patchStatefulSet_def instancesInIsoGroup_def set_replicas_def example_group_def
        example_sts_def start_def bindE_run catchE_run request_def i32_def Let_def)
  have "takes_effect (e_lib sizing_env) ?sts 2 (Sts_Patch ''ns'' ''c-rep0'' (replicate 3 (CHR ''+''))) (1, 0) (2, 0)"
    by (simp add: set_replicas_def)
  with run log have step: "resize_step sizing_env (example_cluster []) (example_group ''a'' 2) (1, 0) (2, 0)"
    using resize_step.pass [of sizing_env "example_cluster []" "[]" ?sts "example_group ''a'' 2" 1 "start ()" s' "[]"]
    by (simp add: instancesInIsoGroup_def is_i32_def start_def)
  then have chain: "(resize_step sizing_env (example_cluster []) (example_group ''a'' 2) ^^ 1) (1, 0) (2, 0)"
    by (simp add: eq_OO)
  from resizing_converges [OF sizing_patches_differ _ chain] chain show ?thesis by (simp add: is_i32_def)
qed

text \<open>
  C24: With \<open>preventScaleDown\<close> the resize loop takes nothing away, whatever the sizes of the sets,
  the groups and the placement: it asks for no instance to be removed, patches a set only to one
  replica more than it has, and deletes, updates and creates no object.
\<close>

theorem preventScaleDown_holds:
  assumes "cs_PreventScaleDown (cl_spec cluster)"
    and "resize_phase env cluster isoGroups pl childrenSets s = (r, s')"
  shows "\<exists>cs. st_calls s' = st_calls s @ cs \<and> list_all (no_scale_down (e_lib env) childrenSets) cs"
proof -
  have "keeps (only (no_scale_down (e_lib env) childrenSets)) (resize_phase env cluster isoGroups pl childrenSets)"
    unfolding resize_phase_def by (intro only.keeps_for_until keeps_resize_no_scale_down [OF assms(1)])
  from keepsD [OF this assms(2)] show ?thesis by (simp add: only_def)
qed

definition keep_cluster :: m3db_cluster where
  "keep_cluster = (example_cluster [example_group ''a'' 3])
     \<lparr>cl_spec := (example_spec [example_group ''a'' 3])\<lparr>cs_PreventScaleDown := True\<rparr>\<rparr>"

theorem preventScaleDown_holds_witness:
  "cs_PreventScaleDown (cl_spec keep_cluster)
   \<and> (\<exists>r s' cs. resize_phase (offline_env example_lib :: unit env) keep_cluster [example_group ''a'' 3] []
        [example_sts ''c-rep0'' 1 1] (start ()) = (r, s')
      \<and> st_calls s' = cs \<and> cs \<noteq> []
      \<and> list_all (no_scale_down (e_lib (offline_env example_lib :: unit env)) [example_sts ''c-rep0'' 1 1]) cs)"
proof -
  have prevent: "cs_PreventScaleDown (cl_spec keep_cluster)"
    by (simp add: keep_cluster_def example_cluster_def example_spec_def)
  obtain r s' where run: "resize_phase (offline_env example_lib :: unit env) keep_cluster [example_group ''a'' 3] []
      [example_sts ''c-rep0'' 1 1] (start ()) = (r, s')" by fastforce
  have env: "sts_merge_patch (e_lib (offline_env example_lib :: unit env)) = (\<lambda>a b. Inr ''patch'')"
    "api_sts_patch (offline_env example_lib :: unit env) = (\<lambda>_ _ _. unreachable)"
    by (simp_all add: offline_env_def example_lib_def)
  have child: "resize_child (offline_env example_lib :: unit env) keep_cluster [example_group ''a'' 3] [] (example_sts ''c-rep0'' 1 1)
      = bindE (patchStatefulSet (offline_env example_lib) (example_sts ''c-rep0'' 1 1) (set_replicas 2)) (\<lambda>_. ok True)"
    by (simp add: resize_child_def resize_set_def GetByName_def instancesInIsoGroup_def example_sts_def
        RollingUpdate_def OnDelete_def i32_def Let_def del: ok_run)
  from run have "st_calls s' \<noteq> []"
    by (auto simp: resize_phase_def child patchStatefulSet_def env unreachable_def bindE_run catchE_run request_def Let_def)
  with preventScaleDown_holds [OF prevent run] prevent run show ?thesis by (auto simp: start_def)
qed

end
