(* ===== verification/Rollout.thy ===== *)
theory Rollout
  imports Sts_Update Example_Cluster
begin

text \<open>
  Updates of StatefulSets: what an update changes, when it happens, and how many pods are
  restarted at a time under the OnDelete strategy.
\<close>

section \<open>Annotations of an updated set\<close>

abbreviation reserved :: "string set" where
  "reserved \<equiv> {Update, ParallelUpdate, ParallelUpdateInProgress}"

lemma put_annotation_simps [simp]:
  "sts_annotations (put_annotation k v t) = AList.update k v (sts_annotations t)"
  "sts_spec (put_annotation k v t) = sts_spec t" "sts_status (put_annotation k v t) = sts_status t"
  "(sts_meta (put_annotation k v t))\<lparr>om_annotations := a\<rparr> = (sts_meta t)\<lparr>om_annotations := a\<rparr>"
  by (simp_all add: put_annotation_def)

lemma delete_annotation_simps [simp]:
  "sts_annotations (delete_annotation k t) = AList.delete k (sts_annotations t)"
  "sts_spec (delete_annotation k t) = sts_spec t" "sts_status (delete_annotation k t) = sts_status t"
  "(sts_meta (delete_annotation k t))\<lparr>om_annotations := a\<rparr> = (sts_meta t)\<lparr>om_annotations := a\<rparr>"
  by (simp_all add: delete_annotation_def)

lemma copyAnnotation_frame [simp]:
  "sts_spec (copyAnnotation kv t) = sts_spec t" "sts_status (copyAnnotation kv t) = sts_status t"
  "(sts_meta (copyAnnotation kv t))\<lparr>om_annotations := a\<rparr> = (sts_meta t)\<lparr>om_annotations := a\<rparr>"
  by (simp_all add: copyAnnotation_def split: prod.splits)

lemma fold_copyAnnotation_frame [simp]:
  "sts_spec (fold copyAnnotation A t) = sts_spec t" "sts_status (fold copyAnnotation A t) = sts_status t"
  "(sts_meta (fold copyAnnotation A t))\<lparr>om_annotations := a\<rparr> = (sts_meta t)\<lparr>om_annotations := a\<rparr>"
  by (induction A arbitrary: t) simp_all

lemma copyAnnotation_other:
  assumes "k \<notin> reserved"
  shows "map_of (sts_annotations (copyAnnotation (l, v) t)) k =
    (if l = k \<and> map_of (sts_annotations t) k = None then Some v else map_of (sts_annotations t) k)"
  using assms by (auto simp: copyAnnotation_def mhas_def)

lemma copyAnnotations_other:
  assumes "k \<notin> reserved"
  shows "map_of (sts_annotations (fold copyAnnotation A t)) k =
    (case map_of (sts_annotations t) k of Some v \<Rightarrow> Some v | None \<Rightarrow> map_of A k)"
proof (induction A arbitrary: t)
  case Nil
  then show ?case by (simp split: option.splits)
next
  case (Cons kv A)
  obtain l v where "kv = (l, v)" by force
  with Cons show ?case by (auto simp: copyAnnotation_other [OF assms] split: option.splits)
qed

lemma copyAnnotations_requests:
  assumes "k = Update \<or> k = ParallelUpdate"
  shows "map_of (sts_annotations (fold copyAnnotation A t)) k = map_of (sts_annotations t) k"
proof (induction A arbitrary: t)
  case Nil
  then show ?case by simp
next
  case (Cons kv A)
  obtain l v where kv: "kv = (l, v)" by force
  have "map_of (sts_annotations (copyAnnotation (l, v) t)) k = map_of (sts_annotations t) k"
    using assms by (auto simp: copyAnnotation_def)
  with Cons kv show ?case by simp
qed

text \<open>The values that the annotations of a set may give to the progress annotation.\<close>

definition progress_values :: "string gomap \<Rightarrow> string \<Rightarrow> string set" where
  "progress_values A strategy =
     {v. (ParallelUpdate, v) \<in> set A} \<union> (if strategy = OnDelete \<and> Update \<in> fst ` set A then {''1''} else {})"

lemma progress_values_Cons:
  "progress_values ((l, v) # A) strategy = progress_values A strategy
     \<union> (if l = ParallelUpdate then {v} else if l = Update \<and> strategy = OnDelete then {''1''} else {})"
  by (auto simp: progress_values_def)

lemma copyAnnotations_no_progress:
  assumes "progress_values A (ss_updateStrategy (sts_spec t)) = {}"
  shows "map_of (sts_annotations (fold copyAnnotation A t)) ParallelUpdateInProgress =
    (case map_of (sts_annotations t) ParallelUpdateInProgress of
       Some v \<Rightarrow> Some v | None \<Rightarrow> map_of A ParallelUpdateInProgress)"
  using assms
proof (induction A arbitrary: t)
  case Nil
  then show ?case by (simp split: option.splits)
next
  case (Cons kv A)
  obtain l v where kv: "kv = (l, v)" by force
  have "map_of (sts_annotations (copyAnnotation (l, v) t)) ParallelUpdateInProgress =
    (if l = ParallelUpdateInProgress \<and> map_of (sts_annotations t) ParallelUpdateInProgress = None then Some v
     else map_of (sts_annotations t) ParallelUpdateInProgress)"
    using Cons.prems by (auto simp: copyAnnotation_def kv progress_values_Cons mhas_def split: if_splits)
  with Cons kv show ?case by (auto simp: progress_values_Cons split: option.splits)
qed

lemma copyAnnotations_progress:
  assumes "progress_values A (ss_updateStrategy (sts_spec t)) \<noteq> {}"
  shows "\<exists>v \<in> progress_values A (ss_updateStrategy (sts_spec t)).
    map_of (sts_annotations (fold copyAnnotation A t)) ParallelUpdateInProgress = Some v"
  using assms
proof (induction A arbitrary: t)
  case Nil
  then show ?case by (simp add: progress_values_def)
next
  case (Cons kv A)
  obtain l v where kv: "kv = (l, v)" by force
  let ?t = "copyAnnotation (l, v) t"
  show ?case
  proof (cases "progress_values A (ss_updateStrategy (sts_spec t)) = {}")
    case False
    with Cons.IH [of ?t] show ?thesis by (auto simp: kv progress_values_Cons)
  next
    case True
    with Cons.prems have "\<exists>w \<in> progress_values (kv # A) (ss_updateStrategy (sts_spec t)).
        map_of (sts_annotations ?t) ParallelUpdateInProgress = Some w"
      by (auto simp: kv progress_values_Cons copyAnnotation_def split: if_splits)
    with True copyAnnotations_no_progress [of A ?t] show ?thesis by (auto simp: kv)
  qed
qed

section \<open>The update of a set\<close>

lemma update_requested_True:
  "update_requested A = Inr True \<longleftrightarrow> map_of A Update = Some EnabledVal
     \<or> (\<exists>str n. map_of A ParallelUpdate = Some str \<and> Atoi str = Inr n \<and> 1 \<le> n)"
  by (auto simp: update_requested_def split: option.splits sum.splits)

lemma update_requested_None:
  "map_of A Update = None \<Longrightarrow> map_of A ParallelUpdate = None \<Longrightarrow> update_requested A = Inr False"
  by (simp add: update_requested_def)

lemma updatedStatefulSet_Some:
  assumes "updatedStatefulSet lb actual c g = Inr (Some t)"
  obtains "update_requested (sts_annotations actual) = Inr True"
      "t = delete_annotation ParallelUpdate (delete_annotation Update actual)"
  | u where "update_requested (sts_annotations actual) = Inr True"
      "t = copyAnnotations (u\<lparr>sts_meta := (sts_meta actual)\<lparr>om_annotations := []\<rparr>, sts_status := sts_status actual\<rparr>) actual"
      "ss_replicas (sts_spec u) = ss_replicas (sts_spec actual)"
  using assms
  by (auto simp: updatedStatefulSet_def res_bind_Inr Let_def split: if_splits)

section \<open>Restarting pods\<close>


lemma podsToUpdate_loop_all:
  "n \<le> int (length acc) \<Longrightarrow> podsToUpdate_loop n acc ps = acc @ map pid_pod ps"
  by (induction ps arbitrary: acc) (auto simp: Let_def)






section \<open>Properties\<close>

text \<open>
  C18: \<open>updatedStatefulSet\<close> updates a set only on request (the update annotation with value
  \<open>enabled\<close>, or a parallel update of at least one pod). The update keeps the object's metadata
  (resource version, labels and owner included), its status and its replica count; it drops the two
  request annotations and keeps every other one apart from the progress annotation; and on its
  result no further update is requested.
\<close>

theorem updatedStatefulSet_contract:
  assumes upd: "updatedStatefulSet lb actual c g = Inr (Some t)"
  shows "(map_of (sts_annotations actual) Update = Some EnabledVal
      \<or> (\<exists>str n. map_of (sts_annotations actual) ParallelUpdate = Some str \<and> Atoi str = Inr n \<and> 1 \<le> n))
    \<and> sts_meta t = (sts_meta actual)\<lparr>om_annotations := sts_annotations t\<rparr>
    \<and> sts_status t = sts_status actual \<and> ss_replicas (sts_spec t) = ss_replicas (sts_spec actual)
    \<and> map_of (sts_annotations t) Update = None \<and> map_of (sts_annotations t) ParallelUpdate = None
    \<and> (\<forall>k. k \<notin> reserved \<longrightarrow> map_of (sts_annotations t) k = map_of (sts_annotations actual) k)
    \<and> updatedStatefulSet lb t c g = Inr None"
proof -
  have meta: "m\<lparr>om_annotations := om_annotations m\<rparr> = m" for m :: object_meta by simp
  have again: "updatedStatefulSet lb t c g = Inr None"
    if "map_of (sts_annotations t) Update = None" "map_of (sts_annotations t) ParallelUpdate = None"
    using that by (simp add: updatedStatefulSet_def update_requested_None)
  show ?thesis
    using upd
  proof (cases rule: updatedStatefulSet_Some)
    case 1
    with again show ?thesis
      using delete_annotation_simps(4) [where k = ParallelUpdate and t = "delete_annotation Update actual"
          and a = "sts_annotations t"] meta [of "sts_meta t"]
      by (simp add: update_requested_True)
  next
    case (2 u)
    let ?e = "u\<lparr>sts_meta := (sts_meta actual)\<lparr>om_annotations := []\<rparr>, sts_status := sts_status actual\<rparr>"
    have t: "t = fold copyAnnotation (sts_annotations actual) ?e"
      using 2(2) by (simp add: copyAnnotations_def)
    have m: "sts_meta t = (sts_meta actual)\<lparr>om_annotations := sts_annotations t\<rparr>"
      using fold_copyAnnotation_frame(3) [where A = "sts_annotations actual" and t = ?e and a = "sts_annotations t"]
        meta [of "sts_meta t"]
      unfolding t by simp
    have keep: "map_of (sts_annotations t) k = map_of (sts_annotations actual) k" if "k \<notin> reserved" for k
      using copyAnnotations_other [OF that, of "sts_annotations actual" ?e] unfolding t by simp
    have gone: "map_of (sts_annotations t) k = None" if "k = Update \<or> k = ParallelUpdate" for k
      using copyAnnotations_requests [OF that, of "sts_annotations actual" ?e] unfolding t by simp
    have "sts_status t = sts_status actual" "ss_replicas (sts_spec t) = ss_replicas (sts_spec actual)"
      using 2(3) unfolding t by simp_all
    then show ?thesis
      using 2(1) m by (intro conjI allI impI keep gone again) (simp_all only: update_requested_True simp_thms)
  qed
qed

definition example_annotated :: "string gomap \<Rightarrow> statefulset" where
  "example_annotated A = (example_sts ''c-rep0'' 1 1)\<lparr>sts_meta := zero_meta\<lparr>om_name := ''c-rep0'', om_annotations := A\<rparr>\<rparr>"

lemma example_generates: "\<exists>t. GenerateStatefulSet (example_cluster [example_group ''a'' 1]) ''a'' k = Inr t"
  by (simp add: GenerateStatefulSet_def example_cluster_def example_spec_def example_group_def
      GenerateStatefulSetAffinity_def buildConfigMapComponents_def defaultConfigMapName_def Let_def)

theorem updatedStatefulSet_contract_witness:
  "\<exists>t. updatedStatefulSet example_lib (example_annotated [(Update, EnabledVal), (''x'', ''y'')])
       (example_cluster [example_group ''a'' 1]) (example_group ''a'' 1) = Inr (Some t)
     \<and> map_of (sts_annotations t) Update = None \<and> map_of (sts_annotations t) ''x'' = Some ''y''
     \<and> sts_name t = ''c-rep0''"
proof -
  let ?a = "example_annotated [(Update, EnabledVal), (''x'', ''y'')]"
  have req: "update_requested (sts_annotations ?a) = Inr True"
    by (simp add: example_annotated_def update_requested_def)
  obtain u where u: "GenerateStatefulSet (example_cluster [example_group ''a'' 1]) ''a'' 1 = Inr u"
    using example_generates by blast
  have "\<exists>t. updatedStatefulSet example_lib ?a (example_cluster [example_group ''a'' 1]) (example_group ''a'' 1)
      = Inr (Some t)"
    using u unfolding updatedStatefulSet_def req by (simp add: example_group_def Let_def)
  then obtain t where t: "updatedStatefulSet example_lib ?a (example_cluster [example_group ''a'' 1])
      (example_group ''a'' 1) = Inr (Some t)" by blast
  note c = updatedStatefulSet_contract [OF t]
  have "map_of (sts_annotations t) ''x'' = map_of (sts_annotations ?a) ''x''"
    using c by (simp add: annotation_defs)
  moreover have "sts_name t = sts_name ?a" using c by (metis object_meta.select_convs(1) object_meta.surjective object_meta.update_convs(5))
  ultimately show ?thesis using t c by (auto simp: example_annotated_def Update_def)
qed

text \<open>
  The progress annotation of a replaced set: it is the number of a parallel update, or 1 for a
  plain update of a set whose new strategy is OnDelete; without such a request it is what the set
  had before. (When a set carries both requests, the iteration order of the map decides.)
\<close>

theorem copyAnnotations_progress_value:
  "progress_values (sts_annotations actual) (ss_updateStrategy (sts_spec e)) = {}
     \<and> map_of (sts_annotations (copyAnnotations (e\<lparr>sts_meta := (sts_meta actual)\<lparr>om_annotations := []\<rparr>\<rparr>) actual))
         ParallelUpdateInProgress = map_of (sts_annotations actual) ParallelUpdateInProgress
   \<or> (\<exists>v \<in> progress_values (sts_annotations actual) (ss_updateStrategy (sts_spec e)).
       map_of (sts_annotations (copyAnnotations (e\<lparr>sts_meta := (sts_meta actual)\<lparr>om_annotations := []\<rparr>\<rparr>) actual))
         ParallelUpdateInProgress = Some v)"
  using copyAnnotations_no_progress [of "sts_annotations actual" "e\<lparr>sts_meta := (sts_meta actual)\<lparr>om_annotations := []\<rparr>\<rparr>"]
    copyAnnotations_progress [of "sts_annotations actual" "e\<lparr>sts_meta := (sts_meta actual)\<lparr>om_annotations := []\<rparr>\<rparr>"]
  by (auto simp: copyAnnotations_def)



text \<open>A negative progress annotation selects every pod that is not up to date.\<close>

lemma negative_parallel_update_selects_all:
  "n < 0 \<Longrightarrow> podsToUpdate_loop n [] ps = map pid_pod ps"
  by (simp add: podsToUpdate_loop_all)

end
