(* ===== verification/Placement_Props.thy ===== *)
theory Placement_Props
  imports Placement_Ops Example_Cluster
begin

text \<open>
  The order of pods by ordinal, the identity of a pod without configured sources (its name and UID,
  which needs no node), and which pods are replaced because their identity has changed.
\<close>

section \<open>Ordinals\<close>

lemma pod_ordinal_Inr:
  "pod_ordinal pd = Inr p \<longleftrightarrow> (\<exists>n. Atoi (last (split_on (CHR ''-'') (pod_name pd))) = Inr n
     \<and> p = \<lparr>pid_pod = pd, pid_id = n\<rparr>)"
  by (auto simp: pod_ordinal_def Let_def split: sum.splits)

lemma pod_ordinal_set_pod:
  assumes "pod_name pd = nm @ ''-'' @ itoa i" and "int i < 2 ^ 63"
  shows "pod_ordinal pd = Inr \<lparr>pid_pod = pd, pid_id = int i\<rparr>"
proof -
  have "CHR ''-'' \<notin> set (itoa i)" by (rule itoa_no_sep) simp
  then have "last (split_on (CHR ''-'') (pod_name pd)) = itoa i"
    using assms(1) last_split_on [of "CHR ''-''" "itoa i" nm] by simp
  with Atoi_itoa [OF assms(2)] show ?thesis by (simp add: pod_ordinal_def Let_def)
qed

lemma res_map_total: "(\<And>x. x \<in> set xs \<Longrightarrow> f x = Inr (g x)) \<Longrightarrow> res_map f xs = Inr (map g xs)"
  by (induction xs) auto

lemma sortPods_mset:
  assumes "sortPods lb (Some ps) = Inr ids"
  shows "mset (map pid_pod ids) = mset ps" and "sorted (map pid_id ids)"
proof -
  obtain ids0 where ids0: "res_map pod_ordinal ps = Inr ids0" "ids = go_sort (tie_pods lb) pid_id ids0"
    using assms by (auto simp: sortPods_def res_bind_Inr)
  have "map pid_pod ids0 = ps"
    using ids0(1) unfolding res_map_Inr
    by (intro nth_equalityI) (auto simp: list_all2_conv_all_nth pod_ordinal_Inr)
  then show "mset (map pid_pod ids) = mset ps"
    using ids0(2) by (metis mset_go_sort mset_map)
  show "sorted (map pid_id ids)" using ids0(2) by simp
qed

section \<open>The default identity\<close>

definition uid_identity :: "pod \<Rightarrow> pod_identity" where
  "uid_identity pd = (name_identity (pod_name pd))\<lparr>pi_UID := om_uid (pod_meta pd)\<rparr>"

definition uid_text :: "pod \<Rightarrow> string" where
  "uid_text pd = projr (IdentityJSON (uid_identity pd))"

definition uid_pods :: "m3db_cluster \<Rightarrow> pod list \<Rightarrow> bool" where
  "uid_pods cluster ps \<longleftrightarrow> cs_PodIdentityConfig (cl_spec cluster) = None
     \<and> list_all (\<lambda>p. pod_name p \<noteq> [] \<and> om_uid (pod_meta p) \<noteq> []) ps"

lemma Identity_uid:
  assumes "uid_pods cluster ps" and "p \<in> set ps"
  shows "Identity env p cluster = ok (uid_identity p)"
proof
  fix s
  show "Identity env p cluster s = ok (uid_identity p) s"
    using assms by (simp add: uid_pods_def list_all_iff Identity_def Identity_source_def uid_identity_def)
qed

lemma pod_instance_id_uid:
  assumes "uid_pods cluster ps" and "p \<in> set ps"
  shows "pod_instance_id env cluster p = ok (uid_text p)"
proof
  fix s
  show "pod_instance_id env cluster p s = ok (uid_text p) s"
    using Identity_uid [OF assms, of env]
    by (simp add: pod_instance_id_def uid_text_def IdentityJSON_def bindE_def)
qed

lemma collect_each_pure:
  "(\<And>x. x \<in> set xs \<Longrightarrow> f x s = (Inr (g x), s)) \<Longrightarrow> collect_each f xs s = (Inr (List.map_filter g xs), s)"
  by (induction xs) (auto simp: bindE_def map_filter_simps split: option.splits)

lemma map_filter_if: "List.map_filter (\<lambda>x. if P x then Some x else None) xs = filter P xs"
  by (induction xs) (auto simp: map_filter_simps)

section \<open>Removal, addition, replacement\<close>

lemma findPodInPlacement_uid:
  assumes "uid_pods cluster ps" and "p \<in> set ps"
  shows "findPodInPlacement env cluster pl p s =
    (case pl_Instance pl (uid_text p) of None \<Rightarrow> Inl errPodNotInPlacement | Some inst \<Rightarrow> Inr inst, s)"
  using pod_instance_id_uid [OF assms, of env]
  by (simp add: findPodInPlacement_def split: option.splits)

definition matches :: "m3_instance \<Rightarrow> pod \<Rightarrow> bool" where
  "matches inst p \<longleftrightarrow> EqualFold (hd (split_on (CHR ''.'') (in_Hostname inst))) (pod_name p)"

lemma find_replaced_None:
  "find_replaced lb p pid insts = Inr None \<longleftrightarrow>
     (\<forall>inst \<in> set insts. matches inst p \<longrightarrow> json_identity lb (in_ID inst) = Inr pid)"
  by (induction insts) (auto simp: matches_def split: sum.splits)

lemma find_replaced_Some:
  "find_replaced lb p pid insts = Inr (Some iid) \<Longrightarrow>
     \<exists>inst \<in> set insts. in_ID inst = iid \<and> matches inst p \<and> (\<exists>old. json_identity lb (in_ID inst) = Inr old \<and> old \<noteq> pid)"
  by (induction insts) (auto simp: matches_def split: sum.splits if_splits)

lemma check_pods_uid:
  assumes "uid_pods cluster ps" and "pid_pod ` set ids \<subseteq> set ps"
    and "check_pods env cluster insts ids s = (Inr r, s')"
  shows "s' = s \<and> (case r of
      None \<Rightarrow> \<forall>p \<in> pid_pod ` set ids. find_replaced (e_lib env) p (uid_identity p) insts = Inr None
    | Some (iid, p) \<Rightarrow> p \<in> pid_pod ` set ids \<and> find_replaced (e_lib env) p (uid_identity p) insts = Inr (Some iid))"
  using assms(2,3)
proof (induction ids)
  case Nil
  then show ?case by auto
next
  case (Cons p ids)
  from Cons.prems(1) have "Identity env (pid_pod p) cluster = ok (uid_identity (pid_pod p))"
    by (intro Identity_uid [OF assms(1)]) simp
  with Cons show ?case
    by (auto simp: bindE_run split: sum.splits option.splits)
qed

section \<open>Properties\<close>

text \<open>
  \<open>sortPods\<close> succeeds on the pods of a StatefulSet (names ending in \<open>-<ordinal>\<close>) and returns
  them all, each with its ordinal, in numeric order of the ordinals.
\<close>

theorem sortPods_numeric:
  assumes names: "\<And>p. p \<in> set ps \<Longrightarrow> \<exists>i. pod_name p = nm @ ''-'' @ itoa i \<and> int i < 2 ^ 63"
  shows "\<exists>ids. sortPods lb (Some ps) = Inr ids \<and> mset (map pid_pod ids) = mset ps \<and> sorted (map pid_id ids)
    \<and> list_all (\<lambda>p. pod_name (pid_pod p) = nm @ ''-'' @ itoa (nat (pid_id p))) ids"
proof -
  obtain g where g: "\<And>p. p \<in> set ps \<Longrightarrow> pod_name p = nm @ ''-'' @ itoa (g p) \<and> int (g p) < 2 ^ 63"
    using names by metis
  have "res_map pod_ordinal ps = Inr (map (\<lambda>p. \<lparr>pid_pod = p, pid_id = int (g p)\<rparr>) ps)"
    by (rule res_map_total) (use g in \<open>auto intro!: pod_ordinal_set_pod\<close>)
  then have eq: "sortPods lb (Some ps) =
      Inr (go_sort (tie_pods lb) pid_id (map (\<lambda>p. \<lparr>pid_pod = p, pid_id = int (g p)\<rparr>) ps))"
    by (simp add: sortPods_def)
  from sortPods_mset [OF eq] g show ?thesis by (auto simp: eq list_all_iff)
qed

theorem sortPods_numeric_witness:
  "\<exists>ids. sortPods example_lib (Some [example_pod ''c-rep0-10'', example_pod ''c-rep0-9'']) = Inr ids
    \<and> sorted (map pid_id ids)
    \<and> list_all (\<lambda>p. pod_name (pid_pod p) = ''c-rep0'' @ ''-'' @ itoa (nat (pid_id p))) ids"
proof -
  have i: "itoa 10 = ''10''" "itoa 9 = ''9''" by code_simp+
  have "\<exists>i. pod_name p = ''c-rep0'' @ ''-'' @ itoa i \<and> int i < 2 ^ 63"
    if "p \<in> set [example_pod ''c-rep0-10'', example_pod ''c-rep0-9'']" for p
    using that i by (auto simp: example_pod_def intro: exI [of _ 10] exI [of _ 9])
  with sortPods_numeric [where ps = "[example_pod ''c-rep0-10'', example_pod ''c-rep0-9'']" and nm = "''c-rep0''"
      and lb = example_lib]
  show ?thesis by blast
qed

definition one_pod_env :: "unit env" where
  "one_pod_env = (offline_env (example_lib\<lparr>json_identity := (\<lambda>_. Inr (name_identity ''old''))\<rparr>))
     \<lparr>list_pods := (\<lambda>_ _. ok (Some [example_pod ''c-rep0-0'']))\<rparr>"

text \<open>
  C20: \<open>checkPodsForReplacement\<close> finds a pod to replace exactly when the placement has an instance on
  a pod's host name with another identity: a result names such a pod and instance, and no result
  means that every instance on a pod's host name has that pod's current identity.
\<close>

theorem replacement_means_identity_changed:
  assumes uid: "uid_pods cluster ps"
    and run: "checkPodsForReplacement env cluster (Some ps) pl s = (Inr r, s')"
  shows "s' = s \<and> (case r of
      None \<Rightarrow> list_all (\<lambda>p. list_all (\<lambda>inst. json_identity (e_lib env) (in_ID inst) = Inr (uid_identity p))
        (filter (\<lambda>inst. matches inst p) pl)) ps
    | Some (iid, p) \<Rightarrow> p \<in> set ps \<and> (\<exists>inst old. inst \<in> set pl \<and> in_ID inst = iid \<and> matches inst p
        \<and> json_identity (e_lib env) iid = Inr old \<and> old \<noteq> uid_identity p))"
proof -
  let ?insts = "go_sort (tie_insts (e_lib env)) in_ID pl"
  obtain ids where ids: "sortPods (e_lib env) (Some ps) = Inr ids"
    "check_pods env cluster ?insts ids s = (Inr r, s')"
    using run by (auto simp: checkPodsForReplacement_def Let_def split: sum.splits)
  have set: "pid_pod ` set ids = set ps"
    using sortPods_mset(1) [OF ids(1)] by (metis list.set_map mset_eq_setD)
  show ?thesis
  proof (cases r)
    case None
    with check_pods_uid [OF uid _ ids(2)] show ?thesis
      by (auto simp: set find_replaced_None list_all_iff)
  next
    case (Some ip)
    obtain iid p where ip: "ip = (iid, p)" by force
    with check_pods_uid [OF uid _ ids(2)] Some have "s' = s" "p \<in> set ps"
      "find_replaced (e_lib env) p (uid_identity p) ?insts = Inr (Some iid)" by (auto simp: set)
    with find_replaced_Some [of "e_lib env" p "uid_identity p" ?insts iid] Some ip show ?thesis by auto
  qed
qed

theorem replacement_means_identity_changed_witness:
  "checkPodsForReplacement one_pod_env (example_cluster []) (Some [example_pod ''c-rep0-0''])
     [\<lparr>in_ID = ''x'', in_IsolationGroup = ''a'', in_Hostname = ''C-rep0-0.svc'', in_IsAvailable = True\<rparr>] (start ())
   = (Inr (Some (''x'', example_pod ''c-rep0-0'')), start ())
   \<and> (\<exists>old. json_identity (e_lib one_pod_env) ''x'' = Inr old \<and> old \<noteq> uid_identity (example_pod ''c-rep0-0''))"
proof -
  let ?pl = "[\<lparr>in_ID = ''x'', in_IsolationGroup = ''a'', in_Hostname = ''C-rep0-0.svc'', in_IsAvailable = True\<rparr>]"
  have uid: "uid_pods (example_cluster []) [example_pod ''c-rep0-0'']"
    by (simp add: uid_pods_def example_cluster_def example_spec_def example_pod_def)
  have o: "Atoi ''0'' = Inr 0" "EqualFold ''C-rep0-0'' ''c-rep0-0''" by code_simp+
  have run: "checkPodsForReplacement one_pod_env (example_cluster []) (Some [example_pod ''c-rep0-0'']) ?pl (start ())
      = (Inr (Some (''x'', example_pod ''c-rep0-0'')), start ())"
    using Identity_uid [OF uid, of "example_pod ''c-rep0-0''" one_pod_env]
    by (simp add: checkPodsForReplacement_def sortPods_def pod_ordinal_def go_sort_def Let_def one_pod_env_def
        offline_env_def example_lib_def o example_pod_def uid_identity_def name_identity_def bindE_def)
  from replacement_means_identity_changed [OF uid run] run show ?thesis by auto
qed

end
