(* ===== verification/Placement_Choice.thy ===== *)
theory Placement_Choice
  imports Placement_Props
begin

text \<open>
  Which pods leave and enter the placement. The order of the pods is stated without the functions
  that sort them: by the ordinals in the names of StatefulSet pods when a set shrinks, by the names
  themselves when it grows. Identities may come from any source (\<open>identified\<close>).
\<close>

section \<open>Pods and their identities\<close>

text \<open>The pods of a StatefulSet, with their ordinals.\<close>

definition set_pods :: "string \<Rightarrow> (pod \<Rightarrow> nat) \<Rightarrow> pod list \<Rightarrow> bool" where
  "set_pods nm ord ps \<longleftrightarrow> distinct ps \<and> inj_on ord (set ps)
     \<and> (\<forall>p \<in> set ps. pod_name p = nm @ ''-'' @ itoa (ord p) \<and> int (ord p) < 2 ^ 63)"

text \<open>The identities of the pods can be found in a state, and are \<open>idt\<close>.\<close>

definition identified :: "'w env \<Rightarrow> m3db_cluster \<Rightarrow> (pod \<Rightarrow> string) \<Rightarrow> pod list \<Rightarrow> 'w st \<Rightarrow> bool" where
  "identified env cluster idt ps s \<longleftrightarrow> (\<forall>p \<in> set ps. pod_instance_id env cluster p s = (Inr (idt p), s))"

lemma identified_uid: "uid_pods cluster ps \<Longrightarrow> identified env cluster uid_text ps s"
  unfolding identified_def by (simp add: pod_instance_id_uid)

lemma sorted_wrt_map_filter:
  "sorted_wrt R xs \<Longrightarrow> sorted_wrt (\<lambda>a b. R (fst a) (fst b)) (List.map_filter (\<lambda>x. map_option (Pair x) (f x)) xs)"
proof (induction xs)
  case (Cons x xs)
  have "set (List.map_filter (\<lambda>x. map_option (Pair x) (f x)) xs) \<subseteq> {(y, z). y \<in> set xs}"
    by (auto simp: map_filter_def)
  with Cons show ?case by (cases "f x") (auto simp: map_filter_simps)
qed (simp add: map_filter_simps)

lemma in_drop_sorted:
  fixes f :: "'a \<Rightarrow> nat"
  assumes "sorted_wrt (\<lambda>p q. f p < f q) xs"
  shows "p \<in> set (drop n xs) \<longleftrightarrow> p \<in> set xs \<and> n \<le> card {q \<in> set xs. f q < f p}"
proof -
  have less: "f (xs ! j) < f (xs ! i) \<longleftrightarrow> j < i" if "i < length xs" "j < length xs" for i j
    using assms that by (metis linorder_neqE_nat not_less_iff_gr_or_eq sorted_wrt_nth_less)
  then have dist: "distinct xs" by (metis distinct_conv_nth linorder_neqE_nat less_irrefl)
  have rank: "card {q \<in> set xs. f q < f (xs ! i)} = i" if i: "i < length xs" for i
  proof -
    have "{q \<in> set xs. f q < f (xs ! i)} = set (take i xs)"
      using less i by (auto simp: in_set_conv_nth) (metis nth_take, metis less_trans)
    with dist i show ?thesis by (simp add: distinct_card)
  qed
  have "p \<in> set (drop n xs) \<longleftrightarrow> (\<exists>i < length xs. n \<le> i \<and> p = xs ! i)"
    by (auto simp: in_set_conv_nth) (metis le_add1 less_diff_conv add.commute, metis diff_less_mono le_add_diff_inverse)
  with rank show ?thesis by (auto simp: in_set_conv_nth)
qed

lemma sortPods_set_pods:
  assumes "set_pods nm ord ps"
  shows "\<exists>ids. sortPods lb (Some ps) = Inr ids \<and> sorted_wrt (\<lambda>p q. ord p < ord q) (map pid_pod ids)
    \<and> set (map pid_pod ids) = set ps"
proof -
  have "res_map pod_ordinal ps = Inr (map (\<lambda>p. \<lparr>pid_pod = p, pid_id = int (ord p)\<rparr>) ps)"
    using assms by (intro res_map_total) (auto simp: set_pods_def intro!: pod_ordinal_set_pod)
  then obtain ids where ids: "sortPods lb (Some ps) = Inr ids"
      "ids = go_sort (tie_pods lb) pid_id (map (\<lambda>p. \<lparr>pid_pod = p, pid_id = int (ord p)\<rparr>) ps)"
    by (simp add: sortPods_def)
  let ?ps = "map pid_pod ids"
  have same: "mset ?ps = mset ps" using sortPods_mset(1) [OF ids(1)] .
  then have set: "set ?ps = set ps" using mset_eq_setD by blast
  have dist: "distinct ?ps" using assms mset_eq_imp_distinct_iff [OF same] by (simp add: set_pods_def)
  have "map pid_id ids = map (int \<circ> ord) ?ps"
    by (auto simp: ids(2) set_go_sort)
  with sortPods_mset(2) [OF ids(1)] have "sorted (map ord ?ps)"
    by (simp add: sorted_map)
  moreover have "distinct (map ord xs)" if "distinct xs" "inj_on ord (set xs)" for xs using that by (simp add: distinct_map)
  from this [OF dist] assms have "distinct (map ord ?ps)" unfolding set by (simp only: set_pods_def)
  ultimately have "sorted_wrt (<) (map ord ?ps)" by (simp add: strict_sorted_iff)
  with ids(1) set show ?thesis by (auto simp: sorted_wrt_map)
qed

section \<open>Adding pods\<close>







section \<open>Properties\<close>

text \<open>
  C10: Shrinking a set whose pods are named as the StatefulSet names them, and whose identities can be
  found, picks for removal from the placement exactly the instances of those pods beside which there
  are at least as many pods with a smaller ordinal as instances are desired, where they are still in
  the placement. They are picked in descending order of the ordinals as numbers (10 is above 9): the
  pods with the lowest ordinals stay. Without pods, or when no instance is desired, it is an error.
\<close>

theorem removes_highest_ordinals:
  assumes names: "set_pods nm ord ps" and ids: "identified env cluster idt ps s"
    and cause: "Cause (e_lib env) errPodNotInPlacement = errPodNotInPlacement"
  shows "if ps = [] \<or> desired < 1
    then \<exists>e. findPodsAndInstancesToRemove env cluster pl (Some ps) desired s = (Inl e, s)
    else \<exists>rm. findPodsAndInstancesToRemove env cluster pl (Some ps) desired s = (Inr rm, s)
      \<and> sorted_wrt (\<lambda>a b. ord (fst b) < ord (fst a)) rm
      \<and> set rm = {(p, i). p \<in> set ps \<and> nat desired \<le> card {q \<in> set ps. ord q < ord p} \<and> pl_Instance pl (idt p) = Some i}"
proof (cases "ps = [] \<or> desired < 1")
  case True
  then show ?thesis by (auto simp: findPodsAndInstancesToRemove_def pods_list_def)
next
  case False
  let ?find = "\<lambda>p. map_option (Pair p) (pl_Instance pl (idt p))" and ?n = "nat desired"
  obtain sorted where sorted: "sortPods (e_lib env) (Some ps) = Inr sorted"
      "sorted_wrt (\<lambda>p q. ord p < ord q) (map pid_pod sorted)" "set (map pid_pod sorted) = set ps"
    using sortPods_set_pods [OF names] by blast
  let ?ps = "map pid_pod sorted" and ?rm = "List.map_filter (?find \<circ> pid_pod) (rev (drop ?n sorted))"
  have "pid_pod p \<in> set ps" if "p \<in> set sorted" for p using sorted(3) that by auto
  then have run: "findPodsAndInstancesToRemove env cluster pl (Some ps) desired s = (Inr ?rm, s)"
    using False sorted(1) ids unfolding findPodsAndInstancesToRemove_def pods_list_def
    by (auto simp del: collect_each.simps simp: findPodInPlacement_def identified_def catchE_run bindE_run cause
        dest!: in_set_dropD intro!: collect_each_pure split: option.splits)
  have rm: "?rm = List.map_filter ?find (rev (drop ?n ?ps))" by (simp add: map_filter_def filter_map drop_map rev_map comp_def)
  have "sorted_wrt (\<lambda>p q. ord q < ord p) (rev (drop ?n ?ps))"
    using sorted(2) by (simp add: sorted_wrt_rev sorted_wrt_drop)
  note order = sorted_wrt_map_filter [OF this, of "\<lambda>p. pl_Instance pl (idt p)"]
  have "set ?rm = {(p, i). p \<in> set (drop ?n ?ps) \<and> pl_Instance pl (idt p) = Some i}"
    unfolding rm by (force simp: map_filter_def)
  then have "set ?rm = {(p, i). p \<in> set ps \<and> ?n \<le> card {q \<in> set ps. ord q < ord p} \<and> pl_Instance pl (idt p) = Some i}"
    unfolding in_drop_sorted [OF sorted(2)] sorted(3) by auto
  with False run order rm show ?thesis by auto
qed

text \<open>Pods 10 and 9 of a set that is to have one instance, both in the placement.\<close>

definition pods_9_10 :: "pod list" where
  "pods_9_10 = [example_pod ''c-rep0-10'', example_pod ''c-rep0-9'']"

definition ord_9_10 :: "pod \<Rightarrow> nat" where
  "ord_9_10 p = (if pod_name p = ''c-rep0-9'' then 9 else 10)"

lemma pods_9_10: "set_pods ''c-rep0'' ord_9_10 pods_9_10" "uid_pods (example_cluster []) pods_9_10"
proof -
  have "itoa 10 = ''10''" "itoa 9 = ''9''" by code_simp+
  then show "set_pods ''c-rep0'' ord_9_10 pods_9_10" "uid_pods (example_cluster []) pods_9_10"
    by (auto simp: set_pods_def pods_9_10_def ord_9_10_def example_pod_def zero_meta_def uid_pods_def example_cluster_def example_spec_def)
qed

theorem removes_highest_ordinals_witness:
  "\<exists>i. findPodsAndInstancesToRemove (offline_env example_lib) (example_cluster [])
      (map (\<lambda>p. \<lparr>in_ID = uid_text p, in_IsolationGroup = ''a'', in_Hostname = [], in_IsAvailable = True\<rparr>) pods_9_10)
      (Some pods_9_10) 1 (start ())
    = (Inr [(example_pod ''c-rep0-10'', i)], start ())"
proof -
  let ?env = "offline_env example_lib :: unit env" and ?p = "example_pod ''c-rep0-10''" and ?q = "example_pod ''c-rep0-9''"
  let ?pl = "map (\<lambda>p. \<lparr>in_ID = uid_text p, in_IsolationGroup = ''a'', in_Hostname = [], in_IsAvailable = True\<rparr>) pods_9_10"
  have cause: "Cause (e_lib ?env) errPodNotInPlacement = errPodNotInPlacement"
    by (simp add: offline_env_def example_lib_def errPodNotInPlacement_def)
  from removes_highest_ordinals [OF pods_9_10(1) identified_uid [OF pods_9_10(2)] cause, of 1 ?pl "start ()"]
  obtain rm where run: "findPodsAndInstancesToRemove ?env (example_cluster []) ?pl (Some pods_9_10) 1 (start ()) = (Inr rm, start ())"
    and order: "sorted_wrt (\<lambda>a b. ord_9_10 (fst b) < ord_9_10 (fst a)) rm"
    and rm: "set rm = {(p, i). p \<in> set pods_9_10 \<and> 1 \<le> card {q \<in> set pods_9_10. ord_9_10 q < ord_9_10 p}
      \<and> pl_Instance ?pl (uid_text p) = Some i}"
    by (auto simp: pods_9_10_def)
  have "{q \<in> set pods_9_10. ord_9_10 q < ord_9_10 ?p} = {?q}" "{q \<in> set pods_9_10. ord_9_10 q < ord_9_10 ?q} = {}"
    by (auto simp: pods_9_10_def ord_9_10_def example_pod_def)
  then have ranks: "1 \<le> card {q \<in> set pods_9_10. ord_9_10 q < ord_9_10 ?p}" "\<not> 1 \<le> card {q \<in> set pods_9_10. ord_9_10 q < ord_9_10 ?q}"
    by (simp_all only: card.empty card_1_singleton_iff card_insert_if finite.emptyI) simp_all
  obtain i where inst: "pl_Instance ?pl (uid_text ?p) = Some i" by (simp add: pods_9_10_def pl_Instance_def)
  have "(p, j) \<in> set rm \<longleftrightarrow> p = ?p \<and> j = i" for p j
  proof (cases "p \<in> set pods_9_10")
    case True
    then consider "p = ?p" | "p = ?q" by (auto simp: pods_9_10_def)
    then show ?thesis
    proof cases
      case 1
      with True ranks(1) inst rm show ?thesis by auto
    next
      case 2
      have "?q \<noteq> ?p" by (simp add: example_pod_def zero_meta_def)
      with 2 ranks(2) rm show ?thesis by simp
    qed
  next
    case False
    with rm show ?thesis by (auto simp: pods_9_10_def)
  qed
  then have i: "set rm = {(?p, i)}" by auto
  then have "rm = [(?p, i)]"
    using order by (cases rm; cases "tl rm") auto
  with run show ?thesis by blast
qed





end
