(* ===== verification/Namespaces_Converge.thy ===== *)
theory Namespaces_Converge
  imports Namespaces_Reconcile Example_Cluster
begin

text \<open>
  What reconciling the namespaces achieves: against a coordinator whose operations do what their
  names say, a successful run leaves exactly the namespaces of the spec.
\<close>

section \<open>The contract of the coordinator\<close>

definition plain :: "string \<Rightarrow> bool" where
  "plain n \<longleftrightarrow> CHR ''/'' \<notin> set n"

text \<open>\<open>keys w\<close> is the set of namespaces of the coordinator in the world \<open>w\<close>.\<close>

definition coordinator_ok :: "'w env \<Rightarrow> ('w \<Rightarrow> string set) \<Rightarrow> bool" where
  "coordinator_ok env keys \<longleftrightarrow>
     (\<forall>c s reg s'. ns_List env c s = (Inr reg, s') \<longrightarrow>
        fst ` set reg = keys (st_world s) \<and> keys (st_world s') = keys (st_world s))
   \<and> (\<forall>url cl n s r s'. plain n \<longrightarrow> ns_Delete env (Client url cl) n s = (r, s') \<longrightarrow>
        r = Inr () \<or> (\<exists>e. r = Inl e \<and> Cause (e_lib env) e = ErrNotFound) \<longrightarrow>
        keys (st_world s') = keys (st_world s) - {n})
   \<and> (\<forall>c req s s'. plain (nar_Name req) \<longrightarrow> ns_Create env c req s = (Inr (), s') \<longrightarrow>
        keys (st_world s') = insert (nar_Name req) (keys (st_world s)))
   \<and> (\<forall>c n s. keys (st_world (snd (ns_Ready env c n s))) = keys (st_world s))
   \<and> (\<forall>e w. keys (api_event env e w) = keys w)"

section \<open>Frames\<close>

interpretation frame: run_relation "\<lambda>s t. f t = f s" for f
  by unfold_locales simp_all

lemma keeps_clients_http:
  "keeps (\<lambda>s t. st_nsClients t = st_nsClients s) (request c m)"
  "keeps (\<lambda>s t. st_nsClients t = st_nsClients s) (post_event env t r msg a)"
  by (simp_all add: keeps_def request_def post_event_def Let_def split: prod.splits)

lemma keeps_clients_DoHTTPJSONPBRequest:
  "keeps (\<lambda>s t. st_nsClients t = st_nsClients s) (DoHTTPJSONPBRequest env c action url req dec opts)"
  unfolding DoHTTPJSONPBRequest_def DoHTTPRequest_def Let_def
  by (intro frame.keeps_intros keeps_clients_http)

lemma keeps_clients_ops:
  "keeps (\<lambda>s t. st_nsClients t = st_nsClients s) (ns_List env c)"
  "keeps (\<lambda>s t. st_nsClients t = st_nsClients s) (ns_Delete env c n)"
  "keeps (\<lambda>s t. st_nsClients t = st_nsClients s) (ns_Create env c req)"
  unfolding client_op_defs with_client_def
  by (cases c; simp only: svc_client.case; intro frame.keeps_intros keeps_clients_DoHTTPJSONPBRequest)+

lemma namespaceClientForCluster_world:
  "namespaceClientForCluster env cluster s = (r, s') \<Longrightarrow> st_world s' = st_world s"
  by (auto simp: namespaceClientForCluster_def Let_def split: option.splits sum.splits)

lemma for_each_invariant:
  assumes "\<And>x s s'. x \<in> set xs \<Longrightarrow> I s \<Longrightarrow> f x s = (Inr (), s') \<Longrightarrow> I s' \<and> K s' = g x (K s)"
    and "I s" and "for_each f xs s = (Inr (), s')"
  shows "I s' \<and> K s' = fold g xs (K s)"
  using assms
proof (induction xs arbitrary: s)
  case Nil
  then show ?case by simp
next
  case (Cons x xs)
  obtain s1 where s1: "f x s = (Inr (), s1)" "for_each f xs s1 = (Inr (), s')"
    using Cons.prems(3) by (auto simp: bindE_def split: prod.splits sum.splits)
  have first: "I s1 \<and> K s1 = g x (K s)"
    by (rule Cons.prems(1) [OF list.set_intros(1) Cons.prems(2) s1(1)])
  have "I s' \<and> K s' = fold g xs (K s1)"
    by (rule Cons.IH [OF Cons.prems(1) [OF list.set_intros(2)] conjunct1 [OF first] s1(2)])
  with first show ?case by simp
qed

lemma fold_Diff: "fold (\<lambda>n K. K - {n}) ns K = K - set ns"
  by (induction ns arbitrary: K) auto

lemma fold_insert: "fold (\<lambda>ns K. insert (ns_Name ns) K) xs K = K \<union> ns_Name ` set xs"
  by (induction xs arbitrary: K) auto

section \<open>The loops\<close>

text \<open>The cache holds a usable client for the cluster.\<close>

definition cached :: "'w env \<Rightarrow> m3db_cluster \<Rightarrow> string \<Rightarrow> admin_client \<Rightarrow> 'w st \<Rightarrow> bool" where
  "cached env cluster url cl s \<longleftrightarrow>
     map_of (st_nsClients s) (clusterKey cluster (clusterURLFn env cluster)) = Some (Client url cl)"

lemma cached_lookup: "cached env cluster url cl s \<Longrightarrow> namespaceClientForCluster env cluster s = (Inr (Client url cl), s)"
  unfolding cached_def by (rule ns_cache.hit)

lemma cached_frame: "cached env cluster url cl s \<Longrightarrow> st_nsClients s' = st_nsClients s \<Longrightarrow> cached env cluster url cl s'"
  by (simp add: cached_def)

lemma prune_keys:
  assumes ok: "coordinator_ok env keys" and plain: "\<And>n. n \<in> fst ` set reg \<Longrightarrow> plain n"
    and "cached env cluster url cl s" and "pruneNamespaces env cluster reg s = (Inr (), s')"
  shows "cached env cluster url cl s'
    \<and> keys (st_world s') = keys (st_world s) - set (namespacesToDelete reg (cs_Namespaces (cl_spec cluster)))"
proof -
  have step: "cached env cluster url cl t' \<and> keys (st_world t') = keys (st_world t) - {n}"
    if n: "n \<in> set (namespacesToDelete reg (cs_Namespaces (cl_spec cluster)))" and I: "cached env cluster url cl t"
      and run: "prune_namespace env cluster n t = (Inr (), t')" for n t t'
  proof -
    obtain r t1 where del: "ns_Delete env (Client url cl) n t = (r, t1)" by force
    have pn: "plain n" using n plain by (auto simp: namespacesToDelete_def)
    have cl: "st_nsClients t1 = st_nsClients t" using keepsD [OF keeps_clients_ops(2) del] .
    have "r = Inr () \<or> (\<exists>e. r = Inl e \<and> Cause (e_lib env) e = ErrNotFound)"
      using run cached_lookup [OF I] del by (auto simp: prune_namespace_def split: sum.splits if_splits)
    with ok pn del have "keys (st_world t1) = keys (st_world t) - {n}"
      unfolding coordinator_ok_def by blast
    moreover have "st_nsClients t' = st_nsClients t1 \<and> keys (st_world t') = keys (st_world t1)"
      using run cached_lookup [OF I] del ok
      by (auto simp: prune_namespace_def NormalEvent_def post_event_def coordinator_ok_def Let_def
          split: sum.splits if_splits)
    ultimately show ?thesis using cached_frame [OF I] cl by simp
  qed
  from for_each_invariant [where I = "cached env cluster url cl" and K = "\<lambda>s. keys (st_world s)"
      and g = "\<lambda>n K. K - {n}", OF step assms(3)] assms(4)
  show ?thesis unfolding pruneNamespaces_def fold_Diff by blast
qed

lemma create_keys:
  assumes ok: "coordinator_ok env keys" and plain: "\<And>n. n \<in> ns_Name ` set (cs_Namespaces (cl_spec cluster)) \<Longrightarrow> plain n"
    and "cached env cluster url cl s" and "createNamespaces env cluster reg s = (Inr (), s')"
  shows "keys (st_world s') = keys (st_world s)
    \<union> ns_Name ` set (namespacesToCreate reg (cs_Namespaces (cl_spec cluster)))"
proof -
  have step: "cached env cluster url cl t' \<and> keys (st_world t') = insert (ns_Name ns) (keys (st_world t))"
    if ns: "ns \<in> set (namespacesToCreate reg (cs_Namespaces (cl_spec cluster)))" and I: "cached env cluster url cl t"
      and run: "create_namespace env cluster ns t = (Inr (), t')"
    for ns t t'
  proof -
    obtain req where req: "RequestFromSpec (frac_nanos (e_lib env)) (pb_struct (e_lib env)) ns = Inr req"
      using run by (auto simp: create_namespace_def split: sum.splits)
    have name: "nar_Name req = ns_Name ns" using RequestFromSpec_name [OF req] by simp
    have pn: "plain (nar_Name req)" using ns plain name by (auto simp: namespacesToCreate_filter)
    obtain r t1 where make: "ns_Create env (Client url cl) req t = (r, t1)" by force
    have cl: "st_nsClients t1 = st_nsClients t" using keepsD [OF keeps_clients_ops(3) make] .
    have "r = Inr ()"
      using run cached_lookup [OF I] make req by (auto simp: create_namespace_def split: sum.splits)
    with ok pn make name have "keys (st_world t1) = insert (ns_Name ns) (keys (st_world t))"
      unfolding coordinator_ok_def by metis
    moreover have "st_nsClients t' = st_nsClients t1 \<and> keys (st_world t') = keys (st_world t1)"
      using run cached_lookup [OF I] make ok req
      by (auto simp: create_namespace_def NormalEvent_def post_event_def coordinator_ok_def Let_def
          split: sum.splits)
    ultimately show ?thesis using cached_frame [OF I] cl by simp
  qed
  from for_each_invariant [where I = "cached env cluster url cl" and K = "\<lambda>s. keys (st_world s)"
      and g = "\<lambda>ns K. insert (ns_Name ns) K", OF step assms(3)] assms(4)
  show ?thesis unfolding createNamespaces_def fold_insert by blast
qed

lemma ready_keys:
  assumes ok: "coordinator_ok env keys"
  shows "keeps (\<lambda>s t. keys (st_world t) = keys (st_world s)) (readyNamespaces env cluster reg)"
proof -
  have "keeps (\<lambda>s t. keys (st_world t) = keys (st_world s)) (namespaceClientForCluster env cluster)"
    unfolding keeps_def by (metis namespaceClientForCluster_world prod.collapse)
  moreover have "keeps (\<lambda>s t. keys (st_world t) = keys (st_world s)) (ns_Ready env c n)" for c n
    using ok by (simp add: keeps_def coordinator_ok_def)
  ultimately show ?thesis unfolding readyNamespaces_def ready_namespace_def
    by (intro frame.keeps_intros)
qed

section \<open>Properties\<close>

text \<open>
  What is created, deleted and marked ready: exactly the namespaces of the spec that the
  registry lacks, those of the registry that the spec lacks, and those just created or found in a
  staging state other than ready. Together the first two turn the registry into the spec.
\<close>

theorem namespace_plan:
  "ns_Name ` set (namespacesToCreate reg spec) = ns_Name ` set spec - fst ` set reg
   \<and> set (namespacesToDelete reg spec) = fst ` set reg - ns_Name ` set spec
   \<and> ns_Name ` set (namespacesToReady lb reg spec) = (ns_Name ` set spec - fst ` set reg)
       \<union> {n. \<exists>e. (n, e) \<in> set reg \<and> ne_StagingState e \<notin> {None, Some READY}}
   \<and> (fst ` set reg - set (namespacesToDelete reg spec)) \<union> ns_Name ` set (namespacesToCreate reg spec)
       = ns_Name ` set spec"
  unfolding namespacesToReady_names namespacesToCreate_filter namespacesToDelete_filter by force

text \<open>
  C12: Against a coordinator that fulfils its contract, a run of \<open>reconcileNamespaces\<close> that returns
  without an error leaves exactly the namespaces of the spec at the coordinator.
\<close>

theorem reconcileNamespaces_converges:
  assumes ok: "coordinator_ok env keys"
    and plain: "\<And>n. n \<in> keys (st_world s) \<union> ns_Name ` set (cs_Namespaces (cl_spec cluster)) \<Longrightarrow> plain n"
    and run: "reconcileNamespaces env cluster s = (Inr (), s')"
  shows "keys (st_world s') = ns_Name ` set (cs_Namespaces (cl_spec cluster))"
proof -
  let ?spec = "cs_Namespaces (cl_spec cluster)"
  obtain c s1 where c: "namespaceClientForCluster env cluster s = (Inr c, s1)"
    using ns_cache.find_client_total by blast
  obtain reg s2 where reg: "ns_List env c s1 = (Inr reg, s2)"
    using run c by (auto simp: reconcileNamespaces_def bindE_run catchE_run split: sum.splits) (metis prod.collapse)
  obtain url cl where cl: "c = Client url cl"
    using reg by (cases c) (auto simp: ns_List_def with_client_def)
  have "map_of (st_nsClients s1) (clusterKey cluster (clusterURLFn env cluster)) = Some c"
    using c cl by (auto simp: namespaceClientForCluster_def Let_def split: option.splits sum.splits)
  then have cached: "cached env cluster url cl s2"
    using keepsD [OF keeps_clients_ops(1) reg] cl by (simp add: cached_def)
  have keys: "fst ` set reg = keys (st_world s)" "keys (st_world s2) = keys (st_world s)"
    using ok reg namespaceClientForCluster_world [OF c] unfolding coordinator_ok_def by metis+
  obtain s3 where prune: "pruneNamespaces env cluster reg s2 = (Inr (), s3)"
    using run c reg
    by (auto simp: reconcileNamespaces_def bindE_run split: sum.splits) (metis prod.collapse unit.exhaust)
  obtain s4 where create: "createNamespaces env cluster reg s3 = (Inr (), s4)"
    using run c reg prune
    by (auto simp: reconcileNamespaces_def bindE_run split: sum.splits) (metis prod.collapse unit.exhaust)
  have ready: "readyNamespaces env cluster reg s4 = (Inr (), s')"
    using run c reg prune create by (simp add: reconcileNamespaces_def)
  have k3: "cached env cluster url cl s3" "keys (st_world s3) = keys (st_world s) - set (namespacesToDelete reg ?spec)"
    using prune_keys [OF ok _ cached prune] plain keys by auto
  have "keys (st_world s4) = keys (st_world s3) \<union> ns_Name ` set (namespacesToCreate reg ?spec)"
    using create_keys [OF ok _ k3(1) create] plain by auto
  moreover have "keys (st_world s') = keys (st_world s4)"
    using keepsD [OF ready_keys [OF ok] ready] .
  ultimately show ?thesis
    using k3(2) keys(1) by (auto simp: namespacesToCreate_filter namespacesToDelete_filter)
qed

subsection \<open>A coordinator\<close>

text \<open>
  A coordinator that keeps a list of names. A listing is the names, each followed by a slash; a
  creation carries the name as its body; a deletion has it as the last part of the URL.
\<close>

definition listing :: "string list \<Rightarrow> string" where
  "listing w = concat (map (\<lambda>n. n @ ''/'') (filter plain w))"

fun example_marshal :: "message \<Rightarrow> gerror + string" where
  "example_marshal (Msg_NamespaceAdd req) = Inr (nar_Name req)"
| "example_marshal _ = Inr []"

definition example_coordinator :: "http_request \<Rightarrow> (string list, http_response) io" where
  "example_coordinator req = (\<lambda>w.
     let last_part = last (split_on (CHR ''/'') (hr_url req)) in
     if hr_method req = ''GET'' then (Inr \<lparr>rs_code = 200, rs_body = listing w\<rparr>, w)
     else if hr_method req = ''DELETE'' then (Inr \<lparr>rs_code = 200, rs_body = []\<rparr>, removeAll last_part w)
     else (Inr \<lparr>rs_code = 200, rs_body = []\<rparr>, if last_part = ''ready'' then w else case hr_body req of Some b \<Rightarrow> b # w | None \<Rightarrow> w))"

definition coordinator_env :: "string list env" where
  "coordinator_env = (offline_env (example_lib\<lparr>JSONPBMarshal := example_marshal,
       sprintf_url := (\<lambda>u n. u @ ''/'' @ n),
       decode_registry := (\<lambda>b. Inr (Some (map (\<lambda>n. (n, \<lparr>ne_StagingState = None, ne_rest = []\<rparr>))
         (butlast (split_on (CHR ''/'') b)))))\<rparr>))\<lparr>api_http := example_coordinator\<rparr>"

lemma split_listing: "butlast (split_on (CHR ''/'') (listing w)) = filter plain w"
proof -
  have "split_on (CHR ''/'') (concat (map (\<lambda>n. n @ ''/'') xs)) = xs @ [[]]" if "list_all plain xs" for xs
    using that by (induction xs) (simp_all add: split_on_append split_on_no_sep plain_def)
  then show ?thesis unfolding listing_def by (simp add: list_all_iff)
qed

lemma coordinator_env_simps:
  "decode_registry (e_lib coordinator_env) = (\<lambda>b. Inr (Some (map (\<lambda>n. (n, \<lparr>ne_StagingState = None, ne_rest = []\<rparr>))
     (butlast (split_on (CHR ''/'') b)))))"
  "sprintf_url (e_lib coordinator_env) = (\<lambda>u n. u @ ''/'' @ n)"
  "decode_ready (e_lib coordinator_env) = (\<lambda>_. Inr ())"
  "ParseRequestURI (e_lib coordinator_env) = (\<lambda>_. None)"
  "api_event coordinator_env = (\<lambda>_ w. w)"
  by (simp_all add: coordinator_env_def offline_env_def example_lib_def)

lemma coordinator_run:
  "DoHTTPJSONPBRequest coordinator_env cl action url req dec opts s =
     (case example_coordinator \<lparr>hr_method = action, hr_url = url, hr_headers = all_headers cl opts,
          hr_body = map_option (\<lambda>m. projr (example_marshal m)) req\<rparr> (st_world s) of
        (Inr r, w) \<Rightarrow> (dec (rs_body r), s\<lparr>st_world := w, st_calls := st_calls s @ [Http \<lparr>hr_method = action, hr_url = url,
          hr_headers = all_headers cl opts, hr_body = map_option (\<lambda>m. projr (example_marshal m)) req\<rparr>]\<rparr>))"
proof -
  have m: "JSONPBMarshal (e_lib coordinator_env) x = Inr (projr (example_marshal x))" for x
    by (cases x) (simp_all add: coordinator_env_def offline_env_def)
  have h: "api_http coordinator_env = example_coordinator" "NewRequest (e_lib coordinator_env) action url = None"
    by (simp_all add: coordinator_env_def offline_env_def example_lib_def)
  show ?thesis
    by (cases req) (auto simp: DoHTTPJSONPBRequest_def DoHTTPRequest_def m h request_def example_coordinator_def
        check_status_def bindE_def Let_def)
qed

lemma coordinator_env_ok: "coordinator_ok coordinator_env (\<lambda>w. set (filter plain w))"
proof -
  have L: "fst ` set reg = set (filter plain (st_world s)) \<and> st_world s' = st_world s"
    if "ns_List coordinator_env c s = (Inr reg, s')" for c s reg s'
    using that split_listing [of "st_world s"]
    by (cases c) (auto simp: ns_List_def with_client_def bindE_def coordinator_run example_coordinator_def image_image
        coordinator_env_simps)
  have D: "st_world s' = removeAll n (st_world s)"
    if "plain n" "ns_Delete coordinator_env (Client url cl) n s = (r, s')" for url cl n s r s'
    using that last_split_on [of "CHR ''/''" n url] last_split_on [of "CHR ''/''" n "url @ namespaceBaseURL"]
    by (auto simp: ns_Delete_def with_client_def coordinator_run example_coordinator_def plain_def
        namespace_delete_url_def coordinator_env_simps split: if_splits)
  have C: "st_world s' = nar_Name req # st_world s"
    if "ns_Create coordinator_env c req s = (Inr (), s')" for c req s s'
  proof -
    have "last (split_on (CHR ''/'') (url @ namespaceBaseURL)) = ''namespace''" for url
      using last_split_on [of "CHR ''/''" "''namespace''" "url @ ''/api/v1/services/m3db''"]
      by (simp add: namespaceBaseURL_def)
    with that show ?thesis
      by (cases c) (auto simp: ns_Create_def with_client_def coordinator_run example_coordinator_def)
  qed
  have R: "st_world (snd (ns_Ready coordinator_env c n s)) = st_world s" for c n s
  proof -
    have "last (split_on (CHR ''/'') (url @ namespaceReadyURL)) = ''ready''" for url
      using last_split_on [of "CHR ''/''" "''ready''" "url @ namespaceBaseURL"]
      by (simp add: namespaceReadyURL_def)
    then show ?thesis
      by (cases c) (auto simp: ns_Ready_def with_client_def coordinator_run example_coordinator_def)
  qed
  have E: "api_event coordinator_env e w = w" for e w
    by (simp add: coordinator_env_simps)
  show ?thesis unfolding coordinator_ok_def
    by (intro conjI allI impI; (drule (1) D)?; (drule L)?; (drule C)?; auto simp: R E)
qed

definition namespace_cluster :: m3db_cluster where
  "namespace_cluster = (example_cluster [])\<lparr>cl_spec := (example_spec [])\<lparr>cs_Namespaces :=
     [\<lparr>ns_Name = ''new'', ns_Preset = PresetTenSecondsTwoDaysIndexed, ns_Options = None\<rparr>]\<rparr>\<rparr>"

theorem reconcileNamespaces_converges_witness:
  "\<exists>s'. reconcileNamespaces coordinator_env namespace_cluster (start [''old'']) = (Inr (), s')
     \<and> set (filter plain (st_world s')) = {''new''}"
proof -
  let ?ns = "\<lparr>ns_Name = ''new'', ns_Preset = PresetTenSecondsTwoDaysIndexed, ns_Options = None\<rparr>"
  have "\<exists>req. RequestFromSpec (frac_nanos (e_lib coordinator_env)) (pb_struct (e_lib coordinator_env)) ?ns = Inr req"
    by (simp add: RequestFromSpec_def PresetTenSecondsTwoDaysIndexed_def
      presetTenSecondsTwoDaysIndexed_def m3dbNamespaceOptsFromSpec_def
      m3dbRetentionOptsFromSpec_def m3dbIndexOptsFromSpec_def m3dbAggregationOptsFromSpec_def
      m3dbExtendedOptsFromSpec_def aggregation_from_spec_def parse_field_whole hours_def minutes_def)
  then obtain req where req: "RequestFromSpec (frac_nanos (e_lib coordinator_env)) (pb_struct (e_lib coordinator_env)) ?ns = Inr req"
    by blast
  have spec: "cs_Namespaces (cl_spec namespace_cluster) = [?ns]" "cs_ExternalCoordinator (cl_spec namespace_cluster) = None"
    by (simp_all add: namespace_cluster_def example_spec_def)
  have plans: "namespacesToDelete [(''old'', e)] [?ns] = [''old'']" "namespacesToCreate [(''old'', e)] [?ns] = [?ns]" for e
    by (simp_all add: namespacesToDelete_filter namespacesToCreate_filter)
  have ready: "namespacesToReady lb [(''old'', \<lparr>ne_StagingState = None, ne_rest = []\<rparr>)] [?ns] = [?ns]" for lb
    by (simp add: namespacesToReady_def ready_map_def mhas_def)
  have body: "butlast (split_on (CHR ''/'') (listing [''old''])) = [''old'']"
    using split_listing [of "[''old'']"] by (simp add: plain_def)
  obtain s' where run: "reconcileNamespaces coordinator_env namespace_cluster (start [''old'']) = (Inr (), s')"
    by (simp add: reconcileNamespaces_def pruneNamespaces_def createNamespaces_def readyNamespaces_def
        prune_namespace_def create_namespace_def ready_namespace_def namespaceClientForCluster_def NewClient_own
        own_client_def client_op_defs with_client_def coordinator_run example_coordinator_def coordinator_env_simps
        bindE_run catchE_run spec req plans ready body start_def mhas_def discard_def NormalEvent_def post_event_def Let_def)
  have "set (filter plain (st_world s')) = ns_Name ` set (cs_Namespaces (cl_spec namespace_cluster))"
    by (rule reconcileNamespaces_converges [OF coordinator_env_ok _ run]) (auto simp: spec plain_def start_def)
  with run show ?thesis by (auto simp: spec)
qed

end
