(* ===== verification/Cluster_Deletion.thy ===== *)
theory Cluster_Deletion
  imports Controller_Safety Namespaces_Converge
begin

text \<open>
  Deleting a cluster. The finalizer keeps the object of the cluster until the operator has removed
  what it keeps in etcd: against a coordinator whose operations do what their names say, the finalizer
  goes only when there is no namespace and no placement left.
\<close>

section \<open>The contract of the coordinator\<close>

text \<open>
  \<open>keys w\<close> are the namespaces of the coordinator in the world \<open>w\<close> and \<open>has w\<close> says whether there is a
  placement. Nothing is said of requests that fail, but for the lookup of a placement that does not
  exist. The error of a URL that cannot be parsed is not the one for something that was not found.
\<close>

definition cleanup_laws :: "'w env \<Rightarrow> ('w \<Rightarrow> string set) \<Rightarrow> ('w \<Rightarrow> bool) \<Rightarrow> bool" where
  "cleanup_laws env keys has \<longleftrightarrow>
     (\<forall>url ac s reg s'. ns_List env (Client url ac) s = (Inr reg, s') \<longrightarrow>
        fst ` set reg = keys (st_world s) \<and> keys (st_world s') = keys (st_world s))
   \<and> (\<forall>url ac n s s'. plain n \<longrightarrow> ns_Delete env (Client url ac) n s = (Inr (), s') \<longrightarrow>
        keys (st_world s') = keys (st_world s) - {n})
   \<and> (\<forall>url ac s r s'. pl_Get env (Client url ac) s = (r, s') \<longrightarrow> keys (st_world s') = keys (st_world s)
        \<and> (\<forall>e. r = Inl e \<longrightarrow> Cause (e_lib env) e = ErrNotFound \<longrightarrow> \<not> has (st_world s')))
   \<and> (\<forall>url ac s s'. pl_Delete env (Client url ac) s = (Inr (), s') \<longrightarrow>
        keys (st_world s') = keys (st_world s) \<and> \<not> has (st_world s'))
   \<and> (\<forall>u e. ParseRequestURI (e_lib env) u = Some e \<longrightarrow> Cause (e_lib env) e \<noteq> ErrNotFound)"

lemma cleanup_lawsD:
  assumes "cleanup_laws env keys has"
  shows "ns_List env (Client url ac) s = (Inr reg, s') \<Longrightarrow> fst ` set reg = keys (st_world s)"
    and "ns_List env (Client url ac) s = (Inr reg, s') \<Longrightarrow> keys (st_world s') = keys (st_world s)"
    and "plain n \<Longrightarrow> ns_Delete env (Client url ac) n s = (Inr (), s') \<Longrightarrow> keys (st_world s') = keys (st_world s) - {n}"
    and "pl_Delete env (Client url ac) s = (Inr (), s') \<Longrightarrow> keys (st_world s') = keys (st_world s) \<and> \<not> has (st_world s')"
  using assms by (simp_all add: cleanup_laws_def)

text \<open>A coordinator that answers every request of the cleanup.\<close>

definition answers :: "'w env \<Rightarrow> bool" where
  "answers env \<longleftrightarrow>
     (\<forall>url ac s. \<exists>reg. fst (ns_List env (Client url ac) s) = Inr reg)
   \<and> (\<forall>url ac n s. fst (ns_Delete env (Client url ac) n s) = Inr ())
   \<and> (\<forall>url ac s e. fst (pl_Get env (Client url ac) s) = Inl e \<longrightarrow> Cause (e_lib env) e = ErrNotFound)
   \<and> (\<forall>url ac s. fst (pl_Delete env (Client url ac) s) = Inr ())
   \<and> (\<forall>u. ParseRequestURI (e_lib env) u = None)"

text \<open>The clients that could not be built are not kept, so there are none in the caches.\<close>

definition no_error_clients :: "'w st \<Rightarrow> bool" where
  "no_error_clients s \<longleftrightarrow> (\<forall>k e. (k, Error_Client e) \<notin> set (st_nsClients s) \<and> (k, Error_Client e) \<notin> set (st_plClients s))"

section \<open>The cleanup\<close>

lemma clients_found:
  assumes "no_error_clients s"
  shows "namespaceClientForCluster env c s = (Inr (Error_Client e), s') \<Longrightarrow> \<exists>u. ParseRequestURI (e_lib env) u = Some e"
    and "placementClientForCluster env c s = (Inr (Error_Client e), s') \<Longrightarrow> \<exists>u. ParseRequestURI (e_lib env) u = Some e"
    and "namespaceClientForCluster env c s = (r, s') \<Longrightarrow> no_error_clients s'"
  using assms
  by (auto simp: no_error_clients_def namespaceClientForCluster_def placementClientForCluster_def NewClient_own own_client_def Let_def
      split: option.splits sum.splits dest!: map_of_SomeD update_entry)

lemma clients_kept:
  "keeps (\<lambda>s t. (st_nsClients t, st_plClients t) = (st_nsClients s, st_plClients s)) (ns_List env cl)"
  "keeps (\<lambda>s t. (st_nsClients t, st_plClients t) = (st_nsClients s, st_plClients s)) (ns_Delete env cl n)"
proof -
  have "keeps (\<lambda>s t. (st_nsClients t, st_plClients t) = (st_nsClients s, st_plClients s)) (request c m)" for c m
    by (simp add: keeps_def request_def split: prod.splits)
  then have http: "keeps (\<lambda>s t. (st_nsClients t, st_plClients t) = (st_nsClients s, st_plClients s)) (DoHTTPJSONPBRequest env c action url req dec opts)"
    for c action url req dec opts
    unfolding DoHTTPJSONPBRequest_def DoHTTPRequest_def Let_def by (intro frame.keeps_intros)
  show "keeps (\<lambda>s t. (st_nsClients t, st_plClients t) = (st_nsClients s, st_plClients s)) (ns_List env cl)"
    "keeps (\<lambda>s t. (st_nsClients t, st_plClients t) = (st_nsClients s, st_plClients s)) (ns_Delete env cl n)"
    unfolding client_op_defs with_client_def by (cases cl; simp only: svc_client.case; intro frame.keeps_intros http)+
qed

lemma no_error_clients_kept: "(st_nsClients t, st_plClients t) = (st_nsClients s, st_plClients s) \<Longrightarrow> no_error_clients s \<Longrightarrow> no_error_clients t"
  by (simp add: no_error_clients_def)

text \<open>One namespace of the listing.\<close>

definition delete_one :: "'w env \<Rightarrow> svc_client \<Rightarrow> string \<Rightarrow> ('w st, unit) io" where
  "delete_one env cl name = catchE (ns_Delete env cl name) (\<lambda>r. case r of
     Inl err \<Rightarrow> fail (With_Message err ''error deleting namespace %s'' [AStr name])
   | Inr _ \<Rightarrow> ok ())"

lemma delete_one_clients: "keeps (\<lambda>s t. (st_nsClients t, st_plClients t) = (st_nsClients s, st_plClients s)) (delete_one env cl n)"
  unfolding delete_one_def by (intro frame.keeps_intros clients_kept)

lemma namespaces_gone:
  assumes laws: "cleanup_laws env keys has" and plain: "\<And>n. n \<in> keys (st_world s) \<Longrightarrow> plain n"
    and clients: "no_error_clients s" and run: "deleteAllNamespaces env c s = (Inr (), s')"
  shows "keys (st_world s') = {} \<and> no_error_clients s'"
proof -
  obtain cl s1 where cl: "namespaceClientForCluster env c s = (Inr cl, s1)" using ns_cache.find_client_total by blast
  obtain q s2 where q: "ns_List env cl s1 = (q, s2)" by force
  with run cl obtain reg where reg: "ns_List env cl s1 = (Inr reg, s2)" "for_each (delete_one env cl) (map fst reg) s2 = (Inr (), s')"
    by (cases q) (simp_all add: deleteAllNamespaces_def delete_one_def [abs_def] bindE_run catchE_run)
  obtain url ac where Cl: "cl = Client url ac" using reg(1) by (cases cl) (auto simp: ns_List_def with_client_def)
  have keys: "fst ` set reg = keys (st_world s)" "keys (st_world s2) = keys (st_world s)"
    using cleanup_lawsD(1,2) [OF laws reg(1) [unfolded Cl]] namespaceClientForCluster_world [OF cl] by simp_all
  have ok: "no_error_clients s2"
    using no_error_clients_kept [OF keepsD [OF clients_kept(1) reg(1)]] clients_found(3) [OF clients cl] by blast
  have step: "no_error_clients t' \<and> keys (st_world t') = keys (st_world t) - {n}"
    if "n \<in> set (map fst reg)" "no_error_clients t" "delete_one env cl n t = (Inr (), t')" for n t t'
  proof -
    obtain q u where "ns_Delete env cl n t = (q, u)" by force
    with that(3) Cl have "ns_Delete env (Client url ac) n t = (Inr (), t')"
      by (cases q) (simp_all add: delete_one_def catchE_run)
    moreover have "n \<in> keys (st_world s)" using that(1) by (simp add: keys(1) [symmetric])
    then have "plain n" by (rule plain)
    ultimately have "keys (st_world t') = keys (st_world t) - {n}" using cleanup_lawsD(3) [OF laws] by simp
    with no_error_clients_kept [OF keepsD [OF delete_one_clients that(3)] that(2)] show ?thesis by simp
  qed
  from for_each_invariant [where I = no_error_clients and K = "\<lambda>s. keys (st_world s)" and g = "\<lambda>n K. K - {n}", OF step ok reg(2)]
  have "no_error_clients s'" "keys (st_world s') = keys (st_world s2) - set (map fst reg)" unfolding fold_Diff by blast+
  moreover have "set (map fst reg) = keys (st_world s)" by (simp add: keys(1) [symmetric])
  ultimately show ?thesis by (simp only: keys(2) Diff_cancel)
qed

lemma placement_gone:
  assumes laws: "cleanup_laws env keys has" and clients: "no_error_clients s" and run: "deletePlacement env c s = (Inr (), s')"
  shows "keys (st_world s') = keys (st_world s) \<and> \<not> has (st_world s')"
proof -
  obtain cl s1 where cl: "placementClientForCluster env c s = (Inr cl, s1)" using pl_cache.find_client_total by blast
  have world: "st_world s1 = st_world s"
    using cl by (auto simp: placementClientForCluster_def Let_def split: option.splits sum.splits)
  obtain g s2 where g: "pl_Get env cl s1 = (g, s2)" by force
  show ?thesis
  proof (cases cl)
    case (Error_Client e)
    then have "Cause (e_lib env) e \<noteq> ErrNotFound"
      using clients_found(2) [OF clients cl [unfolded Error_Client]] laws unfolding cleanup_laws_def by blast
    with Error_Client run cl show ?thesis
      by (simp add: deletePlacement_def bindE_run catchE_run pl_Get_def with_client_def)
  next
    case (Client url ac)
    have get: "keys (st_world s2) = keys (st_world s)" "\<And>e. g = Inl e \<Longrightarrow> Cause (e_lib env) e = ErrNotFound \<Longrightarrow> \<not> has (st_world s2)"
      using laws g Client world unfolding cleanup_laws_def by metis+
    show ?thesis
    proof (cases g)
      case (Inl e)
      with run cl g get show ?thesis by (auto simp: deletePlacement_def bindE_run catchE_run split: if_splits)
    next
      case (Inr pl)
      obtain d s3 where "pl_Delete env (Client url ac) s2 = (d, s3)" by force
      with run cl g Client Inr have "pl_Delete env (Client url ac) s2 = (Inr (), s')"
        by (cases d) (simp_all add: deletePlacement_def bindE_run catchE_run)
      from cleanup_lawsD(4) [OF laws this] get(1) show ?thesis by simp
    qed
  qed
qed

text \<open>What \<open>handleClusterUpdate\<close> does before it touches the finalizer.\<close>

definition cleanup :: "'w env \<Rightarrow> m3db_cluster \<Rightarrow> ('w st, unit) io" where
  "cleanup env c = (if cs_KeepEtcdDataOnDelete (cl_spec c) then ok ()
     else bindE (deleteAllNamespaces env c) (\<lambda>_. deletePlacement env c))"

lemma cleanup_done:
  assumes "cleanup_laws env keys has" and "\<And>n. n \<in> keys (st_world s) \<Longrightarrow> plain n" and "no_error_clients s"
    and run: "cleanup env c s = (Inr (), s')" and "\<not> cs_KeepEtcdDataOnDelete (cl_spec c)"
  shows "keys (st_world s') = {} \<and> \<not> has (st_world s')"
proof -
  obtain q s1 where "deleteAllNamespaces env c s = (q, s1)" by force
  with run assms(5) have "deleteAllNamespaces env c s = (Inr (), s1)" and pl: "deletePlacement env c s1 = (Inr (), s')"
    by (cases q; simp add: cleanup_def bindE_run)+
  from namespaces_gone [OF assms(1-3) this(1)] placement_gone [OF assms(1) _ pl] show ?thesis by auto
qed

lemma answering_clients:
  assumes "answers env" and "no_error_clients s"
  shows "namespaceClientForCluster env c s = (Inr cl, s') \<Longrightarrow> \<exists>url ac. cl = Client url ac"
    and "placementClientForCluster env c s = (Inr cl, s') \<Longrightarrow> \<exists>url ac. cl = Client url ac"
proof -
  have parse: "ParseRequestURI (e_lib env) u \<noteq> Some e" for u e using assms(1) by (simp add: answers_def)
  show "namespaceClientForCluster env c s = (Inr cl, s') \<Longrightarrow> \<exists>url ac. cl = Client url ac"
    using clients_found(1) [OF assms(2), of env c] parse by (cases cl) auto
  show "placementClientForCluster env c s = (Inr cl, s') \<Longrightarrow> \<exists>url ac. cl = Client url ac"
    using clients_found(2) [OF assms(2), of env c] parse by (cases cl) auto
qed

lemma cleanup_succeeds:
  assumes answers: "answers env" and clients: "no_error_clients s"
  shows "\<exists>s'. cleanup env c s = (Inr (), s')"
proof -
  have found: "\<exists>url ac s1. namespaceClientForCluster env c s = (Inr (Client url ac), s1) \<and> no_error_clients s1"
  proof -
    obtain cl s1 where cl: "namespaceClientForCluster env c s = (Inr cl, s1)" using ns_cache.find_client_total by blast
    moreover from answering_clients(1) [OF answers clients cl] obtain url ac where "cl = Client url ac" by blast
    ultimately show ?thesis using clients_found(3) [OF clients cl] by blast
  qed
  have each: "\<exists>t. for_each (delete_one env (Client url ac)) ns s1 = (Inr (), t)" for url ac ns s1
  proof (induction ns arbitrary: s1)
    case (Cons n ns)
    obtain t where "ns_Delete env (Client url ac) n s1 = (Inr (), t)"
      using answers unfolding answers_def by (metis prod.collapse)
    with Cons.IH [of t] show ?case by (simp add: delete_one_def bindE_run catchE_run)
  qed simp
  have namespaces: "\<exists>t. deleteAllNamespaces env c s = (Inr (), t) \<and> no_error_clients t"
  proof -
    obtain url ac s1 where cl: "namespaceClientForCluster env c s = (Inr (Client url ac), s1)" "no_error_clients s1" using found by blast
    obtain reg s2 where reg: "ns_List env (Client url ac) s1 = (Inr reg, s2)"
      using answers unfolding answers_def by (metis prod.collapse)
    obtain t where t: "for_each (delete_one env (Client url ac)) (map fst reg) s2 = (Inr (), t)" using each by blast
    have "keeps (\<lambda>s t. (st_nsClients t, st_plClients t) = (st_nsClients s, st_plClients s))
        (for_each (delete_one env (Client url ac)) (map fst reg))"
      by (intro frame.keeps_intros delete_one_clients)
    from keepsD [OF this t] keepsD [OF clients_kept(1) reg] cl(2) have "no_error_clients t"
      by (auto intro: no_error_clients_kept)
    with cl reg t show ?thesis by (simp add: deleteAllNamespaces_def delete_one_def [abs_def] bindE_run catchE_run)
  qed
  have placement: "\<exists>t'. deletePlacement env c t = (Inr (), t')" if "no_error_clients t" for t
  proof -
    obtain cl t1 where cl: "placementClientForCluster env c t = (Inr cl, t1)" using pl_cache.find_client_total by blast
    from answering_clients(2) [OF answers that cl] obtain url ac where Cl: "cl = Client url ac" by blast
    obtain g t2 where g: "pl_Get env cl t1 = (g, t2)" by force
    obtain t3 where "pl_Delete env cl t2 = (Inr (), t3)" using answers Cl unfolding answers_def by (metis prod.collapse)
    moreover have "\<And>e. g = Inl e \<Longrightarrow> Cause (e_lib env) e = ErrNotFound" using answers g Cl unfolding answers_def by (metis fst_conv)
    ultimately show ?thesis using cl g by (cases g) (simp_all add: deletePlacement_def bindE_run catchE_run)
  qed
  from namespaces placement show ?thesis by (auto simp: cleanup_def bindE_run)
qed

section \<open>Properties\<close>

text \<open>
  C14: Deletion of a cluster that has the etcd finalizer. The pass first sends only requests to the
  coordinator, and none at all when the etcd data is to be kept. Then either it returns an error and
  the finalizer stays, or it sends exactly one update of the cluster, which takes this finalizer away
  and keeps the others in order, and its result is that of the update. Unless the data is to be kept, at
  the moment of the update there is no namespace and no placement left at a coordinator that fulfils
  its contract; and if the coordinator answers every request, the update is sent.
\<close>

theorem finalizer_removed_last:
  assumes live: "\<not> cs_Frozen (cl_spec cluster)" and del: "marked_deleted cluster"
    and fin: "EtcdDeletionFinalizer \<in> set (om_finalizers (cl_meta cluster))"
    and laws: "cleanup_laws env keys has" "\<And>n. n \<in> keys (st_world s) \<Longrightarrow> plain n" "no_error_clients s"
    and run: "handleClusterUpdate env cluster s = (r, s')"
  shows "\<exists>s1 http. st_calls s1 = st_calls s @ http \<and> list_all (is_http (\<lambda>_. True)) http
    \<and> (cs_KeepEtcdDataOnDelete (cl_spec cluster) \<longrightarrow> s1 = s)
    \<and> ((\<exists>e. r = Inl e) \<and> s' = s1 \<and> \<not> answers env \<and> \<not> cs_KeepEtcdDataOnDelete (cl_spec cluster)
     \<or> (\<not> cs_KeepEtcdDataOnDelete (cl_spec cluster) \<longrightarrow> keys (st_world s1) = {} \<and> \<not> has (st_world s1))
      \<and> (\<exists>c' q w. c' = set_finalizers cluster (removeAll EtcdDeletionFinalizer (om_finalizers (cl_meta cluster)))
         \<and> api_crd_update env (cl_namespace cluster) c' (st_world s1) = (q, w)
         \<and> s' = s1\<lparr>st_world := w, st_calls := st_calls s1 @ [Crd_Update (cl_namespace cluster) c']\<rparr>
         \<and> (r = Inr () \<longleftrightarrow> (\<exists>x. q = Inr x))))"
proof -
  let ?c = "set_finalizers cluster (removeAll EtcdDeletionFinalizer (om_finalizers (cl_meta cluster)))"
  have same: "filter (\<lambda>f. f \<noteq> EtcdDeletionFinalizer) xs = removeAll EtcdDeletionFinalizer xs" for xs by (induction xs) auto
  have ns: "cl_namespace ?c = cl_namespace cluster" by (simp add: set_finalizers_def)
  obtain q s1 where q: "cleanup env cluster s = (q, s1)" by force
  have "keeps (only (is_http (\<lambda>_. True))) (cleanup env cluster)"
    unfolding cleanup_def by (intro only.keeps_intros keeps_only_deleteAllNamespaces keeps_only_deletePlacement) simp_all
  from keepsD [OF this q] obtain http where http: "st_calls s1 = st_calls s @ http" "list_all (is_http (\<lambda>_. True)) http"
    by (auto simp: only_def)
  have pass: "handleClusterUpdate env cluster s = bindE (cleanup env cluster) (\<lambda>_.
      catchE (removeEtcdFinalizer env cluster) (\<lambda>r. case r of
        Inl err \<Rightarrow> fail (With_Message err ''error removing etcd cluster finalizer'' [])
      | Inr _ \<Rightarrow> ok ())) s"
    using live del fin by (simp add: handleClusterUpdate_def delete_phase_def cleanup_def)
  have keep: "cs_KeepEtcdDataOnDelete (cl_spec cluster) \<Longrightarrow> q = Inr () \<and> s1 = s" using q by (simp add: cleanup_def)
  show ?thesis
  proof (cases q)
    case (Inl e)
    with run pass q have "r = Inl e" "s' = s1" by simp_all
    moreover have "\<not> answers env" using cleanup_succeeds [of env s cluster] laws(3) q Inl by auto
    ultimately show ?thesis using http keep Inl by blast
  next
    case (Inr u)
    obtain a w where a: "api_crd_update env (cl_namespace cluster) ?c (st_world s1) = (a, w)" by force
    have "s' = s1\<lparr>st_world := w, st_calls := st_calls s1 @ [Crd_Update (cl_namespace cluster) ?c]\<rparr> \<and> (r = Inr () \<longleftrightarrow> (\<exists>x. a = Inr x))"
      using run pass q Inr a fin ns
      by (cases a) (auto simp: removeEtcdFinalizer_def updateFinalizers_def request_def same catchE_run bindE_run)
    moreover have "\<not> cs_KeepEtcdDataOnDelete (cl_spec cluster) \<longrightarrow> keys (st_world s1) = {} \<and> \<not> has (st_world s1)"
      using cleanup_done [OF laws(1) laws(2) laws(3), of cluster s1] q Inr by auto
    ultimately show ?thesis using http keep a by blast
  qed
qed

subsection \<open>A coordinator with namespaces and a placement\<close>

definition plain_keys :: "string list \<times> bool \<Rightarrow> string set" where
  "plain_keys w = set (filter plain (removeAll ''placement'' (fst w)))"

definition deletion_coordinator :: "http_request \<Rightarrow> (string list \<times> bool, http_response) io" where
  "deletion_coordinator q = (\<lambda>(names, placed).
     let last_part = last (split_on (CHR ''/'') (hr_url q)) in
     if hr_method q = ''GET'' then
       if last_part = ''placement'' then (Inr \<lparr>rs_code = (if placed then 200 else 404), rs_body = []\<rparr>, (names, placed))
       else (Inr \<lparr>rs_code = 200, rs_body = listing (removeAll ''placement'' names)\<rparr>, (names, placed))
     else if last_part = ''placement'' then (Inr \<lparr>rs_code = 200, rs_body = []\<rparr>, (names, False))
     else (Inr \<lparr>rs_code = 200, rs_body = []\<rparr>, (removeAll last_part names, placed)))"

definition deletion_env :: "(string list \<times> bool) env" where
  "deletion_env = (offline_env (e_lib coordinator_env))\<lparr>api_http := deletion_coordinator, api_crd_update := (\<lambda>_ c. ok c)\<rparr>"

lemma deletion_env_simps:
  "e_lib deletion_env = e_lib coordinator_env" "api_crd_update deletion_env = (\<lambda>_ c. ok c)"
  "NewRequest (e_lib coordinator_env) = (\<lambda>_ _. None)" "api_http deletion_env = deletion_coordinator"
  "decode_placement (e_lib coordinator_env) = (\<lambda>_. Inr (Some []))" "NewPlacementFromProto (e_lib coordinator_env) = (\<lambda>_. Inr [])"
  "Cause (e_lib coordinator_env) = example_Cause"
  by (simp_all add: deletion_env_def coordinator_env_def offline_env_def example_lib_def)

lemma deletion_run:
  "DoHTTPJSONPBRequest deletion_env cl action url None dec opts s =
     (let q = \<lparr>hr_method = action, hr_url = url, hr_headers = all_headers cl opts, hr_body = None\<rparr> in
      case deletion_coordinator q (st_world s) of (a, w) \<Rightarrow>
        (case a of Inl e \<Rightarrow> Inl e | Inr r \<Rightarrow> (case check_status (e_lib coordinator_env) r of Inl e \<Rightarrow> Inl e | Inr r \<Rightarrow> dec (rs_body r)),
         s\<lparr>st_world := w, st_calls := st_calls s @ [Http q]\<rparr>))"
  by (auto simp: DoHTTPJSONPBRequest_def DoHTTPRequest_def deletion_env_simps request_def bindE_run Let_def split: prod.splits sum.splits)

lemma last_parts:
  "last (split_on (CHR ''/'') (url @ namespaceBaseURL)) = ''namespace''"
  "last (split_on (CHR ''/'') (url @ placementBaseURL)) = ''placement''"
  "plain n \<Longrightarrow> last (split_on (CHR ''/'') (namespace_delete_url (e_lib coordinator_env) url n)) = n"
  using last_split_on [of "CHR ''/''" "''namespace''" "url @ ''/api/v1/services/m3db''"]
    last_split_on [of "CHR ''/''" "''placement''" "url @ ''/api/v1/services/m3db''"]
    last_split_on [of "CHR ''/''" n url] last_split_on [of "CHR ''/''" n "url @ namespaceBaseURL"]
  by (simp_all add: namespaceBaseURL_def placementBaseURL_def namespace_delete_url_def coordinator_env_simps plain_def)

lemma deletion_ops:
  "ns_List deletion_env (Client url ac) s = (Inr (map (\<lambda>n. (n, \<lparr>ne_StagingState = None, ne_rest = []\<rparr>))
     (filter plain (removeAll ''placement'' (fst (st_world s))))), snd (ns_List deletion_env (Client url ac) s))"
  "st_world (snd (ns_List deletion_env (Client url ac) s)) = st_world s"
  "fst (ns_Delete deletion_env (Client url ac) n s) = Inr ()"
  "plain n \<Longrightarrow> plain_keys (st_world (snd (ns_Delete deletion_env (Client url ac) n s))) = plain_keys (st_world s) - {n}"
  "fst (pl_Delete deletion_env (Client url ac) s) = Inr ()"
  "st_world (snd (pl_Delete deletion_env (Client url ac) s)) = (fst (st_world s), False)"
  "st_world (snd (pl_Get deletion_env (Client url ac) s)) = st_world s"
  "fst (pl_Get deletion_env (Client url ac) s) = Inl e \<Longrightarrow> example_Cause e = ErrNotFound \<and> \<not> snd (st_world s)"
  by (auto simp: ns_List_def ns_Delete_def pl_Get_def pl_Delete_def with_client_def bindE_run deletion_run deletion_coordinator_def
      last_parts check_status_def coordinator_env_simps deletion_env_simps split_listing discard_def plain_keys_def ErrNotFound_def Let_def
      split: prod.splits if_splits)

lemma deletion_laws: "cleanup_laws deletion_env plain_keys snd" "answers deletion_env"
proof -
  have names: "fst ` set (map (\<lambda>n. (n, \<lparr>ne_StagingState = None, ne_rest = []\<rparr>)) (filter plain (removeAll ''placement'' (fst w)))) = plain_keys w" for w
    by (simp add: plain_keys_def image_image)
  have lists: "fst ` set reg = plain_keys (st_world s) \<and> plain_keys (st_world s') = plain_keys (st_world s)"
    if "ns_List deletion_env (Client url ac) s = (Inr reg, s')" for url ac s reg s'
    using that deletion_ops(1,2) [of url ac s] names [of "st_world s"] by simp
  have parse: "ParseRequestURI (e_lib deletion_env) = (\<lambda>_. None)" by (simp add: deletion_env_simps coordinator_env_simps)
  show "cleanup_laws deletion_env plain_keys snd"
    unfolding cleanup_laws_def
  proof (intro conjI allI impI, goal_cases)
    case (3 url ac n s s')
    then show ?case using deletion_ops(4) [of n url ac s] by simp
  next
    case (4 url ac s r s')
    then show ?case using deletion_ops(7) [of url ac s] by simp
  next
    case (5 url ac s r s' e)
    then show ?case using deletion_ops(7,8) [of url ac s] by simp
  next
    case (6 url ac s s')
    then show ?case using deletion_ops(6) [of url ac s] by (simp add: plain_keys_def)
  next
    case (7 url ac s s')
    then show ?case using deletion_ops(6) [of url ac s] by simp
  qed (use lists in \<open>auto simp: parse\<close>)
  show "answers deletion_env"
    unfolding answers_def
  proof (intro conjI allI impI, goal_cases)
    case (1 url ac s)
    show ?case using deletion_ops(1) [of url ac s] by (metis fst_conv)
  qed (auto simp: deletion_ops(3,5,8) coordinator_env_simps deletion_env_simps)
qed

text \<open>A deleted cluster with another finalizer beside the one for etcd; the coordinator has two namespaces and a placement.\<close>

theorem finalizer_removed_last_witness:
  "\<exists>s'. handleClusterUpdate deletion_env deleted_cluster (start ([''metrics'', ''agg''], True)) = (Inr (), s')
     \<and> last (st_calls s') = Crd_Update ''ns'' (set_finalizers deleted_cluster [''a''])
     \<and> plain_keys (st_world s') = {} \<and> \<not> snd (st_world s')"
proof -
  let ?s = "start ([''metrics'', ''agg''], True)"
  have c: "\<not> cs_Frozen (cl_spec deleted_cluster)" "marked_deleted deleted_cluster"
    "EtcdDeletionFinalizer \<in> set (om_finalizers (cl_meta deleted_cluster))"
    by (simp_all add: example_defs marked_deleted_def)
  have keep: "\<not> cs_KeepEtcdDataOnDelete (cl_spec deleted_cluster)" by (simp add: example_defs)
  have fin: "removeAll EtcdDeletionFinalizer (om_finalizers (cl_meta deleted_cluster)) = [''a'']" "cl_namespace deleted_cluster = ''ns''"
    by (simp_all add: example_defs EtcdDeletionFinalizer_def)
  obtain r s' where run: "handleClusterUpdate deletion_env deleted_cluster ?s = (r, s')" by force
  have plain: "plain n" if "n \<in> plain_keys (st_world ?s)" for n using that by (simp add: plain_keys_def)
  have clients: "no_error_clients ?s" by (simp add: no_error_clients_def start_def)
  from finalizer_removed_last [OF c deletion_laws(1) plain clients run] deletion_laws(2) keep
  have "\<exists>s1 q w. plain_keys (st_world s1) = {} \<and> \<not> snd (st_world s1)
      \<and> api_crd_update deletion_env ''ns'' (set_finalizers deleted_cluster [''a'']) (st_world s1) = (q, w)
      \<and> s' = s1\<lparr>st_world := w, st_calls := st_calls s1 @ [Crd_Update ''ns'' (set_finalizers deleted_cluster [''a''])]\<rparr>
      \<and> (r = Inr () \<longleftrightarrow> (\<exists>x. q = Inr x))"
    unfolding fin by auto
  with run show ?thesis by (auto simp: deletion_env_simps)
qed

end
