(* ===== verification/Set_Creation.thy ===== *)
theory Set_Creation
  imports Controller Example_Cluster
begin

text \<open>
  Which StatefulSet the creation loop creates. The loop runs over the isolation groups sorted by
  name and names the sets by their position there, while \<open>GenerateStatefulSet\<close> names a set by the
  position of its group in the spec: the two agree when the spec lists the groups in order.
\<close>

lemma sort_groups_sorted:
  "sorted (map ig_Name gs) \<Longrightarrow> distinct (map ig_Name gs) \<Longrightarrow> sort_groups tie gs = gs"
  unfolding sort_groups_def by (rule go_sort_sorted)

lemma create_set_present:
  "mhas byName (StatefulSetName (cl_name c) i) \<Longrightarrow> create_set env c gs byName i = ok False"
  by (simp add: create_set_def)

lemma for_until_skip:
  "(\<And>x. x \<in> set xs \<Longrightarrow> f x = ok False) \<Longrightarrow> for_until f (xs @ ys) = for_until f ys"
  by (induction xs) simp_all

lemma create_set_missing:
  assumes "\<not> mhas byName (StatefulSetName (cl_name c) i)"
    and "GenerateStatefulSet c (ig_Name (gs ! i)) (ig_NumInstances (gs ! i)) = Inr t"
  shows "fst (create_set env c gs byName i s) \<noteq> Inr False
    \<and> st_calls (snd (create_set env c gs byName i s)) = st_calls s @ [Sts_Create (cl_namespace c) t]"
  using assms
  by (auto simp: create_set_def catchE_run request_def split: prod.splits sum.splits)

text \<open>The loop skips the sets that exist and does what \<open>create_set\<close> does for the first missing one.\<close>

lemma create_phase_at_missing:
  assumes "i < length gs" and "\<not> mhas byName (StatefulSetName (cl_name c) i)"
    and "\<And>j. j < i \<Longrightarrow> mhas byName (StatefulSetName (cl_name c) j)"
    and "GenerateStatefulSet c (ig_Name (gs ! i)) (ig_NumInstances (gs ! i)) = Inr t"
  shows "create_phase env c gs byName s = create_set env c gs byName i s"
proof -
  have split: "[0..<length gs] = [0..<i] @ i # [Suc i..<length gs]"
    using assms(1) upt_add_eq_append [of 0 i "length gs - i"] by (simp add: upt_conv_Cons)
  have "create_phase env c gs byName = for_until (create_set env c gs byName) (i # [Suc i..<length gs])"
    unfolding create_phase_def split
    by (rule for_until_skip) (simp add: create_set_present assms(3) del: ok_run)
  with create_set_missing [OF assms(2,4), of env s] show ?thesis
    by (auto simp: bindE_run split: sum.splits if_splits) (metis prod.collapse)+
qed

section \<open>Properties\<close>

text \<open>
  C2: When the isolation groups of the spec are in order and have distinct names, the creation loop
  creates the first missing StatefulSet, under the missing name and with the size of its group.
\<close>

theorem creates_first_missing_set:
  assumes order: "sorted (map ig_Name (cl_groups c))" "distinct (map ig_Name (cl_groups c))"
    and i: "i < length (cl_groups c)" "\<not> mhas byName (StatefulSetName (cl_name c) i)"
    and before: "\<And>j. j < i \<Longrightarrow> mhas byName (StatefulSetName (cl_name c) j)"
    and gen: "GenerateStatefulSet c (ig_Name (cl_groups c ! i)) (ig_NumInstances (cl_groups c ! i)) = Inr t"
  shows "st_calls (snd (create_phase env c (sort_groups tie (cl_groups c)) byName s))
      = st_calls s @ [Sts_Create (cl_namespace c) t]
    \<and> sts_name t = StatefulSetName (cl_name c) i
    \<and> ss_replicas (sts_spec t) = Some (ig_NumInstances (cl_groups c ! i))"
proof (intro conjI)
  show "st_calls (snd (create_phase env c (sort_groups tie (cl_groups c)) byName s))
      = st_calls s @ [Sts_Create (cl_namespace c) t]"
    unfolding sort_groups_sorted [OF order]
    using create_phase_at_missing [OF i before gen, of env s] create_set_missing [OF i(2) gen, of env s] by simp
  show "sts_name t = StatefulSetName (cl_name c) i"
    using GenerateStatefulSet_name [OF gen] find_group_nth [OF order(2) i(1)] by simp
  show "ss_replicas (sts_spec t) = Some (ig_NumInstances (cl_groups c ! i))"
    using gen by (auto elim!: GenerateStatefulSet_Inr simp: assemble_simps)
qed

lemma example_two_generates:
  "\<exists>t. GenerateStatefulSet (example_cluster [example_group ''a'' 1, example_group ''b'' 2]) ''b'' 2 = Inr t"
  by (simp add: GenerateStatefulSet_def example_cluster_def example_spec_def example_group_def
      GenerateStatefulSetAffinity_def buildConfigMapComponents_def defaultConfigMapName_def Let_def)

theorem creates_first_missing_set_witness:
  "\<exists>t. st_calls (snd (create_phase (offline_env example_lib :: unit env)
         (example_cluster [example_group ''a'' 1, example_group ''b'' 2])
         (sort_groups (\<lambda>_. 0) [example_group ''a'' 1, example_group ''b'' 2])
         [(''c-rep0'', example_sts ''c-rep0'' 1 1)] (start ())))
      = [Sts_Create ''ns'' t] \<and> sts_name t = ''c-rep1'' \<and> ss_replicas (sts_spec t) = Some 2"
proof -
  let ?c = "example_cluster [example_group ''a'' 1, example_group ''b'' 2]"
  let ?by = "[(''c-rep0'', example_sts ''c-rep0'' 1 1)]"
  have names: "StatefulSetName ''c'' 0 = ''c-rep0''" "StatefulSetName ''c'' 1 = ''c-rep1''" by code_simp+
  obtain t where gen: "GenerateStatefulSet ?c ''b'' 2 = Inr t" using example_two_generates by blast
  have "sorted (map ig_Name (cl_groups ?c))" "distinct (map ig_Name (cl_groups ?c))" "1 < length (cl_groups ?c)"
    "\<not> mhas ?by (StatefulSetName (cl_name ?c) 1)"
    unfolding example_cluster_simps names by (simp_all add: mhas_def)
  moreover have "mhas ?by (StatefulSetName (cl_name ?c) j)" if "j < 1" for j
    using that by (simp add: mhas_def names)
  moreover have "GenerateStatefulSet ?c (ig_Name (cl_groups ?c ! 1)) (ig_NumInstances (cl_groups ?c ! 1)) = Inr t"
    using gen by simp
  ultimately have "st_calls (snd (create_phase (offline_env example_lib :: unit env) ?c
      (sort_groups (\<lambda>_. 0) (cl_groups ?c)) ?by (start ()))) = st_calls (start ()) @ [Sts_Create (cl_namespace ?c) t]
    \<and> sts_name t = StatefulSetName (cl_name ?c) 1
    \<and> ss_replicas (sts_spec t) = Some (ig_NumInstances (cl_groups ?c ! 1))"
    by (rule creates_first_missing_set)
  then show ?thesis unfolding example_cluster_simps names by (intro exI [of _ t]) (simp add: start_def)
qed

text \<open>
  C34: When the groups of the spec are not in name order, the creation loop can stall for good: if the
  set missing first (by the sorted order) belongs to a group whose set, by the order of the spec,
  has the name of an existing one, the pass asks for the existing set again, takes the
  already-exists error for success and ends; the missing set is not created.
\<close>

theorem unsorted_groups_stall:
  assumes i: "i < length gs" "\<not> mhas byName (StatefulSetName (cl_name c) i)"
    and gs: "gs = sort_groups (tie_groups (e_lib env)) (cl_groups c)"
    and before: "\<And>j. j < i \<Longrightarrow> mhas byName (StatefulSetName (cl_name c) j)"
    and clash: "find_group (cl_groups c) (ig_Name (gs ! i)) = Some (k, g)" "mhas byName (StatefulSetName (cl_name c) k)"
    and gen: "GenerateStatefulSet c (ig_Name (gs ! i)) (ig_NumInstances (gs ! i)) = Inr t"
    and api: "api_sts_create env (cl_namespace c) t (st_world s) = (Inl err, w)" "IsAlreadyExists (e_lib env) err"
  shows "mhas byName (sts_name t) \<and> create_phase env c gs byName s =
    (Inr True, s\<lparr>st_world := w, st_calls := st_calls s @ [Sts_Create (cl_namespace c) t]\<rparr>)"
proof
  show "mhas byName (sts_name t)" using GenerateStatefulSet_name [OF gen] clash by auto
  show "create_phase env c gs byName s =
      (Inr True, s\<lparr>st_world := w, st_calls := st_calls s @ [Sts_Create (cl_namespace c) t]\<rparr>)"
    using create_phase_at_missing [OF i before gen, of env s] i(2) gen api
    by (simp add: create_set_def catchE_run request_def)
qed

text \<open>The groups \<open>b\<close>, \<open>a\<close> in this order, with only the set of \<open>a\<close> present.\<close>

definition stalled_cluster :: m3db_cluster where
  "stalled_cluster = example_cluster [example_group ''b'' 1, example_group ''a'' 1]"

definition taken_env :: "unit env" where
  "taken_env = (offline_env example_lib)\<lparr>api_sts_create := (\<lambda>_ _ w. (Inl already_exists, w))\<rparr>"

theorem unsorted_groups_stall_witness:
  "\<exists>t. sts_name t = ''c-rep1'' \<and> create_phase taken_env stalled_cluster
      (sort_groups (tie_groups (e_lib taken_env)) (cl_groups stalled_cluster))
      [(''c-rep1'', example_sts ''c-rep1'' 1 1)] (start ()) =
    (Inr True, (start ())\<lparr>st_calls := [Sts_Create ''ns'' t]\<rparr>)"
proof -
  let ?by = "[(''c-rep1'', example_sts ''c-rep1'' 1 1)]"
  have names: "StatefulSetName ''c'' 0 = ''c-rep0''" "StatefulSetName ''c'' 1 = ''c-rep1''" by code_simp+
  have c: "cl_groups stalled_cluster = [example_group ''b'' 1, example_group ''a'' 1]" "cl_name stalled_cluster = ''c''"
    "cl_namespace stalled_cluster = ''ns''" by (simp_all add: stalled_cluster_def)
  have gs: "sort_groups (tie_groups (e_lib taken_env)) (cl_groups stalled_cluster)
      = [example_group ''a'' 1, example_group ''b'' 1]"
    by (simp add: c sort_groups_def go_sort_def example_group_def)
  have env: "api_sts_create taken_env ''ns'' t w = (Inl already_exists, w)" "IsAlreadyExists (e_lib taken_env) already_exists"
    for t w by (simp_all add: taken_env_def offline_env_def example_lib_def)
  have find: "find_group (cl_groups stalled_cluster) ''a'' = Some (1, example_group ''a'' 1)"
    by (simp add: c)
  obtain t where gen: "GenerateStatefulSet stalled_cluster ''a'' 1 = Inr t"
    by (simp add: GenerateStatefulSet_def stalled_cluster_def example_cluster_def example_spec_def example_group_def
      GenerateStatefulSetAffinity_def buildConfigMapComponents_def defaultConfigMapName_def Let_def)
  have "mhas ?by (sts_name t) \<and> create_phase taken_env stalled_cluster [example_group ''a'' 1, example_group ''b'' 1] ?by (start ()) =
      (Inr True, (start ())\<lparr>st_world := (), st_calls := st_calls (start ()) @ [Sts_Create (cl_namespace stalled_cluster) t]\<rparr>)"
    by (rule unsorted_groups_stall [where i = 0 and k = 1 and g = "example_group ''a'' 1" and err = already_exists])
      (use gen find env names in \<open>simp_all add: gs [unfolded c] c mhas_def\<close>)
  moreover have "sts_name t = ''c-rep1''"
    using GenerateStatefulSet_name [OF gen] find names by (auto simp: c)
  ultimately show ?thesis unfolding gs by (intro exI [of _ t]) (simp add: c start_def)
qed

end
