(* ===== verification/Creation_Liveness.thy ===== *)
theory Creation_Liveness
  imports Set_Creation Controller_Safety
begin

text \<open>
  How a new cluster comes into being: against an API server that keeps what it is given, every pass
  of the control loop creates one StatefulSet until there is one for each isolation group.
\<close>

section \<open>The API server\<close>

text \<open>
  What is needed of the API server and the lister, with \<open>sets\<close> the StatefulSets of the cluster that
  are stored: services exist and reading them changes nothing, the lister returns the stored sets,
  a set that is created under a new name is stored, and \<open>IsControlledBy\<close> accepts sets that carry the
  cluster's owner reference.
\<close>

definition keeps_sets :: "'w env \<Rightarrow> m3db_cluster \<Rightarrow> ('w \<Rightarrow> statefulset list) \<Rightarrow> bool" where
  "keeps_sets env c sets \<longleftrightarrow>
     (\<forall>ns n w. \<exists>svc. api_svc_get env ns n w = (Inr svc, w))
     \<and> (\<forall>w. list_sts env (cl_namespace c) (SelectorFromSet (BaseLabels c)) w = (Inr (sets w), w))
     \<and> (\<forall>t w. sts_name t \<notin> sts_name ` set (sets w) \<longrightarrow>
          (\<exists>t' w'. api_sts_create env (cl_namespace c) t w = (Inr t', w') \<and> sets w' = sets w @ [t]))
     \<and> (\<forall>m. om_owner_refs m = [GenerateOwnerRef c] \<longrightarrow> IsControlledBy (e_lib env) m (cl_meta c))"

lemma keeps_setsD:
  assumes "keeps_sets env c sets"
  shows "\<exists>svc. api_svc_get env ns n w = (Inr svc, w)"
    and "list_sts env (cl_namespace c) (SelectorFromSet (BaseLabels c)) w = (Inr (sets w), w)"
    and "sts_name t \<notin> sts_name ` set (sets w) \<Longrightarrow>
      \<exists>t' w'. api_sts_create env (cl_namespace c) t w = (Inr t', w') \<and> sets w' = sets w @ [t]"
    and "om_owner_refs m = [GenerateOwnerRef c] \<Longrightarrow> IsControlledBy (e_lib env) m (cl_meta c)"
  using assms unfolding keeps_sets_def by blast+

text \<open>A cluster that can be created: active, valid, with a finalizer and a ConfigMap of the user.\<close>

definition creatable :: "m3db_cluster \<Rightarrow> bool" where
  "creatable c \<longleftrightarrow> \<not> cs_Frozen (cl_spec c) \<and> \<not> marked_deleted c \<and> cl_name c \<noteq> []
     \<and> validateIsolationGroups c = None \<and> sorted (map ig_Name (cl_groups c)) \<and> list_all affinity_ok (cl_groups c)
     \<and> (cs_KeepEtcdDataOnDelete (cl_spec c) \<or> EtcdDeletionFinalizer \<in> set (om_finalizers (cl_meta c)))
     \<and> (case cs_ConfigMapName (cl_spec c) of None \<Rightarrow> False | Some name \<Rightarrow> name \<noteq> [])"

section \<open>One pass\<close>

lemma EnsureService_exists:
  assumes "keeps_sets env c sets"
  shows "\<exists>cs. EnsureService env c svc s = (Inr (), s\<lparr>st_calls := st_calls s @ cs\<rparr>)"
proof -
  obtain x where "api_svc_get env (cl_namespace c) (om_name (svc_meta svc)) (st_world s) = (Inr x, st_world s)"
    using keeps_setsD(1) [OF assms] by blast
  then show ?thesis by (auto simp: EnsureService_def GetService_def catchE_run request_def)
qed

lemma ensureServices_exists:
  assumes "keeps_sets env c sets" and "cl_name c \<noteq> []"
  shows "\<exists>cs. ensureServices env c s = (Inr (), s\<lparr>st_calls := st_calls s @ cs\<rparr>)"
proof -
  have step: "\<exists>cs. ensure_service_step env c svc s = (Inr (), s\<lparr>st_calls := st_calls s @ cs\<rparr>)" for svc s
    using EnsureService_exists [OF assms(1), of svc s] by (auto simp: ensure_service_step_def catchE_run)
  obtain svc1 svc2 where "GenerateCoordinatorService c = Inr svc1" "GenerateM3DBService c = Inr svc2"
    using assms(2) by (simp add: GenerateCoordinatorService_def GenerateM3DBService_def Let_def)
  moreover obtain cs where "ensure_service_step env c svc1 s = (Inr (), s\<lparr>st_calls := st_calls s @ cs\<rparr>)"
    using step by blast
  moreover obtain ds where "ensure_service_step env c svc2 (s\<lparr>st_calls := st_calls s @ cs\<rparr>)
      = (Inr (), s\<lparr>st_calls := st_calls s @ cs @ ds\<rparr>)"
    using step [of svc2 "s\<lparr>st_calls := st_calls s @ cs\<rparr>"] by auto
  ultimately show ?thesis by (auto simp: ensureServices_def)
qed

lemma prepare_phase_exists:
  assumes "keeps_sets env c sets" and "creatable c"
  shows "\<exists>cs. prepare_phase env c s = (Inr c, s\<lparr>st_calls := st_calls s @ cs\<rparr>)"
proof -
  have "ensure_configmap_step env c s = (Inr (), s)" for s
    using assms(2) by (auto simp: creatable_def ensure_configmap_step_def ensureConfigMap_def split: option.splits)
  then show ?thesis
    using assms ensureServices_exists [OF assms(1), of s]
    by (auto simp: prepare_phase_def creatable_def ensureEtcdFinalizer_def)
qed

lemma sets_by_name_mhas: "mhas (sets_by_name ts) n \<longleftrightarrow> n \<in> sts_name ` set ts"
proof -
  have "mhas (fold (\<lambda>sts m. AList.update (sts_name sts) sts m) ts m) n \<longleftrightarrow> n \<in> sts_name ` set ts \<or> mhas m n" for m
    by (induction ts arbitrary: m) (auto simp: mhas_def)
  then show ?thesis by (simp add: sets_by_name_def mhas_def)
qed

lemma GenerateStatefulSet_group:
  assumes "creatable c" and "i < length (cl_groups c)"
  shows "\<exists>t. GenerateStatefulSet c (ig_Name (cl_groups c ! i)) k = Inr t
    \<and> sts_name t = StatefulSetName (cl_name c) i \<and> om_owner_refs (sts_meta t) = [GenerateOwnerRef c]"
proof -
  have find: "find_group (cl_groups c) (ig_Name (cl_groups c ! i)) = Some (i, cl_groups c ! i)"
    using assms by (auto simp: creatable_def validateIsolationGroups_None intro!: find_group_nth)
  obtain a where "GenerateStatefulSetAffinity (cl_groups c ! i) = Inr a"
    using assms GenerateStatefulSetAffinity_ok by (auto simp: creatable_def list_all_length)
  moreover obtain cfg where "buildConfigMapComponents c = Inr cfg"
    using assms(1) buildConfigMapComponents_ok [of c] by (auto simp: creatable_def split: option.splits)
  ultimately have "GenerateStatefulSet c (ig_Name (cl_groups c ! i)) k = Inr (assemble_statefulset c (ig_Name (cl_groups c ! i)) k i (cl_groups c ! i) a cfg)"
    using find by (simp add: GenerateStatefulSet_def)
  then show ?thesis by (simp add: assemble_simps)
qed

text \<open>The sets of the first \<open>n\<close> groups, all of them owned.\<close>

definition created_upto :: "m3db_cluster \<Rightarrow> nat \<Rightarrow> statefulset list \<Rightarrow> bool" where
  "created_upto c n ts \<longleftrightarrow> map sts_name ts = map (StatefulSetName (cl_name c)) [0..<n]
     \<and> list_all (\<lambda>t. om_owner_refs (sts_meta t) = [GenerateOwnerRef c]) ts"

lemma created_upto_names: "created_upto c n ts \<Longrightarrow> mhas (sets_by_name ts) (StatefulSetName (cl_name c) i) \<longleftrightarrow> i < n"
  unfolding sets_by_name_mhas created_upto_def
  by (metis (no_types, lifting) StatefulSetName_inject atLeastLessThan_iff image_iff set_map set_upt zero_le)

text \<open>The effect of the pass: one request that creates the generated set of the next group.\<close>

lemma pass_creates:
  assumes laws: "keeps_sets env c sets" and c: "creatable c" and n: "n < length (cl_groups c)"
    and now: "created_upto c n (sets (st_world s))"
  shows "\<exists>t t' w' cs. GenerateStatefulSet c (ig_Name (cl_groups c ! n)) (ig_NumInstances (cl_groups c ! n)) = Inr t
    \<and> sts_name t = StatefulSetName (cl_name c) n \<and> om_owner_refs (sts_meta t) = [GenerateOwnerRef c]
    \<and> sts_name t \<notin> sts_name ` set (sets (st_world s))
    \<and> api_sts_create env (cl_namespace c) t (st_world s) = (Inr t', w') \<and> sets w' = sets (st_world s) @ [t]
    \<and> handleClusterUpdate env c s = (Inr (), s\<lparr>st_world := w', st_calls := cs @ [Sts_Create (cl_namespace c) t]\<rparr>)"
proof -
  obtain cs where prep: "prepare_phase env c s = (Inr c, s\<lparr>st_calls := st_calls s @ cs\<rparr>)"
    using prepare_phase_exists [OF laws c] by blast
  let ?s = "s\<lparr>st_calls := st_calls s @ cs\<rparr>" and ?ts = "sets (st_world s)"
  have "filter (\<lambda>t. IsControlledBy (e_lib env) (sts_meta t) (cl_meta c)) ?ts = ?ts"
    using now keeps_setsD(4) [OF laws] by (auto simp: created_upto_def list_all_iff intro!: filter_True)
  then have child: "getChildStatefulSets env c ?s = (Inr ?ts, ?s)"
    by (simp add: getChildStatefulSets_def read_cache_def bindE_run keeps_setsD(2) [OF laws])
  have sorted: "sort_groups tie (cl_groups c) = cl_groups c" for tie
    using c by (auto simp: creatable_def validateIsolationGroups_None intro: sort_groups_sorted)
  obtain t where gen: "GenerateStatefulSet c (ig_Name (cl_groups c ! n)) (ig_NumInstances (cl_groups c ! n)) = Inr t"
    and t: "sts_name t = StatefulSetName (cl_name c) n" "om_owner_refs (sts_meta t) = [GenerateOwnerRef c]"
    using GenerateStatefulSet_group [OF c n] by blast
  note names = created_upto_names [OF now]
  have new: "sts_name t \<notin> sts_name ` set ?ts" using names [of n] t(1) by (simp add: sets_by_name_mhas)
  from keeps_setsD(3) [OF laws new] obtain t' w' where
    api: "api_sts_create env (cl_namespace c) t (st_world s) = (Inr t', w')" and w': "sets w' = ?ts @ [t]" by blast
  have "create_phase env c (cl_groups c) (sets_by_name ?ts) ?s
      = (Inr True, ?s\<lparr>st_world := w', st_calls := st_calls ?s @ [Sts_Create (cl_namespace c) t]\<rparr>)"
    using create_phase_at_missing [OF n _ _ gen, of "sets_by_name ?ts" env ?s] names gen api
    by (simp add: create_set_def catchE_run request_def)
  then have "handleClusterUpdate env c s
      = (Inr (), ?s\<lparr>st_world := w', st_calls := st_calls ?s @ [Sts_Create (cl_namespace c) t]\<rparr>)"
    using c n prep child
    by (auto simp: handleClusterUpdate_def creatable_def sets_phase_def sorted Let_def)
  with gen t new api w' show ?thesis by (intro exI [of _ t] exI [of _ t'] exI [of _ w'] exI [of _ "st_calls s @ cs"]) simp
qed

lemma pass_creates_next:
  assumes "keeps_sets env c sets" and "creatable c" and "n < length (cl_groups c)"
    and "created_upto c n (sets (st_world s))"
  shows "fst (handleClusterUpdate env c s) = Inr ()
    \<and> created_upto c (Suc n) (sets (st_world (snd (handleClusterUpdate env c s))))"
  using pass_creates [OF assms] assms(4) by (auto simp: created_upto_def)

lemma passes_create:
  assumes "keeps_sets env c sets" and "creatable c" and "sets (st_world s) = []" and "n \<le> length (cl_groups c)"
  shows "created_upto c n (sets (st_world (((\<lambda>s. snd (handleClusterUpdate env c s)) ^^ n) s)))"
  using assms(4)
proof (induction n)
  case 0
  with assms(3) show ?case by (simp add: created_upto_def)
next
  case (Suc n)
  then have "created_upto c n (sets (st_world (((\<lambda>s. snd (handleClusterUpdate env c s)) ^^ n) s)))" by simp
  from pass_creates_next [OF assms(1,2) _ this] Suc.prems show ?case by simp
qed

section \<open>Properties\<close>

text \<open>
  C7: When a cluster gets all its StatefulSets. Let the cluster be active and valid, with its isolation
  groups listed in the order of their names, a ConfigMap of the user, and the etcd finalizer present or
  not needed, and let the API server have the services and store what it is given. Then after \<open>n\<close> passes
  from no sets there are exactly the sets of the first \<open>n\<close> isolation groups, in order, so after as many
  passes as there are groups every group has its set. No pass waits for the pods of an earlier set,
  although a comment in the code says that the existing sets are bootstrapped at this point. The order
  of the groups cannot be dropped: with two groups in another order creation stalls.
\<close>

theorem all_sets_created:
  assumes "keeps_sets env c sets" and "creatable c" and "sets (st_world s) = []" and "n \<le> length (cl_groups c)"
  shows "map sts_name (sets (st_world (((\<lambda>s. snd (handleClusterUpdate env c s)) ^^ n) s)))
    = map (StatefulSetName (cl_name c)) [0..<n]"
  using passes_create [OF assms] by (simp add: created_upto_def)

text \<open>An API server whose world is the list of stored sets.\<close>

definition store_env :: "statefulset list env" where
  "store_env = (offline_env (example_lib\<lparr>IsControlledBy := (\<lambda>_ _. True)\<rparr>))\<lparr>
     api_svc_get := (\<lambda>_ _ w. (Inr \<lparr>svc_meta = zero_meta, svc_selector = [], svc_ports = [], svc_clusterIP = [], svc_type = [],
       svc_publishNotReadyAddresses = False\<rparr>, w)),
     list_sts := (\<lambda>_ _ w. (Inr w, w)),
     api_sts_create := (\<lambda>_ t w. (Inr t, w @ [t]))\<rparr>"

definition new_cluster :: m3db_cluster where
  "new_cluster = (example_cluster [])\<lparr>cl_spec := (example_spec [example_group ''a'' 1, example_group ''b'' 2])
     \<lparr>cs_ConfigMapName := Some ''cm'', cs_KeepEtcdDataOnDelete := True\<rparr>\<rparr>"

theorem all_sets_created_witness:
  "map sts_name (st_world (((\<lambda>s. snd (handleClusterUpdate store_env new_cluster s)) ^^ 2) (start [])))
    = [''c-rep0'', ''c-rep1'']"
proof -
  have names: "StatefulSetName ''c'' 0 = ''c-rep0''" "StatefulSetName ''c'' 1 = ''c-rep1''" by code_simp+
  have "keeps_sets store_env new_cluster (\<lambda>w. w)"
    by (simp add: keeps_sets_def store_env_def offline_env_def)
  moreover have "creatable new_cluster"
    by (simp add: creatable_def new_cluster_def example_cluster_def example_spec_def example_group_def marked_deleted_def
        zero_meta_def validateIsolationGroups_None affinity_ok_def i32_def)
  ultimately show ?thesis
    using all_sets_created [of store_env new_cluster "\<lambda>w. w" "start []" 2] names
    by (simp add: start_def new_cluster_def example_cluster_def example_spec_def upt_rec)
qed

end
