(* ===== verification/Generated_Client.thy ===== *)
theory Generated_Client
  imports Generators Complex_Main
begin

text \<open>
  \<open>pkg/client\<close>: the client of the custom resource. Construction of the clientset, the requests its
  operations send, the lister over the informer's cache, and the shared informer factory. The REST
  client, the discovery client and the informers themselves belong to client-go and are parameters.
\<close>

section \<open>Clientset (\<open>clientset/versioned\<close>)\<close>

record rest_config =
  rc_Host :: string
  rc_UserAgent :: string
  rc_RateLimiter :: "opaque option"
  rc_QPS :: rat
  rc_Burst :: int
  rc_GroupVersion :: "(string \<times> string) option"
  rc_APIPath :: string
  rc_NegotiatedSerializer :: opaque

text \<open>The functions of client-go; a client is an opaque value.\<close>

record rest_lib =
  DefaultKubernetesUserAgent :: string
  HTTPClientFor :: "rest_config \<Rightarrow> gerror + opaque"
  RESTClientForConfigAndClient :: "rest_config \<Rightarrow> opaque \<Rightarrow> gerror + opaque"
  NewDiscoveryClientForConfigAndClient :: "rest_config \<Rightarrow> opaque \<Rightarrow> gerror + opaque"
  NewDiscoveryClient :: "opaque \<Rightarrow> opaque"
  NewTokenBucketRateLimiter :: "rat \<Rightarrow> int \<Rightarrow> opaque"
  Codecs_WithoutConversion :: opaque

record Clientset =
  cs_DiscoveryClient :: opaque
  cs_operatorV1alpha1 :: opaque

definition default_UserAgent :: "rest_lib \<Rightarrow> rest_config \<Rightarrow> rest_config" where
  "default_UserAgent rl config =
     (if rc_UserAgent config = [] then config\<lparr>rc_UserAgent := DefaultKubernetesUserAgent rl\<rparr> else config)"

definition setConfigDefaults :: "rest_lib \<Rightarrow> rest_config \<Rightarrow> rest_config" where
  "setConfigDefaults rl config = default_UserAgent rl (config\<lparr>rc_GroupVersion := Some (GroupName, Version),
     rc_APIPath := ''/apis'', rc_NegotiatedSerializer := Codecs_WithoutConversion rl\<rparr>)"

definition operator_NewForConfigAndClient :: "rest_lib \<Rightarrow> rest_config \<Rightarrow> opaque \<Rightarrow> gerror + opaque" where
  "operator_NewForConfigAndClient rl c h = RESTClientForConfigAndClient rl (setConfigDefaults rl c) h"

definition operator_NewForConfig :: "rest_lib \<Rightarrow> rest_config \<Rightarrow> gerror + opaque" where
  "operator_NewForConfig rl c =
     (let config = setConfigDefaults rl c in
      res_bind (HTTPClientFor rl config) (\<lambda>httpClient. operator_NewForConfigAndClient rl config httpClient))"

text \<open>The configuration with the limiter of the requested rate.\<close>

definition with_RateLimiter :: "rest_lib \<Rightarrow> rest_config \<Rightarrow> rest_config" where
  "with_RateLimiter rl c = (if rc_RateLimiter c = None \<and> rc_QPS c > 0
     then c\<lparr>rc_RateLimiter := Some (NewTokenBucketRateLimiter rl (rc_QPS c) (rc_Burst c))\<rparr> else c)"

definition NewForConfigAndClient :: "rest_lib \<Rightarrow> rest_config \<Rightarrow> opaque \<Rightarrow> gerror + Clientset" where
  "NewForConfigAndClient rl c httpClient =
     (if rc_RateLimiter c = None \<and> rc_QPS c > 0 \<and> rc_Burst c \<le> 0
      then Inl (Errorf ''burst is required to be greater than 0 when RateLimiter is not set and QPS is set to greater than 0'' [])
      else
        res_bind (operator_NewForConfigAndClient rl (with_RateLimiter rl c) httpClient) (\<lambda>op.
        res_bind (NewDiscoveryClientForConfigAndClient rl (with_RateLimiter rl c) httpClient) (\<lambda>d.
        Inr \<lparr>cs_DiscoveryClient = d, cs_operatorV1alpha1 = op\<rparr>)))"

definition NewForConfig :: "rest_lib \<Rightarrow> rest_config \<Rightarrow> gerror + Clientset" where
  "NewForConfig rl c =
     (let config = default_UserAgent rl c in
      res_bind (HTTPClientFor rl config) (\<lambda>httpClient. NewForConfigAndClient rl config httpClient))"

text \<open>\<open>NewForConfigOrDie\<close>: the error is the value of the panic.\<close>

definition NewForConfigOrDie :: "rest_lib \<Rightarrow> rest_config \<Rightarrow> gerror + Clientset" where
  "NewForConfigOrDie rl c = (case NewForConfig rl c of Inl err \<Rightarrow> Inl err | Inr cs \<Rightarrow> Inr cs)"

definition operator_NewForConfigOrDie :: "rest_lib \<Rightarrow> rest_config \<Rightarrow> gerror + opaque" where
  "operator_NewForConfigOrDie rl c = (case operator_NewForConfig rl c of Inl err \<Rightarrow> Inl err | Inr client \<Rightarrow> Inr client)"

definition clientset_New :: "rest_lib \<Rightarrow> opaque \<Rightarrow> Clientset" where
  "clientset_New rl c = \<lparr>cs_DiscoveryClient = NewDiscoveryClient rl c, cs_operatorV1alpha1 = c\<rparr>"

text \<open>The accessors; \<open>None\<close> is a nil pointer.\<close>

definition OperatorV1alpha1 :: "Clientset \<Rightarrow> opaque" where
  "OperatorV1alpha1 c = cs_operatorV1alpha1 c"

definition Discovery :: "Clientset option \<Rightarrow> opaque option" where
  "Discovery c = (case c of None \<Rightarrow> None | Some cs \<Rightarrow> Some (cs_DiscoveryClient cs))"

definition RESTClient :: "opaque option \<Rightarrow> opaque option" where
  "RESTClient c = (case c of None \<Rightarrow> None | Some restClient \<Rightarrow> Some restClient)"

text \<open>
  Both clients of a clientset share the transport and, when the configuration asks for a limit on
  the rate of requests, one limiter.
\<close>

lemma NewForConfig_limits:
  "rc_QPS c > 0 \<Longrightarrow> rc_RateLimiter (with_RateLimiter rl (default_UserAgent rl c)) \<noteq> None"
  by (simp add: with_RateLimiter_def default_UserAgent_def)

lemma NewForConfig_shares:
  assumes "NewForConfig rl c = Inr cs"
  defines "config \<equiv> with_RateLimiter rl (default_UserAgent rl c)"
  shows "\<exists>h. HTTPClientFor rl (default_UserAgent rl c) = Inr h
    \<and> RESTClientForConfigAndClient rl (setConfigDefaults rl config) h = Inr (cs_operatorV1alpha1 cs)
    \<and> NewDiscoveryClientForConfigAndClient rl config h = Inr (cs_DiscoveryClient cs)"
  using assms by (auto simp: NewForConfig_def NewForConfigAndClient_def operator_NewForConfigAndClient_def
      res_bind_Inr Let_def split: if_splits)

section \<open>Requests of the typed client (\<open>m3dbcluster.go\<close>)\<close>

record list_options =
  lo_LabelSelector :: string
  lo_TimeoutSeconds :: "int option"
  lo_Watch :: bool

datatype verb = GET | POST | PUT | PATCH string | DELETE

datatype request_params = No_Params | Params opaque | List_Params list_options

datatype request_body = No_Body | Body_Cluster m3db_cluster | Body_Options opaque | Body_Bytes string

record rest_request =
  rr_verb :: verb
  rr_namespace :: string
  rr_resource :: string
  rr_name :: "string option"
  rr_subresources :: "string list"
  rr_params :: request_params
  rr_timeout :: int
  rr_body :: request_body

record m3DBClusters =
  mc_client :: opaque
  mc_ns :: string

text \<open>What the REST client does with a request: decode a cluster or a list, report an error, watch.\<close>

record 'w rest_api =
  ra_cluster :: "opaque \<Rightarrow> rest_request \<Rightarrow> ('w, m3db_cluster) io"
  ra_list :: "opaque \<Rightarrow> rest_request \<Rightarrow> ('w, m3db_cluster list) io"
  ra_error :: "opaque \<Rightarrow> rest_request \<Rightarrow> ('w, unit) io"
  ra_watch :: "opaque \<Rightarrow> rest_request \<Rightarrow> ('w, opaque) io"

definition newM3DBClusters :: "opaque \<Rightarrow> string \<Rightarrow> m3DBClusters" where
  "newM3DBClusters restClient namespace = \<lparr>mc_client = restClient, mc_ns = namespace\<rparr>"

text \<open>\<open>RESTClient\<close> of the client of the group is the REST client itself.\<close>

definition operator_M3DBClusters :: "opaque \<Rightarrow> string \<Rightarrow> m3DBClusters" where
  "operator_M3DBClusters c namespace = newM3DBClusters c namespace"

text \<open>The calls that start every chain: the verb, the namespace and the resource.\<close>

definition base_request :: "m3DBClusters \<Rightarrow> verb \<Rightarrow> rest_request" where
  "base_request c v = \<lparr>rr_verb = v, rr_namespace = mc_ns c, rr_resource = ''m3dbclusters'', rr_name = None,
     rr_subresources = [], rr_params = No_Params, rr_timeout = 0, rr_body = No_Body\<rparr>"

text \<open>\<open>time.Duration(seconds) * time.Second\<close>, a product of 64-bit integers.\<close>

definition list_timeout :: "list_options \<Rightarrow> int" where
  "list_timeout opts = (case lo_TimeoutSeconds opts of
      None \<Rightarrow> 0 | Some n \<Rightarrow> (n * 10 ^ 9 + 2 ^ 63) mod 2 ^ 64 - 2 ^ 63)"

definition clusters_Get :: "'w rest_api \<Rightarrow> m3DBClusters \<Rightarrow> string \<Rightarrow> opaque \<Rightarrow> ('w, m3db_cluster) io" where
  "clusters_Get ra c name options = ra_cluster ra (mc_client c)
     ((base_request c GET)\<lparr>rr_name := Some name, rr_params := Params options\<rparr>)"

definition clusters_List :: "'w rest_api \<Rightarrow> m3DBClusters \<Rightarrow> list_options \<Rightarrow> ('w, m3db_cluster list) io" where
  "clusters_List ra c opts = ra_list ra (mc_client c)
     ((base_request c GET)\<lparr>rr_params := List_Params opts, rr_timeout := list_timeout opts\<rparr>)"

definition clusters_Watch :: "'w rest_api \<Rightarrow> m3DBClusters \<Rightarrow> list_options \<Rightarrow> ('w, opaque) io" where
  "clusters_Watch ra c opts = ra_watch ra (mc_client c)
     ((base_request c GET)\<lparr>rr_params := List_Params (opts\<lparr>lo_Watch := True\<rparr>), rr_timeout := list_timeout opts\<rparr>)"

definition clusters_Create :: "'w rest_api \<Rightarrow> m3DBClusters \<Rightarrow> m3db_cluster \<Rightarrow> opaque \<Rightarrow> ('w, m3db_cluster) io" where
  "clusters_Create ra c cluster opts = ra_cluster ra (mc_client c)
     ((base_request c POST)\<lparr>rr_params := Params opts, rr_body := Body_Cluster cluster\<rparr>)"

definition clusters_Update :: "'w rest_api \<Rightarrow> m3DBClusters \<Rightarrow> m3db_cluster \<Rightarrow> opaque \<Rightarrow> ('w, m3db_cluster) io" where
  "clusters_Update ra c cluster opts = ra_cluster ra (mc_client c)
     ((base_request c PUT)\<lparr>rr_name := Some (cl_name cluster), rr_params := Params opts, rr_body := Body_Cluster cluster\<rparr>)"

definition clusters_UpdateStatus :: "'w rest_api \<Rightarrow> m3DBClusters \<Rightarrow> m3db_cluster \<Rightarrow> opaque \<Rightarrow> ('w, m3db_cluster) io" where
  "clusters_UpdateStatus ra c cluster opts = ra_cluster ra (mc_client c)
     ((base_request c PUT)\<lparr>rr_name := Some (cl_name cluster), rr_subresources := [''status''],
       rr_params := Params opts, rr_body := Body_Cluster cluster\<rparr>)"

definition clusters_Delete :: "'w rest_api \<Rightarrow> m3DBClusters \<Rightarrow> string \<Rightarrow> opaque \<Rightarrow> ('w, unit) io" where
  "clusters_Delete ra c name opts = ra_error ra (mc_client c)
     ((base_request c DELETE)\<lparr>rr_name := Some name, rr_body := Body_Options opts\<rparr>)"

definition clusters_DeleteCollection :: "'w rest_api \<Rightarrow> m3DBClusters \<Rightarrow> opaque \<Rightarrow> list_options \<Rightarrow> ('w, unit) io" where
  "clusters_DeleteCollection ra c opts listOpts = ra_error ra (mc_client c)
     ((base_request c DELETE)\<lparr>rr_params := List_Params listOpts, rr_timeout := list_timeout listOpts,
       rr_body := Body_Options opts\<rparr>)"

definition clusters_Patch :: "'w rest_api \<Rightarrow> m3DBClusters \<Rightarrow> string \<Rightarrow> string \<Rightarrow> string \<Rightarrow> opaque \<Rightarrow> string list
    \<Rightarrow> ('w, m3db_cluster) io" where
  "clusters_Patch ra c name pt data opts subresources = ra_cluster ra (mc_client c)
     ((base_request c (PATCH pt))\<lparr>rr_name := Some name, rr_subresources := subresources,
       rr_params := Params opts, rr_body := Body_Bytes data\<rparr>)"

section \<open>Lister (\<open>listers/m3dboperator/v1alpha1\<close>)\<close>

text \<open>The indexer of client-go; an object of another type makes the type assertion panic.\<close>

text \<open>\<open>schema.GroupResource\<close> of a resource of the group.\<close>

definition Resource :: "string \<Rightarrow> string \<times> string" where
  "Resource resource = (GroupName, resource)"

datatype cached_object = Cached_Cluster m3db_cluster | Cached_Other opaque

record indexer =
  GetByKey :: "string \<Rightarrow> gerror + cached_object option"
  ListAll :: "opaque \<Rightarrow> cached_object list \<times> gerror option"
  ListAllByNamespace :: "string \<Rightarrow> opaque \<Rightarrow> cached_object list \<times> gerror option"

text \<open>The listers: of all namespaces, and of one.\<close>

record m3DBClusterLister =
  ml_indexer :: indexer

record m3DBClusterNamespaceLister =
  mnl_indexer :: indexer
  mnl_namespace :: string

definition NewM3DBClusterLister :: "indexer \<Rightarrow> m3DBClusterLister" where
  "NewM3DBClusterLister ix = \<lparr>ml_indexer = ix\<rparr>"

definition lister_M3DBClusters :: "m3DBClusterLister \<Rightarrow> string \<Rightarrow> m3DBClusterNamespaceLister" where
  "lister_M3DBClusters l namespace = \<lparr>mnl_indexer = ml_indexer l, mnl_namespace = namespace\<rparr>"

definition as_cluster :: "cached_object \<Rightarrow> gerror + m3db_cluster" where
  "as_cluster obj = (case obj of Cached_Cluster c \<Rightarrow> Inr c | Cached_Other _ \<Rightarrow> Inl (External ''interface conversion''))"

definition append_clusters :: "cached_object list \<times> gerror option \<Rightarrow> gerror + m3db_cluster list \<times> gerror option" where
  "append_clusters r = res_bind (res_map as_cluster (fst r)) (\<lambda>ret. Inr (ret, snd r))"

definition lister_List :: "m3DBClusterLister \<Rightarrow> opaque \<Rightarrow> gerror + m3db_cluster list \<times> gerror option" where
  "lister_List l selector = append_clusters (ListAll (ml_indexer l) selector)"

definition namespace_lister_List :: "m3DBClusterNamespaceLister \<Rightarrow> opaque \<Rightarrow> gerror + m3db_cluster list \<times> gerror option" where
  "namespace_lister_List l selector = append_clusters (ListAllByNamespace (mnl_indexer l) (mnl_namespace l) selector)"

definition NewNotFound :: "string \<times> string \<Rightarrow> string \<Rightarrow> gerror" where
  "NewNotFound resource name = Errorf ''%s %q not found'' [AStr (snd resource @ ''.'' @ fst resource), AStr name]"

definition namespace_lister_Get :: "m3DBClusterNamespaceLister \<Rightarrow> string \<Rightarrow> gerror + m3db_cluster" where
  "namespace_lister_Get l name =
     res_bind (GetByKey (mnl_indexer l) (mnl_namespace l @ ''/'' @ name)) (\<lambda>obj. case obj of
        None \<Rightarrow> Inl (NewNotFound (Resource ''m3dbcluster'') name)
      | Some x \<Rightarrow> as_cluster x)"

text \<open>What the two listers give of an indexer of clusters agrees with what is stored.\<close>

lemma lister_Get_stored:
  "GetByKey ix (ns @ ''/'' @ name) = Inr (Some (Cached_Cluster c)) \<Longrightarrow>
   namespace_lister_Get (lister_M3DBClusters (NewM3DBClusterLister ix) ns) name = Inr c"
  by (simp add: namespace_lister_Get_def lister_M3DBClusters_def NewM3DBClusterLister_def as_cluster_def)

lemma lister_List_stored:
  "ListAll ix sel = (map Cached_Cluster cs, e) \<Longrightarrow> lister_List (NewM3DBClusterLister ix) sel = Inr (cs, e)"
proof -
  have "res_map as_cluster (map Cached_Cluster cs) = Inr cs" by (induction cs) (simp_all add: as_cluster_def)
  then show "ListAll ix sel = (map Cached_Cluster cs, e) \<Longrightarrow> lister_List (NewM3DBClusterLister ix) sel = Inr (cs, e)"
    by (simp add: lister_List_def NewM3DBClusterLister_def append_clusters_def)
qed

section \<open>Shared informers (\<open>informers/externalversions\<close>)\<close>

type_synonym tweak = "(list_options \<Rightarrow> list_options) option"

text \<open>What an informer is made of: the client it lists and watches with, where, and how often it resyncs.\<close>

record shared_informer =
  si_client :: Clientset
  si_namespace :: string
  si_resync :: int
  si_tweak :: tweak

definition tweaked :: "tweak \<Rightarrow> list_options \<Rightarrow> list_options" where
  "tweaked tw options = (case tw of None \<Rightarrow> options | Some f \<Rightarrow> f options)"

definition NewFilteredM3DBClusterInformer :: "Clientset \<Rightarrow> string \<Rightarrow> int \<Rightarrow> tweak \<Rightarrow> shared_informer" where
  "NewFilteredM3DBClusterInformer client namespace resyncPeriod tw =
     \<lparr>si_client = client, si_namespace = namespace, si_resync = resyncPeriod, si_tweak = tw\<rparr>"

definition NewM3DBClusterInformer :: "Clientset \<Rightarrow> string \<Rightarrow> int \<Rightarrow> shared_informer" where
  "NewM3DBClusterInformer client namespace resyncPeriod = NewFilteredM3DBClusterInformer client namespace resyncPeriod None"

definition informer_ListFunc :: "'w rest_api \<Rightarrow> shared_informer \<Rightarrow> list_options \<Rightarrow> ('w, m3db_cluster list) io" where
  "informer_ListFunc ra i options =
     clusters_List ra (operator_M3DBClusters (OperatorV1alpha1 (si_client i)) (si_namespace i)) (tweaked (si_tweak i) options)"

definition informer_WatchFunc :: "'w rest_api \<Rightarrow> shared_informer \<Rightarrow> list_options \<Rightarrow> ('w, opaque) io" where
  "informer_WatchFunc ra i options =
     clusters_Watch ra (operator_M3DBClusters (OperatorV1alpha1 (si_client i)) (si_namespace i)) (tweaked (si_tweak i) options)"

text \<open>
  The factory. Types of objects are strings (\<open>reflect.Type\<close>); \<open>f_running\<close> records the informers whose
  \<open>Run\<close> was started, in order. Operations hold the lock of the factory from start to end.
\<close>

record sharedInformerFactory =
  f_client :: Clientset
  f_namespace :: string
  f_tweakListOptions :: tweak
  f_defaultResync :: int
  f_customResync :: "int gomap"
  f_informers :: "shared_informer gomap"
  f_startedInformers :: "string list"
  f_running :: "string list"

datatype informer_option = IWithCustomResync "(string \<times> int) list" | IWithTweakListOptions tweak
  | IWithNamespace string

fun apply_informer_option :: "informer_option \<Rightarrow> sharedInformerFactory \<Rightarrow> sharedInformerFactory" where
  "apply_informer_option (IWithCustomResync cfg) f =
     f\<lparr>f_customResync := fold (\<lambda>(k, v). AList.update k v) cfg (f_customResync f)\<rparr>"
| "apply_informer_option (IWithTweakListOptions tw) f = f\<lparr>f_tweakListOptions := tw\<rparr>"
| "apply_informer_option (IWithNamespace ns) f = f\<lparr>f_namespace := ns\<rparr>"

definition NewSharedInformerFactoryWithOptions :: "Clientset \<Rightarrow> int \<Rightarrow> informer_option list \<Rightarrow> sharedInformerFactory" where
  "NewSharedInformerFactoryWithOptions client defaultResync options = fold apply_informer_option options
     \<lparr>f_client = client, f_namespace = [], f_tweakListOptions = None, f_defaultResync = defaultResync,
      f_customResync = [], f_informers = [], f_startedInformers = [], f_running = []\<rparr>"

definition NewSharedInformerFactory :: "Clientset \<Rightarrow> int \<Rightarrow> sharedInformerFactory" where
  "NewSharedInformerFactory client defaultResync = NewSharedInformerFactoryWithOptions client defaultResync []"

definition NewFilteredSharedInformerFactory :: "Clientset \<Rightarrow> int \<Rightarrow> string \<Rightarrow> tweak \<Rightarrow> sharedInformerFactory" where
  "NewFilteredSharedInformerFactory client defaultResync namespace tw =
     NewSharedInformerFactoryWithOptions client defaultResync [IWithNamespace namespace, IWithTweakListOptions tw]"

definition Start_one :: "string \<Rightarrow> sharedInformerFactory \<Rightarrow> sharedInformerFactory" where
  "Start_one objType f = (if objType \<in> set (f_startedInformers f) then f
     else f\<lparr>f_running := f_running f @ [objType], f_startedInformers := objType # f_startedInformers f\<rparr>)"

definition Start :: "sharedInformerFactory \<Rightarrow> sharedInformerFactory" where
  "Start f = fold Start_one (map fst (f_informers f)) f"

definition WaitForCacheSync :: "(shared_informer \<Rightarrow> bool) \<Rightarrow> sharedInformerFactory \<Rightarrow> bool gomap" where
  "WaitForCacheSync synced f =
     map (\<lambda>(objType, i). (objType, synced i)) (filter (\<lambda>(objType, _). objType \<in> set (f_startedInformers f)) (f_informers f))"

definition InformerFor :: "string \<Rightarrow> (Clientset \<Rightarrow> int \<Rightarrow> shared_informer) \<Rightarrow> sharedInformerFactory
    \<Rightarrow> shared_informer \<times> sharedInformerFactory" where
  "InformerFor objType newFunc f = (case map_of (f_informers f) objType of
      Some informer \<Rightarrow> (informer, f)
    | None \<Rightarrow>
        let resyncPeriod = (case map_of (f_customResync f) objType of None \<Rightarrow> f_defaultResync f | Some d \<Rightarrow> d);
            informer = newFunc (f_client f) resyncPeriod
        in (informer, f\<lparr>f_informers := AList.update objType informer (f_informers f)\<rparr>))"

text \<open>
  The way to the informer, \<open>factory.Operator().V1alpha1().M3DBClusters().Informer()\<close>: each step carries
  the namespace and the filter of the factory, which itself is the state.
\<close>

record group =
  gr_namespace :: string
  gr_tweakListOptions :: tweak

record version =
  ve_namespace :: string
  ve_tweakListOptions :: tweak

record m3DBClusterInformer =
  mi_namespace :: string
  mi_tweakListOptions :: tweak

definition group_New :: "string \<Rightarrow> tweak \<Rightarrow> group" where
  "group_New namespace tw = \<lparr>gr_namespace = namespace, gr_tweakListOptions = tw\<rparr>"

definition version_New :: "string \<Rightarrow> tweak \<Rightarrow> version" where
  "version_New namespace tw = \<lparr>ve_namespace = namespace, ve_tweakListOptions = tw\<rparr>"

definition factory_Operator :: "sharedInformerFactory \<Rightarrow> group" where
  "factory_Operator f = group_New (f_namespace f) (f_tweakListOptions f)"

definition group_V1alpha1 :: "group \<Rightarrow> version" where
  "group_V1alpha1 g = version_New (gr_namespace g) (gr_tweakListOptions g)"

definition version_M3DBClusters :: "version \<Rightarrow> m3DBClusterInformer" where
  "version_M3DBClusters v = \<lparr>mi_namespace = ve_namespace v, mi_tweakListOptions = ve_tweakListOptions v\<rparr>"

definition defaultInformer :: "m3DBClusterInformer \<Rightarrow> Clientset \<Rightarrow> int \<Rightarrow> shared_informer" where
  "defaultInformer i client resyncPeriod =
     NewFilteredM3DBClusterInformer client (mi_namespace i) resyncPeriod (mi_tweakListOptions i)"

definition cluster_Informer :: "m3DBClusterInformer \<Rightarrow> sharedInformerFactory \<Rightarrow> shared_informer \<times> sharedInformerFactory" where
  "cluster_Informer i f = InformerFor ''*v1alpha1.M3DBCluster'' (defaultInformer i) f"

text \<open>\<open>GetIndexer\<close> of an informer is a function of client-go.\<close>

definition cluster_Lister :: "(shared_informer \<Rightarrow> indexer) \<Rightarrow> m3DBClusterInformer \<Rightarrow> sharedInformerFactory
    \<Rightarrow> m3DBClusterLister \<times> sharedInformerFactory" where
  "cluster_Lister GetIndexer i f = (case cluster_Informer i f of
      (informer, f') \<Rightarrow> (NewM3DBClusterLister (GetIndexer informer), f'))"

definition M3DBClusters_Informer :: "sharedInformerFactory \<Rightarrow> shared_informer \<times> sharedInformerFactory" where
  "M3DBClusters_Informer f = cluster_Informer (version_M3DBClusters (group_V1alpha1 (factory_Operator f))) f"

record genericInformer =
  gi_informer :: shared_informer
  gi_resource :: "string \<times> string"

definition generic_Informer :: "genericInformer \<Rightarrow> shared_informer" where
  "generic_Informer g = gi_informer g"

text \<open>\<open>cache.NewGenericLister\<close> of client-go is a parameter.\<close>

definition generic_Lister :: "(indexer \<Rightarrow> string \<times> string \<Rightarrow> 'l) \<Rightarrow> (shared_informer \<Rightarrow> indexer) \<Rightarrow> genericInformer \<Rightarrow> 'l" where
  "generic_Lister NewGenericLister GetIndexer g = NewGenericLister (GetIndexer (generic_Informer g)) (gi_resource g)"

definition ForResource :: "string \<times> string \<times> string \<Rightarrow> sharedInformerFactory
    \<Rightarrow> (gerror + genericInformer) \<times> sharedInformerFactory" where
  "ForResource resource f =
     (if resource = (GroupName, Version, ''m3dbclusters'')
      then (case M3DBClusters_Informer f of
        (i, f') \<Rightarrow> (Inr \<lparr>gi_informer = i, gi_resource = (fst resource, snd (snd resource))\<rparr>, f'))
      else (Inl (Errorf ''no informer found for %v'' [AStrs [fst resource, fst (snd resource), snd (snd resource)]]), f))"

text \<open>The informer that the factory makes lists and watches in its namespace, with its filter.\<close>

lemmas informer_access_defs = M3DBClusters_Informer_def cluster_Informer_def defaultInformer_def [abs_def] version_M3DBClusters_def
  group_V1alpha1_def factory_Operator_def group_New_def version_New_def

lemma M3DBClusters_Informer_eq:
  "M3DBClusters_Informer f = InformerFor ''*v1alpha1.M3DBCluster''
     (\<lambda>client resyncPeriod. NewFilteredM3DBClusterInformer client (f_namespace f) resyncPeriod (f_tweakListOptions f)) f"
  by (simp add: informer_access_defs)

lemma ForResource_informer:
  "fst (ForResource (GroupName, Version, ''m3dbclusters'') f) =
     Inr \<lparr>gi_informer = fst (M3DBClusters_Informer f), gi_resource = Resource ''m3dbclusters''\<rparr>"
  by (simp add: ForResource_def Resource_def split: prod.splits)

subsection \<open>Every informer is shared and runs once\<close>

text \<open>The calls that clients of a factory make.\<close>

datatype factory_call = Call_InformerFor string "Clientset \<Rightarrow> int \<Rightarrow> shared_informer" | Call_Start

fun factory_step :: "factory_call \<Rightarrow> sharedInformerFactory \<Rightarrow> sharedInformerFactory" where
  "factory_step (Call_InformerFor objType newFunc) f = snd (InformerFor objType newFunc f)"
| "factory_step Call_Start f = Start f"

definition factory_ok :: "sharedInformerFactory \<Rightarrow> bool" where
  "factory_ok f \<longleftrightarrow> distinct (f_running f) \<and> set (f_running f) = set (f_startedInformers f)
     \<and> set (f_startedInformers f) \<subseteq> fst ` set (f_informers f)"

lemma Start_one_informers [simp]: "f_informers (Start_one objType f) = f_informers f"
  by (simp add: Start_one_def)

lemma Start_one_ok: "factory_ok f \<Longrightarrow> objType \<in> fst ` set (f_informers f) \<Longrightarrow>
    factory_ok (Start_one objType f) \<and> set (f_running (Start_one objType f)) = insert objType (set (f_running f))"
  by (auto simp: factory_ok_def Start_one_def)

lemma fold_Start_one:
  "factory_ok f \<Longrightarrow> set objTypes \<subseteq> fst ` set (f_informers f) \<Longrightarrow>
   factory_ok (fold Start_one objTypes f) \<and> f_informers (fold Start_one objTypes f) = f_informers f
   \<and> set (f_running (fold Start_one objTypes f)) = set objTypes \<union> set (f_running f)"
proof (induction objTypes arbitrary: f)
  case (Cons objType objTypes)
  from Start_one_ok [OF Cons.prems(1)] Cons.prems(2) Cons.IH [of "Start_one objType f"] show ?case by auto
qed simp

lemma Start_ok:
  "factory_ok f \<Longrightarrow> factory_ok (Start f) \<and> f_informers (Start f) = f_informers f
     \<and> set (f_running (Start f)) = fst ` set (f_informers f)"
  using fold_Start_one [of f "map fst (f_informers f)"] by (auto simp: Start_def factory_ok_def)

lemma InformerFor_ok: "factory_ok f \<Longrightarrow> factory_ok (snd (InformerFor objType newFunc f))"
  by (auto simp: InformerFor_def factory_ok_def Let_def dom_update split: option.splits)

lemma factory_step_ok: "factory_ok f \<Longrightarrow> factory_ok (factory_step call f)"
  by (cases call) (simp_all add: InformerFor_ok Start_ok)

lemma factory_step_informers:
  "factory_ok f \<Longrightarrow> map_of (f_informers f) objType = Some i \<Longrightarrow> map_of (f_informers (factory_step call f)) objType = Some i"
  by (cases call) (auto simp: InformerFor_def Start_ok Let_def update_conv split: option.splits)

lemma factory_run_ok:
  "factory_ok f \<Longrightarrow> factory_ok (fold factory_step calls f)
     \<and> (map_of (f_informers f) objType = Some i \<longrightarrow> map_of (f_informers (fold factory_step calls f)) objType = Some i)"
  by (induction calls arbitrary: f) (auto simp: factory_step_ok factory_step_informers)

lemma InformerFor_lookup:
  "map_of (f_informers (snd (InformerFor objType newFunc f))) objType = Some (fst (InformerFor objType newFunc f))"
  by (auto simp: InformerFor_def Let_def update_conv split: option.splits)

lemma new_factory_ok: "factory_ok (NewSharedInformerFactoryWithOptions client resync options)"
proof -
  have "factory_ok (apply_informer_option opt f) = factory_ok f" for opt f
    by (cases opt) (simp_all add: factory_ok_def)
  then have "factory_ok (fold apply_informer_option opts f) = factory_ok f" for opts f
    by (induction opts arbitrary: f) simp_all
  then show ?thesis by (simp add: NewSharedInformerFactoryWithOptions_def factory_ok_def)
qed

text \<open>
  C38: a factory makes one informer per type of object and runs it once. After any sequence of calls
  on a new factory, no informer was started twice, whoever asks for the informer of a type that was
  asked for before gets the same one (the constructor passed the second time is not used), and a
  call of \<open>Start\<close> leaves exactly the informers asked for so far running.
\<close>

theorem informers_shared_and_started_once:
  "let f = fold factory_step calls (NewSharedInformerFactoryWithOptions client resync options);
       f' = fold factory_step calls' (snd (InformerFor objType newFunc f))
   in distinct (f_running f')
     \<and> InformerFor objType newFunc' f' = (fst (InformerFor objType newFunc f), f')
     \<and> set (f_running (Start f')) = fst ` set (f_informers f')"
proof -
  define f where "f = fold factory_step calls (NewSharedInformerFactoryWithOptions client resync options)"
  define f' where "f' = fold factory_step calls' (snd (InformerFor objType newFunc f))"
  have "factory_ok f" unfolding f_def using factory_run_ok new_factory_ok by blast
  then have f': "factory_ok f'" "map_of (f_informers f') objType = Some (fst (InformerFor objType newFunc f))"
    unfolding f'_def using factory_run_ok [OF InformerFor_ok] InformerFor_lookup by blast+
  then have "distinct (f_running f')" "InformerFor objType newFunc' f' = (fst (InformerFor objType newFunc f), f')"
    by (simp_all add: factory_ok_def InformerFor_def [of _ newFunc'])
  with Start_ok [OF f'(1)] show ?thesis unfolding Let_def f_def [symmetric] f'_def [symmetric] by blast
qed

end
