(* ===== verification/Fake_Client.thy ===== *)
theory Fake_Client
  imports Generated_Client
begin

text \<open>
  \<open>pkg/client/clientset/versioned/fake\<close> and \<open>typed/m3dboperator/v1alpha1/fake\<close>: the client of the custom
  resource that the tests of the controller use. It turns every operation into an action for the
  \<open>testing.Fake\<close> of client-go, which is a parameter, as is the tracker of objects behind it.
\<close>

section \<open>Actions\<close>

type_synonym gvr = "string \<times> string \<times> string"

definition m3dbclustersResource :: gvr where
  "m3dbclustersResource = (''operator.m3db.io'', ''v1alpha1'', ''m3dbclusters'')"

definition m3dbclustersKind :: gvr where
  "m3dbclustersKind = (''operator.m3db.io'', ''v1alpha1'', ''M3DBCluster'')"

text \<open>The actions of \<open>client-go/testing\<close>, with the arguments of their constructors.\<close>

datatype action =
    GetAction gvr string string
  | ListAction gvr gvr string list_options
  | WatchAction gvr string list_options
  | CreateAction gvr string m3db_cluster
  | UpdateAction gvr string m3db_cluster
  | UpdateSubresourceAction gvr string string m3db_cluster
  | DeleteActionWithOptions gvr string string opaque
  | DeleteCollectionAction gvr string list_options
  | PatchSubresourceAction gvr string string string string "string list"

fun GetNamespace :: "action \<Rightarrow> string" where
  "GetNamespace (GetAction r ns n) = ns"
| "GetNamespace (ListAction r k ns opts) = ns"
| "GetNamespace (WatchAction r ns opts) = ns"
| "GetNamespace (CreateAction r ns c) = ns"
| "GetNamespace (UpdateAction r ns c) = ns"
| "GetNamespace (UpdateSubresourceAction r sub ns c) = ns"
| "GetNamespace (DeleteActionWithOptions r ns n opts) = ns"
| "GetNamespace (DeleteCollectionAction r ns opts) = ns"
| "GetNamespace (PatchSubresourceAction r ns n pt d subs) = ns"

fun GetResource :: "action \<Rightarrow> gvr" where
  "GetResource (GetAction r ns n) = r"
| "GetResource (ListAction r k ns opts) = r"
| "GetResource (WatchAction r ns opts) = r"
| "GetResource (CreateAction r ns c) = r"
| "GetResource (UpdateAction r ns c) = r"
| "GetResource (UpdateSubresourceAction r sub ns c) = r"
| "GetResource (DeleteActionWithOptions r ns n opts) = r"
| "GetResource (DeleteCollectionAction r ns opts) = r"
| "GetResource (PatchSubresourceAction r ns n pt d subs) = r"

text \<open>Objects of the tracker; the second argument of \<open>Invokes\<close> says which type is asked for.\<close>

datatype fake_object = Fake_Cluster m3db_cluster | Fake_List opaque "m3db_cluster list" | Fake_Other opaque

datatype default_object = Default_Cluster | Default_List

record 'w fake_lib =
  Invokes :: "action \<Rightarrow> default_object \<Rightarrow> 'w \<Rightarrow> (fake_object option \<times> gerror option) \<times> 'w"
  InvokesWatch :: "action \<Rightarrow> 'w \<Rightarrow> (opaque option \<times> gerror option) \<times> 'w"
  ExtractLabel :: "list_options \<Rightarrow> opaque option"
  Everything :: opaque
  Matches :: "opaque \<Rightarrow> string gomap \<Rightarrow> bool"

section \<open>Operations (\<open>fake_m3dbcluster.go\<close>)\<close>

text \<open>
  A method returns a pointer and an error, both of which may be nil; an object of another type makes
  the type assertion panic (\<open>Inl\<close>).
\<close>

definition fake_cluster :: "fake_object option \<times> gerror option \<Rightarrow> gerror + m3db_cluster option \<times> gerror option" where
  "fake_cluster r = (case fst r of
      None \<Rightarrow> Inr (None, snd r)
    | Some (Fake_Cluster c) \<Rightarrow> Inr (Some c, snd r)
    | Some _ \<Rightarrow> Inl (External ''interface conversion''))"

definition invoke_cluster :: "'w fake_lib \<Rightarrow> action \<Rightarrow> 'w \<Rightarrow> (gerror + m3db_cluster option \<times> gerror option) \<times> 'w" where
  "invoke_cluster fl a w = (case Invokes fl a Default_Cluster w of (r, w') \<Rightarrow> (fake_cluster r, w'))"

definition fake_Get :: "'w fake_lib \<Rightarrow> string \<Rightarrow> string \<Rightarrow> opaque \<Rightarrow> 'w \<Rightarrow> (gerror + m3db_cluster option \<times> gerror option) \<times> 'w" where
  "fake_Get fl ns name options = invoke_cluster fl (GetAction m3dbclustersResource ns name)"

definition fake_filter :: "'w fake_lib \<Rightarrow> list_options \<Rightarrow> fake_object option \<times> gerror option
    \<Rightarrow> gerror + (opaque \<times> m3db_cluster list) option \<times> gerror option" where
  "fake_filter fl opts r = (case fst r of
      None \<Rightarrow> Inr (None, snd r)
    | Some (Fake_List listMeta items) \<Rightarrow>
        let label = (case ExtractLabel fl opts of None \<Rightarrow> Everything fl | Some l \<Rightarrow> l) in
        Inr (Some (listMeta, filter (\<lambda>item. Matches fl label (om_labels (cl_meta item))) items), snd r)
    | Some _ \<Rightarrow> Inl (External ''interface conversion''))"

definition fake_List :: "'w fake_lib \<Rightarrow> string \<Rightarrow> list_options \<Rightarrow> 'w
    \<Rightarrow> (gerror + (opaque \<times> m3db_cluster list) option \<times> gerror option) \<times> 'w" where
  "fake_List fl ns opts w = (case Invokes fl (ListAction m3dbclustersResource m3dbclustersKind ns opts) Default_List w of
     (r, w') \<Rightarrow> (fake_filter fl opts r, w'))"

definition fake_Watch :: "'w fake_lib \<Rightarrow> string \<Rightarrow> list_options \<Rightarrow> 'w \<Rightarrow> (opaque option \<times> gerror option) \<times> 'w" where
  "fake_Watch fl ns opts = InvokesWatch fl (WatchAction m3dbclustersResource ns opts)"

definition fake_Create :: "'w fake_lib \<Rightarrow> string \<Rightarrow> m3db_cluster \<Rightarrow> opaque \<Rightarrow> 'w
    \<Rightarrow> (gerror + m3db_cluster option \<times> gerror option) \<times> 'w" where
  "fake_Create fl ns cluster opts = invoke_cluster fl (CreateAction m3dbclustersResource ns cluster)"

definition fake_Update :: "'w fake_lib \<Rightarrow> string \<Rightarrow> m3db_cluster \<Rightarrow> opaque \<Rightarrow> 'w
    \<Rightarrow> (gerror + m3db_cluster option \<times> gerror option) \<times> 'w" where
  "fake_Update fl ns cluster opts = invoke_cluster fl (UpdateAction m3dbclustersResource ns cluster)"

definition fake_UpdateStatus :: "'w fake_lib \<Rightarrow> string \<Rightarrow> m3db_cluster \<Rightarrow> opaque \<Rightarrow> 'w
    \<Rightarrow> (gerror + m3db_cluster option \<times> gerror option) \<times> 'w" where
  "fake_UpdateStatus fl ns cluster opts =
     invoke_cluster fl (UpdateSubresourceAction m3dbclustersResource ''status'' ns cluster)"

definition fake_Delete :: "'w fake_lib \<Rightarrow> string \<Rightarrow> string \<Rightarrow> opaque \<Rightarrow> 'w \<Rightarrow> gerror option \<times> 'w" where
  "fake_Delete fl ns name opts w = (case Invokes fl (DeleteActionWithOptions m3dbclustersResource ns name opts) Default_Cluster w of
     ((_, err), w') \<Rightarrow> (err, w'))"

definition fake_DeleteCollection :: "'w fake_lib \<Rightarrow> string \<Rightarrow> opaque \<Rightarrow> list_options \<Rightarrow> 'w \<Rightarrow> gerror option \<times> 'w" where
  "fake_DeleteCollection fl ns opts listOpts w =
     (case Invokes fl (DeleteCollectionAction m3dbclustersResource ns listOpts) Default_List w of ((_, err), w') \<Rightarrow> (err, w'))"

definition fake_Patch :: "'w fake_lib \<Rightarrow> string \<Rightarrow> string \<Rightarrow> string \<Rightarrow> string \<Rightarrow> opaque \<Rightarrow> string list \<Rightarrow> 'w
    \<Rightarrow> (gerror + m3db_cluster option \<times> gerror option) \<times> 'w" where
  "fake_Patch fl ns name pt data opts subresources =
     invoke_cluster fl (PatchSubresourceAction m3dbclustersResource ns name pt data subresources)"

section \<open>The clientset (\<open>clientset_generated.go\<close>)\<close>

text \<open>The tracker of objects of client-go; \<open>Add\<close> may fail.\<close>

record 't tracker_lib =
  NewObjectTracker :: 't
  tracker_Add :: "'t \<Rightarrow> fake_object \<Rightarrow> gerror + 't"
  tracker_Watch :: "'t \<Rightarrow> gvr \<Rightarrow> string \<Rightarrow> gerror + opaque"

text \<open>The reactors of the fake: for all verbs and resources the tracker, for watches a function.\<close>

datatype reactor = ObjectReaction

record 't fake_clientset =
  fc_tracker :: 't
  fc_reactors :: "(string \<times> string \<times> reactor) list"
  fc_watchReactors :: "(string \<times> (action \<Rightarrow> bool \<times> opaque option \<times> gerror option)) list"

fun add_objects :: "'t tracker_lib \<Rightarrow> 't \<Rightarrow> fake_object list \<Rightarrow> gerror + 't" where
  "add_objects tk tr [] = Inr tr"
| "add_objects tk tr (obj # objects) = res_bind (tracker_Add tk tr obj) (\<lambda>tr'. add_objects tk tr' objects)"

definition watch_reactor :: "'t tracker_lib \<Rightarrow> 't \<Rightarrow> action \<Rightarrow> bool \<times> opaque option \<times> gerror option" where
  "watch_reactor tk tr a = (case tracker_Watch tk tr (GetResource a) (GetNamespace a) of
      Inl err \<Rightarrow> (False, None, Some err) | Inr watch \<Rightarrow> (True, Some watch, None))"

text \<open>\<open>Inl\<close> is the panic on an object that cannot be added.\<close>

definition NewSimpleClientset :: "'t tracker_lib \<Rightarrow> fake_object list \<Rightarrow> gerror + 't fake_clientset" where
  "NewSimpleClientset tk objects =
     res_bind (add_objects tk (NewObjectTracker tk) objects) (\<lambda>tr.
     Inr \<lparr>fc_tracker = tr, fc_reactors = [(''*'', ''*'', ObjectReaction)],
       fc_watchReactors = [(''*'', watch_reactor tk tr)]\<rparr>)"

definition fake_Tracker :: "'t fake_clientset \<Rightarrow> 't" where
  "fake_Tracker c = fc_tracker c"

section \<open>The fake stands for the client\<close>

text \<open>The operations of the interface \<open>M3DBClusterInterface\<close>, on the real client and on the fake.\<close>

datatype client_call =
    Call_Get string opaque
  | Call_List list_options
  | Call_Watch list_options
  | Call_Create m3db_cluster opaque
  | Call_Update m3db_cluster opaque
  | Call_UpdateStatus m3db_cluster opaque
  | Call_Delete string opaque
  | Call_DeleteCollection opaque list_options
  | Call_Patch string string string opaque "string list"

fun real_call :: "'w rest_api \<Rightarrow> m3DBClusters \<Rightarrow> client_call \<Rightarrow> 'w \<Rightarrow> 'w" where
  "real_call ra c (Call_Get n opts) w = snd (clusters_Get ra c n opts w)"
| "real_call ra c (Call_List opts) w = snd (clusters_List ra c opts w)"
| "real_call ra c (Call_Watch opts) w = snd (clusters_Watch ra c opts w)"
| "real_call ra c (Call_Create cluster opts) w = snd (clusters_Create ra c cluster opts w)"
| "real_call ra c (Call_Update cluster opts) w = snd (clusters_Update ra c cluster opts w)"
| "real_call ra c (Call_UpdateStatus cluster opts) w = snd (clusters_UpdateStatus ra c cluster opts w)"
| "real_call ra c (Call_Delete n opts) w = snd (clusters_Delete ra c n opts w)"
| "real_call ra c (Call_DeleteCollection opts lopts) w = snd (clusters_DeleteCollection ra c opts lopts w)"
| "real_call ra c (Call_Patch n pt d opts subs) w = snd (clusters_Patch ra c n pt d opts subs w)"

fun fake_call :: "'w fake_lib \<Rightarrow> string \<Rightarrow> client_call \<Rightarrow> 'w \<Rightarrow> 'w" where
  "fake_call fl ns (Call_Get n opts) w = snd (fake_Get fl ns n opts w)"
| "fake_call fl ns (Call_List opts) w = snd (fake_List fl ns opts w)"
| "fake_call fl ns (Call_Watch opts) w = snd (fake_Watch fl ns opts w)"
| "fake_call fl ns (Call_Create cluster opts) w = snd (fake_Create fl ns cluster opts w)"
| "fake_call fl ns (Call_Update cluster opts) w = snd (fake_Update fl ns cluster opts w)"
| "fake_call fl ns (Call_UpdateStatus cluster opts) w = snd (fake_UpdateStatus fl ns cluster opts w)"
| "fake_call fl ns (Call_Delete n opts) w = snd (fake_Delete fl ns n opts w)"
| "fake_call fl ns (Call_DeleteCollection opts lopts) w = snd (fake_DeleteCollection fl ns opts lopts w)"
| "fake_call fl ns (Call_Patch n pt d opts subs) w = snd (fake_Patch fl ns n pt d opts subs w)"

text \<open>The action a request to the API server stands for; the options of a list carry the mark of a watch.\<close>

fun action_of :: "rest_request \<Rightarrow> action option" where
  "action_of r = (let gvr = (GroupName, Version, rr_resource r); ns = rr_namespace r in
     case (rr_verb r, rr_name r, rr_subresources r, rr_params r, rr_body r) of
       (GET, Some n, [], Params _, No_Body) \<Rightarrow> Some (GetAction gvr ns n)
     | (GET, None, [], List_Params opts, No_Body) \<Rightarrow>
         Some (if lo_Watch opts then WatchAction gvr ns (opts\<lparr>lo_Watch := False\<rparr>) else ListAction gvr (GroupName, Version, ''M3DBCluster'') ns opts)
     | (POST, None, [], Params _, Body_Cluster c) \<Rightarrow> Some (CreateAction gvr ns c)
     | (PUT, Some n, [], Params _, Body_Cluster c) \<Rightarrow> if n = cl_name c then Some (UpdateAction gvr ns c) else None
     | (PUT, Some n, [sub], Params _, Body_Cluster c) \<Rightarrow> if n = cl_name c then Some (UpdateSubresourceAction gvr sub ns c) else None
     | (DELETE, Some n, [], No_Params, Body_Options opts) \<Rightarrow> Some (DeleteActionWithOptions gvr ns n opts)
     | (DELETE, None, [], List_Params lopts, Body_Options _) \<Rightarrow> Some (DeleteCollectionAction gvr ns lopts)
     | (PATCH pt, Some n, subs, Params _, Body_Bytes d) \<Rightarrow> Some (PatchSubresourceAction gvr ns n pt d subs)
     | _ \<Rightarrow> None)"

text \<open>A server and a fake that only write down what they are asked.\<close>

definition request_log :: "rest_request list rest_api" where
  "request_log = \<lparr>ra_cluster = (\<lambda>_ r w. (Inl (External []), w @ [r])), ra_list = (\<lambda>_ r w. (Inl (External []), w @ [r])),
     ra_error = (\<lambda>_ r w. (Inl (External []), w @ [r])), ra_watch = (\<lambda>_ r w. (Inl (External []), w @ [r]))\<rparr>"

definition action_log :: "action list fake_lib" where
  "action_log = \<lparr>Invokes = (\<lambda>a _ w. ((None, Some (External [])), w @ [a])), InvokesWatch = (\<lambda>a w. ((None, Some (External [])), w @ [a])),
     ExtractLabel = (\<lambda>_. None), Everything = [], Matches = (\<lambda>_ _. True)\<rparr>"

text \<open>The list options of a call are not those of a watch, which only the client itself sets.\<close>

fun plain_call :: "client_call \<Rightarrow> bool" where
  "plain_call (Call_List opts) \<longleftrightarrow> \<not> lo_Watch opts"
| "plain_call (Call_Watch opts) \<longleftrightarrow> \<not> lo_Watch opts"
| "plain_call _ \<longleftrightarrow> True"

text \<open>
  Whatever sequence of operations the controller calls, the fake sees exactly the actions that stand
  for the requests the real client sends, in the same order: same namespace, resource, name,
  subresource and object. What the fake leaves out are the options of single objects.
\<close>

theorem fake_sees_requests:
  assumes "list_all plain_call calls"
  shows "map Some (fold (fake_call action_log ns) calls []) = map action_of (fold (real_call request_log \<lparr>mc_client = cl, mc_ns = ns\<rparr>) calls [])"
proof -
  note ops = clusters_Get_def clusters_List_def clusters_Watch_def clusters_Create_def clusters_Update_def clusters_UpdateStatus_def
    clusters_Delete_def clusters_DeleteCollection_def clusters_Patch_def fake_Get_def fake_List_def fake_Watch_def fake_Create_def
    fake_Update_def fake_UpdateStatus_def fake_Delete_def fake_DeleteCollection_def fake_Patch_def invoke_cluster_def
  have step: "\<exists>a r. fake_call action_log ns call as = as @ [a] \<and> real_call request_log \<lparr>mc_client = cl, mc_ns = ns\<rparr> call rs = rs @ [r]
      \<and> action_of r = Some a" if "plain_call call" for call as rs
    using that by (cases call) (auto simp: ops request_log_def action_log_def base_request_def m3dbclustersResource_def m3dbclustersKind_def
        GroupName_def Version_def)
  have "map Some as = map action_of rs \<Longrightarrow> list_all plain_call calls \<Longrightarrow>
    map Some (fold (fake_call action_log ns) calls as) = map action_of (fold (real_call request_log \<lparr>mc_client = cl, mc_ns = ns\<rparr>) calls rs)" for as rs
  proof (induction calls arbitrary: as rs)
    case (Cons call calls)
    from Cons.prems(2) step [of call as rs] obtain a r where
      "fake_call action_log ns call as = as @ [a]" "real_call request_log \<lparr>mc_client = cl, mc_ns = ns\<rparr> call rs = rs @ [r]" "action_of r = Some a"
      by auto
    with Cons.IH [of "as @ [a]" "rs @ [r]"] Cons.prems show ?case by simp
  qed simp
  then show ?thesis using assms by simp
qed

end
