(* ===== verification/Operator_Main.thy ===== *)
theory Operator_Main
  imports Work_Queue Generated_Client
begin

text \<open>
  \<open>cmd/m3db-operator/main.go\<close>, the constructor of \<open>pkg/k8sops/m3db/k8sops.go\<close> and \<open>Run\<close> of the
  controller: how the process is put together from its flags, and the life of its workers. The
  third-party constructors (configuration, Kubernetes clients, metrics) are parameters.
\<close>

section \<open>Kubernetes operations (\<open>k8sops.go\<close>)\<close>

record k8sWrapper =
  kw_crdClient :: "Clientset option"
  kw_kclient :: "opaque option"
  kw_kubeExt :: "opaque option"
  kw_logger :: bool

datatype k8sops_option = KWithLogger bool | KWithCRDClient "Clientset option" | KWithKClient "opaque option"
  | KWithExtClient "opaque option"

fun execute_k8sops :: "k8sops_option \<Rightarrow> k8sWrapper \<Rightarrow> gerror + k8sWrapper" where
  "execute_k8sops (KWithLogger l) k = Inr (k\<lparr>kw_logger := l\<rparr>)"
| "execute_k8sops (KWithCRDClient c) k = Inr (k\<lparr>kw_crdClient := c\<rparr>)"
| "execute_k8sops (KWithKClient c) k = Inr (k\<lparr>kw_kclient := c\<rparr>)"
| "execute_k8sops (KWithExtClient c) k = Inr (k\<lparr>kw_kubeExt := c\<rparr>)"

fun execute_k8sops_all :: "k8sops_option list \<Rightarrow> k8sWrapper \<Rightarrow> gerror + k8sWrapper" where
  "execute_k8sops_all [] k = Inr k"
| "execute_k8sops_all (opt # opts) k = res_bind (execute_k8sops opt k) (execute_k8sops_all opts)"

definition k8sops_New :: "k8sops_option list \<Rightarrow> gerror + k8sWrapper" where
  "k8sops_New opts = execute_k8sops_all opts \<lparr>kw_crdClient = None, kw_kclient = None, kw_kubeExt = None, kw_logger = False\<rparr>"

section \<open>Start of the process (\<open>main.go\<close>)\<close>

record flags =
  fl_kubeCfgFile :: string
  fl_masterURL :: string
  fl_debugLog :: bool
  fl_develLog :: bool
  fl_humanTime :: bool
  fl_useProxy :: bool
  fl_namespace :: string

definition default_flags :: flags where
  "default_flags = \<lparr>fl_kubeCfgFile = [], fl_masterURL = ''http://127.0.0.1:8001'', fl_debugLog = False,
     fl_develLog = False, fl_humanTime = False, fl_useProxy = False, fl_namespace = ''all''\<rparr>"

text \<open>The logger configuration; \<open>None\<close> is the level the base configuration of zap has.\<close>

datatype log_level = InfoLevel | DebugLevel

record log_config =
  lg_development :: bool
  lg_level :: "log_level option"
  lg_iso8601 :: bool
  lg_disableStacktrace :: bool
  lg_disableCaller :: bool

definition main_logger :: "flags \<Rightarrow> log_config" where
  "main_logger fl =
     (let cfg = (if fl_develLog fl
           then \<lparr>lg_development = True, lg_level = Some InfoLevel, lg_iso8601 = False,
                 lg_disableStacktrace = False, lg_disableCaller = False\<rparr>
           else \<lparr>lg_development = False, lg_level = None, lg_iso8601 = False,
                 lg_disableStacktrace = False, lg_disableCaller = False\<rparr>);
          cfg = (if fl_debugLog fl then cfg\<lparr>lg_level := Some DebugLevel\<rparr> else cfg);
          cfg = (if fl_humanTime fl then cfg\<lparr>lg_iso8601 := True\<rparr> else cfg)
      in cfg\<lparr>lg_disableStacktrace := True, lg_disableCaller := True\<rparr>)"

text \<open>The third-party functions \<open>main\<close> calls.\<close>

record main_lib =
  ml_rest :: rest_lib
  BuildConfigFromFlags :: "string \<Rightarrow> string \<Rightarrow> gerror + rest_config"
  InClusterConfig :: "gerror + rest_config"
  kubernetes_NewForConfig :: "rest_config \<Rightarrow> gerror + opaque"
  apiextensions_NewForConfig :: "rest_config \<Rightarrow> gerror + opaque"
  Build_logger :: "log_config \<Rightarrow> gerror option"
  NewReporter :: "gerror option"
  buildReporter_Start :: "gerror option"
  NewRequirement_Exists :: "string \<Rightarrow> gerror + string"

definition buildConfig :: "main_lib \<Rightarrow> string \<Rightarrow> string \<Rightarrow> gerror + rest_config" where
  "buildConfig lb masterURL kubeCfgFile =
     (if kubeCfgFile \<noteq> [] then BuildConfigFromFlags lb masterURL kubeCfgFile else InClusterConfig lb)"

definition newKubeClient :: "main_lib \<Rightarrow> string \<Rightarrow> string \<Rightarrow> gerror + Clientset \<times> opaque \<times> opaque" where
  "newKubeClient lb masterURL kubeCfgFile =
     res_bind (buildConfig lb masterURL kubeCfgFile) (\<lambda>config.
     res_bind (NewForConfig (ml_rest lb) config) (\<lambda>clientSet.
     res_bind (kubernetes_NewForConfig lb config) (\<lambda>kubeClient.
     res_bind (apiextensions_NewForConfig lb config) (\<lambda>kubeExtCli.
     Inr (clientSet, kubeClient, kubeExtCli)))))"

definition informerSyncDuration :: int where
  "informerSyncDuration = 5 * 60 * 10 ^ 9"

text \<open>An informer factory of client-go, by the arguments it is made with.\<close>

datatype kube_option = KubeWithNamespace string | KubeWithLabelSelector string

record kube_factory =
  kf_client :: opaque
  kf_resync :: int
  kf_options :: "kube_option list"

definition main_factories :: "flags \<Rightarrow> Clientset \<Rightarrow> opaque \<Rightarrow> string
    \<Rightarrow> kube_factory \<times> sharedInformerFactory \<times> kube_factory" where
  "main_factories fl crdClient kubeClient selector =
     (if fl_namespace fl = ''all'' then
        (\<lparr>kf_client = kubeClient, kf_resync = informerSyncDuration, kf_options = []\<rparr>,
         NewSharedInformerFactory crdClient informerSyncDuration,
         \<lparr>kf_client = kubeClient, kf_resync = informerSyncDuration, kf_options = [KubeWithLabelSelector selector]\<rparr>)
      else
        (\<lparr>kf_client = kubeClient, kf_resync = informerSyncDuration, kf_options = [KubeWithNamespace (fl_namespace fl)]\<rparr>,
         NewSharedInformerFactoryWithOptions crdClient informerSyncDuration [IWithNamespace (fl_namespace fl)],
         \<lparr>kf_client = kubeClient, kf_resync = informerSyncDuration,
           kf_options = [KubeWithNamespace (fl_namespace fl), KubeWithLabelSelector selector]\<rparr>))"

text \<open>The tags of the metrics: \<open>env\<close> is the variable \<open>ENVIRONMENT\<close>.\<close>

definition metric_tags :: "string \<Rightarrow> string gomap" where
  "metric_tags env = [(''environment'', if env = [] then ''development'' else env)]"

text \<open>
  \<open>main\<close> up to \<open>Run\<close>. Every \<open>logger.Fatal\<close> ends the process with its message and error. The cluster
  informer is registered by \<open>NewM3DBController\<close>, the factories are started after that.
\<close>

record operator_process =
  op_logger :: log_config
  op_tags :: "string gomap"
  op_kube :: kube_factory
  op_filtered :: kube_factory
  op_clusters :: sharedInformerFactory
  op_k8sops :: k8sWrapper
  op_controller :: new_controller
  op_workers :: nat

definition controller_opts :: "flags \<Rightarrow> controller_option list" where
  "controller_opts fl =
     [CWithKubeInformerFactory True, CWithFilteredInformerFactory True, CWithM3DBClusterInformerFactory True,
      CWithPodIdentityProvider True, CWithLogger True, CWithKClient True, CWithCRDClient True,
      CWithKubeClient True, CWithScope True] @ (if fl_useProxy fl then [CWithKubectlProxy True] else [])"

definition fatal :: "string \<Rightarrow> gerror + 'a \<Rightarrow> gerror + 'a" where
  "fatal msg r = (case r of Inl e \<Rightarrow> Inl (Wrap e msg) | Inr x \<Rightarrow> Inr x)"

definition check_err :: "gerror option \<Rightarrow> gerror + unit" where
  "check_err e = (case e of None \<Rightarrow> Inr () | Some err \<Rightarrow> Inl err)"

definition operator_main :: "main_lib \<Rightarrow> flags \<Rightarrow> string \<Rightarrow> gerror + operator_process" where
  "operator_main lb fl environment =
     res_bind (fatal ''Error building logger'' (check_err (Build_logger lb (main_logger fl)))) (\<lambda>_.
     res_bind (fatal ''error constructing prom reporter'' (check_err (NewReporter lb))) (\<lambda>_.
     res_bind (fatal ''unable to start build reporter'' (check_err (buildReporter_Start lb))) (\<lambda>_.
     res_bind (fatal ''failed to create k8s clients'' (newKubeClient lb (fl_masterURL fl) (fl_kubeCfgFile fl)))
       (\<lambda>(crdClient, kubeClient, kubeExt).
     res_bind (fatal ''failed to create k8sclient'' (k8sops_New [KWithLogger True, KWithCRDClient (Some crdClient),
         KWithKClient (Some kubeClient), KWithExtClient (Some kubeExt)])) (\<lambda>k8sclient.
     res_bind (fatal ''failed to construct selector requirement'' (NewRequirement_Exists lb App)) (\<lambda>selector.
     case main_factories fl crdClient kubeClient selector of (kube, clusters, filtered) \<Rightarrow>
     res_bind (fatal ''failed to create ID provider'' (NewProvider [POWithLogger True, POWithNodeLister True])) (\<lambda>idProvider.
     res_bind (fatal ''failed to create controller'' (NewM3DBController (controller_opts fl))) (\<lambda>controller.
     Inr \<lparr>op_logger = main_logger fl, op_tags = metric_tags environment, op_kube = kube, op_filtered = filtered,
       op_clusters = Start (snd (M3DBClusters_Informer clusters)), op_k8sops = k8sclient, op_controller = controller,
       op_workers = 1\<rparr>))))))))"

lemma k8sops_New_main:
  "k8sops_New [KWithLogger True, KWithCRDClient c, KWithKClient k, KWithExtClient e] =
     Inr \<lparr>kw_crdClient = c, kw_kclient = k, kw_kubeExt = e, kw_logger = True\<rparr>"
  by (simp add: k8sops_New_def)

lemma NewProvider_main: "\<exists>p. NewProvider [POWithLogger True, POWithNodeLister True] = Inr p"
  by (simp add: NewProvider_def validate_provider_def)

lemma NewM3DBController_main:
  "NewM3DBController (controller_opts fl) = Inr \<lparr>nc_recorder = \<lparr>ev_kubeClient = True, ev_logger = True,
     ev_namespace = [], ev_component = controllerName\<rparr>, nc_adminOpts = [WithLogger], nc_kubectlProxy = fl_useProxy fl\<rparr>"
  by (simp add: NewM3DBController_def controller_opts_def validate_options_def NewEventRecorder_def no_options_def Let_def)

definition watched_namespace :: "flags \<Rightarrow> string" where
  "watched_namespace fl = (if fl_namespace fl = ''all'' then [] else fl_namespace fl)"

lemma main_factories_clusters:
  assumes "main_factories fl crdClient kubeClient selector = (kube, clusters, filtered)"
  defines "f \<equiv> Start (snd (M3DBClusters_Informer clusters))"
  shows "f_informers f = [(''*v1alpha1.M3DBCluster'', NewFilteredM3DBClusterInformer crdClient
      (watched_namespace fl) informerSyncDuration None)]"
    and "f_running f = [''*v1alpha1.M3DBCluster'']"
  using assms by (auto simp: main_factories_def watched_namespace_def NewSharedInformerFactory_def Start_def Start_one_def
      NewSharedInformerFactoryWithOptions_def M3DBClusters_Informer_eq InformerFor_def Let_def split: if_splits)

text \<open>
  C36: the operator comes up whenever the libraries it is built on do. If the logger, the metrics and
  the Kubernetes clients can be made, none of the operator's own constructors fails or dereferences a
  nil pointer. The process then runs one worker of each kind and one informer of clusters, which
  watches the namespace of the flag (or all), pods and StatefulSets are watched with the label
  selector, and requests to M3DB go through the proxy exactly if the flag asks for it.
\<close>

theorem operator_main_starts:
  assumes "Build_logger lb (main_logger fl) = None" "NewReporter lb = None" "buildReporter_Start lb = None"
    and clients: "newKubeClient lb (fl_masterURL fl) (fl_kubeCfgFile fl) = Inr (crdClient, kubeClient, kubeExt)"
    and "NewRequirement_Exists lb App = Inr selector"
  shows "\<exists>p. operator_main lb fl environment = Inr p \<and> op_workers p = 1
    \<and> nc_kubectlProxy (op_controller p) = fl_useProxy fl
    \<and> op_k8sops p = \<lparr>kw_crdClient = Some crdClient, kw_kclient = Some kubeClient, kw_kubeExt = Some kubeExt, kw_logger = True\<rparr>
    \<and> f_running (op_clusters p) = [''*v1alpha1.M3DBCluster'']
    \<and> map si_namespace (map snd (f_informers (op_clusters p))) = [watched_namespace fl]
    \<and> KubeWithLabelSelector selector \<in> set (kf_options (op_filtered p))
    \<and> (KubeWithNamespace ns \<in> set (kf_options (op_filtered p)) \<longleftrightarrow> fl_namespace fl \<noteq> ''all'' \<and> ns = fl_namespace fl)"
proof -
  obtain kube clusters filtered where fac: "main_factories fl crdClient kubeClient selector = (kube, clusters, filtered)"
    by (metis prod_cases3)
  obtain idp where idp: "NewProvider [POWithLogger True, POWithNodeLister True] = Inr idp"
    using NewProvider_main by blast
  have "kf_options filtered = (if fl_namespace fl = ''all'' then [] else [KubeWithNamespace (fl_namespace fl)])
      @ [KubeWithLabelSelector selector]"
    using fac by (auto simp: main_factories_def split: if_splits)
  then show ?thesis
    using assms fac idp main_factories_clusters [OF fac]
    by (simp add: operator_main_def fatal_def check_err_def k8sops_New_main NewM3DBController_main
        NewFilteredM3DBClusterInformer_def)
qed

text \<open>A library whose constructors all succeed.\<close>

definition example_main_lib :: main_lib where
  "example_main_lib = \<lparr>ml_rest = \<lparr>DefaultKubernetesUserAgent = ''go'', HTTPClientFor = (\<lambda>_. Inr ''http''),
       RESTClientForConfigAndClient = (\<lambda>_ _. Inr ''rest''), NewDiscoveryClientForConfigAndClient = (\<lambda>_ _. Inr ''discovery''),
       NewDiscoveryClient = (\<lambda>_. ''discovery''), NewTokenBucketRateLimiter = (\<lambda>_ _. ''limiter''),
       Codecs_WithoutConversion = ''codecs''\<rparr>,
     BuildConfigFromFlags = (\<lambda>_ _. Inl (External ''no file'')),
     InClusterConfig = Inr \<lparr>rc_Host = ''kubernetes'', rc_UserAgent = [], rc_RateLimiter = None, rc_QPS = 5, rc_Burst = 10,
       rc_GroupVersion = None, rc_APIPath = [], rc_NegotiatedSerializer = []\<rparr>,
     kubernetes_NewForConfig = (\<lambda>_. Inr ''kube''), apiextensions_NewForConfig = (\<lambda>_. Inr ''ext''),
     Build_logger = (\<lambda>_. None), NewReporter = None, buildReporter_Start = None, NewRequirement_Exists = Inr\<rparr>"

lemma example_newKubeClient: "newKubeClient example_main_lib m [] =
    Inr (\<lparr>cs_DiscoveryClient = ''discovery'', cs_operatorV1alpha1 = ''rest''\<rparr>, ''kube'', ''ext'')"
  by (simp add: newKubeClient_def buildConfig_def example_main_lib_def NewForConfig_def NewForConfigAndClient_def
      operator_NewForConfigAndClient_def default_UserAgent_def Let_def)

theorem operator_main_starts_witness:
  "\<exists>p. operator_main example_main_lib (default_flags\<lparr>fl_namespace := ''m3'', fl_useProxy := True\<rparr>) [] = Inr p
     \<and> nc_kubectlProxy (op_controller p) \<and> map si_namespace (map snd (f_informers (op_clusters p))) = [''m3'']
     \<and> KubeWithNamespace ''m3'' \<in> set (kf_options (op_filtered p))"
proof -
  let ?fl = "default_flags\<lparr>fl_namespace := ''m3'', fl_useProxy := True\<rparr>"
  have clients: "newKubeClient example_main_lib (fl_masterURL ?fl) (fl_kubeCfgFile ?fl) =
      Inr (\<lparr>cs_DiscoveryClient = ''discovery'', cs_operatorV1alpha1 = ''rest''\<rparr>, ''kube'', ''ext'')"
    using example_newKubeClient by (simp add: default_flags_def)
  have libs: "Build_logger example_main_lib (main_logger ?fl) = None" "NewReporter example_main_lib = None"
    "buildReporter_Start example_main_lib = None" "NewRequirement_Exists example_main_lib App = Inr App"
    by (simp_all add: example_main_lib_def)
  from operator_main_starts [OF libs(1-3) clients libs(4), of "[]" "''m3''"] show ?thesis
    by (auto simp: watched_namespace_def)
qed

section \<open>\<open>Run\<close>\<close>

text \<open>
  \<open>Run\<close> and the goroutines it starts, as a step relation. \<open>Run\<close> waits for the three caches; when the
  stop channel is closed first, it returns an error. Then it starts the workers and waits for the
  stop channel. The deferred call shuts the cluster queue down on every return. A worker ends when
  \<open>Get\<close> reports that its queue was shut down, and only then.
\<close>

datatype run_phase = Waiting_For_Sync | Serving | Returned "gerror option"

record run_st =
  rn_phase :: run_phase
  rn_cluster_workers :: nat
  rn_pod_workers :: nat
  rn_cluster_shut :: bool
  rn_pod_shut :: bool

definition run_start :: run_st where
  "run_start = \<lparr>rn_phase = Waiting_For_Sync, rn_cluster_workers = 0, rn_pod_workers = 0,
     rn_cluster_shut = False, rn_pod_shut = False\<rparr>"

inductive run_step :: "nat \<Rightarrow> run_st \<Rightarrow> run_st \<Rightarrow> bool" for nWorkers where
  sync_failed: "rn_phase s = Waiting_For_Sync \<Longrightarrow>
    run_step nWorkers s (s\<lparr>rn_phase := Returned (Some (Errors_New ''caches failed to sync'')), rn_cluster_shut := True\<rparr>)"
| synced: "rn_phase s = Waiting_For_Sync \<Longrightarrow>
    run_step nWorkers s (s\<lparr>rn_phase := Serving, rn_cluster_workers := nWorkers, rn_pod_workers := nWorkers\<rparr>)"
| stop: "rn_phase s = Serving \<Longrightarrow> run_step nWorkers s (s\<lparr>rn_phase := Returned None, rn_cluster_shut := True\<rparr>)"
| cluster_worker_ends: "rn_cluster_shut s \<Longrightarrow> rn_cluster_workers s > 0 \<Longrightarrow>
    run_step nWorkers s (s\<lparr>rn_cluster_workers := rn_cluster_workers s - 1\<rparr>)"
| pod_worker_ends: "rn_pod_shut s \<Longrightarrow> rn_pod_workers s > 0 \<Longrightarrow>
    run_step nWorkers s (s\<lparr>rn_pod_workers := rn_pod_workers s - 1\<rparr>)"

inductive_cases run_stepE: "run_step nWorkers s s'"

text \<open>The model of the workers agrees: a loop goes on exactly while its queue hands out items.\<close>

lemma worker_goes_on:
  "fst (processClusterQueueItem env item q) \<longleftrightarrow> item \<noteq> None"
  "fst (processPodQueueItem env item q) \<longleftrightarrow> item \<noteq> None"
  by (auto simp: processClusterQueueItem_def processPodQueueItem_def split: option.splits queue_item.splits sum.splits prod.splits)

definition run_inv :: "nat \<Rightarrow> run_st \<Rightarrow> bool" where
  "run_inv n s \<longleftrightarrow> \<not> rn_pod_shut s \<and> (rn_cluster_shut s \<longleftrightarrow> (\<exists>r. rn_phase s = Returned r))
     \<and> rn_pod_workers s = (if rn_phase s = Serving \<or> rn_phase s = Returned None then n else 0)
     \<and> (if rn_phase s = Serving then rn_cluster_workers s = n
        else if rn_phase s = Returned None then rn_cluster_workers s \<le> n else rn_cluster_workers s = 0)"

lemma run_inv_step: "run_step n s s' \<Longrightarrow> run_inv n s \<Longrightarrow> run_inv n s'"
  by (induction rule: run_step.induct) (auto simp: run_inv_def)

lemma run_inv_reachable: "(run_step n)\<^sup>*\<^sup>* run_start s \<Longrightarrow> run_inv n s"
proof (induction rule: rtranclp_induct)
  case base
  show ?case by (simp add: run_inv_def run_start_def)
qed (rule run_inv_step)

lemma cluster_workers_drain:
  assumes "rn_cluster_shut s"
  shows "(run_step n)\<^sup>*\<^sup>* s (s\<lparr>rn_cluster_workers := 0\<rparr>)"
  using assms
proof (induction "rn_cluster_workers s" arbitrary: s)
  case (Suc k)
  let ?s = "s\<lparr>rn_cluster_workers := rn_cluster_workers s - 1\<rparr>"
  have "run_step n s ?s" using Suc.hyps(2) Suc.prems by (intro run_step.cluster_worker_ends) simp_all
  moreover have "(run_step n)\<^sup>*\<^sup>* ?s (?s\<lparr>rn_cluster_workers := 0\<rparr>)"
    using Suc.hyps(2) Suc.prems by (intro Suc.hyps(1)) simp_all
  ultimately show ?case by (simp add: converse_rtranclp_into_rtranclp)
next
  case 0
  then have "s\<lparr>rn_cluster_workers := 0\<rparr> = s" by (cases s) simp
  then show ?case by simp
qed

text \<open>
  C37: the life of the workers. No worker runs before the three caches are synced or after a failed
  sync; while \<open>Run\<close> serves, all workers of both kinds run. Once \<open>Run\<close> has returned, the cluster
  workers can all end, but the pod queue is never shut down: every pod worker that was started is
  still there in every later state.
\<close>

theorem pod_workers_outlive_run:
  assumes "(run_step n)\<^sup>*\<^sup>* run_start s"
  shows "(rn_phase s = Waiting_For_Sync \<or> (\<exists>e. rn_phase s = Returned (Some e)) \<longrightarrow>
      rn_cluster_workers s = 0 \<and> rn_pod_workers s = 0)
    \<and> (rn_phase s = Serving \<longrightarrow> rn_cluster_workers s = n \<and> rn_pod_workers s = n)
    \<and> (rn_phase s = Returned None \<longrightarrow>
        (\<exists>s'. (run_step n)\<^sup>*\<^sup>* s s' \<and> rn_cluster_workers s' = 0)
        \<and> (\<forall>s'. (run_step n)\<^sup>*\<^sup>* s s' \<longrightarrow> rn_phase s' = Returned None \<and> rn_pod_workers s' = n))"
proof -
  have inv: "run_inv n s" using assms by (rule run_inv_reachable)
  have later: "rn_phase s' = Returned None" if "(run_step n)\<^sup>*\<^sup>* s s'" "rn_phase s = Returned None" for s'
    using that by (induction rule: rtranclp_induct) (auto elim: run_stepE)
  have "rn_pod_workers s' = n" if "(run_step n)\<^sup>*\<^sup>* s s'" "rn_phase s = Returned None" for s'
    using run_inv_reachable [OF rtranclp_trans [OF assms that(1)]] later [OF that] by (simp add: run_inv_def)
  moreover have "\<exists>s'. (run_step n)\<^sup>*\<^sup>* s s' \<and> rn_cluster_workers s' = 0" if "rn_phase s = Returned None"
    using cluster_workers_drain [of s n] inv that by (auto simp: run_inv_def intro!: exI [of _ "s\<lparr>rn_cluster_workers := 0\<rparr>"])
  ultimately show ?thesis using inv later by (auto simp: run_inv_def)
qed

text \<open>A run with one worker of each kind that serves and is stopped.\<close>

theorem pod_workers_outlive_run_witness:
  "\<exists>s. (run_step 1)\<^sup>*\<^sup>* run_start s \<and> rn_phase s = Returned None \<and> (\<forall>s'. (run_step 1)\<^sup>*\<^sup>* s s' \<longrightarrow> rn_pod_workers s' = 1)"
proof -
  let ?s1 = "run_start\<lparr>rn_phase := Serving, rn_cluster_workers := 1, rn_pod_workers := 1\<rparr>"
  let ?s2 = "?s1\<lparr>rn_phase := Returned None, rn_cluster_shut := True\<rparr>"
  have "run_step 1 run_start ?s1" by (rule run_step.synced) (simp add: run_start_def)
  moreover have "run_step 1 ?s1 ?s2" by (rule run_step.stop) simp
  ultimately have reach: "(run_step 1)\<^sup>*\<^sup>* run_start ?s2"
    by (meson converse_rtranclp_into_rtranclp rtranclp.rtrancl_refl)
  moreover have "rn_phase ?s2 = Returned None" by simp
  ultimately show ?thesis using pod_workers_outlive_run [OF reach] by blast
qed

end
