(* ===== verification/Docgen.thy ===== *)
theory Docgen
  imports Go_Monad
begin

text \<open>
  \<open>cmd/docgen\<close>: the generator of the API documentation. The parser of the Go library
  (\<open>go/parser\<close>, \<open>go/doc\<close>) is a parameter that gives the type declarations of a file; the rest is
  text processing. The cells of the tables are shown to be well-formed Markdown.
\<close>

section \<open>Strings of the Go library\<close>

definition HasPrefix :: "string \<Rightarrow> string \<Rightarrow> bool" where
  "HasPrefix s p \<longleftrightarrow> take (length p) s = p"

fun Contains :: "string \<Rightarrow> string \<Rightarrow> bool" where
  "Contains [] sub \<longleftrightarrow> sub = []"
| "Contains (c # cs) sub \<longleftrightarrow> HasPrefix (c # cs) sub \<or> Contains cs sub"

text \<open>\<open>strings.Split(s, sep)[0]\<close> for a separator that is not empty.\<close>

fun split_first :: "string \<Rightarrow> string \<Rightarrow> string" where
  "split_first [] sep = []"
| "split_first (c # cs) sep = (if HasPrefix (c # cs) sep then [] else c # split_first cs sep)"

definition TrimLeft :: "string \<Rightarrow> char \<Rightarrow> string" where
  "TrimLeft s c = dropWhile (\<lambda>x. x = c) s"

definition TrimRight :: "string \<Rightarrow> char \<Rightarrow> string" where
  "TrimRight s c = rev (dropWhile (\<lambda>x. x = c) (rev s))"

text \<open>\<open>strings.Replace(s, old, new, -1)\<close> for an \<open>old\<close> of one character, and of two.\<close>

definition Replace1 :: "string \<Rightarrow> char \<Rightarrow> string \<Rightarrow> string" where
  "Replace1 s old new = concat (map (\<lambda>c. if c = old then new else [c]) s)"

fun Replace2 :: "string \<Rightarrow> char \<Rightarrow> char \<Rightarrow> string \<Rightarrow> string" where
  "Replace2 (c # d # s) o1 o2 new =
     (if c = o1 \<and> d = o2 then new @ Replace2 s o1 o2 new else c # Replace2 (d # s) o1 o2 new)"
| "Replace2 s o1 o2 new = s"

text \<open>
  \<open>reflect.StructTag.Get\<close>. A quoted value without a backslash is its contents; \<open>unquote\<close> stands for
  \<open>strconv.Unquote\<close> on the others.
\<close>

fun quoted_length :: "string \<Rightarrow> nat option" where
  "quoted_length [] = None"
| "quoted_length (c # cs) =
     (if c = CHR 0x22 then Some 0
      else if c = CHR 0x5C then (case cs of [] \<Rightarrow> None | _ # ds \<Rightarrow> map_option (\<lambda>n. n + 2) (quoted_length ds))
      else map_option Suc (quoted_length cs))"

definition tag_key_char :: "char \<Rightarrow> bool" where
  "tag_key_char c \<longleftrightarrow> of_char c > (32 :: nat) \<and> c \<noteq> CHR '':'' \<and> c \<noteq> CHR 0x22 \<and> of_char c \<noteq> (127 :: nat)"

lemma TrimLeft_length: "length (TrimLeft s c) \<le> length s"
  by (simp add: TrimLeft_def length_dropWhile_le)

function tag_Get :: "(string \<Rightarrow> string option) \<Rightarrow> string \<Rightarrow> string \<Rightarrow> string" where
  "tag_Get unquote tag key =
     (let t = TrimLeft tag (CHR '' ''); name = takeWhile tag_key_char t; rest = dropWhile tag_key_char t in
      if name = [] then []
      else case rest of
        c # d # qs \<Rightarrow>
          if c \<noteq> CHR '':'' \<or> d \<noteq> CHR 0x22 then []
          else (case quoted_length qs of
              None \<Rightarrow> []
            | Some n \<Rightarrow>
                if name = key
                then (if CHR 0x5C \<in> set (take n qs)
                      then (case unquote (CHR 0x22 # take n qs @ [CHR 0x22]) of None \<Rightarrow> [] | Some v \<Rightarrow> v)
                      else take n qs)
                else tag_Get unquote (drop (Suc n) qs) key)
      | _ \<Rightarrow> [])"
  by pat_completeness auto
termination
proof (relation "measure (\<lambda>(_, tag, _). length tag)")
  fix tag t rest :: string and c d :: char and qs ds :: string and n :: nat
  assume t: "t = TrimLeft tag (CHR '' '')" and rest: "rest = dropWhile tag_key_char t" "rest = c # ds" "ds = d # qs"
  have "length rest \<le> length tag"
    using TrimLeft_length [of tag "CHR '' ''"] length_dropWhile_le [of tag_key_char t] unfolding rest(1) t by (rule le_trans [rotated])
  moreover have "length rest = length qs + 2" using rest(2,3) by simp
  ultimately show "((unquote, drop (Suc n) qs, key), unquote, tag, key) \<in> measure (\<lambda>(_, tag, _). length tag)"
    for unquote key by simp
qed simp

section \<open>Links\<close>

definition firstParagraph :: string where
  "firstParagraph = CHR 0x0A # ''# API Docs'' @ [CHR 0x0A, CHR 0x0A]
     @ ''This document enumerates the Custom Resource Definitions used by the M3DB Operator. ''
     @ ''It is auto-generated from code comments.''"

definition docs_url :: string where
  "docs_url = ''https://kubernetes.io/docs/reference/generated/kubernetes-api/v1.10/#''"

definition links :: "string gomap" where
  "links = [
     (''metav1.ObjectMeta'', docs_url @ ''objectmeta-v1-meta''),
     (''metav1.ListMeta'', docs_url @ ''listmeta-v1-meta''),
     (''metav1.LabelSelector'', docs_url @ ''labelselector-v1-meta''),
     (''corev1.ResourceRequirements'', docs_url @ ''resourcerequirements-v1-core''),
     (''corev1.LocalObjectReference'', docs_url @ ''localobjectreference-v1-core''),
     (''corev1.SecretKeySelector'', docs_url @ ''secretkeyselector-v1-core''),
     (''corev1.PersistentVolumeClaim'', docs_url @ ''persistentvolumeclaim-v1-core''),
     (''corev1.EmptyDirVolumeSource'', docs_url @ ''emptydirvolumesource-v1-core'')]"

definition toSectionLink :: "string \<Rightarrow> string" where
  "toSectionLink name = Replace1 (map to_lower name) (CHR '' '') ''-''"

definition wrapInLink :: "string \<Rightarrow> string \<Rightarrow> string" where
  "wrapInLink txt link = ''['' @ txt @ '']('' @ link @ '')''"

definition toLink :: "string gomap \<Rightarrow> string \<Rightarrow> string" where
  "toLink selfLinks typeName = (case map_of selfLinks typeName of
      Some selfLink \<Rightarrow> wrapInLink typeName selfLink
    | None \<Rightarrow> (case map_of links typeName of
        Some link \<Rightarrow> wrapInLink typeName link
      | None \<Rightarrow> typeName))"

section \<open>Syntax trees\<close>

text \<open>Type expressions, fields and type declarations, with what the generator reads of them.\<close>

datatype go_expr = Ident string | StarExpr go_expr | SelectorExpr go_expr string | ArrayType go_expr
  | MapType go_expr go_expr | Other_Expr

record ast_field =
  fd_Names :: "string list"
  fd_Type :: go_expr
  fd_Tag :: "string option"
  fd_Doc :: "string option"

record type_decl =
  td_Name :: string
  td_Doc :: string
  td_Fields :: "ast_field list option"

text \<open>A failed type assertion, a slice out of range, a nil package.\<close>

definition panic :: gerror where
  "panic = External ''panic''"

fun fieldType :: "string gomap \<Rightarrow> go_expr \<Rightarrow> gerror + string" where
  "fieldType sl (Ident n) = Inr (toLink sl n)"
| "fieldType sl (StarExpr x) = res_bind (fieldType sl x) (\<lambda>t. Inr (''*'' @ toLink sl t))"
| "fieldType sl (SelectorExpr x sel) = (case x of
     Ident pkg \<Rightarrow> Inr (toLink sl (pkg @ ''.'' @ sel)) | _ \<Rightarrow> Inl panic)"
| "fieldType sl (ArrayType x) = res_bind (fieldType sl x) (\<lambda>t. Inr (''[]'' @ toLink sl t))"
| "fieldType sl (MapType k v) = res_bind (fieldType sl k) (\<lambda>tk. res_bind (fieldType sl v) (\<lambda>tv.
     Inr (''map['' @ toLink sl tk @ '']'' @ toLink sl tv)))"
| "fieldType sl Other_Expr = Inr []"

text \<open>\<open>reflect.StructTag(v[1:len(v)-1]).Get("json")\<close>\<close>

definition json_tag :: "(string \<Rightarrow> string option) \<Rightarrow> string \<Rightarrow> gerror + string" where
  "json_tag unquote v = (if length v < 2 then Inl panic else Inr (tag_Get unquote (butlast (tl v)) ''json''))"

definition fieldName :: "(string \<Rightarrow> string option) \<Rightarrow> ast_field \<Rightarrow> gerror + string" where
  "fieldName unquote field =
     res_bind (case fd_Tag field of None \<Rightarrow> Inr [] | Some v \<Rightarrow> json_tag unquote v) (\<lambda>jsonTag.
     if fd_Tag field \<noteq> None \<and> Contains jsonTag ''inline'' then Inr ''-''
     else
       let name = split_first jsonTag '','' in
       if name = [] then
         (case fd_Names field of
            n # _ \<Rightarrow> Inr n
          | [] \<Rightarrow> (case fd_Type field of Ident n \<Rightarrow> Inr n | _ \<Rightarrow> Inl panic))
       else Inr name)"

definition fieldRequired :: "(string \<Rightarrow> string option) \<Rightarrow> ast_field \<Rightarrow> gerror + bool" where
  "fieldRequired unquote field =
     (case fd_Doc field of
        Some txt \<Rightarrow> if Contains txt ''+optional'' then Inr False else
          (case fd_Tag field of None \<Rightarrow> Inr False
           | Some v \<Rightarrow> res_bind (json_tag unquote v) (\<lambda>jsonTag. Inr (\<not> Contains jsonTag ''omitempty'')))
      | None \<Rightarrow>
          (case fd_Tag field of None \<Rightarrow> Inr False
           | Some v \<Rightarrow> res_bind (json_tag unquote v) (\<lambda>jsonTag. Inr (\<not> Contains jsonTag ''omitempty''))))"

section \<open>Comments\<close>

text \<open>One turn of the loop over the lines, on the buffer.\<close>

definition fmt_line :: "string \<Rightarrow> string \<Rightarrow> string" where
  "fmt_line raw buffer =
     (let line = TrimRight raw (CHR '' ''); leading = TrimLeft line (CHR '' '') in
      if length line = 0 then butlast buffer @ [CHR 0x0A, CHR 0x0A]
      else if HasPrefix leading ''TODO'' then buffer
      else if HasPrefix leading ''+'' then buffer
      else if HasPrefix line '' '' \<or> HasPrefix line [CHR 0x09]
      then butlast buffer @ [CHR 0x0A] @ line @ [CHR 0x0A]
      else buffer @ line @ '' '')"

definition fmtRawDoc :: "string \<Rightarrow> string" where
  "fmtRawDoc rawDoc =
     (let raw = split_first rawDoc ''---'';
          buffer = fold fmt_line (split_on (CHR 0x0A) raw) [];
          postDoc = TrimRight buffer (CHR 0x0A);
          postDoc = Replace2 postDoc (CHR 0x5C) (CHR 0x22) [CHR 0x22];
          postDoc = Replace1 postDoc (CHR 0x22) [CHR 0x5C, CHR 0x22];
          postDoc = Replace1 postDoc (CHR 0x0A) [CHR 0x5C, CHR ''n''];
          postDoc = Replace1 postDoc (CHR 0x09) [CHR 0x5C, CHR ''t'']
      in Replace1 postDoc (CHR ''|'') [CHR 0x5C, CHR ''|''])"

section \<open>Documents\<close>

record doc_pair =
  pr_Name :: string
  pr_Doc :: string
  pr_Type :: string
  pr_Mandatory :: bool

text \<open>\<open>KubeTypes\<close>: the type itself first, then its fields.\<close>

type_synonym kube_types = "doc_pair list"

text \<open>The output and the global map of links.\<close>

record doc_st =
  ds_out :: string
  ds_selfLinks :: "string gomap"

definition print_out :: "string \<Rightarrow> (doc_st, unit) io" where
  "print_out txt = (\<lambda>s. (Inr (), s\<lparr>ds_out := ds_out s @ txt\<rparr>))"

definition doc_field :: "(string \<Rightarrow> string option) \<Rightarrow> string gomap \<Rightarrow> ast_field \<Rightarrow> gerror + doc_pair option" where
  "doc_field unquote sl field =
     res_bind (fieldType sl (fd_Type field)) (\<lambda>typeString.
     res_bind (fieldRequired unquote field) (\<lambda>fieldMandatory.
     res_bind (fieldName unquote field) (\<lambda>n.
     Inr (if n \<noteq> ''-'' then Some \<lparr>pr_Name = n, pr_Doc = fmtRawDoc (case fd_Doc field of None \<Rightarrow> [] | Some txt \<Rightarrow> txt),
            pr_Type = typeString, pr_Mandatory = fieldMandatory\<rparr> else None))))"

fun doc_types :: "(string \<Rightarrow> string option) \<Rightarrow> string gomap \<Rightarrow> type_decl list \<Rightarrow> gerror + kube_types list" where
  "doc_types unquote sl [] = Inr []"
| "doc_types unquote sl (td # tds) = (case td_Fields td of
     None \<Rightarrow> doc_types unquote sl tds
   | Some fieldList \<Rightarrow>
       res_bind (res_map (doc_field unquote sl) fieldList) (\<lambda>fs.
       res_bind (doc_types unquote sl tds) (\<lambda>ks.
       Inr ((\<lparr>pr_Name = td_Name td, pr_Doc = fmtRawDoc (td_Doc td), pr_Type = [], pr_Mandatory = False\<rparr>
         # List.map_filter (\<lambda>f. f) fs) # ks))))"

text \<open>
  \<open>ParseDocumentationFrom\<close> with \<open>astFrom\<close>: an error of the parser is printed, and the package is nil.
\<close>

definition ParseDocumentationFrom :: "(string \<Rightarrow> string option) \<Rightarrow> (string \<Rightarrow> string + type_decl list) \<Rightarrow> string
    \<Rightarrow> (doc_st, kube_types list) io" where
  "ParseDocumentationFrom unquote parse src = (case parse src of
      Inl err \<Rightarrow> bindE (print_out (err @ [CHR 0x0A])) (\<lambda>_. fail panic)
    | Inr tds \<Rightarrow> (\<lambda>s. (doc_types unquote (ds_selfLinks s) tds, s)))"

definition add_selfLinks :: "kube_types list \<Rightarrow> (doc_st, unit) io" where
  "add_selfLinks types = (\<lambda>s. (Inr (), s\<lparr>ds_selfLinks :=
     fold (\<lambda>t. AList.update (pr_Name (hd t)) (''#'' @ map to_lower (pr_Name (hd t)))) types (ds_selfLinks s)\<rparr>))"

text \<open>The two loops over the paths: the links of the types collected so far are added after a file is parsed.\<close>

fun collect_types :: "(string \<Rightarrow> string option) \<Rightarrow> (string \<Rightarrow> string + type_decl list) \<Rightarrow> string list
    \<Rightarrow> kube_types list \<Rightarrow> (doc_st, kube_types list) io" where
  "collect_types unquote parse [] types = ok types"
| "collect_types unquote parse (path # paths) types =
     bindE (ParseDocumentationFrom unquote parse path) (\<lambda>docTypes.
     bindE (add_selfLinks types) (\<lambda>_.
     collect_types unquote parse paths (types @ docTypes)))"

definition printTOC :: "kube_types list \<Rightarrow> (doc_st, unit) io" where
  "printTOC types =
     bindE (print_out (CHR 0x0A # ''## Table of Contents'' @ [CHR 0x0A])) (\<lambda>_.
     for_each (\<lambda>t. print_out (''* ['' @ pr_Name (hd t) @ ''](#'' @ toSectionLink (pr_Name (hd t)) @ '')'' @ [CHR 0x0A])) types)"

definition doc_row :: "doc_pair \<Rightarrow> string" where
  "doc_row f = ''| '' @ pr_Name f @ '' | '' @ pr_Doc f @ '' | '' @ pr_Type f @ '' | ''
     @ (if pr_Mandatory f then ''true'' else ''false'') @ '' |'' @ [CHR 0x0A]"

definition doc_section :: "kube_types \<Rightarrow> string" where
  "doc_section t = (CHR 0x0A # ''## '' @ pr_Name (hd t) @ [CHR 0x0A, CHR 0x0A] @ pr_Doc (hd t) @ [CHR 0x0A, CHR 0x0A]
     @ ''| Field | Description | Scheme | Required |'' @ [CHR 0x0A]
     @ ''| ----- | ----------- | ------ | -------- |'' @ [CHR 0x0A]
     @ concat (map doc_row (tl t)) @ [CHR 0x0A] @ ''[Back to TOC](#table-of-contents)'' @ [CHR 0x0A])"

definition printAPIDocs :: "(string \<Rightarrow> string option) \<Rightarrow> (string \<Rightarrow> string + type_decl list) \<Rightarrow> string list
    \<Rightarrow> (doc_st, unit) io" where
  "printAPIDocs unquote parse paths =
     bindE (print_out (firstParagraph @ [CHR 0x0A])) (\<lambda>_.
     bindE (collect_types unquote parse paths []) (\<lambda>_.
     bindE (collect_types unquote parse paths []) (\<lambda>types.
     bindE (printTOC types) (\<lambda>_.
     for_each (\<lambda>t. print_out (doc_section t)) types))))"

text \<open>\<open>main\<close> on the arguments after the program name.\<close>

definition docgen_main :: "(string \<Rightarrow> string option) \<Rightarrow> (string \<Rightarrow> string + type_decl list) \<Rightarrow> string list
    \<Rightarrow> (doc_st, unit) io" where
  "docgen_main unquote parse args = (case args of
      [] \<Rightarrow> fail panic
    | cmd # paths \<Rightarrow> if cmd = ''api'' then printAPIDocs unquote parse paths else ok ())"

section \<open>Escaped cells\<close>

text \<open>The occurrences of a character that no backslash precedes; \<open>p\<close> is the character before the text.\<close>

fun unescaped :: "char \<Rightarrow> char \<Rightarrow> string \<Rightarrow> nat" where
  "unescaped q p [] = 0"
| "unescaped q p (c # cs) = (if c = q \<and> p \<noteq> CHR 0x5C then 1 else 0) + unescaped q c cs"

lemma unescaped_append [simp]: "unescaped q p (a @ b) = unescaped q p a + unescaped q (last (p # a)) b"
  by (induction a arbitrary: p) auto

lemma unescaped_absent [simp]: "q \<notin> set s \<Longrightarrow> unescaped q p s = 0"
  by (induction s arbitrary: p) auto

lemma unescaped_weaker: "unescaped q p s = 0 \<Longrightarrow> p \<noteq> CHR 0x5C \<Longrightarrow> unescaped q p' s = 0"
  by (cases s) (auto split: if_splits)

lemma Replace1_simps [simp]:
  "Replace1 [] old new = []"
  "Replace1 (c # s) old new = (if c = old then new else [c]) @ Replace1 s old new"
  by (simp_all add: Replace1_def)

lemma Replace1_escapes: "unescaped q p (Replace1 s q [CHR 0x5C, q]) = 0" if "q \<noteq> CHR 0x5C"
  using that by (induction s arbitrary: p) auto

lemma Replace1_keeps_escapes:
  assumes "old \<noteq> CHR 0x5C" "q \<notin> set new" "old \<noteq> q" "unescaped q p s = 0"
  shows "unescaped q p (Replace1 s old new) = 0"
  using assms(4)
proof (induction s arbitrary: p)
  case (Cons c s)
  show ?case
  proof (cases "c = old")
    case True
    have "unescaped q (last (p # new)) s = 0"
      using unescaped_weaker [of q c s] Cons.prems True assms(1) by (simp split: if_splits)
    from Cons.IH [OF this] show ?thesis using True assms(2) by simp
  qed (use Cons in \<open>auto split: if_splits\<close>)
qed simp

lemma Replace1_set: "old \<notin> set new \<Longrightarrow> old \<notin> set (Replace1 s old new)"
  by (induction s) auto

lemma Replace1_other: "x \<notin> set new \<Longrightarrow> x \<notin> set s \<Longrightarrow> x \<notin> set (Replace1 s old new)"
  by (induction s) auto

lemma fmtRawDoc_escaped:
  "unescaped (CHR ''|'') p (fmtRawDoc rawDoc) = 0"
  "unescaped (CHR 0x22) p (fmtRawDoc rawDoc) = 0"
  unfolding fmtRawDoc_def Let_def
  by (rule Replace1_escapes, simp, (rule Replace1_keeps_escapes, simp, simp, simp)+, rule Replace1_escapes, simp)

lemma fmtRawDoc_one_line: "CHR 0x0A \<notin> set (fmtRawDoc rawDoc) \<and> CHR 0x09 \<notin> set (fmtRawDoc rawDoc)"
  unfolding fmtRawDoc_def Let_def by (simp add: Replace1_other Replace1_set)

lemma doc_field_Some:
  assumes "doc_field unquote sl field = Inr (Some f)"
  shows "pr_Doc f = fmtRawDoc (case fd_Doc field of None \<Rightarrow> [] | Some txt \<Rightarrow> txt)"
    "fieldType sl (fd_Type field) = Inr (pr_Type f)" "fieldName unquote field = Inr (pr_Name f)" "pr_Name f \<noteq> ''-''"
  using assms by (auto simp: doc_field_def res_bind_Inr split: if_splits)

text \<open>
  a row of a documentation table is well formed whatever the comment of the field holds. When the
  name and the type of the field have no bar and no line break, the printed row is one line, with
  exactly the five bars that delimit its four cells (every other bar is escaped), and no quotation
  mark of the description is left without its backslash.
\<close>

theorem doc_row_well_formed:
  assumes "doc_field unquote sl field = Inr (Some f)"
    and "CHR ''|'' \<notin> set (pr_Name f) \<union> set (pr_Type f)" "CHR 0x0A \<notin> set (pr_Name f) \<union> set (pr_Type f)"
  shows "\<exists>row. doc_row f = row @ [CHR 0x0A] \<and> CHR 0x0A \<notin> set row \<and> unescaped (CHR ''|'') (CHR 0x0A) row = 5
    \<and> unescaped (CHR 0x22) (CHR 0x0A) (pr_Doc f) = 0"
proof -
  let ?row = "butlast (doc_row f)"
  note doc = doc_field_Some(1) [OF assms(1)]
  have "doc_row f = ?row @ [CHR 0x0A]" by (simp add: doc_row_def butlast_append)
  moreover have "CHR 0x0A \<notin> set ?row"
    using assms(3) fmtRawDoc_one_line by (auto simp: doc_row_def butlast_append doc)
  moreover have "unescaped (CHR ''|'') (CHR 0x0A) ?row = 5"
    using assms(2) by (simp add: doc_row_def butlast_append doc fmtRawDoc_escaped)
  ultimately show ?thesis by (auto simp: doc fmtRawDoc_escaped intro!: exI [of _ ?row])
qed

text \<open>A field with a bar, a line break, an example and a quotation mark in its comment.\<close>

definition example_field :: ast_field where
  "example_field = \<lparr>fd_Names = [''Image''], fd_Type = StarExpr (SelectorExpr (Ident ''metav1'') ''ListMeta''),
     fd_Tag = Some (''`json:'' @ [CHR 0x22] @ ''image,omitempty'' @ [CHR 0x22] @ ''`''),
     fd_Doc = Some (''Image is a|b'' @ [CHR 0x0A, CHR 0x09, CHR 0x22] @ ''x'' @ [CHR 0x0A])\<rparr>"

definition example_pair :: doc_pair where
  "example_pair = \<lparr>pr_Name = ''image'', pr_Doc = ''Image is a'' @ [CHR 0x5C] @ ''|b'' @ [CHR 0x5C] @ ''n''
       @ [CHR 0x5C] @ ''t'' @ [CHR 0x5C, CHR 0x22] @ ''x'',
     pr_Type = ''*[metav1.ListMeta]('' @ docs_url @ ''listmeta-v1-meta)'', pr_Mandatory = False\<rparr>"

lemma example_field_documented: "doc_field (\<lambda>_. None) [] example_field = Inr (Some example_pair)"
  by code_simp

theorem doc_row_well_formed_witness:
  "doc_field (\<lambda>_. None) [] example_field = Inr (Some example_pair) \<and>
   (\<exists>row. doc_row example_pair = row @ [CHR 0x0A] \<and> CHR 0x0A \<notin> set row \<and> unescaped (CHR ''|'') (CHR 0x0A) row = 5
    \<and> unescaped (CHR 0x22) (CHR 0x0A) (pr_Doc example_pair) = 0)"
proof (intro conjI doc_row_well_formed [OF example_field_documented] example_field_documented)
  show "CHR ''|'' \<notin> set (pr_Name example_pair) \<union> set (pr_Type example_pair)" by code_simp
  show "CHR 0x0A \<notin> set (pr_Name example_pair) \<union> set (pr_Type example_pair)" by code_simp
qed

section \<open>Links between the sections\<close>

abbreviation type_names :: "kube_types list \<Rightarrow> string list" where
  "type_names ts \<equiv> map (\<lambda>t. pr_Name (hd t)) ts"

definition struct_names :: "(string \<Rightarrow> string + type_decl list) \<Rightarrow> string \<Rightarrow> string list" where
  "struct_names parse path = (case parse path of
      Inl _ \<Rightarrow> [] | Inr tds \<Rightarrow> map td_Name (filter (\<lambda>td. td_Fields td \<noteq> None) tds))"

lemma doc_types_names:
  "doc_types unquote sl tds = Inr ks \<Longrightarrow> type_names ks = map td_Name (filter (\<lambda>td. td_Fields td \<noteq> None) tds)"
  by (induction tds arbitrary: ks) (auto simp: res_bind_Inr split: option.splits)

lemma ParseDocumentationFrom_names:
  "ParseDocumentationFrom unquote parse p s = (Inr ks, s') \<Longrightarrow> type_names ks = struct_names parse p \<and> s' = s"
  by (auto simp: ParseDocumentationFrom_def struct_names_def bindE_def print_out_def fail_def dest!: doc_types_names
      split: sum.splits)

lemma link_keys:
  "fst ` set (fold (\<lambda>t. AList.update (pr_Name (hd t)) (f t)) ts sl) = set (type_names ts) \<union> fst ` set sl"
  by (induction ts arbitrary: sl) (auto simp: dom_update)

lemma collect_types_links:
  assumes "collect_types unquote parse paths types s = (Inr ts, s')"
  shows "type_names ts = type_names types @ concat (map (struct_names parse) paths)
    \<and> fst ` set (ds_selfLinks s') = fst ` set (ds_selfLinks s)
        \<union> (if paths = [] then {} else set (type_names types) \<union> set (concat (map (struct_names parse) (butlast paths))))"
  using assms
proof (induction paths arbitrary: types s)
  case (Cons p ps)
  then obtain ks s1 where parse: "ParseDocumentationFrom unquote parse p s = (Inr ks, s1)"
    by (auto simp: bindE_def split: sum.splits prod.splits)
  note names = ParseDocumentationFrom_names [OF this]
  from Cons.prems obtain s2 where rest: "collect_types unquote parse ps (types @ ks) s2 = (Inr ts, s')"
    and links: "fst ` set (ds_selfLinks s2) = set (type_names types) \<union> fst ` set (ds_selfLinks s)"
    using parse names by (auto simp: bindE_def add_selfLinks_def link_keys)
  show ?case using Cons.IH [OF rest] names links by auto
qed (simp add: ok_def)

interpretation doc_links: run_relation "\<lambda>s s' :: doc_st. ds_selfLinks s' = ds_selfLinks s"
  by unfold_locales auto

lemma keeps_links_print: "keeps (\<lambda>s s' :: doc_st. ds_selfLinks s' = ds_selfLinks s) (print_out txt)"
  by (simp add: keeps_def print_out_def)

lemma print_sections_links:
  "keeps (\<lambda>s s' :: doc_st. ds_selfLinks s' = ds_selfLinks s)
     (bindE (printTOC types) (\<lambda>_. for_each (\<lambda>t. print_out (doc_section t)) types))"
  unfolding printTOC_def by (intro doc_links.keeps_intros keeps_links_print)

text \<open>
  the names that a run of the generator turns into links to their sections are exactly those of
  the struct types of all files but the last. The second pass over the files is there to link every
  type, but the links of a file are added only when the next one is read, so with one file, or for
  the types of the last one, no reference to a documented type is ever a link.
\<close>

theorem self_links_miss_last_file:
  assumes "printAPIDocs unquote parse paths s = (Inr (), s')" and "ds_selfLinks s = []"
  shows "fst ` set (ds_selfLinks s') = set (concat (map (struct_names parse) (butlast paths)))"
proof -
  let ?s0 = "s\<lparr>ds_out := ds_out s @ firstParagraph @ [CHR 0x0A]\<rparr>"
  from assms(1) obtain ts1 s1 where pass1: "collect_types unquote parse paths [] ?s0 = (Inr ts1, s1)"
    by (auto simp: printAPIDocs_def bindE_def print_out_def split: sum.splits prod.splits)
  with assms(1) obtain ts2 s2 where pass2: "collect_types unquote parse paths [] s1 = (Inr ts2, s2)"
    by (auto simp: printAPIDocs_def bindE_def print_out_def split: sum.splits prod.splits)
  have "(bindE (printTOC ts2) (\<lambda>_. for_each (\<lambda>t. print_out (doc_section t)) ts2)) s2 = (Inr (), s')"
    using assms(1) pass1 pass2 by (simp add: printAPIDocs_def print_out_def)
  from keepsD [OF print_sections_links this] have "ds_selfLinks s' = ds_selfLinks s2" .
  with collect_types_links [OF pass1] collect_types_links [OF pass2] assms(2) show ?thesis by auto
qed

text \<open>Two files with one type each.\<close>

definition example_parse :: "string \<Rightarrow> string + type_decl list" where
  "example_parse path = Inr [\<lparr>td_Name = (if path = ''a.go'' then ''A'' else ''B''), td_Doc = [],
     td_Fields = Some []\<rparr>]"

theorem self_links_miss_last_file_witness:
  "\<exists>s'. printAPIDocs (\<lambda>_. None) example_parse [''a.go'', ''b.go''] \<lparr>ds_out = [], ds_selfLinks = []\<rparr> = (Inr (), s')
     \<and> fst ` set (ds_selfLinks s') = {''A''}"
proof -
  let ?run = "printAPIDocs (\<lambda>_. None) example_parse [''a.go'', ''b.go''] \<lparr>ds_out = [], ds_selfLinks = []\<rparr>"
  have "fst ?run = Inr ()"
    by (simp add: printAPIDocs_def printTOC_def bindE_def print_out_def ParseDocumentationFrom_def
        example_parse_def add_selfLinks_def)
  then have "?run = (Inr (), snd ?run)" by (simp add: prod_eq_iff)
  from this self_links_miss_last_file [OF this] show ?thesis
    by (auto simp: struct_names_def example_parse_def)
qed

end
