(* ===== verification/Go_Heap.thy ===== *)
theory Go_Heap
  imports Go_Base
begin

text \<open>
  Pointers, slices and maps of Go in an explicit store, for the code whose correctness depends on
  sharing. A cell holds the entries of a map, the elements of a slice or the target of a pointer
  (the last two under empty keys). A value is read in a store along its type (\<open>view\<close>), which gives
  the tree of its contents or \<open>None\<close> when it does not have the type; a copier is a function that
  makes an equal value out of new cells only, and copiers compose along the types.
\<close>

section \<open>Values, types and stores\<close>

datatype gval = Scalar string | Nil_Ref | Ref nat | Struct "(string \<times> gval) list"

datatype shape = Pointer | Slice | Map

datatype gotype = TScalar | TRef shape gotype | TStruct "(string \<times> gotype) list"

type_synonym cells = "nat \<rightharpoonup> (string \<times> gval) list"

record heap =
  h_next :: nat
  h_cells :: cells

definition heap_ok :: "heap \<Rightarrow> bool" where
  "heap_ok h \<longleftrightarrow> dom (h_cells h) \<subseteq> {..<h_next h}"

text \<open>\<open>new\<close> and \<open>make\<close>: the next address, with no contents yet; assignment through a reference.\<close>

definition new_cell :: "heap \<Rightarrow> nat \<times> heap" where
  "new_cell h = (h_next h, \<lparr>h_next = Suc (h_next h), h_cells = (h_cells h)(h_next h \<mapsto> [])\<rparr>)"

definition write_cell :: "nat \<Rightarrow> (string \<times> gval) list \<Rightarrow> heap \<Rightarrow> heap" where
  "write_cell a es h = h\<lparr>h_cells := (h_cells h)(a \<mapsto> es)\<rparr>"

section \<open>Contents of a value\<close>

datatype gtree = Leaf string | Absent | Boxed "(string \<times> gtree) list" | Fields "(string \<times> gtree) list"

fun shape_ok :: "shape \<Rightarrow> string list \<Rightarrow> bool" where
  "shape_ok Pointer ks \<longleftrightarrow> ks = [[]]"
| "shape_ok Slice ks \<longleftrightarrow> list_all (\<lambda>k. k = []) ks"
| "shape_ok Map ks \<longleftrightarrow> distinct ks"

fun all_some :: "(string \<times> 'a option) list \<Rightarrow> (string \<times> 'a) list option" where
  "all_some [] = Some []"
| "all_some ((k, None) # xs) = None"
| "all_some ((k, Some x) # xs) = map_option (\<lambda>ys. (k, x) # ys) (all_some xs)"

fun view :: "cells \<Rightarrow> gotype \<Rightarrow> gval \<Rightarrow> gtree option"
  and view_fields :: "cells \<Rightarrow> (string \<times> gotype) list \<Rightarrow> (string \<times> gval) list \<Rightarrow> (string \<times> gtree) list option" where
  "view m TScalar v = (case v of Scalar s \<Rightarrow> Some (Leaf s) | _ \<Rightarrow> None)"
| "view m (TRef sh t) v = (case v of
      Nil_Ref \<Rightarrow> Some Absent
    | Ref a \<Rightarrow> (case m a of
          None \<Rightarrow> None
        | Some es \<Rightarrow> if shape_ok sh (map fst es) then map_option Boxed (all_some (map (\<lambda>(k, x). (k, view m t x)) es)) else None)
    | _ \<Rightarrow> None)"
| "view m (TStruct ts) v = (case v of Struct fs \<Rightarrow> map_option Fields (view_fields m ts fs) | _ \<Rightarrow> None)"
| "view_fields m [] fs = (if fs = [] then Some [] else None)"
| "view_fields m ((n, t) # ts) fs = (case fs of
      [] \<Rightarrow> None
    | (n', x) # fs' \<Rightarrow> if n' = n then (case view m t x of
          None \<Rightarrow> None | Some tr \<Rightarrow> map_option (\<lambda>trs. (n, tr) # trs) (view_fields m ts fs')) else None)"

text \<open>Types without references: assignment copies their values completely.\<close>

fun flat :: "gotype \<Rightarrow> bool" and flat_fields :: "(string \<times> gotype) list \<Rightarrow> bool" where
  "flat TScalar \<longleftrightarrow> True"
| "flat (TRef sh t) \<longleftrightarrow> False"
| "flat (TStruct ts) \<longleftrightarrow> flat_fields ts"
| "flat_fields [] \<longleftrightarrow> True"
| "flat_fields ((n, t) # ts) \<longleftrightarrow> flat t \<and> flat_fields ts"

lemma all_some_view:
  "all_some (map (\<lambda>(k, x). (k, f x)) es) = Some ys \<longleftrightarrow> list_all2 (\<lambda>(k, x) (k', y). k = k' \<and> f x = Some y) es ys"
proof (induction es arbitrary: ys)
  case (Cons e es)
  then show ?case by (cases e; cases "f (snd e)") (auto simp: list_all2_Cons1)
qed auto

lemma view_Ref:
  "view m (TRef sh t) (Ref a) = Some tr \<longleftrightarrow> (\<exists>es trs. m a = Some es \<and> shape_ok sh (map fst es) \<and> tr = Boxed trs
     \<and> list_all2 (\<lambda>(k, x) (k', y). k = k' \<and> view m t x = Some y) es trs)"
  by (auto simp: all_some_view split: option.splits)

lemma view_mono: "m \<subseteq>\<^sub>m m' \<Longrightarrow> view m t v = Some tr \<Longrightarrow> view m' t v = Some tr"
proof (induction t arbitrary: v tr)
  case (TRef sh t)
  show ?case
  proof (cases v)
    case (Ref a)
    have "view m (TRef sh t) (Ref a) = Some tr" using TRef.prems(2) Ref by simp
    then obtain es trs where es: "m a = Some es" "shape_ok sh (map fst es)" "tr = Boxed trs"
      and view: "list_all2 (\<lambda>(k, x) (k', y). k = k' \<and> view m t x = Some y) es trs"
      unfolding view_Ref by blast
    have "list_all2 (\<lambda>(k, x) (k', y). k = k' \<and> view m' t x = Some y) es trs"
      using view by (rule list_all2_mono) (use TRef in auto)
    moreover have "m' a = Some es" using es(1) TRef.prems(1) by (auto simp: map_le_def dom_def)
    ultimately show ?thesis using es unfolding Ref view_Ref by blast
  qed (use TRef in auto)
next
  case (TStruct ts)
  have "view_fields m ts fs = Some trs \<Longrightarrow> view_fields m' ts fs = Some trs" for fs trs
    using TStruct.IH
  proof (induction ts arbitrary: fs trs)
    case (Cons nt ts)
    then show ?case using TStruct.prems(1)
      by (cases nt; cases fs) (fastforce split: option.splits if_splits prod.splits)+
  qed simp
  then show ?case using TStruct.prems(2) by (auto split: gval.splits)
qed (auto split: gval.splits)

lemma view_fields_mono:
  assumes "m \<subseteq>\<^sub>m m'" "view_fields m ts fs = Some trs"
  shows "view_fields m' ts fs = Some trs"
  using view_mono [OF assms(1), of "TStruct ts" "Struct fs"] assms(2) by auto

lemma flat_view:
  "flat t \<Longrightarrow> view m' t v = view m t v"
  "flat_fields ts \<Longrightarrow> view_fields m' ts fs = view_fields m ts fs"
  by (induction t and ts arbitrary: v and fs rule: flat_flat_fields.induct)
    (auto split: gval.splits option.splits list.splits)

section \<open>Copiers\<close>

type_synonym copier = "gval \<Rightarrow> heap \<Rightarrow> gval \<times> heap"

text \<open>The assignment \<open>*out = *in\<close>.\<close>

definition assign :: copier where
  "assign v h = (v, h)"

text \<open>The copy of the entries of a cell, one after the other.\<close>

fun copy_entries :: "copier \<Rightarrow> (string \<times> gval) list \<Rightarrow> heap \<Rightarrow> (string \<times> gval) list \<times> heap" where
  "copy_entries f [] h = ([], h)"
| "copy_entries f ((k, x) # es) h = (case f x h of (x', h1) \<Rightarrow>
     case copy_entries f es h1 of (es', h2) \<Rightarrow> ((k, x') # es', h2))"

text \<open>
  The block \<open>if in.F != nil { *out = new(T); ... }\<close>, with \<open>make\<close> for slices and maps: a new cell,
  filled with copies of the entries. A nil reference stays nil.
\<close>

definition copy_ref :: "copier \<Rightarrow> copier" where
  "copy_ref f v h = (case v of
      Ref a \<Rightarrow> (case h_cells h a of
          None \<Rightarrow> (v, h)
        | Some es \<Rightarrow> (case new_cell h of (b, h1) \<Rightarrow>
            case copy_entries f es h1 of (es', h2) \<Rightarrow> (Ref b, write_cell b es' h2)))
    | _ \<Rightarrow> (v, h))"

text \<open>
  The body of a \<open>DeepCopyInto\<close> of a struct: \<open>*out = *in\<close> and then the blocks of the fields that hold
  references, which stand in the order of the declaration.
\<close>

fun copy_fields :: "(string \<times> copier) list \<Rightarrow> (string \<times> gval) list \<Rightarrow> heap \<Rightarrow> (string \<times> gval) list \<times> heap" where
  "copy_fields blocks [] h = ([], h)"
| "copy_fields blocks ((n, x) # fs) h =
     (case (case map_of blocks n of None \<Rightarrow> assign x h | Some f \<Rightarrow> f x h) of (x', h1) \<Rightarrow>
      case copy_fields blocks fs h1 of (fs', h2) \<Rightarrow> ((n, x') # fs', h2))"

definition copy_struct :: "(string \<times> copier) list \<Rightarrow> copier" where
  "copy_struct blocks v h = (case v of
      Struct fs \<Rightarrow> (case copy_fields blocks fs h of (fs', h') \<Rightarrow> (Struct fs', h'))
    | _ \<Rightarrow> (v, h))"

text \<open>A store that has grown: every cell that was there is unchanged.\<close>

definition grows :: "heap \<Rightarrow> heap \<Rightarrow> bool" where
  "grows h h' \<longleftrightarrow> heap_ok h' \<and> h_next h \<le> h_next h' \<and> (\<forall>a < h_next h. h_cells h' a = h_cells h a)"

text \<open>The part of a store that was allocated since.\<close>

definition since :: "heap \<Rightarrow> heap \<Rightarrow> cells" where
  "since h h' = h_cells h' |` {h_next h..}"

definition deep_copier :: "gotype \<Rightarrow> copier \<Rightarrow> bool" where
  "deep_copier t f \<longleftrightarrow> (\<forall>h v tr v' h'. heap_ok h \<longrightarrow> view (h_cells h) t v = Some tr \<longrightarrow> f v h = (v', h') \<longrightarrow>
     grows h h' \<and> view (since h h') t v' = Some tr)"

lemma deep_copierD:
  assumes "deep_copier t f" "heap_ok h" "view (h_cells h) t v = Some tr" "f v h = (v', h')"
  shows "grows h h'" "view (since h h') t v' = Some tr"
  using assms unfolding deep_copier_def by blast+

lemma grows_refl: "heap_ok h \<Longrightarrow> grows h h"
  by (simp add: grows_def)

lemma grows_trans: "grows h h1 \<Longrightarrow> grows h1 h2 \<Longrightarrow> grows h h2"
  by (auto simp: grows_def)

lemma grows_cells: "heap_ok h \<Longrightarrow> grows h h' \<Longrightarrow> h_cells h \<subseteq>\<^sub>m h_cells h'"
  by (auto simp: grows_def heap_ok_def map_le_def dom_def)

lemma since_later: "grows h1 h2 \<Longrightarrow> heap_ok h1 \<Longrightarrow> since h h1 \<subseteq>\<^sub>m since h h2"
  using grows_cells [of h1 h2] by (auto simp: since_def map_le_def restrict_map_def split: if_splits)

lemma since_earlier: "h_next h \<le> h_next h1 \<Longrightarrow> since h1 h2 \<subseteq>\<^sub>m since h h2"
  by (auto simp: since_def map_le_def restrict_map_def split: if_splits)

lemma since_cells: "since h h' \<subseteq>\<^sub>m h_cells h'"
  by (auto simp: since_def map_le_def restrict_map_def split: if_splits)

text \<open>Two copies in a row: the second leaves the first alone, and both are new.\<close>

lemma copy_then:
  assumes "heap_ok h" "grows h h1" "view (since h h1) t x = Some tr" "grows h1 h2"
  shows "grows h h2" "view (since h h2) t x = Some tr"
proof -
  show "grows h h2" using assms(2,4) by (rule grows_trans)
  have "heap_ok h1" using assms(2) by (simp add: grows_def)
  from view_mono [OF since_later [OF assms(4) this] assms(3)] show "view (since h h2) t x = Some tr" .
qed

lemma view_later: "heap_ok h \<Longrightarrow> grows h h1 \<Longrightarrow> view (h_cells h) t x = Some tr \<Longrightarrow> view (h_cells h1) t x = Some tr"
  using view_mono [OF grows_cells] by blast

lemma deep_copier_assign: "flat t \<Longrightarrow> deep_copier t assign"
  by (auto simp: deep_copier_def assign_def grows_refl) (metis flat_view(1))

lemma copy_entries_deep:
  assumes "deep_copier t f" "heap_ok h" "list_all2 (\<lambda>(k, x) (k', y). k = k' \<and> view (h_cells h) t x = Some y) es trs"
    and "copy_entries f es h = (es', h')"
  shows "grows h h' \<and> map fst es' = map fst es
    \<and> list_all2 (\<lambda>(k, x) (k', y). k = k' \<and> view (since h h') t x = Some y) es' trs"
  using assms(2-)
proof (induction es arbitrary: h trs es')
  case (Cons e es)
  obtain k x y trs' where e: "e = (k, x)" and trs: "trs = (k, y) # trs'" "view (h_cells h) t x = Some y"
    "list_all2 (\<lambda>(k, x) (k', y). k = k' \<and> view (h_cells h) t x = Some y) es trs'"
    using Cons.prems(2) by (cases e) (auto simp: list_all2_Cons1)
  obtain x' h1 where x': "f x h = (x', h1)" by force
  obtain es1 where es1: "copy_entries f es h1 = (es1, h')" and es': "es' = (k, x') # es1"
    using Cons.prems(3) x' e by (auto split: prod.splits)
  note first = deep_copierD [OF assms(1) Cons.prems(1) trs(2) x']
  have ok1: "heap_ok h1" using first(1) by (simp add: grows_def)
  have "list_all2 (\<lambda>(k, x) (k', y). k = k' \<and> view (h_cells h1) t x = Some y) es trs'"
    using trs(3) by (rule list_all2_mono) (use view_later [OF Cons.prems(1) first(1)] in auto)
  from Cons.IH [OF ok1 this es1] have rest: "grows h1 h'" "map fst es1 = map fst es"
    "list_all2 (\<lambda>(k, x) (k', y). k = k' \<and> view (since h1 h') t x = Some y) es1 trs'" by auto
  have "since h1 h' \<subseteq>\<^sub>m since h h'" using first(1) by (intro since_earlier) (simp add: grows_def)
  then have "list_all2 (\<lambda>(k, x) (k', y). k = k' \<and> view (since h h') t x = Some y) es1 trs'"
    by (intro list_all2_mono [OF rest(3)]) (use view_mono in auto)
  with copy_then [OF Cons.prems(1) first rest(1)] rest(2) show ?case by (simp add: e es' trs(1))
qed (auto simp: grows_refl)

lemma new_cell_grows:
  assumes "heap_ok h" "new_cell h = (b, h1)"
  shows "b = h_next h" "h_next h1 = Suc b" "grows h h1" "heap_ok h1"
proof -
  have h1: "b = h_next h" "h1 = \<lparr>h_next = Suc b, h_cells = (h_cells h)(b \<mapsto> [])\<rparr>" using assms(2) by (auto simp: new_cell_def)
  have "insert b (dom (h_cells h)) \<subseteq> {..<Suc b}" using assms(1) h1(1) by (auto simp: heap_ok_def)
  then show "heap_ok h1" "grows h h1" using h1 by (simp_all add: heap_ok_def grows_def)
qed (use assms in \<open>auto simp: new_cell_def\<close>)

lemma deep_copier_ref:
  assumes "deep_copier t f"
  shows "deep_copier (TRef sh t) (copy_ref f)"
  unfolding deep_copier_def
proof (intro allI impI)
  fix h v tr v' h'
  assume ok: "heap_ok h" and view: "view (h_cells h) (TRef sh t) v = Some tr" and run: "copy_ref f v h = (v', h')"
  show "grows h h' \<and> view (since h h') (TRef sh t) v' = Some tr"
  proof (cases v)
    case (Ref a)
    have "view (h_cells h) (TRef sh t) (Ref a) = Some tr" using view Ref by simp
    then obtain es trs where es: "h_cells h a = Some es" "shape_ok sh (map fst es)" "tr = Boxed trs"
      and all: "list_all2 (\<lambda>(k, x) (k', y). k = k' \<and> view (h_cells h) t x = Some y) es trs"
      unfolding view_Ref by blast
    obtain b h1 where new: "new_cell h = (b, h1)" by force
    note b = new_cell_grows(1,2) [OF ok new] and g1 = new_cell_grows(3) [OF ok new] and ok1 = new_cell_grows(4) [OF ok new]
    obtain es' h2 where es': "copy_entries f es h1 = (es', h2)" by force
    with run Ref es(1) new have v': "v' = Ref b" and h': "h' = write_cell b es' h2" by (auto simp: copy_ref_def)
    have "list_all2 (\<lambda>(k, x) (k', y). k = k' \<and> view (h_cells h1) t x = Some y) es trs"
      using all by (rule list_all2_mono) (use view_later [OF ok g1] in auto)
    from copy_entries_deep [OF assms ok1 this es'] have g2: "grows h1 h2" and keys: "map fst es' = map fst es"
      and all': "list_all2 (\<lambda>(k, x) (k', y). k = k' \<and> view (since h1 h2) t x = Some y) es' trs" by auto
    have "since h1 h2 \<subseteq>\<^sub>m since h h'"
      using b by (auto simp: since_def map_le_def restrict_map_def h' write_cell_def split: if_splits)
    then have "list_all2 (\<lambda>(k, x) (k', y). k = k' \<and> view (since h h') t x = Some y) es' trs"
      by (intro list_all2_mono [OF all']) (use view_mono in auto)
    moreover have "since h h' b = Some es'" by (simp add: since_def b h' write_cell_def)
    moreover have "grows h h'" using g1 g2 b by (auto simp: grows_def h' write_cell_def heap_ok_def)
    ultimately show ?thesis using es(2,3) keys unfolding v' view_Ref by force
  qed (use ok view run in \<open>auto simp: copy_ref_def grows_refl\<close>)
qed

lemma copy_fields_deep:
  assumes "\<forall>(n, t) \<in> set ts. case map_of blocks n of None \<Rightarrow> flat t | Some f \<Rightarrow> deep_copier t f"
    and "heap_ok h" "view_fields (h_cells h) ts fs = Some trs" "copy_fields blocks fs h = (fs', h')"
  shows "grows h h' \<and> view_fields (since h h') ts fs' = Some trs"
  using assms
proof (induction ts arbitrary: h fs fs' trs)
  case (Cons nt ts)
  obtain n t x fs1 where nt: "nt = (n, t)" and fs: "fs = (n, x) # fs1"
    using Cons.prems(3) by (cases nt; cases fs) (auto split: if_splits)
  obtain y trs1 where y: "view (h_cells h) t x = Some y" and trs: "trs = (n, y) # trs1"
    "view_fields (h_cells h) ts fs1 = Some trs1"
    using Cons.prems(3) by (auto simp: nt fs split: option.splits)
  define f where "f = (case map_of blocks n of None \<Rightarrow> assign | Some f \<Rightarrow> f)"
  have f: "deep_copier t f" using Cons.prems(1) deep_copier_assign by (auto simp: nt f_def split: option.splits)
  obtain x' h1 where x': "f x h = (x', h1)" by force
  then obtain fs2 where rest: "copy_fields blocks fs1 h1 = (fs2, h')" and fs': "fs' = (n, x') # fs2"
    using Cons.prems(4) by (auto simp: fs f_def split: option.splits prod.splits)
  note first = deep_copierD [OF f Cons.prems(2) y x']
  have ok1: "heap_ok h1" using first(1) by (simp add: grows_def)
  have "view_fields (h_cells h1) ts fs1 = Some trs1"
    using view_fields_mono [OF grows_cells [OF Cons.prems(2) first(1)] trs(2)] .
  from Cons.IH [OF _ ok1 this rest] Cons.prems(1) have ih: "grows h1 h'" "view_fields (since h1 h') ts fs2 = Some trs1"
    by auto
  have "since h1 h' \<subseteq>\<^sub>m since h h'" using first(1) by (intro since_earlier) (simp add: grows_def)
  from view_fields_mono [OF this ih(2)] copy_then [OF Cons.prems(2) first ih(1)] show ?case
    by (simp add: nt fs' trs(1))
qed (auto simp: grows_refl split: if_splits)

lemma deep_copier_struct:
  assumes "\<forall>(n, t) \<in> set ts. case map_of blocks n of None \<Rightarrow> flat t | Some f \<Rightarrow> deep_copier t f"
  shows "deep_copier (TStruct ts) (copy_struct blocks)"
  unfolding deep_copier_def
proof (intro allI impI)
  fix h v tr v' h'
  assume ok: "heap_ok h" and view: "view (h_cells h) (TStruct ts) v = Some tr" and run: "copy_struct blocks v h = (v', h')"
  then obtain fs trs fs' where "v = Struct fs" "view_fields (h_cells h) ts fs = Some trs" "tr = Fields trs"
    "copy_fields blocks fs h = (fs', h')" "v' = Struct fs'"
    by (auto simp: copy_struct_def split: gval.splits prod.splits)
  with copy_fields_deep [OF assms ok] show "grows h h' \<and> view (since h h') (TStruct ts) v' = Some tr" by auto
qed

text \<open>The copier that a type determines: every reference gets a new cell.\<close>

fun copy_of :: "gotype \<Rightarrow> copier" and copy_blocks :: "(string \<times> gotype) list \<Rightarrow> (string \<times> copier) list" where
  "copy_of TScalar = assign"
| "copy_of (TRef sh t) = copy_ref (copy_of t)"
| "copy_of (TStruct ts) = copy_struct (copy_blocks ts)"
| "copy_blocks [] = []"
| "copy_blocks ((n, t) # ts) = (n, copy_of t) # copy_blocks ts"

text \<open>The field names of every struct in a type are distinct, as in Go.\<close>

fun named :: "gotype \<Rightarrow> bool" and named_fields :: "(string \<times> gotype) list \<Rightarrow> bool" where
  "named TScalar \<longleftrightarrow> True"
| "named (TRef sh t) \<longleftrightarrow> named t"
| "named (TStruct ts) \<longleftrightarrow> distinct (map fst ts) \<and> named_fields ts"
| "named_fields [] \<longleftrightarrow> True"
| "named_fields ((n, t) # ts) \<longleftrightarrow> named t \<and> named_fields ts"

lemma deep_copier_copy_of:
  "named t \<Longrightarrow> deep_copier t (copy_of t)"
  "named_fields ts \<Longrightarrow> distinct (map fst ts) \<Longrightarrow>
     (\<forall>(n, t) \<in> set ts. case map_of (copy_blocks ts) n of None \<Rightarrow> flat t | Some f \<Rightarrow> deep_copier t f)"
proof (induction t and ts rule: named_named_fields.induct)
  case (5 n t ts)
  then show ?case by (force split: option.splits)
qed (auto simp: deep_copier_assign deep_copier_ref intro!: deep_copier_struct split: option.splits)

text \<open>
  What a deep copy is for: whatever happens later to the cells allocated since, the original still
  reads the same, and whatever happens to the other cells, so does the copy.
\<close>

lemma copy_isolates:
  assumes "deep_copier t f" "heap_ok h" "view (h_cells h) t v = Some tr" "f v h = (v', h')"
  shows "\<forall>a < h_next h. m a = h_cells h' a \<Longrightarrow> view m t v = Some tr"
    and "\<forall>a \<ge> h_next h. m a = h_cells h' a \<Longrightarrow> view m t v' = Some tr"
proof -
  note copy = deep_copierD [OF assms]
  assume "\<forall>a < h_next h. m a = h_cells h' a"
  then have "h_cells h \<subseteq>\<^sub>m m" using copy(1) assms(2) by (auto simp: grows_def heap_ok_def map_le_def)
  from view_mono [OF this assms(3)] show "view m t v = Some tr" .
next
  note copy = deep_copierD [OF assms]
  assume "\<forall>a \<ge> h_next h. m a = h_cells h' a"
  then have "since h h' \<subseteq>\<^sub>m m" by (auto simp: since_def map_le_def restrict_map_def split: if_splits)
  from view_mono [OF this copy(2)] show "view m t v' = Some tr" .
qed

end
