(* ===== verification/Deep_Copy.thy ===== *)
theory Deep_Copy
  imports Go_Heap
begin

text \<open>
  \<open>zz_generated.deepcopy.go\<close>: the generated copies of the API types, over an explicit store. The
  layouts of the structs are those of \<open>cluster.go\<close>, \<open>namespace.go\<close> and \<open>pod_identity.go\<close>; the types
  of Kubernetes are parameters, their layout \<open>lay\<close> and their \<open>DeepCopyInto\<close> functions \<open>ext\<close>, by name.
  The control loop works on such copies, which is why the rest of the development can treat objects
  of the informer caches as values.
\<close>

section \<open>Layouts of the API types\<close>

type_synonym layouts = "string \<Rightarrow> gotype"

type_synonym copiers = "string \<Rightarrow> copier"

text \<open>Structs of Kubernetes without references.\<close>

definition TypeMeta_type :: gotype where
  "TypeMeta_type = TStruct [(''Kind'', TScalar), (''APIVersion'', TScalar)]"

definition LocalObjectReference_type :: gotype where
  "LocalObjectReference_type = TStruct [(''Name'', TScalar)]"

definition DownsampleOptions_type :: "gotype" where
  "DownsampleOptions_type = TStruct [
     (''All'', TScalar)]"

definition AggregatedAttributes_type :: "gotype" where
  "AggregatedAttributes_type = TStruct [
     (''Resolution'', TScalar), (''DownsampleOptions'', TRef Pointer DownsampleOptions_type)]"

definition Aggregation_type :: "gotype" where
  "Aggregation_type = TStruct [
     (''Aggregated'', TScalar), (''Attributes'', AggregatedAttributes_type)]"

definition AggregationOptions_type :: "gotype" where
  "AggregationOptions_type = TStruct [
     (''Aggregations'', TRef Slice Aggregation_type)]"

definition ClusterCondition_type :: "gotype" where
  "ClusterCondition_type = TStruct [
     (''Type'', TScalar), (''Status'', TScalar), (''LastUpdateTime'', TScalar),
     (''LastTransitionTime'', TScalar), (''Reason'', TScalar), (''Message'', TScalar)]"

definition ExtendedOptions_type :: "gotype" where
  "ExtendedOptions_type = TStruct [
     (''Type'', TScalar), (''Options'', TRef Map (TRef Slice TScalar))]"

definition ExternalCoordinatorConfig_type :: "gotype" where
  "ExternalCoordinatorConfig_type = TStruct [
     (''Selector'', TRef Map TScalar), (''ServiceEndpoint'', TScalar)]"

definition IndexOptions_type :: "gotype" where
  "IndexOptions_type = TStruct [
     (''Enabled'', TScalar), (''BlockSize'', TScalar)]"

definition NodeAffinityTerm_type :: "gotype" where
  "NodeAffinityTerm_type = TStruct [
     (''Key'', TScalar), (''Values'', TRef Slice TScalar)]"

definition IsolationGroup_type :: "gotype" where
  "IsolationGroup_type = TStruct [
     (''Name'', TScalar), (''NodeAffinityTerms'', TRef Slice NodeAffinityTerm_type),
     (''UsePodAntiAffinity'', TScalar), (''PodAffinityToplogyKey'', TScalar),
     (''NumInstances'', TScalar), (''StorageClassName'', TScalar)]"

definition RetentionOptions_type :: "gotype" where
  "RetentionOptions_type = TStruct [
     (''RetentionPeriod'', TScalar), (''BlockSize'', TScalar), (''BufferFuture'', TScalar),
     (''BufferPast'', TScalar), (''BlockDataExpiry'', TScalar),
     (''BlockDataExpiryAfterNotAccessPeriod'', TScalar)]"

definition NamespaceOptions_type :: "gotype" where
  "NamespaceOptions_type = TStruct [
     (''BootstrapEnabled'', TScalar), (''FlushEnabled'', TScalar), (''WritesToCommitLog'', TScalar),
     (''CleanupEnabled'', TScalar), (''RepairEnabled'', TScalar), (''SnapshotEnabled'', TScalar),
     (''RetentionOptions'', RetentionOptions_type), (''IndexOptions'', IndexOptions_type),
     (''ColdWritesEnabled'', TScalar), (''AggregationOptions'', AggregationOptions_type),
     (''ExtendedOptions'', TRef Pointer ExtendedOptions_type)]"

definition Namespace_type :: "gotype" where
  "Namespace_type = TStruct [
     (''Name'', TScalar), (''Preset'', TScalar), (''Options'', TRef Pointer NamespaceOptions_type)]"

definition PodIdentity_type :: "gotype" where
  "PodIdentity_type = TStruct [
     (''Name'', TScalar), (''UID'', TScalar), (''NodeName'', TScalar), (''NodeExternalID'', TScalar),
     (''NodeProviderID'', TScalar)]"

definition PodIdentityConfig_type :: "gotype" where
  "PodIdentityConfig_type = TStruct [
     (''Sources'', TRef Slice TScalar)]"

definition ClusterSpec_type :: "layouts \<Rightarrow> gotype" where
  "ClusterSpec_type lay = TStruct [
     (''Image'', TScalar), (''ReplicationFactor'', TScalar), (''NumberOfShards'', TScalar),
     (''IsolationGroups'', TRef Slice IsolationGroup_type), (''Namespaces'', TRef Slice Namespace_type),
     (''EtcdEndpoints'', TRef Slice TScalar), (''KeepEtcdDataOnDelete'', TScalar),
     (''EnableCarbonIngester'', TScalar), (''ConfigMapName'', TRef Pointer TScalar),
     (''PodIdentityConfig'', TRef Pointer PodIdentityConfig_type),
     (''ContainerResources'', lay ''ResourceRequirements''),
     (''DataDirVolumeClaimTemplate'', TRef Pointer (lay ''PersistentVolumeClaim'')),
     (''PodSecurityContext'', TRef Pointer (lay ''PodSecurityContext'')),
     (''SecurityContext'', TRef Pointer (lay ''SecurityContext'')),
     (''ImagePullSecrets'', TRef Slice LocalObjectReference_type),
     (''EnvVars'', TRef Slice (lay ''EnvVar'')), (''Labels'', TRef Map TScalar),
     (''Annotations'', TRef Map TScalar), (''Tolerations'', TRef Slice (lay ''Toleration'')),
     (''PriorityClassName'', TScalar), (''NodeEndpointFormat'', TScalar), (''HostNetwork'', TScalar),
     (''DNSPolicy'', TRef Pointer TScalar),
     (''ExternalCoordinator'', TRef Pointer ExternalCoordinatorConfig_type),
     (''InitContainers'', TRef Slice (lay ''Container'')),
     (''InitVolumes'', TRef Slice (lay ''Volume'')), (''PodMetadata'', lay ''ObjectMeta''),
     (''ParallelPodManagement'', TRef Pointer TScalar), (''ServiceAccountName'', TScalar),
     (''Frozen'', TScalar), (''SidecarContainers'', TRef Slice (lay ''Container'')),
     (''SidecarVolumes'', TRef Slice (lay ''Volume'')), (''OnDeleteUpdateStrategy'', TScalar),
     (''Zone'', TScalar), (''PreventScaleDown'', TScalar)]"

definition M3DBStatus_type :: "gotype" where
  "M3DBStatus_type = TStruct [
     (''State'', TScalar), (''Conditions'', TRef Slice ClusterCondition_type), (''Message'', TScalar),
     (''ObservedGeneration'', TScalar)]"

definition M3DBCluster_type :: "layouts \<Rightarrow> gotype" where
  "M3DBCluster_type lay = TStruct [
     (''TypeMeta'', TypeMeta_type), (''ObjectMeta'', lay ''ObjectMeta''),
     (''Spec'', ClusterSpec_type lay), (''Status'', M3DBStatus_type)]"

definition M3DBClusterList_type :: "layouts \<Rightarrow> gotype" where
  "M3DBClusterList_type lay = TStruct [
     (''TypeMeta'', TypeMeta_type), (''ListMeta'', lay ''ListMeta''),
     (''Items'', TRef Slice (M3DBCluster_type lay))]"

definition IsolationGroups_type :: gotype where
  "IsolationGroups_type = TRef Slice IsolationGroup_type"

section \<open>\<open>DeepCopyInto\<close> and \<open>DeepCopy\<close>\<close>

text \<open>\<open>DeepCopy\<close> on a pointer: nil stays nil; otherwise \<open>new\<close> and \<open>DeepCopyInto\<close>.\<close>

definition DeepCopyInto_DownsampleOptions :: "copier" where
  "DeepCopyInto_DownsampleOptions = copy_struct []"

definition DeepCopy_DownsampleOptions :: "copier" where
  "DeepCopy_DownsampleOptions = copy_ref DeepCopyInto_DownsampleOptions"

definition DeepCopyInto_AggregatedAttributes :: "copier" where
  "DeepCopyInto_AggregatedAttributes = copy_struct [(''DownsampleOptions'', copy_ref assign)]"

definition DeepCopy_AggregatedAttributes :: "copier" where
  "DeepCopy_AggregatedAttributes = copy_ref DeepCopyInto_AggregatedAttributes"

definition DeepCopyInto_Aggregation :: "copier" where
  "DeepCopyInto_Aggregation = copy_struct [(''Attributes'', DeepCopyInto_AggregatedAttributes)]"

definition DeepCopy_Aggregation :: "copier" where
  "DeepCopy_Aggregation = copy_ref DeepCopyInto_Aggregation"

definition DeepCopyInto_AggregationOptions :: "copier" where
  "DeepCopyInto_AggregationOptions = copy_struct [(''Aggregations'', copy_ref DeepCopyInto_Aggregation)]"

definition DeepCopy_AggregationOptions :: "copier" where
  "DeepCopy_AggregationOptions = copy_ref DeepCopyInto_AggregationOptions"

definition DeepCopyInto_ClusterCondition :: "copier" where
  "DeepCopyInto_ClusterCondition = copy_struct []"

definition DeepCopy_ClusterCondition :: "copier" where
  "DeepCopy_ClusterCondition = copy_ref DeepCopyInto_ClusterCondition"

definition DeepCopyInto_ExtendedOptions :: "copier" where
  "DeepCopyInto_ExtendedOptions = copy_struct [(''Options'', copy_ref (copy_ref assign))]"

definition DeepCopy_ExtendedOptions :: "copier" where
  "DeepCopy_ExtendedOptions = copy_ref DeepCopyInto_ExtendedOptions"

definition DeepCopyInto_ExternalCoordinatorConfig :: "copier" where
  "DeepCopyInto_ExternalCoordinatorConfig = copy_struct [(''Selector'', copy_ref assign)]"

definition DeepCopy_ExternalCoordinatorConfig :: "copier" where
  "DeepCopy_ExternalCoordinatorConfig = copy_ref DeepCopyInto_ExternalCoordinatorConfig"

definition DeepCopyInto_IndexOptions :: "copier" where
  "DeepCopyInto_IndexOptions = copy_struct []"

definition DeepCopy_IndexOptions :: "copier" where
  "DeepCopy_IndexOptions = copy_ref DeepCopyInto_IndexOptions"

definition DeepCopyInto_NodeAffinityTerm :: "copier" where
  "DeepCopyInto_NodeAffinityTerm = copy_struct [(''Values'', copy_ref assign)]"

definition DeepCopy_NodeAffinityTerm :: "copier" where
  "DeepCopy_NodeAffinityTerm = copy_ref DeepCopyInto_NodeAffinityTerm"

definition DeepCopyInto_IsolationGroup :: "copier" where
  "DeepCopyInto_IsolationGroup = copy_struct [(''NodeAffinityTerms'', copy_ref DeepCopyInto_NodeAffinityTerm)]"

definition DeepCopy_IsolationGroup :: "copier" where
  "DeepCopy_IsolationGroup = copy_ref DeepCopyInto_IsolationGroup"

definition DeepCopyInto_RetentionOptions :: "copier" where
  "DeepCopyInto_RetentionOptions = copy_struct []"

definition DeepCopy_RetentionOptions :: "copier" where
  "DeepCopy_RetentionOptions = copy_ref DeepCopyInto_RetentionOptions"

definition DeepCopyInto_NamespaceOptions :: "copier" where
  "DeepCopyInto_NamespaceOptions = copy_struct [(''AggregationOptions'', DeepCopyInto_AggregationOptions),
     (''ExtendedOptions'', copy_ref DeepCopyInto_ExtendedOptions)]"

definition DeepCopy_NamespaceOptions :: "copier" where
  "DeepCopy_NamespaceOptions = copy_ref DeepCopyInto_NamespaceOptions"

definition DeepCopyInto_Namespace :: "copier" where
  "DeepCopyInto_Namespace = copy_struct [(''Options'', copy_ref DeepCopyInto_NamespaceOptions)]"

definition DeepCopy_Namespace :: "copier" where
  "DeepCopy_Namespace = copy_ref DeepCopyInto_Namespace"

definition DeepCopyInto_PodIdentity :: "copier" where
  "DeepCopyInto_PodIdentity = copy_struct []"

definition DeepCopy_PodIdentity :: "copier" where
  "DeepCopy_PodIdentity = copy_ref DeepCopyInto_PodIdentity"

definition DeepCopyInto_PodIdentityConfig :: "copier" where
  "DeepCopyInto_PodIdentityConfig = copy_struct [(''Sources'', copy_ref assign)]"

definition DeepCopy_PodIdentityConfig :: "copier" where
  "DeepCopy_PodIdentityConfig = copy_ref DeepCopyInto_PodIdentityConfig"

definition DeepCopyInto_ClusterSpec :: "copiers \<Rightarrow> copier" where
  "DeepCopyInto_ClusterSpec ext = copy_struct [(''IsolationGroups'', copy_ref DeepCopyInto_IsolationGroup),
     (''Namespaces'', copy_ref DeepCopyInto_Namespace), (''EtcdEndpoints'', copy_ref assign),
     (''ConfigMapName'', copy_ref assign),
     (''PodIdentityConfig'', copy_ref DeepCopyInto_PodIdentityConfig),
     (''ContainerResources'', ext ''ResourceRequirements''),
     (''DataDirVolumeClaimTemplate'', copy_ref (ext ''PersistentVolumeClaim'')),
     (''PodSecurityContext'', copy_ref (ext ''PodSecurityContext'')),
     (''SecurityContext'', copy_ref (ext ''SecurityContext'')), (''ImagePullSecrets'', copy_ref assign),
     (''EnvVars'', copy_ref (ext ''EnvVar'')), (''Labels'', copy_ref assign),
     (''Annotations'', copy_ref assign), (''Tolerations'', copy_ref (ext ''Toleration'')),
     (''DNSPolicy'', copy_ref assign),
     (''ExternalCoordinator'', copy_ref DeepCopyInto_ExternalCoordinatorConfig),
     (''InitContainers'', copy_ref (ext ''Container'')), (''InitVolumes'', copy_ref (ext ''Volume'')),
     (''PodMetadata'', ext ''ObjectMeta''), (''ParallelPodManagement'', copy_ref assign),
     (''SidecarContainers'', copy_ref (ext ''Container'')),
     (''SidecarVolumes'', copy_ref (ext ''Volume''))]"

definition DeepCopy_ClusterSpec :: "copiers \<Rightarrow> copier" where
  "DeepCopy_ClusterSpec ext = copy_ref (DeepCopyInto_ClusterSpec ext)"

definition DeepCopyInto_M3DBStatus :: "copier" where
  "DeepCopyInto_M3DBStatus = copy_struct [(''Conditions'', copy_ref assign)]"

definition DeepCopy_M3DBStatus :: "copier" where
  "DeepCopy_M3DBStatus = copy_ref DeepCopyInto_M3DBStatus"

definition DeepCopyInto_M3DBCluster :: "copiers \<Rightarrow> copier" where
  "DeepCopyInto_M3DBCluster ext = copy_struct [(''ObjectMeta'', ext ''ObjectMeta''), (''Spec'', DeepCopyInto_ClusterSpec ext),
     (''Status'', DeepCopyInto_M3DBStatus)]"

definition DeepCopy_M3DBCluster :: "copiers \<Rightarrow> copier" where
  "DeepCopy_M3DBCluster ext = copy_ref (DeepCopyInto_M3DBCluster ext)"

definition DeepCopyInto_M3DBClusterList :: "copiers \<Rightarrow> copier" where
  "DeepCopyInto_M3DBClusterList ext = copy_struct [(''ListMeta'', ext ''ListMeta''), (''Items'', copy_ref (DeepCopyInto_M3DBCluster ext))]"

definition DeepCopy_M3DBClusterList :: "copiers \<Rightarrow> copier" where
  "DeepCopy_M3DBClusterList ext = copy_ref (DeepCopyInto_M3DBClusterList ext)"

text \<open>The named slice type: \<open>DeepCopyInto\<close> makes an empty slice of nil, \<open>DeepCopy\<close> leaves nil alone.\<close>

definition DeepCopyInto_IsolationGroups :: copier where
  "DeepCopyInto_IsolationGroups v h = (case v of
      Nil_Ref \<Rightarrow> (case new_cell h of (b, h') \<Rightarrow> (Ref b, h'))
    | _ \<Rightarrow> copy_ref DeepCopyInto_IsolationGroup v h)"

definition DeepCopy_IsolationGroups :: copier where
  "DeepCopy_IsolationGroups v h = (if v = Nil_Ref then (Nil_Ref, h) else DeepCopyInto_IsolationGroups v h)"

text \<open>\<open>DeepCopyObject\<close>: the copy as an interface value, nil for nil.\<close>

definition DeepCopyObject_M3DBCluster :: "copiers \<Rightarrow> copier" where
  "DeepCopyObject_M3DBCluster ext v h = (case DeepCopy_M3DBCluster ext v h of
      (Nil_Ref, h') \<Rightarrow> (Nil_Ref, h') | (c, h') \<Rightarrow> (c, h'))"

definition DeepCopyObject_M3DBClusterList :: "copiers \<Rightarrow> copier" where
  "DeepCopyObject_M3DBClusterList ext v h = (case DeepCopy_M3DBClusterList ext v h of
      (Nil_Ref, h') \<Rightarrow> (Nil_Ref, h') | (c, h') \<Rightarrow> (c, h'))"

section \<open>Every generated function is a deep copy\<close>

definition external_copiers :: "layouts \<Rightarrow> copiers \<Rightarrow> bool" where
  "external_copiers lay ext \<longleftrightarrow> (\<forall>n. deep_copier (lay n) (ext n))"

named_theorems deep_copies \<open>generated functions that are deep copies\<close>

lemma deep_DownsampleOptions [deep_copies]: "deep_copier DownsampleOptions_type DeepCopyInto_DownsampleOptions"
  unfolding DownsampleOptions_type_def DeepCopyInto_DownsampleOptions_def
  by (rule deep_copier_struct) (simp add: deep_copies deep_copier_ref deep_copier_assign)

lemma deep_AggregatedAttributes [deep_copies]: "deep_copier AggregatedAttributes_type DeepCopyInto_AggregatedAttributes"
  unfolding AggregatedAttributes_type_def DeepCopyInto_AggregatedAttributes_def
  by (rule deep_copier_struct) (simp add: deep_copies deep_copier_ref deep_copier_assign DownsampleOptions_type_def)

lemma deep_Aggregation [deep_copies]: "deep_copier Aggregation_type DeepCopyInto_Aggregation"
  unfolding Aggregation_type_def DeepCopyInto_Aggregation_def
  by (rule deep_copier_struct) (simp add: deep_copies deep_copier_ref deep_copier_assign)

lemma deep_AggregationOptions [deep_copies]: "deep_copier AggregationOptions_type DeepCopyInto_AggregationOptions"
  unfolding AggregationOptions_type_def DeepCopyInto_AggregationOptions_def
  by (rule deep_copier_struct) (simp add: deep_copies deep_copier_ref deep_copier_assign)

lemma deep_ClusterCondition [deep_copies]: "deep_copier ClusterCondition_type DeepCopyInto_ClusterCondition"
  unfolding ClusterCondition_type_def DeepCopyInto_ClusterCondition_def
  by (rule deep_copier_struct) (simp add: deep_copies deep_copier_ref deep_copier_assign)

lemma deep_ExtendedOptions [deep_copies]: "deep_copier ExtendedOptions_type DeepCopyInto_ExtendedOptions"
  unfolding ExtendedOptions_type_def DeepCopyInto_ExtendedOptions_def
  by (rule deep_copier_struct) (simp add: deep_copies deep_copier_ref deep_copier_assign)

lemma deep_ExternalCoordinatorConfig [deep_copies]: "deep_copier ExternalCoordinatorConfig_type DeepCopyInto_ExternalCoordinatorConfig"
  unfolding ExternalCoordinatorConfig_type_def DeepCopyInto_ExternalCoordinatorConfig_def
  by (rule deep_copier_struct) (simp add: deep_copies deep_copier_ref deep_copier_assign)

lemma deep_IndexOptions [deep_copies]: "deep_copier IndexOptions_type DeepCopyInto_IndexOptions"
  unfolding IndexOptions_type_def DeepCopyInto_IndexOptions_def
  by (rule deep_copier_struct) (simp add: deep_copies deep_copier_ref deep_copier_assign)

lemma deep_NodeAffinityTerm [deep_copies]: "deep_copier NodeAffinityTerm_type DeepCopyInto_NodeAffinityTerm"
  unfolding NodeAffinityTerm_type_def DeepCopyInto_NodeAffinityTerm_def
  by (rule deep_copier_struct) (simp add: deep_copies deep_copier_ref deep_copier_assign)

lemma deep_IsolationGroup [deep_copies]: "deep_copier IsolationGroup_type DeepCopyInto_IsolationGroup"
  unfolding IsolationGroup_type_def DeepCopyInto_IsolationGroup_def
  by (rule deep_copier_struct) (simp add: deep_copies deep_copier_ref deep_copier_assign)

lemma deep_RetentionOptions [deep_copies]: "deep_copier RetentionOptions_type DeepCopyInto_RetentionOptions"
  unfolding RetentionOptions_type_def DeepCopyInto_RetentionOptions_def
  by (rule deep_copier_struct) (simp add: deep_copies deep_copier_ref deep_copier_assign)

lemma deep_NamespaceOptions [deep_copies]: "deep_copier NamespaceOptions_type DeepCopyInto_NamespaceOptions"
  unfolding NamespaceOptions_type_def DeepCopyInto_NamespaceOptions_def
  by (rule deep_copier_struct) (simp add: deep_copies deep_copier_ref deep_copier_assign RetentionOptions_type_def IndexOptions_type_def)

lemma deep_Namespace [deep_copies]: "deep_copier Namespace_type DeepCopyInto_Namespace"
  unfolding Namespace_type_def DeepCopyInto_Namespace_def
  by (rule deep_copier_struct) (simp add: deep_copies deep_copier_ref deep_copier_assign)

lemma deep_PodIdentity [deep_copies]: "deep_copier PodIdentity_type DeepCopyInto_PodIdentity"
  unfolding PodIdentity_type_def DeepCopyInto_PodIdentity_def
  by (rule deep_copier_struct) (simp add: deep_copies deep_copier_ref deep_copier_assign)

lemma deep_PodIdentityConfig [deep_copies]: "deep_copier PodIdentityConfig_type DeepCopyInto_PodIdentityConfig"
  unfolding PodIdentityConfig_type_def DeepCopyInto_PodIdentityConfig_def
  by (rule deep_copier_struct) (simp add: deep_copies deep_copier_ref deep_copier_assign)

lemma deep_ClusterSpec [deep_copies]: "external_copiers lay ext \<Longrightarrow> deep_copier (ClusterSpec_type lay) (DeepCopyInto_ClusterSpec ext)"
  unfolding ClusterSpec_type_def DeepCopyInto_ClusterSpec_def
  by (rule deep_copier_struct) (simp add: deep_copies deep_copier_ref deep_copier_assign external_copiers_def LocalObjectReference_type_def)

lemma deep_M3DBStatus [deep_copies]: "deep_copier M3DBStatus_type DeepCopyInto_M3DBStatus"
  unfolding M3DBStatus_type_def DeepCopyInto_M3DBStatus_def
  by (rule deep_copier_struct) (simp add: deep_copies deep_copier_ref deep_copier_assign ClusterCondition_type_def)

lemma deep_M3DBCluster [deep_copies]: "external_copiers lay ext \<Longrightarrow> deep_copier (M3DBCluster_type lay) (DeepCopyInto_M3DBCluster ext)"
  unfolding M3DBCluster_type_def DeepCopyInto_M3DBCluster_def
  by (rule deep_copier_struct) (simp add: deep_copies deep_copier_ref deep_copier_assign external_copiers_def TypeMeta_type_def)

lemma deep_M3DBClusterList [deep_copies]: "external_copiers lay ext \<Longrightarrow> deep_copier (M3DBClusterList_type lay) (DeepCopyInto_M3DBClusterList ext)"
  unfolding M3DBClusterList_type_def DeepCopyInto_M3DBClusterList_def
  by (rule deep_copier_struct) (simp add: deep_copies deep_copier_ref deep_copier_assign external_copiers_def TypeMeta_type_def)

lemma deep_IsolationGroups: "deep_copier IsolationGroups_type DeepCopy_IsolationGroups"
proof -
  have "DeepCopy_IsolationGroups = copy_ref DeepCopyInto_IsolationGroup"
    by (auto simp: fun_eq_iff DeepCopy_IsolationGroups_def DeepCopyInto_IsolationGroups_def copy_ref_def split: gval.splits)
  then show ?thesis using deep_copier_ref [OF deep_IsolationGroup] by (simp add: IsolationGroups_type_def)
qed

text \<open>
  The structs of the API with the two functions of each, on the struct and on a pointer to it, and the
  other generated functions. \<open>DeepCopyInto\<close> of the named slice type is the only one that does not keep
  the contents and stands apart below.
\<close>

definition generated_structs :: "layouts \<Rightarrow> copiers \<Rightarrow> (gotype \<times> copier \<times> copier) list" where
  "generated_structs lay ext = [
     (AggregatedAttributes_type, DeepCopyInto_AggregatedAttributes, DeepCopy_AggregatedAttributes),
     (Aggregation_type, DeepCopyInto_Aggregation, DeepCopy_Aggregation),
     (AggregationOptions_type, DeepCopyInto_AggregationOptions, DeepCopy_AggregationOptions),
     (ClusterCondition_type, DeepCopyInto_ClusterCondition, DeepCopy_ClusterCondition),
     (ClusterSpec_type lay, DeepCopyInto_ClusterSpec ext, DeepCopy_ClusterSpec ext),
     (DownsampleOptions_type, DeepCopyInto_DownsampleOptions, DeepCopy_DownsampleOptions),
     (ExtendedOptions_type, DeepCopyInto_ExtendedOptions, DeepCopy_ExtendedOptions),
     (ExternalCoordinatorConfig_type, DeepCopyInto_ExternalCoordinatorConfig, DeepCopy_ExternalCoordinatorConfig),
     (IndexOptions_type, DeepCopyInto_IndexOptions, DeepCopy_IndexOptions),
     (IsolationGroup_type, DeepCopyInto_IsolationGroup, DeepCopy_IsolationGroup),
     (M3DBCluster_type lay, DeepCopyInto_M3DBCluster ext, DeepCopy_M3DBCluster ext),
     (M3DBClusterList_type lay, DeepCopyInto_M3DBClusterList ext, DeepCopy_M3DBClusterList ext),
     (M3DBStatus_type, DeepCopyInto_M3DBStatus, DeepCopy_M3DBStatus),
     (Namespace_type, DeepCopyInto_Namespace, DeepCopy_Namespace),
     (NamespaceOptions_type, DeepCopyInto_NamespaceOptions, DeepCopy_NamespaceOptions),
     (NodeAffinityTerm_type, DeepCopyInto_NodeAffinityTerm, DeepCopy_NodeAffinityTerm),
     (PodIdentity_type, DeepCopyInto_PodIdentity, DeepCopy_PodIdentity),
     (PodIdentityConfig_type, DeepCopyInto_PodIdentityConfig, DeepCopy_PodIdentityConfig),
     (RetentionOptions_type, DeepCopyInto_RetentionOptions, DeepCopy_RetentionOptions)]"

definition generated_copies :: "layouts \<Rightarrow> copiers \<Rightarrow> (gotype \<times> copier) list" where
  "generated_copies lay ext =
     concat (map (\<lambda>(t, into, copy). [(t, into), (TRef Pointer t, copy)]) (generated_structs lay ext))
     @ [(IsolationGroups_type, DeepCopy_IsolationGroups),
        (TRef Pointer (M3DBCluster_type lay), DeepCopyObject_M3DBCluster ext),
        (TRef Pointer (M3DBClusterList_type lay), DeepCopyObject_M3DBClusterList ext)]"

lemma generated_structs_deep:
  assumes "external_copiers lay ext" "(t, into, copy) \<in> set (generated_structs lay ext)"
  shows "deep_copier t into" "copy = copy_ref into"
proof -
  show "deep_copier t into"
    using assms by (auto simp: generated_structs_def deep_copies)
  show "copy = copy_ref into"
    using assms(2) unfolding generated_structs_def
    by (auto simp: DeepCopy_AggregatedAttributes_def DeepCopy_Aggregation_def DeepCopy_AggregationOptions_def DeepCopy_ClusterCondition_def DeepCopy_ClusterSpec_def DeepCopy_DownsampleOptions_def DeepCopy_ExtendedOptions_def DeepCopy_ExternalCoordinatorConfig_def DeepCopy_IndexOptions_def DeepCopy_IsolationGroup_def DeepCopy_M3DBCluster_def DeepCopy_M3DBClusterList_def DeepCopy_M3DBStatus_def DeepCopy_Namespace_def DeepCopy_NamespaceOptions_def DeepCopy_NodeAffinityTerm_def DeepCopy_PodIdentity_def DeepCopy_PodIdentityConfig_def DeepCopy_RetentionOptions_def)
qed

lemma generated_copies_deep:
  assumes "external_copiers lay ext" "(t, f) \<in> set (generated_copies lay ext)"
  shows "deep_copier t f"
proof -
  have object: "DeepCopyObject_M3DBCluster ext = copy_ref (DeepCopyInto_M3DBCluster ext)"
    "DeepCopyObject_M3DBClusterList ext = copy_ref (DeepCopyInto_M3DBClusterList ext)"
    by (auto simp: fun_eq_iff DeepCopyObject_M3DBCluster_def DeepCopyObject_M3DBClusterList_def DeepCopy_M3DBCluster_def
        DeepCopy_M3DBClusterList_def split: gval.splits prod.splits)
  from assms(2) consider (struct) t' into copy where "(t', into, copy) \<in> set (generated_structs lay ext)"
      "(t, f) = (t', into) \<or> (t, f) = (TRef Pointer t', copy)"
    | (other) "(t, f) = (IsolationGroups_type, DeepCopy_IsolationGroups)"
    | (cluster) "(t, f) = (TRef Pointer (M3DBCluster_type lay), DeepCopyObject_M3DBCluster ext)"
    | (clusters) "(t, f) = (TRef Pointer (M3DBClusterList_type lay), DeepCopyObject_M3DBClusterList ext)"
    by (auto simp: generated_copies_def)
  then show ?thesis
  proof cases
    case struct
    note both = generated_structs_deep [OF assms(1) struct(1)]
    from struct(2) deep_copier_ref [OF both(1), of Pointer] both show ?thesis by auto
  qed (use assms(1) object in \<open>auto simp: deep_IsolationGroups deep_copies deep_copier_ref\<close>)
qed

lemma DeepCopyInto_IsolationGroups_fresh:
  assumes "heap_ok h" "view (h_cells h) IsolationGroups_type v = Some tr" "DeepCopyInto_IsolationGroups v h = (v', h')"
  shows "grows h h' \<and> view (since h h') IsolationGroups_type v' = Some (if tr = Absent then Boxed [] else tr)"
proof (cases v)
  case Nil_Ref
  then obtain b where new: "new_cell h = (b, h')" "v' = Ref b"
    using assms(3) by (auto simp: DeepCopyInto_IsolationGroups_def split: prod.splits)
  note cell = new_cell_grows [OF assms(1) new(1)]
  have "since h h' b = Some []" using new(1) by (auto simp: since_def new_cell_def)
  moreover have "tr = Absent" using assms(2) Nil_Ref by (simp add: IsolationGroups_type_def)
  ultimately show ?thesis using cell(3) new(2) by (simp add: IsolationGroups_type_def)
next
  case (Ref a)
  then have "tr \<noteq> Absent" using assms(2) by (auto simp: IsolationGroups_type_def split: option.splits if_splits)
  moreover have "DeepCopy_IsolationGroups v h = (v', h')" using Ref assms(3) by (simp add: DeepCopy_IsolationGroups_def)
  ultimately show ?thesis using deep_copierD [OF deep_IsolationGroups assms(1,2)] by simp
qed (use assms(2) in \<open>simp_all add: IsolationGroups_type_def\<close>)

section \<open>Properties\<close>

text \<open>
  C28: every generated copy function makes a deep copy that keeps the type: if the functions of the
  Kubernetes types do what they promise, then on any value of its type it returns one with the same
  contents (the same tree of strings, entries and fields) that is readable from the cells allocated
  since alone, so that it shares none with its argument, and every cell that was there before is
  unchanged. The only exception is \<open>DeepCopyInto\<close> of the named slice type of the isolation groups, which
  turns a nil slice into an empty one and is otherwise such a copy too.
\<close>

theorem generated_copies_keep_types:
  assumes "external_copiers lay ext" "heap_ok h"
  shows "(\<forall>(t, f) \<in> set (generated_copies lay ext). \<forall>v tr v' h'.
        view (h_cells h) t v = Some tr \<longrightarrow> f v h = (v', h') \<longrightarrow>
        grows h h' \<and> view (since h h') t v' = Some tr \<and> view (h_cells h') t v = Some tr)
    \<and> (\<forall>v tr v' h'. view (h_cells h) IsolationGroups_type v = Some tr \<longrightarrow> DeepCopyInto_IsolationGroups v h = (v', h') \<longrightarrow>
        grows h h' \<and> view (since h h') IsolationGroups_type v' = Some (if tr = Absent then Boxed [] else tr)
        \<and> view (h_cells h') IsolationGroups_type v = Some tr)"
proof (intro conjI ballI, goal_cases)
  case (1 p)
  obtain t f where p: "p = (t, f)" by force
  with 1 have "deep_copier t f" using generated_copies_deep [OF assms(1)] by simp
  from deep_copierD [OF this assms(2)] view_later [OF assms(2)] show ?case unfolding p by blast
next
  case 2
  show ?case using DeepCopyInto_IsolationGroups_fresh [OF assms(2)] view_later [OF assms(2)] by blast
qed

text \<open>
  C17: a pass cannot corrupt the informer cache through its copy of the cluster. Whatever it writes
  through the pointer \<open>DeepCopy\<close> returned, it reaches only cells that were allocated since, so the
  cached cluster reads the same in every later store that agrees on the cells that were there
  before; and an update of the cache does not show in the copy.
\<close>

theorem DeepCopy_isolates_cache:
  assumes "external_copiers lay ext" "heap_ok h"
    and "view (h_cells h) (TRef Pointer (M3DBCluster_type lay)) cluster = Some tr"
    and "DeepCopy_M3DBCluster ext cluster h = (copied, h')"
  shows "(\<forall>m. (\<forall>a < h_next h. m a = h_cells h' a) \<longrightarrow> view m (TRef Pointer (M3DBCluster_type lay)) cluster = Some tr)
    \<and> (\<forall>m. (\<forall>a \<ge> h_next h. m a = h_cells h' a) \<longrightarrow> view m (TRef Pointer (M3DBCluster_type lay)) copied = Some tr)
    \<and> (cluster \<noteq> Nil_Ref \<longrightarrow> copied \<noteq> cluster)"
proof -
  have deep: "deep_copier (TRef Pointer (M3DBCluster_type lay)) (DeepCopy_M3DBCluster ext)"
    by (simp add: DeepCopy_M3DBCluster_def deep_copier_ref deep_M3DBCluster assms(1))
  have "copied = Ref (h_next h)" if "cluster \<noteq> Nil_Ref"
    using assms(3,4) that by (auto simp: DeepCopy_M3DBCluster_def copy_ref_def new_cell_def split: gval.splits option.splits prod.splits)
  moreover have "h_cells h (h_next h) = None" using assms(2) by (meson domIff heap_ok_def lessThan_iff less_irrefl subsetD)
  then have "cluster \<noteq> Ref (h_next h)" using assms(3) by auto
  ultimately show ?thesis using copy_isolates [OF deep assms(2-4)] by metis
qed

section \<open>An example\<close>

text \<open>The zero value of a type, and a cluster with labels.\<close>

fun zero_of :: "gotype \<Rightarrow> gval" and zero_fields :: "(string \<times> gotype) list \<Rightarrow> (string \<times> gval) list" where
  "zero_of TScalar = Scalar []"
| "zero_of (TRef sh t) = Nil_Ref"
| "zero_of (TStruct ts) = Struct (zero_fields ts)"
| "zero_fields [] = []"
| "zero_fields ((n, t) # ts) = (n, zero_of t) # zero_fields ts"

definition set_field :: "string \<Rightarrow> gval \<Rightarrow> gval \<Rightarrow> gval" where
  "set_field n x v = (case v of Struct fs \<Rightarrow> Struct (AList.update n x fs) | _ \<Rightarrow> v)"

definition example_layouts :: layouts where
  "example_layouts n = TStruct [(''Name'', TScalar), (''Labels'', TRef Map TScalar)]"

definition example_copiers :: copiers where
  "example_copiers n = copy_of (example_layouts n)"

lemma example_external: "external_copiers example_layouts example_copiers"
  by (simp add: external_copiers_def example_copiers_def example_layouts_def deep_copier_copy_of(1) del: copy_of.simps)

definition example_heap :: heap where
  "example_heap = \<lparr>h_next = 2, h_cells = [
     0 \<mapsto> [([], set_field ''Spec'' (set_field ''Labels'' (Ref 1) (zero_of (ClusterSpec_type example_layouts)))
             (zero_of (M3DBCluster_type example_layouts)))],
     1 \<mapsto> [(''team'', Scalar ''storage'')]]\<rparr>"

lemma example_heap_ok: "heap_ok example_heap"
  by (auto simp: heap_ok_def example_heap_def)

lemma example_typed:
  "view (h_cells example_heap) (TRef Pointer (M3DBCluster_type example_layouts)) (Ref 0) \<noteq> None"
  by code_simp

theorem DeepCopy_isolates_cache_witness:
  "\<exists>tr h'. view (h_cells example_heap) (TRef Pointer (M3DBCluster_type example_layouts)) (Ref 0) = Some tr
     \<and> DeepCopy_M3DBCluster example_copiers (Ref 0) example_heap = (Ref 2, h')
     \<and> view ((h_cells h')(2 \<mapsto> [], 3 \<mapsto> [])) (TRef Pointer (M3DBCluster_type example_layouts)) (Ref 0) = Some tr"
proof -
  obtain tr where tr: "view (h_cells example_heap) (TRef Pointer (M3DBCluster_type example_layouts)) (Ref 0) = Some tr"
    using example_typed by (metis not_None_eq)
  obtain c h' where run: "DeepCopy_M3DBCluster example_copiers (Ref 0) example_heap = (c, h')" by force
  have "c = Ref 2"
    using run by (auto simp: DeepCopy_M3DBCluster_def copy_ref_def new_cell_def example_heap_def split: prod.splits)
  moreover have "\<forall>a < h_next example_heap. ((h_cells h')(2 \<mapsto> [], 3 \<mapsto> [])) a = h_cells h' a"
    by (simp add: example_heap_def)
  ultimately show ?thesis
    using DeepCopy_isolates_cache [OF example_external example_heap_ok tr run] tr run by blast
qed

theorem generated_copies_keep_types_witness:
  "\<exists>v' h' w h''. DeepCopyInto_NodeAffinityTerm (Struct [(''Key'', Scalar ''zone''), (''Values'', Ref 1)])
       \<lparr>h_next = 2, h_cells = [1 \<mapsto> [([], Scalar ''a'')]]\<rparr> = (v', h')
     \<and> view (since \<lparr>h_next = 2, h_cells = [1 \<mapsto> [([], Scalar ''a'')]]\<rparr> h') NodeAffinityTerm_type v'
       = Some (Fields [(''Key'', Leaf ''zone''), (''Values'', Boxed [([], Leaf ''a'')])])
     \<and> DeepCopyInto_IsolationGroups Nil_Ref \<lparr>h_next = 2, h_cells = [1 \<mapsto> [([], Scalar ''a'')]]\<rparr> = (w, h'')
     \<and> view (h_cells h'') IsolationGroups_type w = Some (Boxed [])"
proof -
  let ?v = "Struct [(''Key'', Scalar ''zone''), (''Values'', Ref 1)]"
  let ?h = "\<lparr>h_next = 2, h_cells = [1 \<mapsto> [([], Scalar ''a'')]]\<rparr>"
  obtain v' h' where run: "DeepCopyInto_NodeAffinityTerm ?v ?h = (v', h')" by force
  obtain w h'' where into: "DeepCopyInto_IsolationGroups Nil_Ref ?h = (w, h'')" by force
  have typed: "view (h_cells ?h) NodeAffinityTerm_type ?v
      = Some (Fields [(''Key'', Leaf ''zone''), (''Values'', Boxed [([], Leaf ''a'')])])"
    and none: "view (h_cells ?h) IsolationGroups_type Nil_Ref = Some Absent"
    by (simp_all add: NodeAffinityTerm_type_def IsolationGroups_type_def)
  have gen: "(NodeAffinityTerm_type, DeepCopyInto_NodeAffinityTerm) \<in> set (generated_copies example_layouts example_copiers)"
    by (simp add: generated_copies_def generated_structs_def)
  have ok: "heap_ok ?h" by (auto simp: heap_ok_def split: if_splits)
  note copies = generated_copies_keep_types [OF example_external ok]
  from bspec [OF conjunct1 [OF copies] gen] typed run
  have "view (since ?h h') NodeAffinityTerm_type v' = Some (Fields [(''Key'', Leaf ''zone''), (''Values'', Boxed [([], Leaf ''a'')])])"
    by blast
  moreover from conjunct2 [OF copies] none into have "view (since ?h h'') IsolationGroups_type w = Some (Boxed [])" by force
  from view_mono [OF since_cells this] have "view (h_cells h'') IsolationGroups_type w = Some (Boxed [])" .
  ultimately show ?thesis using run into by blast
qed

end
