(* ===== verification/Quiescence.thy ===== *)
theory Quiescence
  imports Creation_Liveness Namespaces_Converge Placement_Props Settled_Objects
begin

text \<open>
  The fixed point of the control loop: a pass over a cluster that is as its spec says reads a few
  objects and does nothing else. The theory has a small calculus of runs that only observe the world.
\<close>

section \<open>Runs that only observe\<close>

fun is_read :: "call \<Rightarrow> bool" where
  "is_read (Cm_Get ns n) \<longleftrightarrow> True"
| "is_read (Svc_Get ns n) \<longleftrightarrow> True"
| "is_read (Http req) \<longleftrightarrow> hr_method req = ''GET''"
| "is_read _ \<longleftrightarrow> False"

text \<open>From every state in \<open>I\<close> the run returns \<open>x\<close>, stays in \<open>I\<close> and sends nothing but reads.\<close>

definition observes :: "('w st \<Rightarrow> bool) \<Rightarrow> ('w st, 'a) io \<Rightarrow> 'a \<Rightarrow> bool" where
  "observes I m x \<longleftrightarrow> (\<forall>s. I s \<longrightarrow> (\<exists>s'. m s = (Inr x, s') \<and> I s' \<and> only is_read s s'))"

lemma observesD: "observes I m x \<Longrightarrow> I s \<Longrightarrow> \<exists>s'. m s = (Inr x, s') \<and> I s' \<and> only is_read s s'"
  by (simp add: observes_def)

lemma observes_ok: "observes I (ok x) x"
  by (auto simp: observes_def only_def)

lemma observes_lift_res: "r = Inr x \<Longrightarrow> observes I (lift_res r) x"
  by (auto simp: observes_def only_def)

lemma observes_bindE:
  assumes "observes I m x" and "observes I (f x) y"
  shows "observes I (bindE m f) y"
  unfolding observes_def
proof (intro allI impI)
  fix s
  assume "I s"
  from observesD [OF assms(1) this] obtain s1 where s1: "m s = (Inr x, s1)" "I s1" "only is_read s s1" by blast
  from observesD [OF assms(2) s1(2)] obtain s2 where s2: "f x s1 = (Inr y, s2)" "I s2" "only is_read s1 s2" by blast
  have "bindE m f s = (Inr y, s2)" using s1(1) s2(1) by simp
  then show "\<exists>s'. bindE m f s = (Inr y, s') \<and> I s' \<and> only is_read s s'"
    using s2(2) only.R_trans [OF s1(3) s2(3)] by blast
qed

lemma observes_catchE:
  assumes "observes I m x" and "observes I (h (Inr x)) y"
  shows "observes I (catchE m h) y"
  unfolding observes_def
proof (intro allI impI)
  fix s
  assume "I s"
  from observesD [OF assms(1) this] obtain s1 where s1: "m s = (Inr x, s1)" "I s1" "only is_read s s1" by blast
  from observesD [OF assms(2) s1(2)] obtain s2 where s2: "h (Inr x) s1 = (Inr y, s2)" "I s2" "only is_read s1 s2" by blast
  have "catchE m h s = (Inr y, s2)" using s1(1) s2(1) by (simp add: catchE_run)
  then show "\<exists>s'. catchE m h s = (Inr y, s') \<and> I s' \<and> only is_read s s'"
    using s2(2) only.R_trans [OF s1(3) s2(3)] by blast
qed

lemma observes_for_each: "(\<And>x. x \<in> set xs \<Longrightarrow> observes I (f x) ()) \<Longrightarrow> observes I (for_each f xs) ()"
  by (induction xs) (auto simp del: ok_run intro: observes_ok observes_bindE)

lemma observes_for_until: "(\<And>x. x \<in> set xs \<Longrightarrow> observes I (f x) False) \<Longrightarrow> observes I (for_until f xs) False"
  by (induction xs) (auto simp del: ok_run intro!: observes_ok observes_bindE)

text \<open>What is read: a GET of a URL, the ConfigMap.\<close>

definition answers :: "'w env \<Rightarrow> 'w \<Rightarrow> string \<Rightarrow> string \<Rightarrow> bool" where
  "answers env w url b \<longleftrightarrow> NewRequest (e_lib env) ''GET'' url = None
     \<and> (\<forall>hs. api_http env \<lparr>hr_method = ''GET'', hr_url = url, hr_headers = hs, hr_body = None\<rparr> w
          = (Inr \<lparr>rs_code = 200, rs_body = b\<rparr>, w))"

definition configmap_settled :: "'w env \<Rightarrow> 'w \<Rightarrow> m3db_cluster \<Rightarrow> bool" where
  "configmap_settled env w c \<longleftrightarrow> (case cs_ConfigMapName (cl_spec c) of
      Some n \<Rightarrow> n \<noteq> []
    | None \<Rightarrow> (\<exists>want cm. GenerateDefaultConfigMap (render_config (e_lib env)) c = Inr want
        \<and> api_cm_get env (cl_namespace c) (om_name (cm_meta want)) w = (Inr cm, w) \<and> map_eq (cm_data cm) (cm_data want)))"

text \<open>A set of states in one world, closed under more log.\<close>

locale observation =
  fixes I :: "'w st \<Rightarrow> bool" and w :: 'w
  assumes world: "I s \<Longrightarrow> st_world s = w"
    and logged: "I s \<Longrightarrow> I (s\<lparr>st_calls := cs\<rparr>)"
begin

lemma observes_read: "m w = (Inr x, w) \<Longrightarrow> observes I (read_cache m) x"
proof -
  assume m: "m w = (Inr x, w)"
  have same: "s\<lparr>st_world := w\<rparr> = s" if "I s" for s using world [OF that] by (cases s) simp
  show ?thesis by (auto simp: observes_def read_cache_def only_def world m same)
qed

lemma observes_request: "m w = (Inr x, w) \<Longrightarrow> is_read c \<Longrightarrow> observes I (request c m) x"
proof -
  assume m: "m w = (Inr x, w)" "is_read c"
  have same: "s\<lparr>st_world := w, st_calls := cs\<rparr> = s\<lparr>st_calls := cs\<rparr>" if "I s" for s cs using world [OF that] by (cases s) simp
  show ?thesis by (auto simp: observes_def request_def only_def world logged m same)
qed

lemma observes_GET:
  assumes "answers env w url b" and "dec b = Inr x"
  shows "observes I (DoHTTPJSONPBRequest env cl ''GET'' url None dec opts) x"
proof -
  let ?req = "\<lparr>hr_method = ''GET'', hr_url = url, hr_headers = all_headers cl opts, hr_body = None\<rparr>"
  let ?resp = "\<lparr>rs_code = 200, rs_body = b\<rparr>"
  have "observes I (request (Http ?req) (api_http env ?req)) ?resp"
    using assms(1) by (intro observes_request) (simp_all add: answers_def)
  then have "observes I (DoHTTPRequest env cl ''GET'' url None opts) ?resp"
    using assms(1) unfolding DoHTTPRequest_def Let_def
    by (auto simp: answers_def check_status_def intro!: observes_bindE observes_lift_res)
  then show ?thesis unfolding DoHTTPJSONPBRequest_def
    using assms(2) by (auto simp del: ok_run simp: bindE_ok intro!: observes_bindE observes_lift_res)
qed

lemma observes_ensureConfigMap:
  assumes "configmap_settled env w c"
  shows "observes I (ensureConfigMap env c) ()"
proof (cases "cs_ConfigMapName (cl_spec c)")
  case (Some n)
  with assms show ?thesis by (simp add: configmap_settled_def ensureConfigMap_def observes_ok del: ok_run)
next
  case None
  with assms obtain want cm where "GenerateDefaultConfigMap (render_config (e_lib env)) c = Inr want"
    "api_cm_get env (cl_namespace c) (om_name (cm_meta want)) w = (Inr cm, w)" "map_eq (cm_data cm) (cm_data want)"
    by (auto simp: configmap_settled_def)
  with None show ?thesis unfolding ensureConfigMap_def
    by (auto simp del: ok_run simp: Let_def intro!: observes_bindE [OF observes_lift_res] observes_catchE [OF observes_request]
        observes_ok)
qed

lemma observes_ensureServices:
  assumes "\<And>n. \<exists>svc. api_svc_get env (cl_namespace c) n w = (Inr svc, w)" and "cl_name c \<noteq> []"
  shows "observes I (ensureServices env c) ()"
proof -
  have step: "observes I (ensure_service_step env c svc) ()" for svc
  proof -
    obtain x where "api_svc_get env (cl_namespace c) (om_name (svc_meta svc)) w = (Inr x, w)" using assms(1) by blast
    then have "observes I (GetService env c (om_name (svc_meta svc))) x"
      unfolding GetService_def by (intro observes_request) simp_all
    then show ?thesis unfolding ensure_service_step_def EnsureService_def
      by (auto simp del: ok_run intro!: observes_catchE observes_ok)
  qed
  obtain svc1 svc2 where "GenerateCoordinatorService c = Inr svc1" "GenerateM3DBService c = Inr svc2"
    using assms(2) by (simp add: GenerateCoordinatorService_def GenerateM3DBService_def Let_def)
  moreover have "observes I (for_each (ensure_service_step env c) [svc1, svc2]) ()" by (intro observes_for_each step)
  ultimately show ?thesis by (simp add: ensureServices_def)
qed

lemma observes_getChildStatefulSets:
  assumes "list_sts env (cl_namespace c) (SelectorFromSet (BaseLabels c)) w = (Inr sets, w)"
    and "list_all (\<lambda>t. IsControlledBy (e_lib env) (sts_meta t) (cl_meta c)) sets"
  shows "observes I (getChildStatefulSets env c) sets"
proof -
  have "filter (\<lambda>t. IsControlledBy (e_lib env) (sts_meta t) (cl_meta c)) sets = sets"
    using assms(2) by (simp add: list_all_iff)
  then show ?thesis unfolding getChildStatefulSets_def
    by (intro observes_bindE [OF observes_read [where x = sets]] assms(1)) (simp add: observes_ok del: ok_run)
qed

end

section \<open>A settled cluster\<close>

text \<open>What there is: the StatefulSets, the registry of namespaces, the pods and the placement.\<close>

record snapshot =
  sn_sets :: "statefulset list"
  sn_registry :: registry
  sn_pods :: "pod list"
  sn_placement :: m3_placement

text \<open>Nothing is to be done for a set: it is rolled out, no update is asked for, and its size is right.\<close>

definition set_settled :: "isolation_group list \<Rightarrow> m3_placement \<Rightarrow> statefulset \<Rightarrow> bool" where
  "set_settled groups pl t \<longleftrightarrow> om_generation (sts_meta t) = st_observedGeneration (sts_status t) \<and> set_ready t
     \<and> ss_updateStrategy (sts_spec t) = RollingUpdate
     \<and> map_of (sts_annotations t) Update = None \<and> map_of (sts_annotations t) ParallelUpdate = None
     \<and> map_of (sts_annotations t) ParallelUpdateInProgress = None
     \<and> (\<exists>zone grp. map_of (om_labels (sts_meta t)) IsolationGroup = Some zone \<and> GetByName groups zone = Some grp
          \<and> ss_replicas (sts_spec t) = Some (ig_NumInstances grp)
          \<and> i32 (int (length (instancesInIsoGroup pl zone))) = ig_NumInstances grp)"

text \<open>
  An active cluster whose spec is valid, one whose placement and namespaces are set up as well, and
  one that needs no change itself.
\<close>

definition spec_active :: "m3db_cluster \<Rightarrow> bool" where
  "spec_active c \<longleftrightarrow> \<not> cs_Frozen (cl_spec c) \<and> \<not> marked_deleted c \<and> cl_name c \<noteq> []
     \<and> validateIsolationGroups c = None
     \<and> (cs_KeepEtcdDataOnDelete (cl_spec c) \<or> stringArrayContains (om_finalizers (cl_meta c)) EtcdDeletionFinalizer)"

definition spec_initialised :: "m3db_cluster \<Rightarrow> bool" where
  "spec_initialised c \<longleftrightarrow> spec_active c \<and> HasInitializedPlacement (cl_status c) \<and> cs_Namespaces (cl_spec c) \<noteq> []"

definition spec_settled :: "m3db_cluster \<Rightarrow> bool" where
  "spec_settled c \<longleftrightarrow> spec_initialised c
     \<and> (\<exists>cond. GetCondition (cl_status c) PodsBootstrapping = Some cond \<and> cc_Status cond = ConditionFalse)"

definition namespaces_settled :: "m3db_cluster \<Rightarrow> registry \<Rightarrow> bool" where
  "namespaces_settled c reg \<longleftrightarrow> fst ` set reg = ns_Name ` set (cs_Namespaces (cl_spec c))
     \<and> list_all (\<lambda>(n, e). ne_StagingState e \<in> {None, Some READY}) reg"

text \<open>Every instance is available, and an instance on the host name of a pod has that pod's identity.\<close>

definition placement_settled :: "lib \<Rightarrow> m3db_cluster \<Rightarrow> pod list \<Rightarrow> m3_placement \<Rightarrow> bool" where
  "placement_settled lb c pods pl \<longleftrightarrow> list_all in_IsAvailable pl \<and> uid_pods c pods
     \<and> (\<exists>ids. sortPods lb (Some pods) = Inr ids)
     \<and> list_all (\<lambda>p. list_all (\<lambda>inst. matches inst p \<longrightarrow> json_identity lb (in_ID inst) = Inr (uid_identity p)) pl) pods"

text \<open>The coordinator shows a registry and a placement at a URL.\<close>

definition registry_at :: "'w env \<Rightarrow> 'w \<Rightarrow> string \<Rightarrow> registry \<Rightarrow> bool" where
  "registry_at env w url reg \<longleftrightarrow>
     (\<exists>b. answers env w (url @ namespaceBaseURL) b \<and> decode_registry (e_lib env) b = Inr (Some reg))"

definition placement_at :: "'w env \<Rightarrow> 'w \<Rightarrow> string \<Rightarrow> m3_placement \<Rightarrow> bool" where
  "placement_at env w url pl \<longleftrightarrow>
     (\<exists>b msg. answers env w (url @ placementBaseURL) b \<and> decode_placement (e_lib env) b = Inr (Some msg)
        \<and> NewPlacementFromProto (e_lib env) msg = Inr pl)"

text \<open>The world shows the snapshot to the lister, the API server and the coordinator at the URLs of the clients.\<close>

definition exhibits :: "'w env \<Rightarrow> 'w \<Rightarrow> m3db_cluster \<Rightarrow> string \<Rightarrow> string \<Rightarrow> snapshot \<Rightarrow> bool" where
  "exhibits env w c nsURL plURL sn \<longleftrightarrow>
     list_sts env (cl_namespace c) (SelectorFromSet (BaseLabels c)) w = (Inr (sn_sets sn), w)
   \<and> list_all (\<lambda>t. IsControlledBy (e_lib env) (sts_meta t) (cl_meta c)) (sn_sets sn)
   \<and> list_pods env (cl_namespace c) (SelectorFromSet (BaseLabels c)) w = (Inr (Some (sn_pods sn)), w)
   \<and> registry_at env w nsURL (sn_registry sn) \<and> placement_at env w plURL (sn_placement sn)"

text \<open>It also has the services and the ConfigMap.\<close>

definition displays :: "'w env \<Rightarrow> 'w \<Rightarrow> m3db_cluster \<Rightarrow> string \<Rightarrow> string \<Rightarrow> snapshot \<Rightarrow> bool" where
  "displays env w c nsURL plURL sn \<longleftrightarrow> exhibits env w c nsURL plURL sn
   \<and> (\<forall>n. \<exists>svc. api_svc_get env (cl_namespace c) n w = (Inr svc, w)) \<and> configmap_settled env w c"

definition settled :: "'w env \<Rightarrow> 'w \<Rightarrow> m3db_cluster \<Rightarrow> string \<Rightarrow> string \<Rightarrow> snapshot \<Rightarrow> bool" where
  "settled env w c nsURL plURL sn \<longleftrightarrow> spec_settled c \<and> displays env w c nsURL plURL sn
     \<and> (\<forall>i < length (cl_groups c). StatefulSetName (cl_name c) i \<in> sts_name ` set (sn_sets sn))
     \<and> list_all (set_settled (sort_groups (tie_groups (e_lib env)) (cl_groups c)) (sn_placement sn)) (sn_sets sn)
     \<and> namespaces_settled c (sn_registry sn) \<and> placement_settled (e_lib env) c (sn_pods sn) (sn_placement sn)"

text \<open>The operator has clients for the cluster.\<close>

definition warm :: "'w env \<Rightarrow> 'w \<Rightarrow> m3db_cluster \<Rightarrow> string \<Rightarrow> admin_client \<Rightarrow> string \<Rightarrow> admin_client \<Rightarrow> 'w st \<Rightarrow> bool" where
  "warm env w c nsURL nsCl plURL plCl s \<longleftrightarrow> st_world s = w
     \<and> map_of (st_nsClients s) (clusterKey c (clusterURLFn env c)) = Some (Client nsURL nsCl)
     \<and> map_of (st_plClients s) (clusterKey c (clusterURLFn env c)) = Some (Client plURL plCl)"

text \<open>States from which the operator finds its clients of the cluster.\<close>

locale client_observation = observation I w for I :: "'w st \<Rightarrow> bool" and w :: 'w +
  fixes env :: "'w env" and c :: m3db_cluster and nsURL :: string and nsCl :: admin_client
    and plURL :: string and plCl :: admin_client
  assumes ns_client: "observes I (namespaceClientForCluster env c) (Client nsURL nsCl)"
    and pl_client: "observes I (placementClientForCluster env c) (Client plURL plCl)"

section \<open>The phases on a settled cluster\<close>

lemma observes_create_phase:
  assumes "\<forall>i < length (cl_groups c). StatefulSetName (cl_name c) i \<in> sts_name ` set sets" "length groups = length (cl_groups c)"
  shows "observes I (create_phase env c groups (sets_by_name sets)) False"
  unfolding create_phase_def
  using assms by (intro observes_for_until) (auto simp: create_set_def sets_by_name_mhas observes_ok simp del: ok_run)

lemma sets_by_name_member:
  "map_of (sets_by_name ts) n = Some t \<Longrightarrow> t \<in> set ts"
proof -
  have "map_of (fold (\<lambda>sts m. AList.update (sts_name sts) sts m) ts m) n = Some t \<Longrightarrow> t \<in> set ts \<or> map_of m n = Some t" for m
    by (induction ts arbitrary: m) (fastforce simp: update_conv split: if_splits)+
  then show "map_of (sets_by_name ts) n = Some t \<Longrightarrow> t \<in> set ts" by (fastforce simp: sets_by_name_def)
qed

lemma observes_update_phase:
  assumes "\<forall>i < length (cl_groups c). StatefulSetName (cl_name c) i \<in> sts_name ` set sets" "length groups = length (cl_groups c)"
    and "list_all (set_settled gs pl) sets"
  shows "observes I (update_phase env c groups (sets_by_name sets)) False"
  unfolding update_phase_def
proof (rule observes_for_until)
  fix i
  assume "i \<in> set [0..<length groups]"
  then have "mhas (sets_by_name sets) (StatefulSetName (cl_name c) i)" using assms(1,2) by (simp add: sets_by_name_mhas)
  then obtain t where t: "map_of (sets_by_name sets) (StatefulSetName (cl_name c) i) = Some t" by (auto simp: mhas_def)
  with assms(3) have "set_settled gs pl t" by (auto simp: list_all_iff dest: sets_by_name_member)
  with t show "observes I (update_set env c groups (sets_by_name sets) i) False"
    by (auto simp: update_set_def set_settled_def updatedStatefulSet_def update_requested_def RollingUpdate_def OnDelete_def
        observes_ok simp del: ok_run)
qed

lemma namespaces_settled_plan:
  assumes "namespaces_settled c reg"
  shows "namespacesToDelete reg (cs_Namespaces (cl_spec c)) = []" "namespacesToCreate reg (cs_Namespaces (cl_spec c)) = []"
    "namespacesToReady lb reg (cs_Namespaces (cl_spec c)) = []"
proof -
  have names: "fst ` set reg = ns_Name ` set (cs_Namespaces (cl_spec c))"
    and staged: "\<And>n e. (n, e) \<in> set reg \<Longrightarrow> ne_StagingState e \<in> {None, Some READY}"
    using assms by (auto simp: namespaces_settled_def list_all_iff)
  show "namespacesToDelete reg (cs_Namespaces (cl_spec c)) = []" unfolding namespacesToDelete_filter
    using names by (auto simp: filter_empty_conv)
  show "namespacesToCreate reg (cs_Namespaces (cl_spec c)) = []" unfolding namespacesToCreate_filter
    using names by (auto simp: filter_empty_conv)
  have "ns_Name ` set (namespacesToReady lb reg (cs_Namespaces (cl_spec c))) = {}"
    using names staged unfolding namespacesToReady_names by fastforce
  then show "namespacesToReady lb reg (cs_Namespaces (cl_spec c)) = []" by simp
qed

lemma observes_replace_phase:
  assumes "placement_settled (e_lib env) c pods pl"
  shows "observes I (replace_phase env c (Some pods) pl) c"
proof -
  obtain ids where ids: "sortPods (e_lib env) (Some pods) = Inr ids" using assms by (auto simp: placement_settled_def)
  let ?insts = "go_sort (tie_insts (e_lib env)) in_ID pl"
  have uid: "uid_pods c pods" using assms by (simp add: placement_settled_def)
  have "pid_pod ` set ids = set pods" using sortPods_mset(1) [OF ids] by (metis list.set_map mset_eq_setD)
  then have sub: "pid_pod ` set ids \<subseteq> set pods" by simp
  have found: "find_replaced (e_lib env) p (uid_identity p) ?insts = Inr None" if "p \<in> set pods" for p
    using assms that by (auto simp: placement_settled_def find_replaced_None list_all_iff)
  have "observes I (check_pods env c ?insts ids) None" using sub
  proof (induction ids)
    case (Cons p ids)
    then have "Identity env (pid_pod p) c = ok (uid_identity (pid_pod p))" by (intro Identity_uid [OF uid]) simp
    with Cons found show ?case by (simp del: ok_run)
  qed (simp add: observes_ok del: ok_run)
  then show ?thesis unfolding replace_phase_def checkPodsForReplacement_def Let_def
    by (intro observes_bindE [where x = None]) (simp_all add: ids observes_ok del: ok_run)
qed

lemma observes_resize_phase:
  assumes "list_all (set_settled groups pl) sets"
  shows "observes I (resize_phase env c groups pl sets) False"
  unfolding resize_phase_def
proof (rule observes_for_until)
  fix t
  assume "t \<in> set sets"
  with assms obtain zone grp where "map_of (om_labels (sts_meta t)) IsolationGroup = Some zone" "GetByName groups zone = Some grp"
    "ss_replicas (sts_spec t) = Some (ig_NumInstances grp)" "i32 (int (length (instancesInIsoGroup pl zone))) = ig_NumInstances grp"
    by (auto simp: list_all_iff set_settled_def)
  moreover from this(2) have "ig_Name grp = zone" by (auto dest: GetByName_Some)
  ultimately show "observes I (resize_child env c groups pl t) False"
    by (simp add: resize_child_def resize_set_def Let_def observes_ok del: ok_run)
qed

lemma observes_cleanupAnnotations:
  "list_all (set_settled groups pl) sets \<Longrightarrow> observes I (cleanupAnnotations env sets) ()"
  unfolding cleanupAnnotations_def
  by (intro observes_for_each) (auto simp: list_all_iff set_settled_def mhas_def observes_ok simp del: ok_run)

context observation
begin

lemma observes_prepare:
  assumes "spec_active c" "\<And>n. \<exists>svc. api_svc_get env (cl_namespace c) n w = (Inr svc, w)" "configmap_settled env w c"
  shows "observes I (prepare_phase env c) c"
proof -
  have cm: "observes I (ensure_configmap_step env c) ()" unfolding ensure_configmap_step_def
    using assms(3) by (intro observes_catchE [OF observes_ensureConfigMap]) (simp_all add: observes_ok del: ok_run)
  have svc: "observes I (ensureServices env c) ()"
    using assms(1,2) by (intro observes_ensureServices) (auto simp: spec_active_def)
  have fin: "observes I (if \<not> cs_KeepEtcdDataOnDelete (cl_spec c) then ensureEtcdFinalizer env c else ok c) c"
    using assms(1) by (auto simp: spec_active_def ensureEtcdFinalizer_def observes_ok simp del: ok_run)
  show ?thesis unfolding prepare_phase_def
    by (rule observes_bindE [OF fin], rule observes_bindE [OF cm], rule observes_bindE [OF svc], rule observes_ok)
qed

lemma observes_List_at: "registry_at env w url reg \<Longrightarrow> observes I (ns_List env (Client url cl)) reg"
  unfolding ns_List_def with_client_def registry_at_def
  by (auto simp del: ok_run intro!: observes_bindE [OF observes_GET] observes_ok)

lemma observes_Get_at: "placement_at env w url pl \<Longrightarrow> observes I (pl_Get env (Client url cl)) pl"
  unfolding pl_Get_def with_client_def placement_at_def
  by (auto simp del: ok_run intro!: observes_bindE [OF observes_GET] observes_ok)

end

context client_observation
begin

lemma observes_reconcileNamespaces:
  assumes "registry_at env w nsURL reg" "namespaces_settled c reg"
  shows "observes I (reconcileNamespaces env c) ()"
proof -
  have "observes I (bindE (pruneNamespaces env c reg) (\<lambda>_.
      bindE (createNamespaces env c reg) (\<lambda>_. readyNamespaces env c reg))) ()"
    by (simp add: pruneNamespaces_def createNamespaces_def readyNamespaces_def namespaces_settled_plan [OF assms(2)]
        observes_ok del: ok_run)
  then show ?thesis unfolding reconcileNamespaces_def
    by (intro observes_bindE [OF ns_client] observes_catchE [OF observes_List_at [OF assms(1)]]) simp
qed

lemma observes_data_phase:
  assumes "spec_initialised c" "registry_at env w nsURL reg" "namespaces_settled c reg"
  shows "observes I (data_phase env c) c"
  using assms(1) observes_reconcileNamespaces [OF assms(2,3)] unfolding data_phase_def
  by (auto simp del: ok_run simp: spec_initialised_def intro!: observes_bindE [OF observes_catchE] observes_ok)

lemma observes_finish_phase:
  assumes "spec_settled c" "placement_at env w plURL pl" "list_all in_IsAvailable pl"
    and "list_all (set_settled groups pl') sets"
  shows "observes I (finish_phase env c sets) ()"
proof -
  have boot: "observes I (reconcileBootstrappingStatus env c pl) c"
    using assms(1) by (auto simp: reconcileBootstrappingStatus_def setStatus_eq spec_settled_def observes_ok simp del: ok_run)
  show ?thesis unfolding finish_phase_def
    by (intro observes_bindE [OF pl_client] observes_catchE [OF observes_Get_at [OF assms(2)]])
      (auto simp del: ok_run intro!: observes_catchE [OF boot] observes_catchE [OF observes_cleanupAnnotations [OF assms(4)]]
        observes_ok)
qed

text \<open>Up to the resize loop, and then the whole pass; what the loop does is left open.\<close>

lemma observes_placement_phase:
  assumes "displays env w c nsURL plURL sn" "placement_settled (e_lib env) c (sn_pods sn) (sn_placement sn)"
    and "observes I (bindE (resize_phase env c gs (sn_placement sn) (sn_sets sn)) (\<lambda>stop.
      if stop then ok () else finish_phase env c (sn_sets sn))) ()"
  shows "observes I (placement_phase env c gs) ()"
proof -
  have shown: "exhibits env w c nsURL plURL sn" using assms(1) by (simp add: displays_def)
  then have got: "observes I (pl_Get env (Client plURL plCl)) (sn_placement sn)"
    by (intro observes_Get_at) (simp add: exhibits_def)
  have avail: "filter (\<lambda>inst. \<not> in_IsAvailable inst) (sn_placement sn) = []"
    using assms(2) by (auto simp: placement_settled_def filter_empty_conv list_all_iff)
  have sets: "observes I (getChildStatefulSets env c) (sn_sets sn)"
    using shown by (intro observes_getChildStatefulSets) (simp_all add: exhibits_def)
  have tail: "observes I (bindE (getChildStatefulSets env c) (\<lambda>childrenSets.
      bindE (replace_phase env c (Some (sn_pods sn)) (sn_placement sn)) (\<lambda>c.
      bindE (resize_phase env c gs (sn_placement sn) childrenSets) (\<lambda>stop.
      if stop then ok () else finish_phase env c childrenSets)))) ()"
    by (rule observes_bindE [OF sets], rule observes_bindE [OF observes_replace_phase [OF assms(2)]], rule assms(3))
  show ?thesis unfolding placement_phase_def Let_def
    by (rule observes_catchE [OF observes_read [where x = "Some (sn_pods sn)"]])
      (use shown in \<open>simp add: exhibits_def\<close>,
       simp only: sum.case, rule observes_bindE [OF pl_client],
       rule observes_catchE [OF got], simp add: avail tail)
qed

lemma observes_up_to_placement:
  assumes "spec_initialised c" "displays env w c nsURL plURL sn" "namespaces_settled c (sn_registry sn)"
    and "\<forall>i < length (cl_groups c). StatefulSetName (cl_name c) i \<in> sts_name ` set (sn_sets sn)"
    and "list_all (set_settled gs pl) (sn_sets sn)" "gs = sort_groups (tie_groups (e_lib env)) (cl_groups c)"
    and "observes I (placement_phase env c gs) ()"
  shows "observes I (handleClusterUpdate env c) ()"
proof -
  have active: "spec_active c" using assms(1) by (simp add: spec_initialised_def)
  have len: "length gs = length (cl_groups c)" using assms(6) by (simp add: sort_groups_def)
  have gen: "check_generations (sn_sets sn) = None" "all_ready (sn_sets sn)"
    using assms(5) by (auto simp: check_generations_None all_ready_iff list_all_iff set_settled_def)
  have data: "observes I (data_phase env c) c"
    using assms(2) by (intro observes_data_phase [OF assms(1) _ assms(3)]) (simp add: displays_def exhibits_def)
  have "observes I (rest_phase env c gs (sn_sets sn)) ()" unfolding rest_phase_def
    by (simp add: gen, rule observes_bindE [OF observes_update_phase [OF assms(4) len assms(5)]], simp,
        rule observes_bindE [OF data], rule assms(7))
  moreover have "observes I (getChildStatefulSets env c) (sn_sets sn)"
    using assms(2) by (intro observes_getChildStatefulSets) (simp_all add: displays_def exhibits_def)
  ultimately have "observes I (sets_phase env c) ()" unfolding sets_phase_def Let_def assms(6) [symmetric]
    by (intro observes_bindE [where x = "sn_sets sn"] observes_bindE [OF observes_create_phase [OF assms(4) len]]) simp_all
  moreover have "observes I (prepare_phase env c) c"
    using assms(2) by (intro observes_prepare [OF active]) (simp_all add: displays_def)
  ultimately show ?thesis unfolding handleClusterUpdate_def
    using active by (auto simp: spec_active_def simp del: ok_run intro!: observes_bindE observes_ok)
qed

lemma observes_pass:
  assumes "settled env w c nsURL plURL sn"
  shows "observes I (handleClusterUpdate env c) ()"
proof -
  let ?gs = "sort_groups (tie_groups (e_lib env)) (cl_groups c)"
  have s: "spec_settled c" "displays env w c nsURL plURL sn" "namespaces_settled c (sn_registry sn)"
    "\<forall>i < length (cl_groups c). StatefulSetName (cl_name c) i \<in> sts_name ` set (sn_sets sn)"
    "list_all (set_settled ?gs (sn_placement sn)) (sn_sets sn)" "placement_settled (e_lib env) c (sn_pods sn) (sn_placement sn)"
    "list_all in_IsAvailable (sn_placement sn)" "placement_at env w plURL (sn_placement sn)"
    using assms by (auto simp: settled_def placement_settled_def displays_def exhibits_def)
  have init: "spec_initialised c" using s(1) by (simp add: spec_settled_def)
  show ?thesis
    by (rule observes_up_to_placement [OF init s(2-5) refl], rule observes_placement_phase [OF s(2,6)],
        rule observes_bindE [OF observes_resize_phase [OF s(5)]]) (simp add: observes_finish_phase [OF s(1,8,7,5)])
qed

end

text \<open>A warm operator finds its clients in the caches.\<close>

interpretation warm: client_observation "warm env w c nsURL nsCl plURL plCl" w env c nsURL nsCl plURL plCl
  for env :: "'w env" and w c nsURL nsCl plURL plCl
proof unfold_locales
  show "observes (warm env w c nsURL nsCl plURL plCl) (namespaceClientForCluster env c) (Client nsURL nsCl)"
    using ns_cache.hit by (fastforce simp: observes_def warm_def only_def)
  show "observes (warm env w c nsURL nsCl plURL plCl) (placementClientForCluster env c) (Client plURL plCl)"
    using pl_cache.hit by (fastforce simp: observes_def warm_def only_def)
qed (simp_all add: warm_def)

lemmas observes_nsClient = warm.ns_client

lemmas observes_plClient = warm.pl_client

lemma observes_ns_List:
  "exhibits env w c nsURL plURL sn \<Longrightarrow>
   observes (warm env w c nsURL nsCl plURL plCl) (ns_List env (Client nsURL nsCl)) (sn_registry sn)"
  by (intro warm.observes_List_at) (simp add: exhibits_def)

lemma observes_pl_Get:
  "exhibits env w c nsURL plURL sn \<Longrightarrow>
   observes (warm env w c nsURL nsCl plURL plCl) (pl_Get env (Client plURL plCl)) (sn_placement sn)"
  by (intro warm.observes_Get_at) (simp add: exhibits_def)

section \<open>Properties\<close>

text \<open>
  C8: the control loop has a fixed point. When every StatefulSet exists, is rolled out and has the
  size of its group, pods, placement and namespaces agree with the spec and the status says so, a
  pass succeeds, leaves the world as it is, keeps its clients, and sends nothing but reads: services,
  the ConfigMap, the registry and the placement. So a settled cluster causes no events that would
  start another pass.
\<close>

theorem settled_cluster_untouched:
  assumes "settled env (st_world s) c nsURL plURL sn" and "warm env (st_world s) c nsURL nsCl plURL plCl s"
  shows "\<exists>s' cs. handleClusterUpdate env c s = (Inr (), s') \<and> st_world s' = st_world s
    \<and> warm env (st_world s) c nsURL nsCl plURL plCl s' \<and> st_calls s' = st_calls s @ cs \<and> list_all is_read cs"
  using observesD [OF warm.observes_pass [OF assms(1)] assms(2)] by (auto simp: only_def warm_def)

subsection \<open>An example\<close>

text \<open>One group of one instance, with one pod and one namespace.\<close>

definition settled_cluster :: m3db_cluster where
  "settled_cluster = (example_cluster [])\<lparr>
     cl_spec := (example_spec [example_group ''a'' 1])\<lparr>cs_ConfigMapName := Some ''cm'', cs_KeepEtcdDataOnDelete := True,
       cs_Namespaces := [\<lparr>ns_Name = ''metrics'', ns_Preset = PresetTenSecondsTwoDaysIndexed, ns_Options = None\<rparr>]\<rparr>,
     cl_status := \<lparr>ms_State = [], ms_Conditions = [
         \<lparr>cc_Type = PlacementInitialized, cc_Status = ConditionTrue, cc_LastUpdateTime = [], cc_LastTransitionTime = [],
           cc_Reason = [], cc_Message = []\<rparr>,
         \<lparr>cc_Type = PodsBootstrapping, cc_Status = ConditionFalse, cc_LastUpdateTime = [], cc_LastTransitionTime = [],
           cc_Reason = [], cc_Message = []\<rparr>], ms_Message = [], ms_ObservedGeneration = 0\<rparr>\<rparr>"

definition settled_snapshot :: snapshot where
  "settled_snapshot = \<lparr>sn_sets = [example_sts ''c-rep0'' 1 1],
     sn_registry = [(''metrics'', \<lparr>ne_StagingState = Some READY, ne_rest = []\<rparr>)], sn_pods = [example_pod ''c-rep0-0''],
     sn_placement = [\<lparr>in_ID = ''x'', in_IsolationGroup = ''a'', in_Hostname = ''c-rep0-0.svc'', in_IsAvailable = True\<rparr>]\<rparr>"

definition settled_lib :: lib where
  "settled_lib = example_lib\<lparr>json_identity := (\<lambda>_. Inr (uid_identity (example_pod ''c-rep0-0''))),
     decode_registry := (\<lambda>_. Inr (Some (sn_registry settled_snapshot))),
     NewPlacementFromProto := (\<lambda>_. Inr (sn_placement settled_snapshot))\<rparr>"

definition settled_env :: "unit env" where
  "settled_env = (offline_env settled_lib)\<lparr>
     list_sts := (\<lambda>_ _ w. (Inr (sn_sets settled_snapshot), w)),
     list_pods := (\<lambda>_ _ w. (Inr (Some (sn_pods settled_snapshot)), w)),
     api_svc_get := (\<lambda>_ _ w. (Inr \<lparr>svc_meta = zero_meta, svc_selector = [], svc_ports = [], svc_clusterIP = [], svc_type = [],
       svc_publishNotReadyAddresses = False\<rparr>, w)),
     api_http := (\<lambda>_ w. (Inr \<lparr>rs_code = 200, rs_body = []\<rparr>, w))\<rparr>"

lemma settled_env_sel:
  "e_lib settled_env = settled_lib" "list_sts settled_env = (\<lambda>_ _ w. (Inr (sn_sets settled_snapshot), w))"
  "list_pods settled_env = (\<lambda>_ _ w. (Inr (Some (sn_pods settled_snapshot)), w))"
  "api_http settled_env = (\<lambda>_ w. (Inr \<lparr>rs_code = 200, rs_body = []\<rparr>, w))"
  "\<exists>svc. api_svc_get settled_env ns n w = (Inr svc, w)"
  by (simp_all add: settled_env_def offline_env_def)

lemma settled_lib_sel:
  "json_identity settled_lib = (\<lambda>_. Inr (uid_identity (example_pod ''c-rep0-0'')))"
  "decode_registry settled_lib = (\<lambda>_. Inr (Some (sn_registry settled_snapshot)))"
  "NewPlacementFromProto settled_lib = (\<lambda>_. Inr (sn_placement settled_snapshot))"
  "decode_placement settled_lib = (\<lambda>b. Inr (Some []))" "NewRequest settled_lib = (\<lambda>m u. None)"
  "IsControlledBy settled_lib = (\<lambda>m c. list_ex (\<lambda>r. or_uid r = om_uid c \<and> or_controller r) (om_owner_refs m))"
  "tie_groups settled_lib = (\<lambda>_. 0)" "tie_pods settled_lib = (\<lambda>_. 0)"
  by (simp_all add: settled_lib_def example_lib_def)

lemma settled_cluster_spec: "spec_settled settled_cluster"
  by (simp add: spec_settled_def spec_initialised_def spec_active_def settled_cluster_def example_cluster_def example_spec_def example_group_def marked_deleted_def
      zero_meta_def validateIsolationGroups_None i32_def HasInitializedPlacement_def hasConditionTrue_def GetCondition_def)

lemma settled_cluster_displays: "displays settled_env () settled_cluster nsURL plURL settled_snapshot"
  by (simp add: displays_def exhibits_def registry_at_def placement_at_def settled_env_sel settled_lib_sel answers_def configmap_settled_def settled_cluster_def
      example_cluster_def example_spec_def settled_snapshot_def example_sts_def zero_meta_def)

lemma settled_cluster_settled: "settled settled_env () settled_cluster nsURL plURL settled_snapshot"
proof -
  have ord: "Atoi ''0'' = Inr 0" "StatefulSetName ''c'' 0 = ''c-rep0''" by code_simp+
  have names: "\<forall>i < length (cl_groups settled_cluster). StatefulSetName (cl_name settled_cluster) i \<in> sts_name ` set (sn_sets settled_snapshot)"
    by (simp add: settled_cluster_def example_cluster_def example_spec_def settled_snapshot_def example_sts_def ord zero_meta_def)
  have "list_all (set_settled (sort_groups (tie_groups settled_lib) (cl_groups settled_cluster)) (sn_placement settled_snapshot))
      (sn_sets settled_snapshot)"
    by (simp add: settled_lib_sel settled_cluster_def example_cluster_def example_spec_def settled_snapshot_def example_sts_def
        set_settled_def zero_meta_def zero_status_def set_ready_def sort_groups_def go_sort_def GetByName_def example_group_def
        instancesInIsoGroup_def i32_def RollingUpdate_def)
  moreover have "namespaces_settled settled_cluster (sn_registry settled_snapshot)"
    by (simp add: namespaces_settled_def settled_cluster_def example_spec_def settled_snapshot_def)
  moreover have "placement_settled settled_lib settled_cluster (sn_pods settled_snapshot) (sn_placement settled_snapshot)"
    by (simp add: placement_settled_def settled_snapshot_def settled_lib_sel uid_pods_def settled_cluster_def example_spec_def
        sortPods_def pod_ordinal_def example_pod_def ord)
  ultimately show ?thesis
    using settled_cluster_spec settled_cluster_displays names by (simp add: settled_def settled_env_sel)
qed

theorem settled_cluster_untouched_witness:
  "\<exists>s s' cs. st_calls s = [] \<and> handleClusterUpdate settled_env settled_cluster s = (Inr (), s')
     \<and> st_calls s' = cs \<and> list_all is_read cs"
proof -
  let ?key = "clusterKey settled_cluster (clusterURLFn settled_env settled_cluster)"
  let ?cl = "\<lparr>ac_environment = [], ac_zone = []\<rparr>"
  let ?s = "(start ())\<lparr>st_nsClients := [(?key, Client ''u'' ?cl)], st_plClients := [(?key, Client ''u'' ?cl)]\<rparr>"
  have "warm settled_env (st_world ?s) settled_cluster ''u'' ?cl ''u'' ?cl ?s" by (simp add: warm_def)
  moreover have "settled settled_env (st_world ?s) settled_cluster ''u'' ''u'' settled_snapshot"
    using settled_cluster_settled by simp
  ultimately obtain s' cs where "handleClusterUpdate settled_env settled_cluster ?s = (Inr (), s')"
    "st_calls s' = st_calls ?s @ cs" "list_all is_read cs"
    using settled_cluster_untouched by blast
  moreover have "st_calls ?s = []" by (simp add: start_def)
  ultimately show ?thesis by fastforce
qed

end
