(* ===== verification/Silent_Runs.thy ===== *)
theory Silent_Runs
  imports Quiescence
begin

text \<open>
  A calculus of runs that succeed without a write: which operations cannot (\<open>loud\<close>), and what a
  silent success tells of the state and the result (\<open>settles\<close>). Events and all requests but reads of
  services, ConfigMaps and the coordinator count as writes.
\<close>

section \<open>Silent runs\<close>

text \<open>A run that only adds to the log; a run that cannot succeed, or cannot end, without a write.\<close>

abbreviation logs :: "('w st, 'a) io \<Rightarrow> bool" where
  "logs m \<equiv> keeps (only (\<lambda>_. True)) m"

definition shouts :: "('w st, 'a) io \<Rightarrow> bool" where
  "shouts m \<longleftrightarrow> emits m (\<lambda>r cs. \<not> list_all is_read cs)"

definition loud :: "('w st, 'a) io \<Rightarrow> bool" where
  "loud m \<longleftrightarrow> emits m (\<lambda>r cs. (\<exists>x. r = Inr x) \<longrightarrow> \<not> list_all is_read cs)"

text \<open>A run from \<open>I\<close> that succeeds with reads only stays in \<open>I\<close> and returns a value with \<open>Q\<close>.\<close>

definition settles :: "('w st \<Rightarrow> bool) \<Rightarrow> ('w st, 'a) io \<Rightarrow> ('a \<Rightarrow> bool) \<Rightarrow> bool" where
  "settles I m Q \<longleftrightarrow> (\<forall>s x s'. I s \<longrightarrow> m s = (Inr x, s') \<longrightarrow> only is_read s s' \<longrightarrow> I s' \<and> Q x)"

lemma settlesD: "settles I m Q \<Longrightarrow> I s \<Longrightarrow> m s = (Inr x, s') \<Longrightarrow> only is_read s s' \<Longrightarrow> I s' \<and> Q x"
  by (simp add: settles_def)

lemma emits_logs: "logs m \<longleftrightarrow> emits m (\<lambda>_ _. True)"
  by (simp add: keeps_def only_def emits_def list_all_iff)

lemma shouts_loud: "shouts m \<Longrightarrow> loud m"
  unfolding shouts_def loud_def by (erule emits_mono) simp

lemma shouts_request: "\<not> is_read c \<Longrightarrow> shouts (request c m)"
  unfolding shouts_def by (rule emits_request) simp

lemma shouts_event: "shouts (NormalEvent env r m a)" "shouts (WarningEvent env r m a)"
  unfolding shouts_def NormalEvent_def WarningEvent_def by (auto intro: emits_event)

lemma shouts_bindE: "shouts m \<Longrightarrow> (\<And>x. logs (f x)) \<Longrightarrow> shouts (bindE m f)"
  unfolding shouts_def emits_logs by (erule emits_bindE [where R = "\<lambda>_ _ _. True"]) simp_all

lemma shouts_catchE: "shouts m \<Longrightarrow> (\<And>r. logs (h r)) \<Longrightarrow> shouts (catchE m h)"
  unfolding shouts_def emits_logs by (erule emits_catchE [where R = "\<lambda>_ _ _. True"]) simp_all

lemma loud_fail: "loud (fail e)"
  unfolding loud_def by (rule emits_fail) simp

lemma loud_first: "loud m \<Longrightarrow> (\<And>x. logs (f x)) \<Longrightarrow> loud (bindE m f)"
  unfolding loud_def emits_logs by (erule emits_bindE [where R = "\<lambda>_ _ _. True"]) simp_all

lemma loud_then: "logs m \<Longrightarrow> (\<And>x. loud (f x)) \<Longrightarrow> loud (bindE m f)"
  unfolding loud_def emits_logs
  by (erule emits_bindE [where R = "\<lambda>_ r cs. (\<exists>x. r = Inr x) \<longrightarrow> \<not> list_all is_read cs"]) auto

lemma loud_catchE: "logs m \<Longrightarrow> (\<And>r. loud (h r)) \<Longrightarrow> loud (catchE m h)"
  unfolding loud_def emits_logs
  by (erule emits_catchE [where R = "\<lambda>_ r cs. (\<exists>x. r = Inr x) \<longrightarrow> \<not> list_all is_read cs"]) auto

lemma loud_write: "\<not> is_read c \<Longrightarrow> (\<And>x. logs (f x)) \<Longrightarrow> loud (bindE (request c m) f)"
  by (intro shouts_loud shouts_bindE shouts_request)

lemma loud_if: "(b \<Longrightarrow> loud m) \<Longrightarrow> (\<not> b \<Longrightarrow> loud n) \<Longrightarrow> loud (if b then m else n)"
  by simp

lemma loud_case_sum:
  "(\<And>e. r = Inl e \<Longrightarrow> loud (f e)) \<Longrightarrow> (\<And>x. r = Inr x \<Longrightarrow> loud (g x)) \<Longrightarrow> loud (case r of Inl e \<Rightarrow> f e | Inr x \<Rightarrow> g x)"
  by (simp split: sum.splits)

lemmas loud_event = shouts_event [THEN shouts_loud]

lemma loud_settles: "loud m \<Longrightarrow> settles I m Q"
proof -
  assume loud: "loud m"
  have False if "m s = (Inr x, s')" "only is_read s s'" for s x s'
  proof -
    from emitsD [OF loud [unfolded loud_def] that(1)] obtain cs where "st_calls s' = st_calls s @ cs" "\<not> list_all is_read cs"
      by blast
    with that(2) show False by (simp add: only_def)
  qed
  then show ?thesis by (auto simp: settles_def)
qed

lemma observes_settles: "observes I m x \<Longrightarrow> settles I m (\<lambda>y. y = x)"
  unfolding settles_def observes_def by fastforce

lemma settles_mono: "settles I m P \<Longrightarrow> (\<And>x. P x \<Longrightarrow> Q x) \<Longrightarrow> settles I m Q"
  unfolding settles_def by blast

lemma settles_ok: "Q x \<Longrightarrow> settles I (ok x) Q"
  by (simp add: settles_def)

lemma settles_fail: "settles I (fail e) Q"
  by (simp add: settles_def)

lemma settles_lift_res: "(\<And>x. r = Inr x \<Longrightarrow> Q x) \<Longrightarrow> settles I (lift_res r) Q"
  by (simp add: settles_def)

lemma settles_if: "(b \<Longrightarrow> settles I m Q) \<Longrightarrow> (\<not> b \<Longrightarrow> settles I n Q) \<Longrightarrow> settles I (if b then m else n) Q"
  by simp

lemma settles_case_sum:
  "(\<And>e. r = Inl e \<Longrightarrow> settles I (f e) Q) \<Longrightarrow> (\<And>x. r = Inr x \<Longrightarrow> settles I (g x) Q) \<Longrightarrow>
   settles I (case r of Inl e \<Rightarrow> f e | Inr x \<Rightarrow> g x) Q"
  by (simp split: sum.splits)

lemma only_parts: "only (\<lambda>_. True) s t \<Longrightarrow> only (\<lambda>_. True) t u \<Longrightarrow> only P s u \<Longrightarrow> only P s t \<and> only P t u"
  by (auto simp: only_def)

lemma settles_bindE:
  assumes "settles I m P" "\<And>x. P x \<Longrightarrow> settles I (f x) Q" "logs m" "\<And>x. logs (f x)"
  shows "settles I (bindE m f) Q"
  unfolding settles_def
proof (intro allI impI)
  fix s y s'
  assume I: "I s" and run: "bindE m f s = (Inr y, s')" and silent: "only is_read s s'"
  obtain x t where x: "m s = (Inr x, t)" "f x t = (Inr y, s')"
    using run by (auto simp: bindE_def split: prod.splits sum.splits)
  have "only is_read s t \<and> only is_read t s'"
    using only_parts keepsD [OF assms(3) x(1)] keepsD [OF assms(4) x(2)] silent by blast
  then show "I s' \<and> Q y" using settlesD [OF assms(1) I x(1)] settlesD [OF assms(2) _ x(2)] by blast
qed

lemma settles_catchE:
  assumes "settles I m P" "\<And>x. P x \<Longrightarrow> settles I (h (Inr x)) Q" "\<And>e. loud (h (Inl e))" "logs m" "\<And>r. logs (h r)"
  shows "settles I (catchE m h) Q"
  unfolding settles_def
proof (intro allI impI)
  fix s y s'
  assume I: "I s" and run: "catchE m h s = (Inr y, s')" and silent: "only is_read s s'"
  obtain r t where r: "m s = (r, t)" "h r t = (Inr y, s')" using run by (auto simp: catchE_def split: prod.splits)
  have parts: "only is_read s t \<and> only is_read t s'"
    using only_parts keepsD [OF assms(4) r(1)] keepsD [OF assms(5) r(2)] silent by blast
  show "I s' \<and> Q y"
  proof (cases r)
    case (Inl e)
    with r(2) settlesD [OF loud_settles [OF assms(3), of "\<lambda>_. True" _ "\<lambda>_. False"]] parts show ?thesis by blast
  next
    case (Inr x)
    with settlesD [OF assms(1) I] settlesD [OF assms(2)] r parts show ?thesis by blast
  qed
qed

lemma settles_for_until:
  assumes "\<And>x. x \<in> set xs \<Longrightarrow> settles I (f x) (\<lambda>stop. if stop then B x else A x)" "\<And>x. logs (f x)"
  shows "settles I (for_until f xs) (\<lambda>stop. if stop then \<exists>x \<in> set xs. B x else \<forall>x \<in> set xs. A x)"
  using assms(1)
proof (induction xs)
  case (Cons x xs)
  have rest: "settles I (for_until f xs) (\<lambda>stop. if stop then \<exists>x \<in> set xs. B x else \<forall>x \<in> set xs. A x)"
    using Cons by simp
  have "settles I (if stop then ok True else for_until f xs)
      (\<lambda>b. if b then \<exists>x \<in> set (x # xs). B x else \<forall>x \<in> set (x # xs). A x)" if "if stop then B x else A x" for stop
    using that by (auto simp del: ok_run split: if_splits intro: settles_ok settles_mono [OF rest])
  then show ?case unfolding for_until.simps
    by (rule settles_bindE [OF Cons.prems [OF list.set_intros(1)]]) (assumption | intro assms(2) only.keeps_intros)+
qed (simp add: settles_ok del: ok_run)

lemma settles_for_all:
  assumes "\<And>x. x \<in> set xs \<Longrightarrow> settles I (f x) (\<lambda>stop. \<not> stop \<and> A x)" "\<And>x. logs (f x)"
  shows "settles I (for_until f xs) (\<lambda>stop. \<not> stop \<and> (\<forall>x \<in> set xs. A x))"
proof -
  have "settles I (for_until f xs) (\<lambda>stop. if stop then \<exists>x \<in> set xs. False else \<forall>x \<in> set xs. A x)"
    by (intro settles_for_until settles_mono [OF assms(1)] assms(2)) auto
  then show ?thesis by (rule settles_mono) (auto split: if_splits)
qed

lemma settles_for_each:
  assumes "\<And>x. x \<in> set xs \<Longrightarrow> settles I (f x) (\<lambda>_. A x)" "\<And>x. logs (f x)"
  shows "settles I (for_each f xs) (\<lambda>_. \<forall>x \<in> set xs. A x)"
  using assms(1)
proof (induction xs)
  case (Cons x xs)
  have rest: "settles I (for_each f xs) (\<lambda>_. \<forall>y \<in> set xs. A y)" using Cons by simp
  have "settles I (for_each f xs) (\<lambda>_. \<forall>y \<in> set (x # xs). A y)" if "A x"
    by (rule settles_mono [OF rest]) (simp add: that)
  then show ?case unfolding for_each.simps
    by (rule settles_bindE [OF Cons.prems [OF list.set_intros(1)]]) (assumption | intro assms(2) only.keeps_intros)+
qed (simp add: settles_ok del: ok_run)

text \<open>Every operation only adds to the log.\<close>

lemma logs_prepare: "logs (ensureConfigMap env c)" "logs (ensureServices env c)" "logs (ensure_configmap_step env c)"
  by (rule keeps_only_mono [OF keeps_only_ensureConfigMap] keeps_only_mono [OF keeps_only_ensureServices]
      keeps_only_mono [OF keeps_only_ensure_configmap_step], simp)+

lemmas logs_intros = only.keeps_intros logs_prepare keeps_only_request keeps_only_read keeps_only_NormalEvent keeps_only_WarningEvent
  keeps_only_now keeps_only_clientForCluster keeps_only_client_ops keeps_only_Identity keeps_only_PlacementInstanceFromPod
  keeps_only_setStatus keeps_only_setStatusPodsBootstrapping keeps_only_setStatusPlacementCreated keeps_only_crd_UpdateStatus
  keeps_only_updateFinalizers keeps_only_ensureEtcdFinalizer keeps_only_reconcileBootstrappingStatus
  keeps_only_getChildStatefulSets keeps_only_patchStatefulSet keeps_only_cleanupAnnotations keeps_only_applyStatefulSetUpdate
  keeps_only_podsToUpdate keeps_only_updateStatefulSetPods keeps_only_pod_instance_id keeps_only_addPodsToPlacement
  keeps_only_checkPodsForReplacement keeps_only_replacePodInPlacement keeps_only_expandPlacementForSet
  keeps_only_findPodsAndInstancesToRemove keeps_only_shrinkPlacementForSet keeps_only_validatePlacementWithStatus
  keeps_only_pruneNamespaces keeps_only_createNamespaces keeps_only_readyNamespaces keeps_only_reconcileNamespaces
  keeps_only_data_phase keeps_only_replace_phase keeps_only_resize_phase keeps_only_finish_phase keeps_only_placement_phase
  keeps_only_update_phase TrueI

section \<open>Writes that cannot be silent\<close>

lemma loud_http: "action \<noteq> ''GET'' \<Longrightarrow> loud (DoHTTPJSONPBRequest env cl action url req dec opts)"
proof -
  assume action: "action \<noteq> ''GET''"
  have "loud (DoHTTPRequest env cl action url data opts)" for data
  proof (cases "NewRequest (e_lib env) action url")
    case None
    have "shouts (request (Http \<lparr>hr_method = action, hr_url = url, hr_headers = hs, hr_body = data\<rparr>) m)" for hs and m :: "('a, 'c) io"
      using action by (intro shouts_request) simp
    then show ?thesis unfolding DoHTTPRequest_def Let_def None option.case
      by (intro shouts_loud shouts_bindE logs_intros)
  qed (simp add: DoHTTPRequest_def loud_fail del: fail_run)
  then show ?thesis unfolding DoHTTPJSONPBRequest_def
    by (intro loud_then loud_first logs_intros)
qed

lemma shouts_http:
  assumes "action \<noteq> ''GET''" "NewRequest (e_lib env) action url = None"
    and "\<And>m. req = Some m \<Longrightarrow> \<exists>b. JSONPBMarshal (e_lib env) m = Inr b"
  shows "shouts (DoHTTPJSONPBRequest env cl action url req dec opts)"
proof -
  have "shouts (request (Http \<lparr>hr_method = action, hr_url = url, hr_headers = hs, hr_body = data\<rparr>) m)"
    for hs data and m :: "('a, 'c) io"
    using assms(1) by (intro shouts_request) simp
  then have shout: "shouts (DoHTTPRequest env cl action url data opts)" for data
    unfolding DoHTTPRequest_def Let_def assms(2) option.case by (intro shouts_bindE logs_intros)
  show ?thesis
  proof (cases req)
    case None
    then show ?thesis by (simp add: DoHTTPJSONPBRequest_def shouts_bindE shout logs_intros del: lift_res_Inl lift_res_Inr)
  next
    case (Some m)
    with assms(3) obtain b where "JSONPBMarshal (e_lib env) m = Inr b" by blast
    with Some show ?thesis by (simp add: DoHTTPJSONPBRequest_def shouts_bindE shout logs_intros del: ok_run lift_res_Inl)
  qed
qed

lemma loud_client_ops:
  "loud (ns_Create env cl req)" "loud (pl_Init env cl i)" "loud (pl_Add env cl is)" "loud (pl_Remove env cl ids)"
  "loud (pl_Replace env cl l b)"
  unfolding client_op_defs with_client_def by (auto split: svc_client.splits intro: loud_http loud_fail simp del: fail_run)

lemma shouts_crd: "shouts (crd_UpdateStatus env c)" "shouts (updateFinalizers env c)"
  unfolding crd_UpdateStatus_def updateFinalizers_def
  by (intro shouts_catchE shouts_request logs_intros; simp)+

lemma loud_setStatusPlacementCreated: "loud (setStatusPlacementCreated env c)"
  unfolding setStatusPlacementCreated_def Let_def
  by (intro loud_then shouts_loud shouts_catchE shouts_crd logs_intros)

lemma loud_patchStatefulSet: "loud (patchStatefulSet env t action)"
  unfolding patchStatefulSet_def Let_def
  by (intro loud_then shouts_loud shouts_catchE shouts_request logs_intros) simp

lemma loud_validatePlacementWithStatus: "\<not> HasInitializedPlacement (cl_status c) \<Longrightarrow> loud (validatePlacementWithStatus env c)"
  unfolding validatePlacementWithStatus_def
  by (rule loud_then [OF keeps_only_clientForCluster(2)], rule loud_catchE)
    (auto simp del: fail_run intro!: loud_fail loud_setStatusPlacementCreated loud_then logs_intros split: sum.splits)

lemma loud_expandPlacementForSet:
  assumes "int (length (instancesInIsoGroup pl (ig_Name grp))) < ig_NumInstances grp"
  shows "loud (expandPlacementForSet env c t grp pl)"
proof -
  have "loud (addPodsToPlacement env c pods)" for pods
    unfolding addPodsToPlacement_def Let_def by (intro loud_then loud_client_ops logs_intros)
  then show ?thesis using assms unfolding expandPlacementForSet_def Let_def
    by (auto simp del: fail_run intro!: loud_fail loud_then logs_intros)
qed

lemma loud_create_namespace: "loud (create_namespace env c ns)"
  unfolding create_namespace_def
  by (intro loud_case_sum loud_fail loud_then loud_catchE loud_event logs_intros)

lemma loud_updateStatefulSetPods:
  "mhas (sts_annotations t) ParallelUpdateInProgress \<Longrightarrow> loud (updateStatefulSetPods env c t)"
proof -
  assume inProgress: "mhas (sts_annotations t) ParallelUpdateInProgress"
  have del: "shouts (delete_pod env p)" for p
    unfolding delete_pod_def Let_def by (intro shouts_catchE shouts_request logs_intros) simp
  have dels: "logs (for_each (delete_pod env) ps)" for ps
    unfolding delete_pod_def Let_def by (intro logs_intros)
  have "loud (bindE (for_each (delete_pod env) ps) (\<lambda>_. ok True))" if "0 < length ps" for ps
    using that by (cases ps) (auto simp: bindE_assoc simp del: ok_run intro!: shouts_loud shouts_bindE del dels logs_intros)
  moreover have "loud (bindE (request (Sts_UpdateStatus ns t') m) (\<lambda>_. ok False))" for ns t' and m :: "('a, statefulset) io"
    by (intro shouts_loud shouts_bindE shouts_request logs_intros) simp
  ultimately show ?thesis using inProgress unfolding updateStatefulSetPods_def Let_def
    by (simp only: not_True_eq_False if_False) 
      (rule loud_then, intro logs_intros, rule loud_if, rule loud_fail, rule loud_then, intro logs_intros, rule loud_if, simp_all)
qed

section \<open>Reads that leave the world alone\<close>

interpretation stays: run_relation "\<lambda>s t. I s \<longrightarrow> I t" for I :: "'s \<Rightarrow> bool"
  by unfold_locales auto

lemma stays_settles: "keeps (\<lambda>s t. I s \<longrightarrow> I t) m \<Longrightarrow> settles I m (\<lambda>x. \<exists>s. I s \<and> fst (m s) = Inr x)"
  unfolding settles_def by (metis fst_conv keepsD)

lemma settles_after:
  assumes "keeps (\<lambda>s t. I s \<longrightarrow> I t) m" "\<And>r. settles I (h r) Q" "logs m" "\<And>r. logs (h r)"
  shows "settles I (catchE m h) Q"
  unfolding settles_def
proof (intro allI impI)
  fix s y s'
  assume I: "I s" and run: "catchE m h s = (Inr y, s')" and silent: "only is_read s s'"
  obtain r t where r: "m s = (r, t)" "h r t = (Inr y, s')" using run by (auto simp: catchE_def split: prod.splits)
  have "only is_read t s'" using only_parts keepsD [OF assms(3) r(1)] keepsD [OF assms(4) r(2)] silent by blast
  then show "I s' \<and> Q y" using settlesD [OF assms(2) _ r(2)] keepsD [OF assms(1) r(1)] I by blast
qed

context observation
begin

lemma stays_read: "snd (m w) = w \<Longrightarrow> keeps (\<lambda>s t. I s \<longrightarrow> I t) (read_cache m)"
proof -
  assume pure: "snd (m w) = w"
  have same: "s\<lparr>st_world := w\<rparr> = s" if "I s" for s using world [OF that] by (cases s) simp
  show ?thesis by (simp add: keeps_def read_cache_def case_prod_beta world pure same)
qed

lemma stays_request: "snd (m w) = w \<Longrightarrow> keeps (\<lambda>s t. I s \<longrightarrow> I t) (request c m)"
proof -
  assume pure: "snd (m w) = w"
  have same: "s\<lparr>st_world := w, st_calls := cs\<rparr> = s\<lparr>st_calls := cs\<rparr>" if "I s" for s cs using world [OF that] by (cases s) simp
  show ?thesis by (simp add: keeps_def request_def case_prod_beta world logged pure same)
qed

lemma settles_read: "snd (m w) = w \<Longrightarrow> settles I (read_cache m) (\<lambda>x. fst (m w) = Inr x)"
  by (rule settles_mono [OF stays_settles [OF stays_read]]) (auto simp: read_cache_def world case_prod_beta)

lemma settles_request: "snd (m w) = w \<Longrightarrow> settles I (request c m) (\<lambda>x. m w = (Inr x, w))"
  by (rule settles_mono [OF stays_settles [OF stays_request]]) (auto simp: request_def world case_prod_beta prod_eq_iff)

lemma stays_Identity:
  assumes "\<And>n. snd (get_node env n w) = w"
  shows "keeps (\<lambda>s t. I s \<longrightarrow> I t) (Identity env p c)"
proof -
  have "keeps (\<lambda>s t. I s \<longrightarrow> I t) (Identity_source env p src pid)" for src pid
    unfolding Identity_source_def nodeForPod_def by (intro stays.keeps_intros stays_read assms)
  then have "keeps (\<lambda>s t. I s \<longrightarrow> I t) (Identity_loop env p srcs pid)" for srcs pid
    by (induction srcs arbitrary: pid) (auto simp del: ok_run intro!: stays.keeps_intros)
  then show ?thesis unfolding Identity_def Let_def by (intro stays.keeps_intros)
qed

lemma stays_checkPodsForReplacement:
  assumes "\<And>n. snd (get_node env n w) = w"
  shows "keeps (\<lambda>s t. I s \<longrightarrow> I t) (checkPodsForReplacement env c pods pl)"
proof -
  have "keeps (\<lambda>s t. I s \<longrightarrow> I t) (check_pods env c insts ps)" for insts ps
    by (induction ps) (auto simp del: ok_run lift_res_Inl lift_res_Inr intro!: stays.keeps_intros stays_Identity assms)
  then show ?thesis unfolding checkPodsForReplacement_def Let_def by (intro stays.keeps_intros)
qed

lemma stays_findPodsAndInstancesToRemove:
  assumes "\<And>n. snd (get_node env n w) = w"
  shows "keeps (\<lambda>s t. I s \<longrightarrow> I t) (findPodsAndInstancesToRemove env c pl pods n)"
  unfolding findPodsAndInstancesToRemove_def findPodInPlacement_def pod_instance_id_def
  by (intro stays.keeps_intros stays_Identity assms)

end

end
