(* ===== verification/Progress.thy ===== *)
theory Progress
  imports Silent_Runs
begin

text \<open>
  When the control loop may rest. A successful pass that sends nothing but reads causes no further
  event, so the operator would not look at the cluster again by itself: such a pass must mean that
  nothing is left to do, or that the pods of some set are awaited. The theory shows that there is
  exactly one other case, and that it occurs.
\<close>

section \<open>What a silent pass means\<close>

text \<open>Reads of the API server, the caches and the nodes change nothing.\<close>

definition reads_pure :: "'w env \<Rightarrow> 'w \<Rightarrow> m3db_cluster \<Rightarrow> bool" where
  "reads_pure env w c \<longleftrightarrow> (\<forall>n. snd (api_svc_get env (cl_namespace c) n w) = w)
     \<and> (\<forall>n. snd (api_cm_get env (cl_namespace c) n w) = w)
     \<and> (\<forall>sel. snd (list_pods env (cl_namespace c) sel w) = w) \<and> (\<forall>n. snd (get_node env n w) = w)"

text \<open>The requests to delete a namespace and to mark one ready can be formed.\<close>

definition requests_formed :: "lib \<Rightarrow> string \<Rightarrow> bool" where
  "requests_formed lb nsURL \<longleftrightarrow> (\<forall>n. NewRequest lb ''DELETE'' (namespace_delete_url lb nsURL n) = None)
     \<and> NewRequest lb ''POST'' (nsURL @ namespaceReadyURL) = None
     \<and> (\<forall>n. \<exists>b. JSONPBMarshal lb (Msg_NamespaceReady n) = Inr b)"

text \<open>A set has the size of its group, and so has the placement; under OnDelete sizes are left alone.\<close>

definition resized :: "isolation_group list \<Rightarrow> m3_placement \<Rightarrow> statefulset \<Rightarrow> bool" where
  "resized groups pl t \<longleftrightarrow> (\<exists>zone grp n. map_of (om_labels (sts_meta t)) IsolationGroup = Some zone
     \<and> GetByName groups zone = Some grp \<and> ss_replicas (sts_spec t) = Some n
     \<and> (ss_updateStrategy (sts_spec t) = OnDelete
        \<or> n = ig_NumInstances grp \<and> int (length (instancesInIsoGroup pl zone)) = n))"

text \<open>
  The group of a set has more instances in the placement than it should, but none of the pods beyond
  the wanted ones is in the placement, so there is nothing to remove.
\<close>

definition shrink_stalled :: "'w env \<Rightarrow> 'w \<Rightarrow> m3db_cluster \<Rightarrow> isolation_group list \<Rightarrow> m3_placement \<Rightarrow> statefulset \<Rightarrow> bool" where
  "shrink_stalled env w c groups pl t \<longleftrightarrow> (\<exists>zone grp pods s. map_of (om_labels (sts_meta t)) IsolationGroup = Some zone
     \<and> GetByName groups zone = Some grp \<and> ig_NumInstances grp < int (length (instancesInIsoGroup pl zone))
     \<and> fst (list_pods env (cl_namespace c) (SelectorFromSet (om_labels (sts_meta t))) w) = Inr pods
     \<and> st_world s = w \<and> fst (findPodsAndInstancesToRemove env c pl pods (ig_NumInstances grp) s) = Inr [])"

text \<open>Nothing is left to do.\<close>

definition at_rest :: "'w env \<Rightarrow> 'w \<Rightarrow> m3db_cluster \<Rightarrow> snapshot \<Rightarrow> bool" where
  "at_rest env w c sn \<longleftrightarrow> HasInitializedPlacement (cl_status c) \<and> cs_Namespaces (cl_spec c) \<noteq> []
     \<and> fst ` set (sn_registry sn) = ns_Name ` set (cs_Namespaces (cl_spec c))
     \<and> (cs_ExternalCoordinator (cl_spec c) = None \<longrightarrow> list_all (\<lambda>(n, e). ne_StagingState e \<in> {None, Some READY}) (sn_registry sn))
     \<and> list_all in_IsAvailable (sn_placement sn)
     \<and> (\<exists>s. st_world s = w \<and> fst (checkPodsForReplacement env c (Some (sn_pods sn)) (sn_placement sn) s) = Inr None)
     \<and> (\<forall>i < length (cl_groups c). \<exists>t \<in> set (sn_sets sn). sts_name t = StatefulSetName (cl_name c) i
          \<and> update_requested (sts_annotations t) = Inr False)
     \<and> list_all (resized (sort_groups (tie_groups (e_lib env)) (cl_groups c)) (sn_placement sn)) (sn_sets sn)
     \<and> list_all (\<lambda>t. \<not> mhas (sts_annotations t) ParallelUpdateInProgress) (sn_sets sn)
     \<and> (\<exists>cond. GetCondition (cl_status c) PodsBootstrapping = Some cond \<and> cc_Status cond = ConditionFalse)"

subsection \<open>Before the StatefulSets\<close>

lemma settles_prepare:
  assumes "reads_pure env w c"
  shows "settles (warm env w c nsURL nsCl plURL plCl) (prepare_phase env c) (\<lambda>c'. c' = c)"
proof -
  let ?I = "warm env w c nsURL nsCl plURL plCl"
  have pure: "snd (api_svc_get env (cl_namespace c) n w) = w" "snd (api_cm_get env (cl_namespace c) n w) = w" for n
    using assms by (auto simp: reads_pure_def)
  have fin: "settles ?I (if \<not> cs_KeepEtcdDataOnDelete (cl_spec c) then ensureEtcdFinalizer env c else ok c) (\<lambda>c'. c' = c)"
    unfolding ensureEtcdFinalizer_def by (intro settles_if settles_ok loud_settles shouts_loud shouts_crd) simp_all
  have "settles ?I (ensureConfigMap env c) (\<lambda>_. True)"
  proof (cases "cs_ConfigMapName (cl_spec c)")
    case None
    have patch: "loud (bindE (lift_res r) (\<lambda>b. bindE (request (Cm_Patch ns n b) (g b)) (\<lambda>_. ok ())))"
      for r :: "gerror + string" and ns n and g :: "string \<Rightarrow> ('a, config_map) io"
      by (intro loud_then loud_write logs_intros) simp
    show ?thesis unfolding ensureConfigMap_def None option.case Let_def
      by (rule settles_bindE [where P = "\<lambda>_. True"], rule settles_lift_res, simp, rule settles_after, rule warm.stays_request, rule pure)
        (intro settles_case_sum settles_if settles_ok settles_fail patch [THEN loud_settles] loud_write [THEN loud_settles] logs_intros; simp)+
  qed (simp add: ensureConfigMap_def settles_ok settles_fail del: ok_run fail_run)
  then have cm: "settles ?I (ensure_configmap_step env c) (\<lambda>_. True)" unfolding ensure_configmap_step_def
    by (rule settles_catchE) (auto simp del: ok_run intro!: settles_ok loud_first loud_event logs_intros)
  have "settles ?I (EnsureService env c svc) (\<lambda>_. True)" for svc
    unfolding EnsureService_def GetService_def Let_def
    by (rule settles_after, rule warm.stays_request, rule pure)
      (intro settles_case_sum settles_if settles_ok settles_fail loud_write [THEN loud_settles] logs_intros; simp)+
  then have "settles ?I (ensure_service_step env c svc) (\<lambda>_. True)" for svc unfolding ensure_service_step_def Let_def
    by (rule settles_catchE) (auto simp del: ok_run intro!: settles_ok loud_first loud_event logs_intros keeps_only_EnsureService)
  moreover have step: "logs (ensure_service_step env c svc)" for svc unfolding ensure_service_step_def Let_def
    by (intro logs_intros keeps_only_EnsureService)
  ultimately have svcs: "settles ?I (for_each (ensure_service_step env c) svcs) (\<lambda>_. True)" for svcs
    using settles_for_each [of svcs ?I "ensure_service_step env c" "\<lambda>_. True"] by simp
  have svc: "settles ?I (ensureServices env c) (\<lambda>_. True)" unfolding ensureServices_def
    by (rule settles_bindE [where P = "\<lambda>_. True"], rule settles_lift_res, simp, rule settles_bindE [where P = "\<lambda>_. True"],
        rule settles_lift_res, simp, rule svcs, (intro logs_intros step)+)
  show ?thesis unfolding prepare_phase_def
    by (rule settles_bindE [OF fin], simp, rule settles_bindE [OF cm], rule settles_bindE [OF svc])
      (intro settles_ok logs_intros; simp)+
qed

subsection \<open>StatefulSets and namespaces\<close>

lemma logs_create_phase: "logs (create_phase env c gs byName)"
  unfolding create_phase_def create_set_def by (intro logs_intros)

lemma settles_create_phase:
  "settles I (create_phase env c gs (sets_by_name sets))
     (\<lambda>stop. \<not> stop \<and> (\<forall>i < length gs. StatefulSetName (cl_name c) i \<in> sts_name ` set sets))"
proof -
  have "settles I (create_set env c gs (sets_by_name sets) i)
      (\<lambda>stop. \<not> stop \<and> StatefulSetName (cl_name c) i \<in> sts_name ` set sets)" for i
    unfolding create_set_def
    by (intro settles_if settles_ok loud_settles loud_then shouts_loud shouts_catchE shouts_request logs_intros)
      (simp_all add: sets_by_name_mhas)
  moreover have "logs (create_set env c gs (sets_by_name sets) i)" for i
    unfolding create_set_def by (intro logs_intros)
  ultimately have "settles I (create_phase env c gs (sets_by_name sets))
      (\<lambda>stop. \<not> stop \<and> (\<forall>i \<in> set [0..<length gs]. StatefulSetName (cl_name c) i \<in> sts_name ` set sets))"
    unfolding create_phase_def by (rule settles_for_all)
  then show ?thesis by (rule settles_mono) simp
qed

lemma sets_by_name_Some: "map_of (sets_by_name ts) n = Some t \<Longrightarrow> t \<in> set ts \<and> sts_name t = n"
proof -
  have "map_of (fold (\<lambda>sts m. AList.update (sts_name sts) sts m) ts m) n = Some t \<Longrightarrow>
      t \<in> set ts \<and> sts_name t = n \<or> map_of m n = Some t" for m
    by (induction ts arbitrary: m) (fastforce simp: update_conv split: if_splits)+
  then show "map_of (sets_by_name ts) n = Some t \<Longrightarrow> t \<in> set ts \<and> sts_name t = n" by (fastforce simp: sets_by_name_def)
qed

lemma updatedStatefulSet_None: "updatedStatefulSet lb t c g = Inr None \<Longrightarrow> update_requested (sts_annotations t) = Inr False"
  by (auto simp: updatedStatefulSet_def res_bind_Inr Let_def split: if_splits)

lemma settles_update_phase:
  "settles I (update_phase env c gs (sets_by_name sets))
     (\<lambda>stop. \<not> stop \<and> (\<forall>i < length gs. \<exists>t \<in> set sets. sts_name t = StatefulSetName (cl_name c) i
        \<and> update_requested (sts_annotations t) = Inr False))"
proof -
  let ?A = "\<lambda>i. \<exists>t \<in> set sets. sts_name t = StatefulSetName (cl_name c) i \<and> update_requested (sts_annotations t) = Inr False"
  have logs: "logs (update_set env c gs (sets_by_name sets) i)" for i
    unfolding update_set_def by (intro logs_intros)
  have "settles I (update_set env c gs (sets_by_name sets) i) (\<lambda>stop. \<not> stop \<and> ?A i)" for i
  proof (cases "map_of (sets_by_name sets) (StatefulSetName (cl_name c) i)")
    case None
    then show ?thesis by (simp add: update_set_def settles_fail del: fail_run)
  next
    case (Some t)
    have wr: "loud (bindE (applyStatefulSetUpdate env c expected) (\<lambda>_. ok True))" for expected
      unfolding applyStatefulSetUpdate_def by (intro loud_write logs_intros) simp
    have pods: "settles I (updateStatefulSetPods env c t) (\<lambda>stop. \<not> stop)"
      by (cases "mhas (sts_annotations t) ParallelUpdateInProgress")
        (simp_all add: loud_settles loud_updateStatefulSetPods, simp add: updateStatefulSetPods_def settles_ok del: ok_run)
    have "settles I (case update of Some expected \<Rightarrow> bindE (applyStatefulSetUpdate env c expected) (\<lambda>_. ok True)
        | None \<Rightarrow> if ss_updateStrategy (sts_spec t) = OnDelete then updateStatefulSetPods env c t else ok False)
        (\<lambda>stop. \<not> stop \<and> ?A i)"
      if "updatedStatefulSet (e_lib env) t c (gs ! i) = Inr update" for update
      using that sets_by_name_Some [OF Some] updatedStatefulSet_None [of "e_lib env" t c "gs ! i"]
      by (cases update) (auto simp del: ok_run intro!: loud_settles [OF wr] settles_ok settles_mono [OF pods])
    then show ?thesis unfolding update_set_def Some option.case
      by (intro settles_bindE [OF settles_lift_res] logs_intros)
  qed
  then have "settles I (update_phase env c gs (sets_by_name sets)) (\<lambda>stop. \<not> stop \<and> (\<forall>i \<in> set [0..<length gs]. ?A i))"
    unfolding update_phase_def using logs by (rule settles_for_all)
  then show ?thesis by (rule settles_mono) simp
qed

text \<open>Every deletion, creation and ready call of the reconciliation is a write.\<close>

lemma settles_pruneNamespaces:
  assumes "requests_formed (e_lib env) nsURL"
  shows "settles (warm env w c nsURL nsCl plURL plCl) (pruneNamespaces env c reg)
    (\<lambda>_. namespacesToDelete reg (cs_Namespaces (cl_spec c)) = [])"
proof -
  have del: "shouts (ns_Delete env (Client nsURL nsCl) n)" for n
    using assms unfolding ns_Delete_def with_client_def svc_client.case by (intro shouts_http) (simp_all add: requests_formed_def)
  have "settles (warm env w c nsURL nsCl plURL plCl) (prune_namespace env c n) (\<lambda>_. False)" for n
    unfolding prune_namespace_def
    by (intro settles_bindE [OF observes_settles [OF observes_nsClient]] logs_intros)
      (simp, intro loud_settles shouts_loud shouts_catchE [OF del] logs_intros)
  then have "settles (warm env w c nsURL nsCl plURL plCl) (pruneNamespaces env c reg)
      (\<lambda>_. \<forall>n \<in> set (namespacesToDelete reg (cs_Namespaces (cl_spec c))). False)"
    unfolding pruneNamespaces_def by (rule settles_for_each) (unfold prune_namespace_def, intro logs_intros)
  then show ?thesis by (rule settles_mono) simp
qed

lemma settles_createNamespaces:
  "settles I (createNamespaces env c reg) (\<lambda>_. namespacesToCreate reg (cs_Namespaces (cl_spec c)) = [])"
proof -
  have "settles I (createNamespaces env c reg) (\<lambda>_. \<forall>n \<in> set (namespacesToCreate reg (cs_Namespaces (cl_spec c))). False)"
    unfolding createNamespaces_def by (rule settles_for_each, rule loud_settles, rule loud_create_namespace)
      (unfold create_namespace_def, intro logs_intros)
  then show ?thesis by (rule settles_mono) simp
qed

lemma settles_readyNamespaces:
  assumes "requests_formed (e_lib env) nsURL"
  shows "settles (warm env w c nsURL nsCl plURL plCl) (readyNamespaces env c reg)
    (\<lambda>_. cs_ExternalCoordinator (cl_spec c) \<noteq> None \<or> namespacesToReady (e_lib env) reg (cs_Namespaces (cl_spec c)) = [])"
proof -
  let ?I = "warm env w c nsURL nsCl plURL plCl"
  have rdy: "shouts (ns_Ready env (Client nsURL nsCl) n)" for n
    using assms unfolding ns_Ready_def with_client_def svc_client.case by (intro shouts_http) (auto simp: requests_formed_def)
  have step: "logs (ready_namespace env c n)" for n unfolding ready_namespace_def by (intro logs_intros)
  have "settles ?I (ready_namespace env c n) (\<lambda>stop. \<not> stop \<and> False)" for n unfolding ready_namespace_def
    by (intro settles_bindE [OF observes_settles [OF observes_nsClient]] logs_intros)
      (simp, intro loud_settles shouts_loud shouts_catchE [OF rdy] logs_intros)
  then have loop: "settles ?I (for_until (ready_namespace env c) ns) (\<lambda>stop. \<not> stop \<and> (\<forall>n \<in> set ns. False))" for ns
    by (rule settles_for_all) (rule step)
  show ?thesis unfolding readyNamespaces_def
    by (rule settles_if, rule settles_ok, simp, rule settles_bindE [OF loop], rule settles_ok, simp, (intro logs_intros step)+)
qed

lemma settles_reconcileNamespaces:
  assumes "exhibits env w c nsURL plURL sn" "requests_formed (e_lib env) nsURL"
  shows "settles (warm env w c nsURL nsCl plURL plCl) (reconcileNamespaces env c)
    (\<lambda>_. fst ` set (sn_registry sn) = ns_Name ` set (cs_Namespaces (cl_spec c))
    \<and> (cs_ExternalCoordinator (cl_spec c) = None \<longrightarrow> list_all (\<lambda>(n, e). ne_StagingState e \<in> {None, Some READY}) (sn_registry sn)))"
    (is "settles ?I _ (\<lambda>_. ?Q)")
proof -
  let ?ns = "cs_Namespaces (cl_spec c)"
  have plan: ?Q if "namespacesToDelete (sn_registry sn) ?ns = []" "namespacesToCreate (sn_registry sn) ?ns = []"
    "cs_ExternalCoordinator (cl_spec c) \<noteq> None \<or> namespacesToReady (e_lib env) (sn_registry sn) ?ns = []"
  proof -
    have "fst ` set (sn_registry sn) = ns_Name ` set ?ns"
      using that(1,2) unfolding namespacesToDelete_filter namespacesToCreate_filter filter_empty_conv by auto
    moreover have "ne_StagingState e \<in> {None, Some READY}"
      if "namespacesToReady (e_lib env) (sn_registry sn) ?ns = []" "(n, e) \<in> set (sn_registry sn)" for n e
      using namespacesToReady_names [of "e_lib env" "sn_registry sn" ?ns] that by auto
    ultimately show ?thesis using that(3) by (auto simp: list_all_iff)
  qed
  show ?thesis unfolding reconcileNamespaces_def
    by (rule settles_bindE [OF observes_settles [OF observes_nsClient]], simp only:,
        rule settles_catchE [OF observes_settles [OF observes_ns_List [OF assms(1)]]], simp only: sum.case,
        rule settles_bindE [OF settles_pruneNamespaces [OF assms(2)]], rule settles_bindE [OF settles_createNamespaces],
        rule settles_mono [OF settles_readyNamespaces [OF assms(2)]], erule (2) plan)
      (simp only: sum.case | intro loud_first loud_event logs_intros)+
qed

lemma settles_data_phase:
  assumes "exhibits env w c nsURL plURL sn" "requests_formed (e_lib env) nsURL"
  shows "settles (warm env w c nsURL nsCl plURL plCl) (data_phase env c) (\<lambda>c'. c' = c
    \<and> HasInitializedPlacement (cl_status c) \<and> cs_Namespaces (cl_spec c) \<noteq> []
    \<and> fst ` set (sn_registry sn) = ns_Name ` set (cs_Namespaces (cl_spec c))
    \<and> (cs_ExternalCoordinator (cl_spec c) = None \<longrightarrow> list_all (\<lambda>(n, e). ne_StagingState e \<in> {None, Some READY}) (sn_registry sn)))"
    (is "settles ?I _ ?Q")
proof -
  have init: "settles ?I (if \<not> HasInitializedPlacement (cl_status c) then validatePlacementWithStatus env c else ok c)
      (\<lambda>c'. c' = c \<and> HasInitializedPlacement (cl_status c))"
    by (intro settles_if settles_ok loud_settles loud_validatePlacementWithStatus) simp_all
  have empty: "settles ?I (if cs_Namespaces (cl_spec c) = [] then WarningEvent env r m a else ok ()) (\<lambda>_. cs_Namespaces (cl_spec c) \<noteq> [])"
    for r m a by (intro settles_if settles_ok loud_settles loud_event)
  show ?thesis unfolding data_phase_def
    by (rule settles_bindE [OF init], elim conjE, simp only:, rule settles_bindE,
        rule settles_catchE [OF settles_reconcileNamespaces [OF assms]], simp only: sum.case, rule settles_ok, assumption)
      (simp only: sum.case | (intro loud_first loud_event logs_intros; fail) | (rule settles_bindE [OF empty], rule settles_ok, blast) | intro logs_intros)+
qed

subsection \<open>Placement and sizes\<close>

lemma settles_replace_phase:
  assumes "reads_pure env w c"
  shows "settles (warm env w c nsURL nsCl plURL plCl) (replace_phase env c pods pl)
    (\<lambda>x. x = c \<and> (\<exists>s. st_world s = w \<and> fst (checkPodsForReplacement env c pods pl s) = Inr None))"
proof -
  let ?I = "warm env w c nsURL nsCl plURL plCl"
  have "keeps (\<lambda>s t. ?I s \<longrightarrow> ?I t) (checkPodsForReplacement env c pods pl)"
    using assms by (intro warm.stays_checkPodsForReplacement) (simp add: reads_pure_def)
  note check = stays_settles [OF this]
  show ?thesis unfolding replace_phase_def
  proof (rule settles_bindE [OF check])
    fix found
    assume "\<exists>s. ?I s \<and> fst (checkPodsForReplacement env c pods pl s) = Inr found"
    then show "settles ?I (case found of None \<Rightarrow> ok c | Some (leavingInstanceID, podToReplace) \<Rightarrow>
         catchE (replacePodInPlacement env c leavingInstanceID podToReplace) (\<lambda>r. case r of
           Inl err \<Rightarrow> bindE (WarningEvent env ReasonFailedToUpdate (''could not replace instance: '' @ leavingInstanceID) []) (\<lambda>_. fail err)
         | Inr cluster \<Rightarrow> bindE (NormalEvent env ReasonSuccessfulUpdate (''successfully replaced instance: '' @ leavingInstanceID) []) (\<lambda>_. ok cluster)))
         (\<lambda>x. x = c \<and> (\<exists>s. st_world s = w \<and> fst (checkPodsForReplacement env c pods pl s) = Inr None))"
    proof (cases found)
      case None
      with \<open>\<exists>s. _\<close> show ?thesis by (auto simp del: ok_run simp: warm_def intro!: settles_ok)
    next
      case (Some x)
      then show ?thesis
        by (cases x) (simp only: option.case prod.case, intro loud_settles loud_catchE loud_case_sum loud_first loud_event logs_intros)
    qed
  qed (intro logs_intros)+
qed

lemma i32_small: "n < 2 ^ 31 \<Longrightarrow> i32 (int n) = int n"
  by (simp add: i32_def)

lemma settles_shrinkPlacementForSet:
  assumes "reads_pure env w c"
  shows "settles (warm env w c nsURL nsCl plURL plCl) (shrinkPlacementForSet env c t pl n) (\<lambda>_. \<exists>pods s.
    fst (list_pods env (cl_namespace c) (SelectorFromSet (om_labels (sts_meta t))) w) = Inr pods
    \<and> st_world s = w \<and> fst (findPodsAndInstancesToRemove env c pl pods n s) = Inr [])"
proof -
  let ?I = "warm env w c nsURL nsCl plURL plCl"
  have pure: "snd (list_pods env (cl_namespace c) sel w) = w" "snd (get_node env m w) = w" for sel m
    using assms by (auto simp: reads_pure_def)
  have find: "settles ?I (findPodsAndInstancesToRemove env c pl pods n)
      (\<lambda>remove. \<exists>s. ?I s \<and> fst (findPodsAndInstancesToRemove env c pl pods n s) = Inr remove)" for pods
    by (intro stays_settles warm.stays_findPodsAndInstancesToRemove pure)
  have remove: "settles ?I (bindE (placementClientForCluster env c) (\<lambda>plClient. pl_Remove env plClient ids)) Q" for ids Q
    by (intro loud_settles loud_then loud_client_ops logs_intros)
  let ?pods = "list_pods env (cl_namespace c) (SelectorFromSet (om_labels (sts_meta t)))"
  have read: "settles ?I (read_cache ?pods) (\<lambda>x. fst (?pods w) = Inr x)" by (rule warm.settles_read) (rule pure)
  show ?thesis unfolding shrinkPlacementForSet_def
    by (rule settles_if, rule settles_fail, rule settles_bindE [OF read], rule settles_bindE [OF find],
        rule settles_if [OF settles_ok remove]) (auto simp: warm_def intro!: logs_intros)
qed

lemma settles_resize_set:
  assumes "reads_pure env w c" "length pl < 2 ^ 31"
    and t: "map_of (om_labels (sts_meta t)) IsolationGroup = Some (ig_Name grp)" "GetByName gs (ig_Name grp) = Some grp"
      "ss_replicas (sts_spec t) = Some n"
  shows "settles (warm env w c nsURL nsCl plURL plCl) (resize_set env c pl t grp n)
    (\<lambda>stop. if stop then shrink_stalled env w c gs pl t else resized gs pl t)"
proof -
  let ?I = "warm env w c nsURL nsCl plURL plCl" and ?Q = "\<lambda>stop. if stop then shrink_stalled env w c gs pl t else resized gs pl t"
  let ?k = "int (length (instancesInIsoGroup pl (ig_Name grp)))"
  have "length (instancesInIsoGroup pl (ig_Name grp)) < 2 ^ 31"
    using assms(2) le_less_trans [OF length_filter_le] unfolding instancesInIsoGroup_def by blast
  note small = i32_small [OF this]
  have equal: "settles ?I (ok False) ?Q" if "ig_NumInstances grp = n" "n = ?k"
    using t that by (intro settles_ok) (auto simp: resized_def)
  have expand: "settles ?I (bindE (expandPlacementForSet env c t grp pl) (\<lambda>_. ok True)) ?Q" if "ig_NumInstances grp = n" "?k < n"
    using that by (intro loud_settles loud_first loud_expandPlacementForSet logs_intros) simp
  have shrink: "settles ?I (bindE (shrinkPlacementForSet env c t pl (ig_NumInstances grp)) (\<lambda>_. ok True)) ?Q" if "ig_NumInstances grp < ?k"
    using t(1,2) that by (intro settles_bindE [OF settles_shrinkPlacementForSet [OF assms(1)]] settles_ok logs_intros)
      (simp only: if_True shrink_stalled_def, blast)
  have patch: "settles ?I (bindE (patchStatefulSet env t f) (\<lambda>_. ok True)) ?Q" for f
    by (intro loud_settles loud_first loud_patchStatefulSet logs_intros)
  show ?thesis unfolding resize_set_def Let_def small
    by (intro settles_if equal expand shrink patch settles_fail) simp_all
qed

lemma settles_resize_child:
  assumes "reads_pure env w c" "length pl < 2 ^ 31"
  shows "settles (warm env w c nsURL nsCl plURL plCl) (resize_child env c gs pl t)
    (\<lambda>stop. if stop then shrink_stalled env w c gs pl t else resized gs pl t)"
proof (cases "\<exists>zone grp n. map_of (om_labels (sts_meta t)) IsolationGroup = Some zone \<and> GetByName gs zone = Some grp
      \<and> ss_replicas (sts_spec t) = Some n")
  case False
  then show ?thesis unfolding resize_child_def
    by (auto simp del: fail_run intro: settles_fail split: option.splits)
next
  case True
  then obtain zone grp n where t: "map_of (om_labels (sts_meta t)) IsolationGroup = Some zone" "GetByName gs zone = Some grp"
    "ss_replicas (sts_spec t) = Some n" by blast
  moreover from t(2) have "ig_Name grp = zone" by (auto dest: GetByName_Some)
  ultimately have "settles (warm env w c nsURL nsCl plURL plCl) (resize_set env c pl t grp n)
    (\<lambda>stop. if stop then shrink_stalled env w c gs pl t else resized gs pl t)"
    using assms by (intro settles_resize_set) simp_all
  then show ?thesis unfolding resize_child_def t option.case
    using t by (intro settles_if settles_ok) (auto simp: resized_def)
qed

lemma settles_finish_phase:
  assumes "exhibits env w c nsURL plURL sn" "list_all in_IsAvailable (sn_placement sn)"
  shows "settles (warm env w c nsURL nsCl plURL plCl) (finish_phase env c sets)
    (\<lambda>_. list_all (\<lambda>t. \<not> mhas (sts_annotations t) ParallelUpdateInProgress) sets
      \<and> (\<exists>cond. GetCondition (cl_status c) PodsBootstrapping = Some cond \<and> cc_Status cond = ConditionFalse))"
proof -
  let ?I = "warm env w c nsURL nsCl plURL plCl"
  let ?B = "\<exists>cond. GetCondition (cl_status c) PodsBootstrapping = Some cond \<and> cc_Status cond = ConditionFalse"
  have wr: "loud (bindE (now env) (\<lambda>t. crd_UpdateStatus env (f t)))" for f
    by (intro loud_then shouts_loud shouts_crd logs_intros)
  have avail: "\<not> list_ex (\<lambda>inst. \<not> in_IsAvailable inst) (sn_placement sn)" using assms(2) by (auto simp: list_all_iff list_ex_iff)
  have boot: "settles ?I (reconcileBootstrappingStatus env c (sn_placement sn)) (\<lambda>_. ?B)"
    unfolding reconcileBootstrappingStatus_def setStatus_eq Let_def
    by (simp only: avail if_False, rule settles_if, rule settles_ok, force, rule loud_settles, rule wr)
  have "settles ?I (if \<not> mhas (sts_annotations t) ParallelUpdateInProgress then ok () else patchStatefulSet env t f)
      (\<lambda>_. \<not> mhas (sts_annotations t) ParallelUpdateInProgress)" for t f
    by (intro settles_if settles_ok loud_settles loud_patchStatefulSet)
  then have clean: "settles ?I (cleanupAnnotations env sets) (\<lambda>_. \<forall>t \<in> set sets. \<not> mhas (sts_annotations t) ParallelUpdateInProgress)"
    unfolding cleanupAnnotations_def by (rule settles_for_each) (intro logs_intros)
  show ?thesis unfolding finish_phase_def
    by (rule settles_bindE [OF observes_settles [OF observes_plClient]], simp only:,
        rule settles_catchE [OF observes_settles [OF observes_pl_Get [OF assms(1)]]], simp only: sum.case,
        rule settles_catchE [OF boot], simp only: sum.case, rule settles_catchE [OF clean], simp only: sum.case, rule settles_ok)
      (simp only: sum.case list_all_iff simp_thms | intro loud_fail logs_intros)+
qed

lemma settles_placement_phase:
  assumes "exhibits env w c nsURL plURL sn" "reads_pure env w c" "length (sn_placement sn) < 2 ^ 31"
  shows "settles (warm env w c nsURL nsCl plURL plCl) (placement_phase env c gs)
    (\<lambda>_. (\<exists>t \<in> set (sn_sets sn). shrink_stalled env w c gs (sn_placement sn) t)
       \<or> list_all in_IsAvailable (sn_placement sn)
         \<and> (\<exists>s. st_world s = w \<and> fst (checkPodsForReplacement env c (Some (sn_pods sn)) (sn_placement sn) s) = Inr None)
         \<and> list_all (resized gs (sn_placement sn)) (sn_sets sn)
         \<and> list_all (\<lambda>t. \<not> mhas (sts_annotations t) ParallelUpdateInProgress) (sn_sets sn)
         \<and> (\<exists>cond. GetCondition (cl_status c) PodsBootstrapping = Some cond \<and> cc_Status cond = ConditionFalse))"
    (is "settles ?I _ (\<lambda>_. ?stall \<or> ?avail \<and> ?swap \<and> ?sizes \<and> ?rest)")
proof -
  let ?pl = "sn_placement sn" and ?sets = "sn_sets sn"
  have pods: "settles ?I (read_cache (list_pods env (cl_namespace c) (SelectorFromSet (BaseLabels c)))) (\<lambda>r. r = Some (sn_pods sn))"
    using assms(1) by (intro observes_settles warm.observes_read) (simp add: exhibits_def)
  have sets: "settles ?I (getChildStatefulSets env c) (\<lambda>r. r = ?sets)"
    using assms(1) by (intro observes_settles warm.observes_getChildStatefulSets) (simp_all add: exhibits_def)
  have "logs (resize_child env c gs ?pl t)" for t
    unfolding resize_child_def resize_set_def Let_def by (intro logs_intros)
  then have resize: "settles ?I (resize_phase env c gs ?pl ?sets) (\<lambda>stop. if stop then ?stall else \<forall>t \<in> set ?sets. resized gs ?pl t)"
    unfolding resize_phase_def by (intro settles_for_until settles_resize_child assms(2,3))
  have ending: "settles ?I (if stop then ok () else finish_phase env c ?sets) (\<lambda>_. ?stall \<or> ?avail \<and> ?swap \<and> ?sizes \<and> ?rest)"
    if "if stop then ?stall else \<forall>t \<in> set ?sets. resized gs ?pl t" ?swap ?avail for stop
    using that settles_mono [OF settles_finish_phase [OF assms(1) that(3)]]
    by (intro settles_if settles_ok) (auto simp: list_all_iff)
  have sizes: "settles ?I (bindE (resize_phase env x gs ?pl ?sets) (\<lambda>stop. if stop then ok () else finish_phase env x ?sets))
      (\<lambda>_. ?stall \<or> ?avail \<and> ?swap \<and> ?sizes \<and> ?rest)" if "x = c \<and> ?swap" ?avail for x
    unfolding conjunct1 [OF that(1)]
    by (rule settles_bindE [OF resize], erule ending [OF _ conjunct2 [OF that(1)] that(2)]) (intro logs_intros)+
  have tail: "settles ?I (bindE (getChildStatefulSets env c) (\<lambda>childrenSets.
      bindE (replace_phase env c (Some (sn_pods sn)) ?pl) (\<lambda>c. bindE (resize_phase env c gs ?pl childrenSets) (\<lambda>stop.
      if stop then ok () else finish_phase env c childrenSets)))) (\<lambda>_. ?stall \<or> ?avail \<and> ?swap \<and> ?sizes \<and> ?rest)" if ?avail
    by (rule settles_bindE [OF sets], simp only:, rule settles_bindE [OF settles_replace_phase [OF assms(2)]], erule sizes [OF _ that])
      (intro logs_intros)+
  have avail: "\<not> 0 < length (map in_ID (filter (\<lambda>inst. \<not> in_IsAvailable inst) ?pl)) \<Longrightarrow> ?avail"
    by (simp add: filter_empty_conv list_all_iff)
  show ?thesis unfolding placement_phase_def Let_def
    by (rule settles_catchE [OF pods], simp only: sum.case, rule settles_bindE [OF observes_settles [OF observes_plClient]], simp only:,
        rule settles_catchE [OF observes_settles [OF observes_pl_Get [OF assms(1)]]], simp only: sum.case,
        rule settles_if, rule loud_settles, rule loud_event, rule tail, erule avail)
      (simp only: sum.case | intro loud_fail logs_intros)+
qed

subsection \<open>The pass\<close>

lemma logs_sets_phase: "logs (rest_phase env c gs sets)" "logs (sets_phase env c)"
proof -
  show rest: "logs (rest_phase env c gs sets)" for gs sets unfolding rest_phase_def by (intro logs_intros)
  show "logs (sets_phase env c)" unfolding sets_phase_def Let_def by (intro logs_intros logs_create_phase rest)
qed

lemma settles_ready_sets:
  assumes "exhibits env w c nsURL plURL sn" "reads_pure env w c" "length (sn_placement sn) < 2 ^ 31"
    and "requests_formed (e_lib env) nsURL" and "gs = sort_groups (tie_groups (e_lib env)) (cl_groups c)"
  shows "settles (warm env w c nsURL nsCl plURL plCl)
    (bindE (update_phase env c gs (sets_by_name (sn_sets sn))) (\<lambda>updated.
       if updated then ok () else bindE (data_phase env c) (\<lambda>cluster. placement_phase env cluster gs)))
    (\<lambda>_. (\<exists>t \<in> set (sn_sets sn). shrink_stalled env w c gs (sn_placement sn) t) \<or> at_rest env w c sn)"
  (is "settles ?I _ (\<lambda>_. ?Q)")
proof -
  let ?U = "\<forall>i < length gs. \<exists>t \<in> set (sn_sets sn). sts_name t = StatefulSetName (cl_name c) i
        \<and> update_requested (sts_annotations t) = Inr False"
  have len: "length gs = length (cl_groups c)" using assms(5) by (simp add: sort_groups_def)
  have "settles ?I (bindE (data_phase env c) (\<lambda>cluster. placement_phase env cluster gs)) (\<lambda>_. ?Q)" if ?U
    by (rule settles_bindE [OF settles_data_phase [OF assms(1,4)]], elim conjE, simp only:,
        rule settles_mono [OF settles_placement_phase [OF assms(1-3)]])
      (insert that, simp only: at_rest_def len [symmetric] assms(5) [symmetric], blast, (intro logs_intros)+)
  then have "settles ?I (if stop then ok () else bindE (data_phase env c) (\<lambda>cluster. placement_phase env cluster gs)) (\<lambda>_. ?Q)"
    if "\<not> stop \<and> ?U" for stop using that by simp
  then show ?thesis by (intro settles_bindE [OF settles_update_phase] logs_intros)
qed

lemma settles_pass:
  assumes "exhibits env w c nsURL plURL sn" "reads_pure env w c" "length (sn_placement sn) < 2 ^ 31"
    and "requests_formed (e_lib env) nsURL" "\<not> cs_Frozen (cl_spec c)" "\<not> marked_deleted c" "cl_groups c \<noteq> []"
  shows "settles (warm env w c nsURL nsCl plURL plCl) (handleClusterUpdate env c)
    (\<lambda>_. (\<forall>i < length (cl_groups c). StatefulSetName (cl_name c) i \<in> sts_name ` set (sn_sets sn))
       \<and> ((\<exists>t \<in> set (sn_sets sn). \<not> set_ready t)
        \<or> (\<exists>t \<in> set (sn_sets sn). shrink_stalled env w c (sort_groups (tie_groups (e_lib env)) (cl_groups c)) (sn_placement sn) t)
        \<or> at_rest env w c sn))"
    (is "settles ?I _ (\<lambda>_. ?Q)")
proof -
  let ?gs = "sort_groups (tie_groups (e_lib env)) (cl_groups c)"
  have len: "length ?gs = length (cl_groups c)" by (simp add: sort_groups_def)
  have rest: "settles ?I (rest_phase env c ?gs (sn_sets sn)) (\<lambda>_. ?Q)"
    if ex: "\<forall>i < length ?gs. StatefulSetName (cl_name c) i \<in> sts_name ` set (sn_sets sn)"
    using ex settles_mono [OF settles_ready_sets [OF assms(1-4) refl]] unfolding rest_phase_def len
    by (cases "check_generations (sn_sets sn)"; cases "all_ready (sn_sets sn)")
      (auto simp del: ok_run fail_run simp: all_ready_iff list_all_iff intro!: settles_ok settles_fail)
  have sets: "settles ?I (getChildStatefulSets env c) (\<lambda>r. r = sn_sets sn)"
    using assms(1) by (intro observes_settles warm.observes_getChildStatefulSets) (simp_all add: exhibits_def)
  have "settles ?I (sets_phase env c) (\<lambda>_. ?Q)" unfolding sets_phase_def Let_def
    by (rule settles_bindE [OF sets], simp only:, rule settles_bindE [OF settles_create_phase], elim conjE, simp only: if_False, erule rest)
      (intro logs_intros logs_create_phase logs_sets_phase)+
  then have "settles ?I (if cl_groups c' = [] then ok () else sets_phase env c') (\<lambda>_. ?Q)" if "c' = c" for c'
    using assms(7) that by simp
  then have run: "settles ?I (bindE (prepare_phase env c) (\<lambda>c'. if cl_groups c' = [] then ok () else sets_phase env c')) (\<lambda>_. ?Q)"
    by (rule settles_bindE [OF settles_prepare [OF assms(2)]])
      (assumption, unfold prepare_phase_def, (intro logs_intros logs_sets_phase)+)
  have bad: "settles ?I (bindE (WarningEvent env r m a) (\<lambda>_. fail e)) (\<lambda>_. ?Q)" for r m a e
    by (intro loud_settles loud_first loud_event logs_intros)
  show ?thesis unfolding handleClusterUpdate_def using assms(5,6)
    by (cases "validateIsolationGroups c") (simp_all only: if_False option.case run bad)
qed

section \<open>Properties\<close>

text \<open>
  C9: no silent stall. If a pass over an active cluster succeeds without sending anything but reads,
  then every isolation group has its StatefulSet, and one of three things holds: the pods of a set
  are not ready yet, and their events will start the next pass; or nothing is left to do: placement,
  namespaces, sizes, identities, annotations and status are as the spec asks; or, the only stall, a
  group has more instances in the placement than it should, but none of its surplus pods is among
  them, and the pass ended there without a request, an event or an error.
\<close>

theorem silent_pass_explained:
  assumes "handleClusterUpdate env c s = (Inr (), s')" and "st_calls s' = st_calls s @ cs" "list_all is_read cs"
    and "\<not> cs_Frozen (cl_spec c)" "\<not> marked_deleted c" "cl_groups c \<noteq> []"
    and "warm env (st_world s) c nsURL nsCl plURL plCl s" "exhibits env (st_world s) c nsURL plURL sn"
    and "reads_pure env (st_world s) c" "requests_formed (e_lib env) nsURL" "length (sn_placement sn) < 2 ^ 31"
  shows "(\<forall>i < length (cl_groups c). StatefulSetName (cl_name c) i \<in> sts_name ` set (sn_sets sn))
    \<and> ((\<exists>t \<in> set (sn_sets sn). \<not> set_ready t)
     \<or> at_rest env (st_world s) c sn
     \<or> (\<exists>t \<in> set (sn_sets sn). shrink_stalled env (st_world s) c (sort_groups (tie_groups (e_lib env)) (cl_groups c)) (sn_placement sn) t))"
  using settlesD [OF settles_pass [OF assms(8,9,11,10,4,5,6)] assms(7,1)] assms(2,3) by (auto simp: only_def)

text \<open>The settled cluster of \<open>Quiescence\<close>: its pass is silent, its set is ready, and nothing is left to remove.\<close>

theorem silent_pass_explained_witness:
  "\<exists>s s'. handleClusterUpdate settled_env settled_cluster s = (Inr (), s')
     \<and> at_rest settled_env () settled_cluster settled_snapshot"
proof -
  let ?key = "clusterKey settled_cluster (clusterURLFn settled_env settled_cluster)"
  let ?cl = "\<lparr>ac_environment = [], ac_zone = []\<rparr>"
  let ?s = "(start ())\<lparr>st_nsClients := [(?key, Client ''u'' ?cl)], st_plClients := [(?key, Client ''u'' ?cl)]\<rparr>"
  have warm: "warm settled_env (st_world ?s) settled_cluster ''u'' ?cl ''u'' ?cl ?s" by (simp add: warm_def)
  have settled: "settled settled_env (st_world ?s) settled_cluster ''u'' ''u'' settled_snapshot"
    using settled_cluster_settled by simp
  obtain s' cs where run: "handleClusterUpdate settled_env settled_cluster ?s = (Inr (), s')"
    "st_calls s' = st_calls ?s @ cs" "list_all is_read cs"
    using observesD [OF warm.observes_pass [OF settled] warm] by (auto simp: only_def)
  have spec: "\<not> cs_Frozen (cl_spec settled_cluster)" "\<not> marked_deleted settled_cluster"
    using settled_cluster_spec by (simp_all add: spec_settled_def spec_initialised_def spec_active_def)
  have groups: "cl_groups settled_cluster \<noteq> []" by (simp add: settled_cluster_def example_spec_def)
  have shown: "exhibits settled_env (st_world ?s) settled_cluster ''u'' ''u'' settled_snapshot"
    using settled_cluster_displays by (simp add: displays_def)
  have pure: "reads_pure settled_env (st_world ?s) settled_cluster" by (simp add: reads_pure_def)
  have formed: "requests_formed (e_lib settled_env) ''u''"
    by (simp add: requests_formed_def settled_env_sel settled_lib_sel) (simp add: settled_lib_def example_lib_def)
  have small: "length (sn_placement settled_snapshot) < 2 ^ 31" by (simp add: settled_snapshot_def)
  have ready: "\<forall>t \<in> set (sn_sets settled_snapshot). set_ready t"
    by (simp add: settled_snapshot_def example_sts_def set_ready_def zero_status_def)
  have "\<not> shrink_stalled settled_env () settled_cluster (sort_groups (tie_groups settled_lib) (cl_groups settled_cluster))
      (sn_placement settled_snapshot) t" for t
    by (auto simp: shrink_stalled_def settled_cluster_def settled_snapshot_def example_spec_def example_group_def
        instancesInIsoGroup_def sort_groups_def go_sort_def GetByName_def split: if_splits)
  with silent_pass_explained [OF run spec groups warm shown pure formed small] ready run(1) show ?thesis
    by (auto simp: settled_env_sel)
qed

subsection \<open>The stall\<close>

text \<open>All pods of a set are wanted: no pod is looked up in the placement.\<close>

lemma no_surplus_pods:
  assumes "ps \<noteq> []" "0 < n" "sortPods (e_lib env) (Some ps) = Inr ids" "int (length ps) \<le> n"
  shows "findPodsAndInstancesToRemove env c pl (Some ps) n = ok []"
proof -
  have "length ids = length ps" using sortPods_mset(1) [OF assms(3)] by (metis length_map size_mset)
  with assms have "drop (nat n) ids = []" by (simp add: nat_le_iff)
  with assms show ?thesis by (simp add: findPodsAndInstancesToRemove_def pods_list_def del: ok_run)
qed

context observation
begin

lemma observes_stalled_set:
  assumes "\<not> cs_PreventScaleDown (cl_spec c)"
    and t: "map_of (om_labels (sts_meta t)) IsolationGroup = Some zone" "GetByName gs zone = Some grp"
      "ss_replicas (sts_spec t) = Some (ig_NumInstances grp)" "ss_updateStrategy (sts_spec t) = RollingUpdate"
    and pods: "list_pods env (cl_namespace c) (SelectorFromSet (om_labels (sts_meta t))) w = (Inr (Some ps), w)" "ps \<noteq> []"
      "sortPods (e_lib env) (Some ps) = Inr ids" "int (length ps) \<le> ig_NumInstances grp"
    and surplus: "0 < ig_NumInstances grp" "ig_NumInstances grp < int (length (instancesInIsoGroup pl zone))" "length pl < 2 ^ 31"
  shows "observes I (resize_child env c gs pl t) True"
proof -
  have name: "ig_Name grp = zone" using t(2) by (auto dest: GetByName_Some)
  have "length (instancesInIsoGroup pl zone) < 2 ^ 31"
    using surplus(3) le_less_trans [OF length_filter_le] unfolding instancesInIsoGroup_def by blast
  note small = i32_small [OF this]
  have "observes I (read_cache (list_pods env (cl_namespace c) (SelectorFromSet (om_labels (sts_meta t))))) (Some ps)"
    using pods(1) by (rule observes_read)
  then have "observes I (shrinkPlacementForSet env c t pl (ig_NumInstances grp)) ()"
    unfolding shrinkPlacementForSet_def using assms(1)
    by (auto simp: no_surplus_pods [OF pods(2) surplus(1) pods(3,4)] observes_ok simp del: ok_run intro!: observes_bindE)
  then have "observes I (resize_set env c pl t grp (ig_NumInstances grp)) True"
    unfolding resize_set_def Let_def name small using surplus(2)
    by (auto simp del: ok_run intro!: observes_bindE observes_ok)
  then show ?thesis using t by (simp add: resize_child_def RollingUpdate_def OnDelete_def)
qed

end

text \<open>
  C35: the stall is real. Take a settled cluster and add instances to the placement that belong to no
  pod, in the group of its first set. Every pass then succeeds with reads only and leaves the world
  as it is: the surplus instances are never removed and no error or event tells of them. The pass
  ends at that set, so later sets are not resized either.
\<close>

theorem surplus_instances_stall:
  assumes settled: "spec_settled c" "displays env (st_world s) c nsURL plURL (sn\<lparr>sn_placement := pl\<rparr>)"
      "\<forall>i < length (cl_groups c). StatefulSetName (cl_name c) i \<in> sts_name ` set (sn_sets sn)"
      "list_all (set_settled (sort_groups (tie_groups (e_lib env)) (cl_groups c)) (sn_placement sn)) (sn_sets sn)"
      "namespaces_settled c (sn_registry sn)" "placement_settled (e_lib env) c (sn_pods sn) pl"
    and first: "sn_sets sn = t # ts" "map_of (om_labels (sts_meta t)) IsolationGroup = Some zone"
      "GetByName (sort_groups (tie_groups (e_lib env)) (cl_groups c)) zone = Some grp" "\<not> cs_PreventScaleDown (cl_spec c)"
    and pods: "list_pods env (cl_namespace c) (SelectorFromSet (om_labels (sts_meta t))) (st_world s) = (Inr (Some ps), st_world s)"
      "ps \<noteq> []" "sortPods (e_lib env) (Some ps) = Inr ids" "int (length ps) \<le> ig_NumInstances grp"
    and surplus: "ig_NumInstances grp < int (length (instancesInIsoGroup pl zone))" "length pl < 2 ^ 31"
    and "warm env (st_world s) c nsURL nsCl plURL plCl s"
  shows "\<exists>s' cs. handleClusterUpdate env c s = (Inr (), s') \<and> st_world s' = st_world s
    \<and> warm env (st_world s) c nsURL nsCl plURL plCl s' \<and> st_calls s' = st_calls s @ cs \<and> list_all is_read cs"
proof -
  let ?I = "warm env (st_world s) c nsURL nsCl plURL plCl" and ?gs = "sort_groups (tie_groups (e_lib env)) (cl_groups c)"
  let ?sn = "sn\<lparr>sn_placement := pl\<rparr>"
  have "set_settled ?gs (sn_placement sn) t" using settled(4) first(1) by simp
  then have t: "ss_replicas (sts_spec t) = Some (ig_NumInstances grp)" "ss_updateStrategy (sts_spec t) = RollingUpdate"
    using first(2,3) by (auto simp: set_settled_def)
  have "0 < ig_NumInstances grp" using pods(2,4) by (cases ps) auto
  then have "observes ?I (resize_child env c ?gs pl t) True"
    using first(2,3,4) t pods surplus by (intro warm.observes_stalled_set)
  then have "observes ?I (resize_phase env c ?gs pl (t # ts)) True" unfolding resize_phase_def for_until.simps
    by (rule observes_bindE) (simp add: observes_ok del: ok_run)
  then have "observes ?I (bindE (resize_phase env c ?gs (sn_placement ?sn) (sn_sets ?sn)) (\<lambda>stop.
      if stop then ok () else finish_phase env c (sn_sets ?sn))) ()"
    using first(1) by (intro observes_bindE [where x = True]) (simp_all add: observes_ok del: ok_run)
  then have "observes ?I (placement_phase env c ?gs) ()"
    using settled(2,6) by (intro warm.observes_placement_phase [where sn = ?sn]) simp_all
  then have "observes ?I (handleClusterUpdate env c) ()"
    using settled by (intro warm.observes_up_to_placement [where sn = ?sn and gs = ?gs and pl = "sn_placement sn"])
      (simp_all add: spec_settled_def)
  from observesD [OF this assms(17)] show ?thesis by (auto simp: only_def warm_def)
qed

text \<open>The settled cluster with an instance of a pod that is gone.\<close>

definition ghost_placement :: m3_placement where
  "ghost_placement = sn_placement settled_snapshot @
     [\<lparr>in_ID = ''y'', in_IsolationGroup = ''a'', in_Hostname = ''c-rep0-1.svc'', in_IsAvailable = True\<rparr>]"

definition ghost_env :: "unit env" where
  "ghost_env = settled_env\<lparr>e_lib := settled_lib\<lparr>NewPlacementFromProto := (\<lambda>_. Inr ghost_placement)\<rparr>\<rparr>"

lemma ghost_env_sel:
  "e_lib ghost_env = settled_lib\<lparr>NewPlacementFromProto := (\<lambda>_. Inr ghost_placement)\<rparr>" "list_sts ghost_env = list_sts settled_env"
  "list_pods ghost_env = list_pods settled_env" "api_http ghost_env = api_http settled_env" "api_svc_get ghost_env = api_svc_get settled_env"
  by (simp_all add: ghost_env_def)

lemma ghost_displays: "displays ghost_env () settled_cluster ''u'' ''u'' (settled_snapshot\<lparr>sn_placement := ghost_placement\<rparr>)"
  by (simp add: displays_def exhibits_def registry_at_def placement_at_def ghost_env_sel settled_env_sel settled_lib_sel answers_def configmap_settled_def settled_cluster_def
      example_cluster_def example_spec_def settled_snapshot_def example_sts_def zero_meta_def)

lemma ghost_placement_settled:
  "placement_settled (e_lib ghost_env) settled_cluster (sn_pods settled_snapshot) ghost_placement"
proof -
  have ord: "Atoi ''0'' = Inr 0" by code_simp
  show ?thesis
    by (simp add: placement_settled_def ghost_placement_def settled_snapshot_def ghost_env_sel settled_lib_sel uid_pods_def
        settled_cluster_def example_spec_def sortPods_def pod_ordinal_def example_pod_def ord)
qed

theorem surplus_instances_stall_witness:
  "\<exists>s s' cs. st_calls s = [] \<and> handleClusterUpdate ghost_env settled_cluster s = (Inr (), s') \<and> st_world s' = st_world s
     \<and> st_calls s' = cs \<and> list_all is_read cs \<and> length (instancesInIsoGroup ghost_placement ''a'') = 2"
proof -
  let ?key = "clusterKey settled_cluster (clusterURLFn ghost_env settled_cluster)" and ?cl = "\<lparr>ac_environment = [], ac_zone = []\<rparr>"
  let ?s = "(start ())\<lparr>st_nsClients := [(?key, Client ''u'' ?cl)], st_plClients := [(?key, Client ''u'' ?cl)]\<rparr>"
  let ?t = "example_sts ''c-rep0'' 1 1" and ?g = "example_group ''a'' 1"
  have warm: "warm ghost_env (st_world ?s) settled_cluster ''u'' ?cl ''u'' ?cl ?s" by (simp add: warm_def)
  have tie: "tie_groups (e_lib ghost_env) = tie_groups (e_lib settled_env)" by (simp add: ghost_env_sel settled_env_sel)
  have old: "\<forall>i < length (cl_groups settled_cluster). StatefulSetName (cl_name settled_cluster) i \<in> sts_name ` set (sn_sets settled_snapshot)"
    "list_all (set_settled (sort_groups (tie_groups (e_lib ghost_env)) (cl_groups settled_cluster)) (sn_placement settled_snapshot)) (sn_sets settled_snapshot)"
    "namespaces_settled settled_cluster (sn_registry settled_snapshot)"
    using settled_cluster_settled by (simp_all add: settled_def tie)
  have sets: "sn_sets settled_snapshot = [?t]" and zone: "map_of (om_labels (sts_meta ?t)) IsolationGroup = Some ''a''"
    by (simp_all add: settled_snapshot_def example_sts_def)
  have grp: "GetByName (sort_groups (tie_groups (e_lib ghost_env)) (cl_groups settled_cluster)) ''a'' = Some ?g"
    by (simp add: GetByName_def sort_groups_def go_sort_def ghost_env_sel settled_cluster_def example_spec_def example_group_def)
  have free: "\<not> cs_PreventScaleDown (cl_spec settled_cluster)" by (simp add: settled_cluster_def example_spec_def)
  have pods: "list_pods ghost_env ns sel (st_world ?s) = (Inr (Some (sn_pods settled_snapshot)), st_world ?s)"
    "sn_pods settled_snapshot \<noteq> []" "int (length (sn_pods settled_snapshot)) \<le> ig_NumInstances ?g" for ns sel
    by (simp_all add: ghost_env_sel settled_env_sel settled_snapshot_def example_group_def)
  obtain ids where ids: "sortPods (e_lib ghost_env) (Some (sn_pods settled_snapshot)) = Inr ids"
    using ghost_placement_settled by (auto simp: placement_settled_def)
  have two: "length (instancesInIsoGroup ghost_placement ''a'') = 2"
    by (simp add: instancesInIsoGroup_def ghost_placement_def settled_snapshot_def)
  have many: "ig_NumInstances ?g < int (length (instancesInIsoGroup ghost_placement ''a''))" "length ghost_placement < 2 ^ 31"
    by (simp_all add: example_group_def instancesInIsoGroup_def ghost_placement_def settled_snapshot_def)
  have shown: "displays ghost_env (st_world ?s) settled_cluster ''u'' ''u'' (settled_snapshot\<lparr>sn_placement := ghost_placement\<rparr>)"
    using ghost_displays by simp
  from surplus_instances_stall [OF settled_cluster_spec shown old ghost_placement_settled sets zone grp free pods(1,2) ids pods(3) many warm]
  obtain s' cs where run: "handleClusterUpdate ghost_env settled_cluster ?s = (Inr (), s')" "st_world s' = st_world ?s"
    "st_calls s' = st_calls ?s @ cs" "list_all is_read cs" by blast
  moreover have "st_calls ?s = []" by (simp add: start_def)
  ultimately show ?thesis using two by (intro exI [of _ ?s] exI [of _ s'] exI [of _ cs] conjI) simp_all
qed

end
