(* ===== verification/Bringup.thy ===== *)
theory Bringup
  imports Progress
begin

text \<open>
  The two passes that take a cluster whose StatefulSets are rolled out to the fixed point of the
  control loop, against an API server and an M3 coordinator that do what they are asked to: one sets up
  the placement, the status and the namespaces, the other ends the bootstrap. The theory has a calculus
  of total correctness for passes and the contract of the environment.
\<close>

section \<open>Total correctness\<close>

text \<open>From every state in \<open>P\<close> the run returns a value, without an error, and ends in \<open>Q\<close>.\<close>

definition leads :: "('s \<Rightarrow> bool) \<Rightarrow> ('s, 'a) io \<Rightarrow> ('a \<Rightarrow> 's \<Rightarrow> bool) \<Rightarrow> bool" where
  "leads P m Q \<longleftrightarrow> (\<forall>s. P s \<longrightarrow> (\<exists>x s'. m s = (Inr x, s') \<and> Q x s'))"

definition gives :: "('s \<Rightarrow> bool) \<Rightarrow> ('s, 'a) io \<Rightarrow> 'a \<Rightarrow> ('s \<Rightarrow> bool) \<Rightarrow> bool" where
  "gives P m x Q \<longleftrightarrow> (\<forall>s. P s \<longrightarrow> (\<exists>s'. m s = (Inr x, s') \<and> Q s'))"

lemma leadsD: "leads P m Q \<Longrightarrow> P s \<Longrightarrow> \<exists>x s'. m s = (Inr x, s') \<and> Q x s'"
  by (simp add: leads_def)

lemma givesD: "gives P m x Q \<Longrightarrow> P s \<Longrightarrow> \<exists>s'. m s = (Inr x, s') \<and> Q s'"
  by (simp add: gives_def)

lemma gives_leads: "gives P m x Q \<Longrightarrow> leads P m (\<lambda>y s. y = x \<and> Q s)"
  by (auto simp: leads_def gives_def)

lemma leads_gives: "leads P m (\<lambda>y. Q) \<Longrightarrow> gives P m () Q"
  by (auto simp: leads_def gives_def)

lemma gives_ok: "gives P (ok x) x P"
  by (simp add: gives_def)

lemma gives_lift_res: "r = Inr x \<Longrightarrow> gives P (lift_res r) x P"
  by (simp add: gives_def)

lemma gives_post: "gives P m x Q \<Longrightarrow> (\<And>s. Q s \<Longrightarrow> Q' s) \<Longrightarrow> gives P m x Q'"
  unfolding gives_def by blast

lemma leads_post: "leads P m Q \<Longrightarrow> (\<And>x s. Q x s \<Longrightarrow> Q' x s) \<Longrightarrow> leads P m Q'"
  unfolding leads_def by blast

lemma gives_conj: "(A \<Longrightarrow> gives P m x Q) \<Longrightarrow> gives (\<lambda>s. A \<and> P s) m x Q"
  unfolding gives_def by blast

lemma gives_bindE: "gives P m x Q \<Longrightarrow> gives Q (f x) y R \<Longrightarrow> gives P (bindE m f) y R"
  unfolding gives_def by (metis bindE_Inr)

lemma gives_catchE: "gives P m x Q \<Longrightarrow> gives Q (h (Inr x)) y R \<Longrightarrow> gives P (catchE m h) y R"
  unfolding gives_def by (metis catchE_eq)

lemma leads_bindE: "leads P m Q \<Longrightarrow> (\<And>x. leads (Q x) (f x) R) \<Longrightarrow> leads P (bindE m f) R"
  unfolding leads_def by (metis bindE_Inr)

lemma leads_gives_bindE: "leads P m Q \<Longrightarrow> (\<And>x. gives (Q x) (f x) y R) \<Longrightarrow> gives P (bindE m f) y R"
  unfolding leads_def gives_def by (metis bindE_Inr)

lemma gives_leads_bindE: "gives P m x Q \<Longrightarrow> leads Q (f x) R \<Longrightarrow> leads P (bindE m f) R"
  unfolding leads_def gives_def by (metis bindE_Inr)

lemma leads_catchE: "leads P m Q \<Longrightarrow> (\<And>x. gives (Q x) (h (Inr x)) y R) \<Longrightarrow> gives P (catchE m h) y R"
  unfolding leads_def gives_def by (metis catchE_eq)

text \<open>A loop whose body moves an index of the assertion along.\<close>

lemma gives_for_each:
  assumes "\<And>x v. x \<in> set xs \<Longrightarrow> C x v \<Longrightarrow> gives (P v) (f x) () (P (g x v))"
    and "\<And>ys x zs v. xs = ys @ x # zs \<Longrightarrow> v = fold g ys u \<Longrightarrow> C x v"
  shows "gives (P u) (for_each f xs) () (P (fold g xs u))"
  using assms
proof (induction xs arbitrary: u)
  case Nil
  show ?case by (simp add: gives_ok del: ok_run)
next
  case (Cons x xs)
  have "C x u" by (rule Cons.prems(2) [of "[]" x xs]) simp_all
  then have first: "gives (P u) (f x) () (P (g x u))" by (intro Cons.prems(1)) simp_all
  have "gives (P (g x u)) (for_each f xs) () (P (fold g xs (g x u)))"
  proof (rule Cons.IH)
    fix ys y zs v
    assume "xs = ys @ y # zs" "v = fold g ys (g x u)"
    then show "C y v" by (intro Cons.prems(2) [of "x # ys" y zs]) simp_all
  qed (simp add: Cons.prems(1))
  with first show ?case by (auto intro: gives_bindE)
qed

lemma gives_for_until:
  assumes "\<And>x v. x \<in> set xs \<Longrightarrow> gives (P v) (f x) False (P (g x v))"
  shows "gives (P u) (for_until f xs) False (P (fold g xs u))"
  using assms
proof (induction xs arbitrary: u)
  case Nil
  show ?case by (simp add: gives_ok del: ok_run)
next
  case (Cons x xs)
  have "gives (P u) (f x) False (P (g x u))" by (rule Cons.prems) simp
  moreover have "gives (P (g x u)) (for_until f xs) False (P (fold g xs (g x u)))"
    by (rule Cons.IH) (simp add: Cons.prems)
  ultimately show ?case by (auto intro: gives_bindE)
qed

lemma gives_map_each:
  "(\<And>x. x \<in> set xs \<Longrightarrow> gives P (f x) (g x) P) \<Longrightarrow> gives P (map_each f xs) (map g xs) P"
proof (induction xs)
  case Nil
  show ?case by (simp add: gives_ok del: ok_run)
next
  case (Cons x xs)
  then have "gives P (f x) (g x) P" "gives P (map_each f xs) (map g xs) P" by simp_all
  then show ?case by (auto intro!: gives_bindE gives_ok simp del: ok_run)
qed

section \<open>States with a view\<close>

text \<open>What there is of a cluster: its sets, pods, namespaces, placement and the stored object.\<close>

record view =
  vw_sets :: "statefulset list"
  vw_pods :: "pod list"
  vw_registry :: registry
  vw_placement :: "m3_placement option"
  vw_object :: m3db_cluster

text \<open>The operator has no other clients for the cluster than the right ones.\<close>

definition inside :: "'w env \<Rightarrow> m3db_cluster \<Rightarrow> 'w \<Rightarrow> 'w st \<Rightarrow> bool" where
  "inside env c w s \<longleftrightarrow> st_world s = w \<and> ParseRequestURI (e_lib env) (clusterURLFn env c) = None
     \<and> map_of (st_nsClients s) (clusterKey c (clusterURLFn env c)) \<in> {None, Some (own_client env c)}
     \<and> map_of (st_plClients s) (clusterKey c (clusterURLFn env c)) \<in> {None, Some (own_client env c)}"

definition own_admin :: "m3db_cluster \<Rightarrow> admin_client" where
  "own_admin c = \<lparr>ac_environment = DefaultM3ClusterEnvironmentName (cl_meta c), ac_zone = cs_Zone (cl_spec c)\<rparr>"

lemma own_client_eq: "own_client env c = Client (clusterURLFn env c) (own_admin c)"
  by (simp add: own_client_def own_admin_def)

interpretation inside: client_observation "inside env c w" w env c "clusterURLFn env c" "own_admin c"
    "clusterURLFn env c" "own_admin c" for env :: "'w env" and c w
proof unfold_locales
  show "observes (inside env c w) (namespaceClientForCluster env c) (Client (clusterURLFn env c) (own_admin c))"
    by (auto simp: observes_def inside_def only_def namespaceClientForCluster_def NewClient_own own_client_eq Let_def)
  show "observes (inside env c w) (placementClientForCluster env c) (Client (clusterURLFn env c) (own_admin c))"
    by (auto simp: observes_def inside_def only_def placementClientForCluster_def NewClient_own own_client_eq Let_def)
qed (simp_all add: inside_def)

text \<open>States in which the world shows a view.\<close>

definition at_view :: "'w env \<Rightarrow> m3db_cluster \<Rightarrow> ('w \<Rightarrow> view) \<Rightarrow> view \<Rightarrow> 'w st \<Rightarrow> bool" where
  "at_view env c view v s \<longleftrightarrow> inside env c (st_world s) s \<and> view (st_world s) = v"

lemma gives_observed:
  assumes "\<And>w. view w = v \<Longrightarrow> observes (inside env c w) m x"
  shows "gives (at_view env c view v) m x (at_view env c view v)"
  unfolding gives_def at_view_def
  using assms by (metis inside.world observesD)

section \<open>Cooperation\<close>

text \<open>A POST that is accepted, and a GET that finds nothing.\<close>

definition accepts :: "'w env \<Rightarrow> 'w \<Rightarrow> string \<Rightarrow> message \<Rightarrow> 'w \<Rightarrow> bool" where
  "accepts env w url msg w' \<longleftrightarrow> (\<exists>b. JSONPBMarshal (e_lib env) msg = Inr b \<and> NewRequest (e_lib env) ''POST'' url = None
     \<and> (\<forall>hs. \<exists>r. api_http env \<lparr>hr_method = ''POST'', hr_url = url, hr_headers = hs, hr_body = Some b\<rparr> w = (Inr r, w')
          \<and> 200 \<le> rs_code r \<and> rs_code r < 300 \<and> decode_ready (e_lib env) (rs_body r) = Inr ()))"

definition missing_at :: "'w env \<Rightarrow> 'w \<Rightarrow> string \<Rightarrow> bool" where
  "missing_at env w url \<longleftrightarrow> NewRequest (e_lib env) ''GET'' url = None
     \<and> (\<forall>hs. \<exists>b. api_http env \<lparr>hr_method = ''GET'', hr_url = url, hr_headers = hs, hr_body = None\<rparr> w
          = (Inr \<lparr>rs_code = 404, rs_body = b\<rparr>, w))"

text \<open>An instance that has just been added, a namespace that has just been added, one that is marked ready.\<close>

definition new_instance :: "pb_instance \<Rightarrow> m3_instance" where
  "new_instance i = \<lparr>in_ID = pb_Id i, in_IsolationGroup = pb_IsolationGroup i, in_Hostname = pb_Hostname i, in_IsAvailable = False\<rparr>"

definition add_entry :: "string \<Rightarrow> registry \<Rightarrow> registry" where
  "add_entry n reg = reg @ [(n, \<lparr>ne_StagingState = Some INITIALIZING, ne_rest = []\<rparr>)]"

definition mark_ready :: "string \<Rightarrow> registry \<Rightarrow> registry" where
  "mark_ready n reg = map (\<lambda>(k, e). (k, if k = n then e\<lparr>ne_StagingState := Some READY\<rparr> else e)) reg"

text \<open>
  The listers show what is stored and reading changes nothing; the API server stores the sets and the
  status it is given; the coordinator, at the URL of the cluster, shows the registry and the placement,
  makes the placement of an init request with instances that are still bootstrapping, adds namespaces
  and marks them ready; events and the clock leave all of this alone. \<open>errors.Cause\<close> unwraps messages
  and JSON reads back the identities it wrote.
\<close>

definition cooperative :: "'w env \<Rightarrow> m3db_cluster \<Rightarrow> ('w \<Rightarrow> view) \<Rightarrow> bool" where
  "cooperative env c view \<longleftrightarrow>
     (\<forall>w. list_sts env (cl_namespace c) (SelectorFromSet (BaseLabels c)) w = (Inr (vw_sets (view w)), w))
   \<and> (\<forall>w. \<forall>sel \<in> {SelectorFromSet (BaseLabels c), placement_selector c}.
        list_pods env (cl_namespace c) sel w = (Inr (Some (vw_pods (view w))), w))
   \<and> (\<forall>ns n w. \<exists>svc. api_svc_get env ns n w = (Inr svc, w))
   \<and> (\<forall>t w. sts_name t \<notin> sts_name ` set (vw_sets (view w)) \<longrightarrow> (\<exists>t' w'. api_sts_create env (cl_namespace c) t w = (Inr t', w')
        \<and> view w' = (view w)\<lparr>vw_sets := vw_sets (view w) @ [t]\<rparr>))
   \<and> (\<forall>cl w. \<exists>w'. api_crd_updateStatus env (cl_namespace c) cl w = (Inr cl, w') \<and> view w' = (view w)\<lparr>vw_object := cl\<rparr>)
   \<and> (\<forall>w. registry_at env w (clusterURLFn env c) (vw_registry (view w)))
   \<and> (\<forall>w. vw_placement (view w) = None \<longrightarrow> missing_at env w (clusterURLFn env c @ placementBaseURL))
   \<and> (\<forall>w pl. vw_placement (view w) = Some pl \<longrightarrow> placement_at env w (clusterURLFn env c) pl)
   \<and> (\<forall>req w. vw_placement (view w) = None \<longrightarrow>
        (\<exists>w'. accepts env w (clusterURLFn env c @ placementBaseURL @ ''/init'') (Msg_PlacementInit req) w'
           \<and> view w' = (view w)\<lparr>vw_placement := Some (map new_instance (pir_Instances req))\<rparr>))
   \<and> (\<forall>req w. nar_Name req \<notin> fst ` set (vw_registry (view w)) \<longrightarrow>
        (\<exists>w'. accepts env w (clusterURLFn env c @ namespaceBaseURL) (Msg_NamespaceAdd req) w'
           \<and> view w' = (view w)\<lparr>vw_registry := add_entry (nar_Name req) (vw_registry (view w))\<rparr>))
   \<and> (\<forall>n w. \<exists>w'. accepts env w (clusterURLFn env c @ namespaceReadyURL) (Msg_NamespaceReady n) w'
           \<and> view w' = (view w)\<lparr>vw_registry := mark_ready n (vw_registry (view w))\<rparr>)
   \<and> (\<forall>e w. view (api_event env e w) = view w) \<and> (\<forall>w. view (snd (api_now env w)) = view w)
   \<and> (\<forall>m. om_owner_refs m = [GenerateOwnerRef c] \<longrightarrow> IsControlledBy (e_lib env) m (cl_meta c))
   \<and> ParseRequestURI (e_lib env) (clusterURLFn env c) = None \<and> cause_unwraps (e_lib env)
   \<and> (\<forall>pid b. IdentityJSON pid = Inr b \<longrightarrow> utf8_identity pid \<longrightarrow> json_identity (e_lib env) b = Inr pid)"

lemma cooperativeD:
  assumes "cooperative env c view"
  shows "list_sts env (cl_namespace c) (SelectorFromSet (BaseLabels c)) w = (Inr (vw_sets (view w)), w)"
    and "list_pods env (cl_namespace c) (SelectorFromSet (BaseLabels c)) w = (Inr (Some (vw_pods (view w))), w)"
    and "list_pods env (cl_namespace c) (placement_selector c) w = (Inr (Some (vw_pods (view w))), w)"
    and "\<exists>svc. api_svc_get env ns n w = (Inr svc, w)"
    and "sts_name t \<notin> sts_name ` set (vw_sets (view w)) \<Longrightarrow> \<exists>t' w'. api_sts_create env (cl_namespace c) t w = (Inr t', w')
        \<and> view w' = (view w)\<lparr>vw_sets := vw_sets (view w) @ [t]\<rparr>"
    and "\<exists>w'. api_crd_updateStatus env (cl_namespace c) cl w = (Inr cl, w') \<and> view w' = (view w)\<lparr>vw_object := cl\<rparr>"
    and "registry_at env w (clusterURLFn env c) (vw_registry (view w))"
    and "vw_placement (view w) = None \<Longrightarrow> missing_at env w (clusterURLFn env c @ placementBaseURL)"
    and "vw_placement (view w) = Some pl \<Longrightarrow> placement_at env w (clusterURLFn env c) pl"
    and "vw_placement (view w) = None \<Longrightarrow>
        \<exists>w'. accepts env w (clusterURLFn env c @ placementBaseURL @ ''/init'') (Msg_PlacementInit req) w'
           \<and> view w' = (view w)\<lparr>vw_placement := Some (map new_instance (pir_Instances req))\<rparr>"
    and "nar_Name nar \<notin> fst ` set (vw_registry (view w)) \<Longrightarrow>
        \<exists>w'. accepts env w (clusterURLFn env c @ namespaceBaseURL) (Msg_NamespaceAdd nar) w'
           \<and> view w' = (view w)\<lparr>vw_registry := add_entry (nar_Name nar) (vw_registry (view w))\<rparr>"
    and "\<exists>w'. accepts env w (clusterURLFn env c @ namespaceReadyURL) (Msg_NamespaceReady n) w'
           \<and> view w' = (view w)\<lparr>vw_registry := mark_ready n (vw_registry (view w))\<rparr>"
    and "view (api_event env e w) = view w" and "view (snd (api_now env w)) = view w"
    and "om_owner_refs m = [GenerateOwnerRef c] \<Longrightarrow> IsControlledBy (e_lib env) m (cl_meta c)"
    and "ParseRequestURI (e_lib env) (clusterURLFn env c) = None" and "cause_unwraps (e_lib env)"
    and "IdentityJSON pid = Inr b \<Longrightarrow> utf8_identity pid \<Longrightarrow> json_identity (e_lib env) b = Inr pid"
  using assms unfolding cooperative_def by auto

lemma cooperative_keeps_sets: "cooperative env c view \<Longrightarrow> keeps_sets env c (\<lambda>w. vw_sets (view w))"
  using cooperativeD(1,4,5,15) unfolding keeps_sets_def by fastforce

section \<open>Requests\<close>

lemma at_view_request:
  "at_view env c view v s \<Longrightarrow> view w' = v' \<Longrightarrow> at_view env c view v' (s\<lparr>st_world := w', st_calls := cs\<rparr>)"
  by (simp add: at_view_def inside_def)

lemma at_view_world: "at_view env c view v s \<Longrightarrow> view w' = v' \<Longrightarrow> at_view env c view v' (s\<lparr>st_world := w'\<rparr>)"
  by (simp add: at_view_def inside_def)

lemma gives_POST:
  assumes "\<And>w. view w = v \<Longrightarrow> \<exists>w'. accepts env w url msg w' \<and> view w' = v'"
    and "\<And>b. decode_ready (e_lib env) b = Inr () \<Longrightarrow> dec b = Inr ()"
  shows "gives (at_view env c view v) (DoHTTPJSONPBRequest env cl ''POST'' url (Some msg) dec opts) () (at_view env c view v')"
  unfolding gives_def
proof (intro allI impI)
  fix s
  assume s: "at_view env c view v s"
  then obtain w' where w': "accepts env (st_world s) url msg w'" "view w' = v'"
    using assms(1) by (auto simp: at_view_def)
  then obtain b where b: "JSONPBMarshal (e_lib env) msg = Inr b" "NewRequest (e_lib env) ''POST'' url = None"
    by (auto simp: accepts_def)
  let ?req = "\<lparr>hr_method = ''POST'', hr_url = url, hr_headers = all_headers cl opts, hr_body = Some b\<rparr>"
  obtain r where r: "api_http env ?req (st_world s) = (Inr r, w')" "200 \<le> rs_code r" "rs_code r < 300"
    "decode_ready (e_lib env) (rs_body r) = Inr ()"
    using w'(1) b(1) by (auto simp: accepts_def)
  have "DoHTTPJSONPBRequest env cl ''POST'' url (Some msg) dec opts s
      = (Inr (), s\<lparr>st_world := w', st_calls := st_calls s @ [Http ?req]\<rparr>)"
    using b r assms(2) [OF r(4)] by (simp add: DoHTTPJSONPBRequest_def DoHTTPRequest_def Let_def bindE_def request_def check_status_def)
  moreover have "at_view env c view v' (s\<lparr>st_world := w', st_calls := st_calls s @ [Http ?req]\<rparr>)"
    using s w'(2) by (rule at_view_request)
  ultimately show "\<exists>s'. DoHTTPJSONPBRequest env cl ''POST'' url (Some msg) dec opts s = (Inr (), s') \<and> at_view env c view v' s'"
    by blast
qed

lemma gives_event:
  assumes "cooperative env c view"
  shows "gives (at_view env c view v) (post_event env t r m a) () (at_view env c view v)"
  using cooperativeD(13) [OF assms] by (auto simp: gives_def post_event_def Let_def intro!: at_view_request) (simp add: at_view_def)

lemma leads_now:
  assumes "cooperative env c view"
  shows "leads (at_view env c view v) (now env) (\<lambda>t. at_view env c view v)"
  unfolding leads_def
proof (intro allI impI)
  fix s
  assume s: "at_view env c view v s"
  obtain t w' where t: "api_now env (st_world s) = (t, w')" by force
  with cooperativeD(14) [OF assms, of "st_world s"] s have "view w' = v" by (simp add: at_view_def)
  from at_view_world [OF s this] t
  show "\<exists>x s'. now env s = (Inr x, s') \<and> at_view env c view v s'" by (auto simp: now_def)
qed

lemma gives_updateStatus:
  assumes "cooperative env c view" and "cl_namespace cl = cl_namespace c"
  shows "gives (at_view env c view v) (crd_UpdateStatus env cl) cl (at_view env c view (v\<lparr>vw_object := cl\<rparr>))"
  unfolding gives_def
proof (intro allI impI)
  fix s
  assume s: "at_view env c view v s"
  obtain w' where "api_crd_updateStatus env (cl_namespace c) cl (st_world s) = (Inr cl, w')"
    "view w' = (view (st_world s))\<lparr>vw_object := cl\<rparr>"
    using cooperativeD(6) [OF assms(1)] by blast
  with s show "\<exists>s'. crd_UpdateStatus env cl s = (Inr cl, s') \<and> at_view env c view (v\<lparr>vw_object := cl\<rparr>) s'"
    using assms(2) by (auto simp: crd_UpdateStatus_def request_def intro!: at_view_request) (simp add: at_view_def)
qed

text \<open>A run that returns an error.\<close>

definition fails :: "('s \<Rightarrow> bool) \<Rightarrow> ('s, 'a) io \<Rightarrow> (gerror \<Rightarrow> bool) \<Rightarrow> ('s \<Rightarrow> bool) \<Rightarrow> bool" where
  "fails P m E Q \<longleftrightarrow> (\<forall>s. P s \<longrightarrow> (\<exists>e s'. m s = (Inl e, s') \<and> E e \<and> Q s'))"

lemma leads_catch_error: "fails P m E Q \<Longrightarrow> (\<And>e. E e \<Longrightarrow> leads Q (h (Inl e)) R) \<Longrightarrow> leads P (catchE m h) R"
  unfolding fails_def leads_def by (metis catchE_eq)

lemma fails_Get:
  assumes "cooperative env c view" and "vw_placement v = None"
  shows "fails (at_view env c view v) (pl_Get env (Client (clusterURLFn env c) cl)) (\<lambda>e. Cause (e_lib env) e = ErrNotFound)
    (at_view env c view v)"
  unfolding fails_def
proof (intro allI impI)
  fix s
  assume s: "at_view env c view v s"
  let ?url = "clusterURLFn env c @ placementBaseURL"
  let ?req = "\<lparr>hr_method = ''GET'', hr_url = ?url, hr_headers = all_headers cl [], hr_body = None\<rparr>"
  from s assms(2) have gone: "missing_at env (st_world s) ?url"
    by (intro cooperativeD(8) [OF assms(1)]) (simp add: at_view_def)
  then obtain b where b: "NewRequest (e_lib env) ''GET'' ?url = None"
    "api_http env ?req (st_world s) = (Inr \<lparr>rs_code = 404, rs_body = b\<rparr>, st_world s)"
    by (auto simp: missing_at_def)
  obtain e where e: "check_status (e_lib env) \<lparr>rs_code = 404, rs_body = b\<rparr> = Inl e"
    by (simp add: check_status_def Let_def)
  have "Cause (e_lib env) e = ErrNotFound" using check_status_cause [OF cooperativeD(17) [OF assms(1)] e] by simp
  moreover have "pl_Get env (Client (clusterURLFn env c) cl) s
      = (Inl e, s\<lparr>st_world := st_world s, st_calls := st_calls s @ [Http ?req]\<rparr>)"
    using b e by (simp add: pl_Get_def with_client_def DoHTTPJSONPBRequest_def DoHTTPRequest_def Let_def bindE_def request_def)
  ultimately show "\<exists>e s'. pl_Get env (Client (clusterURLFn env c) cl) s = (Inl e, s') \<and> Cause (e_lib env) e = ErrNotFound
      \<and> at_view env c view v s'"
    using at_view_request [OF s, of "st_world s" v "st_calls s @ [Http ?req]"] s by (auto simp: at_view_def)
qed

section \<open>The status of an object does not matter to the environment\<close>

lemma at_view_status: "at_view env (c\<lparr>cl_status := x\<rparr>) = at_view env c"
  by (simp add: fun_eq_iff at_view_def inside_def clusterKey_def clusterURLFn_def clusterURL_def clusterURLProxy_def own_client_def)

lemma cooperative_status: "cooperative env (c\<lparr>cl_status := x\<rparr>) = cooperative env c"
  by (simp add: fun_eq_iff cooperative_def clusterURLFn_def clusterURL_def clusterURLProxy_def BaseLabels_def placement_selector_def
      GenerateOwnerRef_def)

lemma set_condition_status: "set_condition c x = c\<lparr>cl_status := UpdateCondition (cl_status c) x\<rparr>"
  by (simp add: set_condition_def)

section \<open>The placement of a new cluster\<close>

definition pod_group :: "pod \<Rightarrow> string" where
  "pod_group p = the (map_of (om_labels (pod_meta p)) IsolationGroup)"

text \<open>Pods whose instance can be made: with a UID, a group label and an endpoint.\<close>

definition pods_formed :: "lib \<Rightarrow> m3db_cluster \<Rightarrow> pod list \<Rightarrow> bool" where
  "pods_formed lb c ps \<longleftrightarrow> uid_pods c ps
     \<and> list_all (\<lambda>p. map_of (om_labels (pod_meta p)) IsolationGroup \<noteq> None \<and> (\<exists>ep. pod_endpoint lb c p = Inr ep)) ps"

definition pod_instance :: "lib \<Rightarrow> m3db_cluster \<Rightarrow> pod \<Rightarrow> pb_instance" where
  "pod_instance lb c p = \<lparr>pb_Id = uid_text p, pb_IsolationGroup = pod_group p,
     pb_Zone = (if cs_Zone (cl_spec c) = [] then zoneEmbedded else cs_Zone (cl_spec c)),
     pb_Weight = 100, pb_Endpoint = projr (pod_endpoint lb c p),
     pb_Hostname = pod_name p @ ''.'' @ HeadlessServiceName (cl_name c), pb_Port = defaultM3DBPort\<rparr>"

definition first_placement :: "m3db_cluster \<Rightarrow> pod list \<Rightarrow> m3_placement" where
  "first_placement c ps = map (\<lambda>p. \<lparr>in_ID = uid_text p, in_IsolationGroup = pod_group p,
     in_Hostname = pod_name p @ ''.'' @ HeadlessServiceName (cl_name c), in_IsAvailable = False\<rparr>) ps"

lemma IdentityJSON_uid_text: "IdentityJSON (uid_identity p) = Inr (uid_text p)"
  by (simp add: uid_text_def IdentityJSON_def)

lemma PlacementInstanceFromPod_uid:
  assumes "pods_formed (e_lib env) c ps" and "p \<in> set ps"
  shows "PlacementInstanceFromPod env c p = ok (pod_instance (e_lib env) c p)"
proof -
  from assms have uid: "uid_pods c ps" and label: "map_of (om_labels (pod_meta p)) IsolationGroup = Some (pod_group p)"
    and ep: "pod_endpoint (e_lib env) c p = Inr (projr (pod_endpoint (e_lib env) c p))"
    by (auto simp: pods_formed_def list_all_iff pod_group_def)
  show ?thesis
    unfolding PlacementInstanceFromPod_def label option.case Identity_uid [OF uid assms(2)] bindE_ok IdentityJSON_uid_text
      lift_res_Inr pod_instance_def
    by (subst ep) (simp only: lift_res_Inr bindE_ok)
qed

definition placed :: "m3db_cluster \<Rightarrow> string \<Rightarrow> m3db_cluster" where
  "placed c t = set_condition c \<lparr>cc_Type = PlacementInitialized, cc_Status = ConditionTrue, cc_LastUpdateTime = t,
     cc_LastTransitionTime = [], cc_Reason = ''PlacementCreated'', cc_Message = ''Created placement''\<rparr>"

lemma leads_setStatusPlacementCreated:
  assumes "cooperative env c view"
  shows "leads (at_view env c view v) (setStatusPlacementCreated env c)
    (\<lambda>x s. \<exists>t. x = placed c t \<and> at_view env c view (v\<lparr>vw_object := x\<rparr>) s)"
  unfolding setStatusPlacementCreated_def Let_def placed_def [symmetric]
proof (rule leads_bindE [OF leads_now [OF assms]])
  fix t
  have "gives (at_view env c view v) (crd_UpdateStatus env (placed c t)) (placed c t)
      (at_view env c view (v\<lparr>vw_object := placed c t\<rparr>))"
    by (intro gives_updateStatus [OF assms]) (simp add: placed_def set_condition_def)
  then have "gives (at_view env c view v) (catchE (crd_UpdateStatus env (placed c t)) (\<lambda>r. case r of
      Inl err \<Rightarrow> bindE (WarningEvent env ReasonFailSync ''failed to update placement status: %v'' [AErr err]) (\<lambda>_. fail err)
    | Inr c \<Rightarrow> ok c)) (placed c t) (at_view env c view (v\<lparr>vw_object := placed c t\<rparr>))"
    by (rule gives_catchE) (simp add: gives_ok del: ok_run)
  from gives_leads [OF this] show "leads (at_view env c view v) (catchE (crd_UpdateStatus env (placed c t)) (\<lambda>r. case r of
      Inl err \<Rightarrow> bindE (WarningEvent env ReasonFailSync ''failed to update placement status: %v'' [AErr err]) (\<lambda>_. fail err)
    | Inr c \<Rightarrow> ok c)) (\<lambda>x s. \<exists>t. x = placed c t \<and> at_view env c view (v\<lparr>vw_object := x\<rparr>) s)"
    by (rule leads_post) blast
qed

lemma leads_validatePlacementWithStatus:
  assumes coop: "cooperative env c view" and none: "vw_placement v = None" and pods: "pods_formed (e_lib env) c (vw_pods v)"
  shows "leads (at_view env c view v) (validatePlacementWithStatus env c) (\<lambda>x s. \<exists>t. x = placed c t
    \<and> at_view env c view (v\<lparr>vw_placement := Some (first_placement c (vw_pods v)), vw_object := x\<rparr>) s)"
proof -
  let ?S = "at_view env c view" and ?cl = "Client (clusterURLFn env c) (own_admin c)"
  let ?insts = "map (pod_instance (e_lib env) c) (vw_pods v)"
  let ?req = "\<lparr>pir_NumShards = cs_NumberOfShards (cl_spec c), pir_ReplicationFactor = cs_ReplicationFactor (cl_spec c),
    pir_Instances = ?insts\<rparr>"
  have new: "map new_instance ?insts = first_placement c (vw_pods v)"
    by (simp add: new_instance_def pod_instance_def first_placement_def)
  have client: "gives (?S v) (placementClientForCluster env c) ?cl (?S v)"
    by (rule gives_observed) (rule inside.pl_client)
  have list: "gives (?S v) (read_cache (list_pods env (cl_namespace c) (placement_selector c))) (Some (vw_pods v)) (?S v)"
    by (rule gives_observed, rule inside.observes_read) (simp add: cooperativeD(3) [OF coop])
  have insts: "gives (?S v) (map_each (PlacementInstanceFromPod env c) (pods_list (Some (vw_pods v)))) ?insts (?S v)"
    unfolding pods_list_def option.case
    by (rule gives_map_each) (simp add: PlacementInstanceFromPod_uid [OF pods] gives_ok del: ok_run)
  have init: "gives (?S v) (pl_Init env ?cl ?req) () (?S (v\<lparr>vw_placement := Some (first_placement c (vw_pods v))\<rparr>))"
    unfolding pl_Init_def with_client_def svc_client.case
    using cooperativeD(10) [OF coop, of _ ?req] none new by (intro gives_POST) (auto simp: discard_def)
  show ?thesis
    unfolding validatePlacementWithStatus_def
    by (rule gives_leads_bindE [OF client], rule leads_catch_error [OF fails_Get [OF coop none]], simp only: sum.case,
        simp only: if_False simp_thms, rule gives_leads_bindE [OF list], rule gives_leads_bindE [OF insts],
        rule gives_leads_bindE [OF init], rule leads_setStatusPlacementCreated [OF coop])
qed

section \<open>The namespaces of a new cluster\<close>

text \<open>Namespaces whose requests can be made, with different names.\<close>

definition namespaces_formed :: "lib \<Rightarrow> m3db_cluster \<Rightarrow> bool" where
  "namespaces_formed lb c \<longleftrightarrow> distinct (map ns_Name (cs_Namespaces (cl_spec c))) \<and> cs_Namespaces (cl_spec c) \<noteq> []
     \<and> list_all (\<lambda>ns. \<exists>req. RequestFromSpec (frac_nanos lb) (pb_struct lb) ns = Inr req) (cs_Namespaces (cl_spec c))"

definition with_entry :: "ns_spec \<Rightarrow> view \<Rightarrow> view" where
  "with_entry ns v = v\<lparr>vw_registry := add_entry (ns_Name ns) (vw_registry v)\<rparr>"

definition with_ready :: "ns_spec \<Rightarrow> view \<Rightarrow> view" where
  "with_ready ns v = v\<lparr>vw_registry := mark_ready (ns_Name ns) (vw_registry v)\<rparr>"

lemma fold_with_entry: "fold with_entry nss v = v\<lparr>vw_registry := fold (\<lambda>ns. add_entry (ns_Name ns)) nss (vw_registry v)\<rparr>"
  by (induction nss arbitrary: v) (simp_all add: with_entry_def)

lemma fold_with_ready: "fold with_ready nss v = v\<lparr>vw_registry := fold (\<lambda>ns. mark_ready (ns_Name ns)) nss (vw_registry v)\<rparr>"
  by (induction nss arbitrary: v) (simp_all add: with_ready_def)

lemma fold_add_entry_names: "fst ` set (fold (\<lambda>ns. add_entry (ns_Name ns)) nss reg) = fst ` set reg \<union> ns_Name ` set nss"
  by (induction nss arbitrary: reg) (auto simp: add_entry_def)

lemma fold_mark_ready:
  "fold (\<lambda>ns. mark_ready (ns_Name ns)) nss reg =
     map (\<lambda>(k, e). (k, if k \<in> ns_Name ` set nss then e\<lparr>ne_StagingState := Some READY\<rparr> else e)) reg"
proof (induction nss arbitrary: reg)
  case Nil
  show ?case by (induction reg) auto
next
  case (Cons ns nss)
  show ?case by (simp add: Cons.IH) (auto simp: mark_ready_def)
qed

lemma marked_settled:
  assumes "fst ` set reg = ns_Name ` set (cs_Namespaces (cl_spec c))" and "ns_Name ` set nss = ns_Name ` set (cs_Namespaces (cl_spec c))"
  shows "namespaces_settled c (fold (\<lambda>ns. mark_ready (ns_Name ns)) nss reg)"
proof -
  let ?f = "\<lambda>(k, e). (k, if k \<in> ns_Name ` set nss then e\<lparr>ne_StagingState := Some READY\<rparr> else e)"
  have "fst ` set (map ?f reg) = fst ` set reg" by (simp add: image_image case_prod_beta)
  moreover have "list_all (\<lambda>(n, e). ne_StagingState e \<in> {None, Some READY}) (map ?f reg)"
    unfolding list_all_iff
  proof
    fix x
    assume "x \<in> set (map ?f reg)"
    then obtain k e where ke: "(k, e) \<in> set reg" "x = ?f (k, e)" by auto
    then have "k \<in> ns_Name ` set nss" using assms by force
    with ke(2) show "case x of (n, e) \<Rightarrow> ne_StagingState e \<in> {None, Some READY}" by simp
  qed
  ultimately show ?thesis using assms(1) by (simp only: namespaces_settled_def fold_mark_ready)
qed

lemma gives_create_namespace:
  assumes coop: "cooperative env c view" and new: "ns_Name ns \<notin> fst ` set (vw_registry v)"
    and req: "RequestFromSpec (frac_nanos (e_lib env)) (pb_struct (e_lib env)) ns = Inr req"
  shows "gives (at_view env c view v) (create_namespace env c ns) () (at_view env c view (with_entry ns v))"
proof -
  let ?cl = "Client (clusterURLFn env c) (own_admin c)"
  have name: "nar_Name req = ns_Name ns" using RequestFromSpec_name [OF req] by simp
  have client: "gives (at_view env c view v) (namespaceClientForCluster env c) ?cl (at_view env c view v)"
    by (rule gives_observed) (rule inside.ns_client)
  have "gives (at_view env c view v) (ns_Create env ?cl req) () (at_view env c view (with_entry ns v))"
    unfolding ns_Create_def with_client_def svc_client.case
    using cooperativeD(11) [OF coop, of req] new name by (intro gives_POST) (auto simp: discard_def with_entry_def)
  note create = this
  show ?thesis
    unfolding create_namespace_def req sum.case NormalEvent_def
    by (rule gives_bindE [OF client], rule gives_catchE [OF create], simp only: sum.case, rule gives_event [OF coop])
qed

lemma gives_ready_namespace:
  assumes coop: "cooperative env c view"
  shows "gives (at_view env c view v) (ready_namespace env c ns) False (at_view env c view (with_ready ns v))"
proof -
  let ?cl = "Client (clusterURLFn env c) (own_admin c)"
  have client: "gives (at_view env c view v) (namespaceClientForCluster env c) ?cl (at_view env c view v)"
    by (rule gives_observed) (rule inside.ns_client)
  have "gives (at_view env c view v) (ns_Ready env ?cl (ns_Name ns)) () (at_view env c view (with_ready ns v))"
    unfolding ns_Ready_def with_client_def svc_client.case
    using cooperativeD(12) [OF coop, of _ "ns_Name ns"] by (intro gives_POST) (auto simp: with_ready_def)
  note ready = this
  show ?thesis
    unfolding ready_namespace_def
    by (rule gives_bindE [OF client], rule gives_catchE [OF ready], simp only: sum.case, rule gives_ok)
qed

lemma leads_reconcileNamespaces:
  assumes coop: "cooperative env c view" and formed: "namespaces_formed (e_lib env) c" and none: "vw_registry v = []"
    and inner: "cs_ExternalCoordinator (cl_spec c) = None"
  shows "leads (at_view env c view v) (reconcileNamespaces env c)
    (\<lambda>_ s. \<exists>reg. namespaces_settled c reg \<and> at_view env c view (v\<lparr>vw_registry := reg\<rparr>) s)"
proof -
  let ?S = "at_view env c view" and ?cl = "Client (clusterURLFn env c) (own_admin c)" and ?nss = "cs_Namespaces (cl_spec c)"
  let ?ready = "namespacesToReady (e_lib env) [] ?nss"
  define reg where "reg = fold (\<lambda>ns. mark_ready (ns_Name ns)) ?ready (fold (\<lambda>ns. add_entry (ns_Name ns)) ?nss [])"
  have end_view: "fold with_ready ?ready (fold with_entry ?nss v) = v\<lparr>vw_registry := reg\<rparr>"
    by (simp add: fold_with_entry fold_with_ready none reg_def)
  have names: "ns_Name ` set ?ready = ns_Name ` set ?nss" by (simp add: namespacesToReady_names)
  have settled: "namespaces_settled c reg"
    unfolding reg_def by (rule marked_settled) (simp_all add: names fold_add_entry_names)
  have client: "gives (?S v) (namespaceClientForCluster env c) ?cl (?S v)"
    by (rule gives_observed) (rule inside.ns_client)
  have list: "gives (?S v) (ns_List env ?cl) [] (?S v)"
  proof (rule gives_observed, rule inside.observes_List_at)
    fix w
    assume "view w = v"
    then show "registry_at env w (clusterURLFn env c) []" using cooperativeD(7) [OF coop, of w] none by simp
  qed
  have create: "gives (?S v) (createNamespaces env c []) () (?S (fold with_entry ?nss v))"
    unfolding createNamespaces_def namespacesToCreate_filter
  proof (simp, rule gives_for_each [where C = "\<lambda>ns (v :: view). ns_Name ns \<notin> fst ` set (vw_registry v)"])
    fix ns and v' :: view
    assume "ns \<in> set ?nss" "ns_Name ns \<notin> fst ` set (vw_registry v')"
    then show "gives (?S v') (create_namespace env c ns) () (?S (with_entry ns v'))"
      using formed by (auto simp: namespaces_formed_def list_all_iff intro: gives_create_namespace [OF coop])
  next
    fix ys ns zs and v' :: view
    assume "?nss = ys @ ns # zs" "v' = fold with_entry ys v"
    then show "ns_Name ns \<notin> fst ` set (vw_registry v')"
      using formed by (auto simp: fold_with_entry fold_add_entry_names none namespaces_formed_def)
  qed
  have ready: "gives (?S (fold with_entry ?nss v)) (readyNamespaces env c []) () (?S (v\<lparr>vw_registry := reg\<rparr>))"
    unfolding readyNamespaces_def end_view [symmetric]
    using inner gives_ok by (auto intro!: gives_bindE gives_for_until gives_ready_namespace [OF coop] simp del: ok_run)
  have "gives (?S v) (reconcileNamespaces env c) () (?S (v\<lparr>vw_registry := reg\<rparr>))"
    unfolding reconcileNamespaces_def
    by (rule gives_bindE [OF client], rule gives_catchE [OF list], simp only: sum.case,
        rule gives_bindE [where Q = "?S v"], simp add: pruneNamespaces_def namespacesToDelete_def gives_ok del: ok_run,
        rule gives_bindE [OF create], rule ready)
  from gives_leads [OF this] show ?thesis by (rule leads_post) (use settled in blast)
qed

section \<open>A pass over rolled-out sets\<close>

text \<open>
  All sets exist, belong to the cluster, are rolled out and have the size of their group, where \<open>pl\<close>
  is a placement with as many instances of each group as the group should have.
\<close>

definition sets_up :: "lib \<Rightarrow> m3db_cluster \<Rightarrow> m3_placement \<Rightarrow> statefulset list \<Rightarrow> bool" where
  "sets_up lb c pl ts \<longleftrightarrow> (\<forall>i < length (cl_groups c). StatefulSetName (cl_name c) i \<in> sts_name ` set ts)
     \<and> list_all (set_settled (sort_groups (tie_groups lb) (cl_groups c)) pl) ts
     \<and> list_all (\<lambda>t. om_owner_refs (sts_meta t) = [GenerateOwnerRef c]) ts"

definition own_configmap :: "m3db_cluster \<Rightarrow> bool" where
  "own_configmap c \<longleftrightarrow> (\<exists>n. cs_ConfigMapName (cl_spec c) = Some n \<and> n \<noteq> [])"

lemma own_configmap_settled: "own_configmap c \<Longrightarrow> configmap_settled env w c"
  by (auto simp: own_configmap_def configmap_settled_def)

lemma sets_up_controlled:
  assumes "cooperative env c view" and "sets_up (e_lib env) c pl ts"
  shows "list_all (\<lambda>t. IsControlledBy (e_lib env) (sts_meta t) (cl_meta c)) ts"
  using assms(2) cooperativeD(15) [OF assms(1)] by (simp add: sets_up_def list_all_iff)

lemma gives_children:
  assumes "cooperative env c view" and "sets_up (e_lib env) c pl (vw_sets v)"
  shows "gives (at_view env c view v) (getChildStatefulSets env c) (vw_sets v) (at_view env c view v)"
  by (rule gives_observed, rule inside.observes_getChildStatefulSets)
    (use cooperativeD(1) [OF assms(1)] sets_up_controlled [OF assms] in auto)

lemma gives_pass:
  assumes coop: "cooperative env c view" and active: "spec_active c" and cm: "own_configmap c" and some: "cl_groups c \<noteq> []"
    and up: "sets_up (e_lib env) c pl (vw_sets v)" and gs: "gs = sort_groups (tie_groups (e_lib env)) (cl_groups c)"
    and rest: "gives (at_view env c view v) (bindE (data_phase env c) (\<lambda>c. placement_phase env c gs)) () Q"
  shows "gives (at_view env c view v) (handleClusterUpdate env c) () Q"
proof -
  let ?S = "at_view env c view v" and ?sets = "vw_sets v"
  have up': "\<forall>i < length (cl_groups c). StatefulSetName (cl_name c) i \<in> sts_name ` set ?sets" "list_all (set_settled gs pl) ?sets"
    using up by (simp_all add: sets_up_def gs)
  have len: "length gs = length (cl_groups c)" by (simp add: gs sort_groups_def)
  have gen: "check_generations ?sets = None" "all_ready ?sets"
    using up'(2) by (auto simp: check_generations_None all_ready_iff list_all_iff set_settled_def)
  have prepare: "gives ?S (prepare_phase env c) c ?S"
    by (rule gives_observed, rule inside.observes_prepare [OF active])
      (use cooperativeD(4) [OF coop] own_configmap_settled [OF cm] in auto)
  have create: "gives ?S (create_phase env c gs (sets_by_name ?sets)) False ?S"
    by (rule gives_observed, rule observes_create_phase [OF up'(1) len])
  have update: "gives ?S (update_phase env c gs (sets_by_name ?sets)) False ?S"
    by (rule gives_observed, rule observes_update_phase [OF up'(1) len up'(2)])
  have "gives ?S (rest_phase env c gs ?sets) () Q"
    unfolding rest_phase_def by (simp add: gen, rule gives_bindE [OF update], simp add: rest)
  then have "gives ?S (sets_phase env c) () Q"
    unfolding sets_phase_def Let_def gs [symmetric]
    by (intro gives_bindE [OF gives_children [OF coop up]] gives_bindE [OF create]) simp
  then show ?thesis
    unfolding handleClusterUpdate_def using active some prepare by (auto simp: spec_active_def intro: gives_bindE)
qed

section \<open>The pass that sets up the placement and the namespaces\<close>

lemma placed_fields [simp]:
  "cl_spec (placed c t) = cl_spec c" "cl_meta (placed c t) = cl_meta c"
  by (simp_all add: placed_def set_condition_def)

lemma placed_status: "placed c t = c\<lparr>cl_status := cl_status (placed c t)\<rparr>"
  by (simp add: placed_def set_condition_def)

lemma hasConditionTrue_UpdateCondition:
  assumes "cc_Status new = ConditionTrue"
  shows "hasConditionTrue (UpdateCondition st new) (cc_Type new)"
proof -
  have "hasConditionTrue_loop (UpdateCondition_loop cs new) (cc_Type new)" for cs
    using assms by (induction cs) auto
  then show ?thesis by (simp add: hasConditionTrue_def UpdateCondition_def)
qed

lemma placed_initialised: "HasInitializedPlacement (cl_status (placed c t))"
  using hasConditionTrue_UpdateCondition [of "\<lparr>cc_Type = PlacementInitialized, cc_Status = ConditionTrue, cc_LastUpdateTime = t,
     cc_LastTransitionTime = [], cc_Reason = ''PlacementCreated'', cc_Message = ''Created placement''\<rparr>" "cl_status c"]
  by (simp add: HasInitializedPlacement_def placed_def set_condition_def)

lemma leads_data_phase:
  assumes coop: "cooperative env c view" and new: "\<not> HasInitializedPlacement (cl_status c)" "vw_placement v = None" "vw_registry v = []"
    and pods: "pods_formed (e_lib env) c (vw_pods v)" and nss: "namespaces_formed (e_lib env) c"
    and inner: "cs_ExternalCoordinator (cl_spec c) = None"
  shows "leads (at_view env c view v) (data_phase env c) (\<lambda>x s. \<exists>t reg. x = placed c t \<and> namespaces_settled c reg
    \<and> at_view env c view (v\<lparr>vw_placement := Some (first_placement c (vw_pods v)), vw_object := x, vw_registry := reg\<rparr>) s)"
proof -
  let ?v = "\<lambda>x. v\<lparr>vw_placement := Some (first_placement c (vw_pods v)), vw_object := x\<rparr>"
  have init: "leads (at_view env c view v) (if \<not> HasInitializedPlacement (cl_status c) then validatePlacementWithStatus env c else ok c)
    (\<lambda>x s. \<exists>t. x = placed c t \<and> at_view env c view (?v x) s)"
    using leads_validatePlacementWithStatus [OF coop new(2) pods] new(1) by simp
  have tail: "leads (\<lambda>s. \<exists>t. x = placed c t \<and> at_view env c view (?v x) s)
      (bindE (catchE (reconcileNamespaces env x) (\<lambda>r. case r of
         Inl err \<Rightarrow> bindE (WarningEvent env ReasonFailedCreate ''failed to create namespace: %s'' [AErr err]) (\<lambda>_. fail err)
       | Inr _ \<Rightarrow> ok ())) (\<lambda>_.
       bindE (if cs_Namespaces (cl_spec x) = []
            then WarningEvent env ReasonUnknown ''cluster %s has no namespaces'' [AStr (cl_name x)]
            else ok ()) (\<lambda>_. ok x)))
      (\<lambda>y s. \<exists>t reg. y = placed c t \<and> namespaces_settled c reg \<and> at_view env c view (?v y\<lparr>vw_registry := reg\<rparr>) s)" for x
    unfolding leads_def
  proof (intro allI impI, elim exE conjE)
    fix s t
    assume x: "x = placed c t" and s: "at_view env c view (?v x) s"
    have same: "at_view env x = at_view env c" unfolding x by (subst placed_status) (rule at_view_status)
    have coop': "cooperative env x view" unfolding x by (subst placed_status) (simp add: cooperative_status coop)
    have "leads (at_view env x view (?v x)) (reconcileNamespaces env x)
        (\<lambda>_ s. \<exists>reg. namespaces_settled x reg \<and> at_view env x view (?v x\<lparr>vw_registry := reg\<rparr>) s)"
      by (rule leads_reconcileNamespaces [OF coop']) (use nss new(3) inner in \<open>simp_all add: x namespaces_formed_def\<close>)
    from leadsD [OF this [unfolded same] s] obtain s' reg where "reconcileNamespaces env x s = (Inr (), s')"
      "namespaces_settled x reg" "at_view env c view (?v x\<lparr>vw_registry := reg\<rparr>) s'"
      by auto
    moreover have "cs_Namespaces (cl_spec x) \<noteq> []" using nss by (simp add: x namespaces_formed_def)
    ultimately show "\<exists>y s'. bindE (catchE (reconcileNamespaces env x) (\<lambda>r. case r of
         Inl err \<Rightarrow> bindE (WarningEvent env ReasonFailedCreate ''failed to create namespace: %s'' [AErr err]) (\<lambda>_. fail err)
       | Inr _ \<Rightarrow> ok ())) (\<lambda>_.
       bindE (if cs_Namespaces (cl_spec x) = []
            then WarningEvent env ReasonUnknown ''cluster %s has no namespaces'' [AStr (cl_name x)]
            else ok ()) (\<lambda>_. ok x)) s = (Inr y, s')
      \<and> (\<exists>t reg. y = placed c t \<and> namespaces_settled c reg \<and> at_view env c view (?v y\<lparr>vw_registry := reg\<rparr>) s')"
      using x by (auto simp: namespaces_settled_def bindE_run catchE_run)
  qed
  show ?thesis
    unfolding data_phase_def by (rule leads_bindE [OF init tail])
qed

lemma gives_Get:
  assumes "cooperative env c view" and "vw_placement v = Some pl"
  shows "gives (at_view env c view v) (pl_Get env (Client (clusterURLFn env c) (own_admin c))) pl (at_view env c view v)"
  by (rule gives_observed, rule inside.observes_Get_at) (use cooperativeD(9) [OF assms(1)] assms(2) in auto)

lemma gives_pods:
  assumes "cooperative env c view"
  shows "gives (at_view env c view v) (read_cache (list_pods env (cl_namespace c) (SelectorFromSet (BaseLabels c))))
    (Some (vw_pods v)) (at_view env c view v)"
  by (rule gives_observed, rule inside.observes_read) (use cooperativeD(2) [OF assms] in auto)

lemma gives_plClient: "gives (at_view env c view v) (placementClientForCluster env c)
    (Client (clusterURLFn env c) (own_admin c)) (at_view env c view v)"
  by (rule gives_observed) (rule inside.pl_client)

text \<open>While an instance bootstraps, the pass posts a warning and ends.\<close>

lemma gives_waiting:
  assumes coop: "cooperative env c view" and pl: "vw_placement v = Some pl" "list_ex (\<lambda>i. \<not> in_IsAvailable i) pl"
  shows "gives (at_view env c view v) (placement_phase env c gs) () (at_view env c view v)"
proof -
  have some: "map in_ID (filter (\<lambda>inst. \<not> in_IsAvailable inst) pl) \<noteq> []"
    using pl(2) by (auto simp: list_ex_iff filter_empty_conv)
  show ?thesis
    unfolding placement_phase_def WarningEvent_def
    by (rule gives_catchE [OF gives_pods [OF coop]], simp only: sum.case, rule gives_bindE [OF gives_plClient],
        rule gives_catchE [OF gives_Get [OF coop pl(1)]], simp only: sum.case Let_def)
      (use some gives_event [OF coop] in auto)
qed

text \<open>The view after the pass: \<open>bootstrapping c t reg v\<close>.\<close>

definition bootstrapping :: "m3db_cluster \<Rightarrow> string \<Rightarrow> registry \<Rightarrow> view \<Rightarrow> view" where
  "bootstrapping c t reg v = v\<lparr>vw_placement := Some (first_placement c (vw_pods v)), vw_object := placed c t, vw_registry := reg\<rparr>"

text \<open>What the operator needs of a spec to bring the cluster up by itself.\<close>

definition bootable :: "lib \<Rightarrow> m3db_cluster \<Rightarrow> bool" where
  "bootable lb c \<longleftrightarrow> spec_active c \<and> own_configmap c \<and> cl_groups c \<noteq> [] \<and> namespaces_formed lb c
     \<and> cs_ExternalCoordinator (cl_spec c) = None \<and> ms_Conditions (cl_status c) = []"

lemma gives_bootstrap_pass:
  assumes coop: "cooperative env c view" and boot: "bootable (e_lib env) c"
    and up: "sets_up (e_lib env) c pl (vw_sets v)" and pods: "pods_formed (e_lib env) c (vw_pods v)" "vw_pods v \<noteq> []"
    and new: "vw_placement v = None" "vw_registry v = []"
  shows "gives (at_view env c view v) (handleClusterUpdate env c) ()
    (\<lambda>s. \<exists>t reg. namespaces_settled c reg \<and> at_view env c view (bootstrapping c t reg v) s)"
proof (rule gives_pass [OF coop _ _ _ up refl])
  let ?gs = "sort_groups (tie_groups (e_lib env)) (cl_groups c)"
  have fresh: "\<not> HasInitializedPlacement (cl_status c)"
    using boot by (simp add: bootable_def HasInitializedPlacement_def hasConditionTrue_def)
  have data: "leads (at_view env c view v) (data_phase env c) (\<lambda>x s. \<exists>t reg. x = placed c t \<and> namespaces_settled c reg
    \<and> at_view env c view (bootstrapping c t reg v) s)"
    by (rule leads_post [OF leads_data_phase [OF coop fresh new pods(1)]])
      (use boot in \<open>auto simp: bootable_def bootstrapping_def\<close>)
  have wait: "gives (at_view env c view (bootstrapping c t reg v)) (placement_phase env (placed c t) gs) ()
      (at_view env c view (bootstrapping c t reg v))" for t reg gs
  proof -
    have same: "at_view env (placed c t) = at_view env c" by (subst placed_status) (rule at_view_status)
    have coop': "cooperative env (placed c t) view" by (subst placed_status) (simp add: cooperative_status coop)
    have "list_ex (\<lambda>i. \<not> in_IsAvailable i) (first_placement c (vw_pods v))"
      using pods(2) by (cases "vw_pods v") (simp_all add: first_placement_def)
    from gives_waiting [OF coop' _ this, of "bootstrapping c t reg v"] show ?thesis
      unfolding same by (simp add: bootstrapping_def)
  qed
  show "gives (at_view env c view v) (bindE (data_phase env c) (\<lambda>c. placement_phase env c ?gs)) ()
      (\<lambda>s. \<exists>t reg. namespaces_settled c reg \<and> at_view env c view (bootstrapping c t reg v) s)"
  proof (rule leads_gives_bindE [OF data])
    fix x
    show "gives (\<lambda>s. \<exists>t reg. x = placed c t \<and> namespaces_settled c reg \<and> at_view env c view (bootstrapping c t reg v) s)
        (placement_phase env x ?gs) () (\<lambda>s. \<exists>t reg. namespaces_settled c reg \<and> at_view env c view (bootstrapping c t reg v) s)"
      unfolding gives_def
    proof (intro allI impI, elim exE conjE)
      fix s t reg
      assume "x = placed c t" "namespaces_settled c reg" "at_view env c view (bootstrapping c t reg v) s"
      with givesD [OF wait] show "\<exists>s'. placement_phase env x ?gs s = (Inr (), s')
          \<and> (\<exists>t reg. namespaces_settled c reg \<and> at_view env c view (bootstrapping c t reg v) s')" by blast
    qed
  qed
qed (use boot in \<open>simp_all add: bootable_def\<close>)

section \<open>The pass that ends the bootstrap\<close>

definition booted :: "m3db_cluster \<Rightarrow> string \<Rightarrow> m3db_cluster" where
  "booted c t = set_condition c \<lparr>cc_Type = PodsBootstrapping, cc_Status = ConditionFalse, cc_LastUpdateTime = t,
     cc_LastTransitionTime = t, cc_Reason = ''BootstrapComplete'', cc_Message = ''no bootstraps in progress''\<rparr>"

lemma booted_fields [simp]: "cl_spec (booted c t) = cl_spec c" "cl_meta (booted c t) = cl_meta c"
  by (simp_all add: booted_def set_condition_def)

lemma booted_status: "booted c t = c\<lparr>cl_status := cl_status (booted c t)\<rparr>"
  by (simp add: booted_def set_condition_def)

lemma leads_reconcileBootstrappingStatus:
  assumes coop: "cooperative env c view" and none: "GetCondition (cl_status c) PodsBootstrapping = None"
    and avail: "list_all in_IsAvailable pl"
  shows "leads (at_view env c view v) (reconcileBootstrappingStatus env c pl)
    (\<lambda>x s. \<exists>t. x = booted c t \<and> at_view env c view (v\<lparr>vw_object := x\<rparr>) s)"
proof -
  have "\<not> list_ex (\<lambda>inst. \<not> in_IsAvailable inst) pl" using avail by (auto simp: list_ex_iff list_all_iff)
  then have run: "reconcileBootstrappingStatus env c pl = bindE (now env) (\<lambda>t. crd_UpdateStatus env (booted c t))"
    by (simp add: reconcileBootstrappingStatus_def setStatus_eq none booted_def)
  have put: "gives (at_view env c view v) (crd_UpdateStatus env (booted c t)) (booted c t)
      (at_view env c view (v\<lparr>vw_object := booted c t\<rparr>))" for t
    by (intro gives_updateStatus [OF coop]) simp
  show ?thesis
    unfolding run by (rule leads_bindE [OF leads_now [OF coop]], rule leads_post [OF gives_leads [OF put]]) blast
qed

lemma gives_finish:
  assumes coop: "cooperative env c view" and none: "GetCondition (cl_status c) PodsBootstrapping = None"
    and pl: "vw_placement v = Some pl" "list_all in_IsAvailable pl" and sets: "list_all (set_settled gs pl') ts"
  shows "gives (at_view env c view v) (finish_phase env c ts) () (\<lambda>s. \<exists>t. at_view env c view (v\<lparr>vw_object := booted c t\<rparr>) s)"
proof -
  have clean: "gives (\<lambda>s. \<exists>t. x = booted c t \<and> at_view env c view (v\<lparr>vw_object := x\<rparr>) s)
      (catchE (cleanupAnnotations env ts) (\<lambda>r. case r of
         Inl err \<Rightarrow> fail (Errorf ''error cleaning up annotations for on delete strategy: %w'' [AErr err])
       | Inr _ \<Rightarrow> ok ())) () (\<lambda>s. \<exists>t. at_view env c view (v\<lparr>vw_object := booted c t\<rparr>) s)" for x
  proof -
    have "gives (at_view env c view u) (catchE (cleanupAnnotations env ts) (\<lambda>r. case r of
         Inl err \<Rightarrow> fail (Errorf ''error cleaning up annotations for on delete strategy: %w'' [AErr err])
       | Inr _ \<Rightarrow> ok ())) () (at_view env c view u)" for u
      by (rule gives_catchE, rule gives_observed, rule observes_cleanupAnnotations [OF sets]) (simp only: sum.case, rule gives_ok)
    then show ?thesis unfolding gives_def by blast
  qed
  show ?thesis
    unfolding finish_phase_def
    by (rule gives_bindE [OF gives_plClient], rule gives_catchE [OF gives_Get [OF coop pl(1)]], simp only: sum.case,
        rule leads_catchE [OF leads_reconcileBootstrappingStatus [OF coop none pl(2)]], simp only: sum.case, rule clean)
qed

lemma gives_finish_pass:
  assumes coop: "cooperative env c view" and init: "spec_initialised c" "own_configmap c" "cl_groups c \<noteq> []"
    and none: "GetCondition (cl_status c) PodsBootstrapping = None"
    and up: "sets_up (e_lib env) c pl (vw_sets v)" and nss: "namespaces_settled c (vw_registry v)"
    and pl: "vw_placement v = Some pl" "placement_settled (e_lib env) c (vw_pods v) pl"
  shows "gives (at_view env c view v) (handleClusterUpdate env c) ()
    (\<lambda>s. \<exists>t. at_view env c view (v\<lparr>vw_object := booted c t\<rparr>) s)"
proof (rule gives_pass [OF coop _ init(2,3) up refl])
  let ?S = "at_view env c view v" and ?gs = "sort_groups (tie_groups (e_lib env)) (cl_groups c)"
  show "spec_active c" using init(1) by (simp add: spec_initialised_def)
  have sets: "list_all (set_settled ?gs pl) (vw_sets v)" using up by (simp add: sets_up_def)
  have avail: "list_all in_IsAvailable pl" "filter (\<lambda>inst. \<not> in_IsAvailable inst) pl = []"
    using pl(2) by (auto simp: placement_settled_def filter_empty_conv list_all_iff)
  have data: "gives ?S (data_phase env c) c ?S"
    by (rule gives_observed, rule inside.observes_data_phase [OF init(1) _ nss]) (use cooperativeD(7) [OF coop] in auto)
  have replace: "gives ?S (replace_phase env c (Some (vw_pods v)) pl) c ?S"
    by (rule gives_observed, rule observes_replace_phase [OF pl(2)])
  have resize: "gives ?S (resize_phase env c ?gs pl (vw_sets v)) False ?S"
    by (rule gives_observed, rule observes_resize_phase [OF sets])
  have place: "gives ?S (placement_phase env c ?gs) () (\<lambda>s. \<exists>t. at_view env c view (v\<lparr>vw_object := booted c t\<rparr>) s)"
    unfolding placement_phase_def
    by (rule gives_catchE [OF gives_pods [OF coop]], simp only: sum.case, rule gives_bindE [OF gives_plClient],
        rule gives_catchE [OF gives_Get [OF coop pl(1)]], simp only: sum.case Let_def avail(2) list.map list.size less_irrefl if_False,
        rule gives_bindE [OF gives_children [OF coop up]], rule gives_bindE [OF replace], rule gives_bindE [OF resize],
        simp only: if_False, rule gives_finish [OF coop none pl(1) avail(1) sets])
  show "gives ?S (bindE (data_phase env c) (\<lambda>c. placement_phase env c ?gs)) ()
      (\<lambda>s. \<exists>t. at_view env c view (v\<lparr>vw_object := booted c t\<rparr>) s)"
    by (rule gives_bindE [OF data], rule place)
qed

text \<open>The cluster is settled then.\<close>

definition view_snapshot :: "view \<Rightarrow> snapshot" where
  "view_snapshot v = \<lparr>sn_sets = vw_sets v, sn_registry = vw_registry v, sn_pods = vw_pods v, sn_placement = the (vw_placement v)\<rparr>"

lemma booted_spec_settled:
  assumes "spec_initialised c"
  shows "spec_settled (booted c t)"
proof -
  have "hasConditionTrue_loop (UpdateCondition_loop cs new) ct" if "hasConditionTrue_loop cs ct" "cc_Type new \<noteq> ct" for cs new ct
    using that by (induction cs) (auto split: if_splits)
  note other = this
  have "HasInitializedPlacement (cl_status (booted c t))"
    using assms other by (simp add: spec_initialised_def HasInitializedPlacement_def hasConditionTrue_def booted_def set_condition_def
        UpdateCondition_def)
  moreover have "\<exists>cond. GetCondition (cl_status (booted c t)) PodsBootstrapping = Some cond \<and> cc_Status cond = ConditionFalse"
    by (simp add: booted_def set_condition_def GetCondition_UpdateCondition)
  ultimately show ?thesis
    using assms by (simp add: spec_settled_def spec_initialised_def spec_active_def marked_deleted_def validateIsolationGroups_None)
qed

lemma settled_view:
  assumes coop: "cooperative env c view" and init: "spec_initialised c" "own_configmap c"
    and up: "sets_up (e_lib env) c pl (vw_sets v)" and nss: "namespaces_settled c (vw_registry v)"
    and pl: "vw_placement v = Some pl" "placement_settled (e_lib env) c (vw_pods v) pl"
    and s: "at_view env c view (v\<lparr>vw_object := booted c t\<rparr>) s"
  shows "settled env (st_world s) (booted c t) (clusterURLFn env c) (clusterURLFn env c) (view_snapshot v)"
proof -
  from s have v: "view (st_world s) = v\<lparr>vw_object := booted c t\<rparr>" by (simp add: at_view_def)
  have same: "BaseLabels (booted c t) = BaseLabels c" by (simp add: BaseLabels_def)
  have "exhibits env (st_world s) (booted c t) (clusterURLFn env c) (clusterURLFn env c) (view_snapshot v)"
    unfolding exhibits_def
    using cooperativeD(1,2,7) [OF coop, of "st_world s"] cooperativeD(9) [OF coop, of "st_world s" pl] sets_up_controlled [OF coop up] pl(1)
    by (simp add: v same view_snapshot_def)
  moreover have "configmap_settled env (st_world s) (booted c t)"
    using init(2) by (intro own_configmap_settled) (simp add: own_configmap_def)
  ultimately have "displays env (st_world s) (booted c t) (clusterURLFn env c) (clusterURLFn env c) (view_snapshot v)"
    using cooperativeD(4) [OF coop] by (simp add: displays_def)
  then show ?thesis
    using booted_spec_settled [OF init(1)] up nss pl
    by (simp add: settled_def sets_up_def namespaces_settled_def placement_settled_def uid_pods_def view_snapshot_def)
qed

end
