(* ===== verification/Cluster_Up.thy ===== *)
theory Cluster_Up
  imports Bringup
begin

text \<open>
  From the custom resource of a cluster to the fixed point of the control loop: the passes of
  \<open>Creation_Liveness\<close> and \<open>Bringup\<close> put together with what Kubernetes and M3 do in between, and a
  concrete world in which a cluster comes up this way.
\<close>

section \<open>From the resource to the fixed point\<close>

text \<open>A pass over the stored object, and a step of the rest of the world.\<close>

definition pass :: "'w env \<Rightarrow> ('w \<Rightarrow> view) \<Rightarrow> 'w st \<Rightarrow> 'w st" where
  "pass env view s = snd (handleClusterUpdate env (vw_object (view (st_world s))) s)"

definition elsewhere :: "('w \<Rightarrow> 'w) \<Rightarrow> 'w st \<Rightarrow> 'w st" where
  "elsewhere f s = s\<lparr>st_world := f (st_world s)\<rparr>"

lemma gives_passD:
  assumes "gives (at_view env c view v) (handleClusterUpdate env c) () Q" and "vw_object v = c" and "at_view env c view v s"
  shows "Q (pass env view s)"
  using givesD [OF assms(1,3)] assms(2,3) by (auto simp: pass_def at_view_def)

subsection \<open>Creation\<close>

text \<open>The generated sets of the first \<open>n\<close> groups.\<close>

definition generated_upto :: "m3db_cluster \<Rightarrow> nat \<Rightarrow> statefulset list \<Rightarrow> bool" where
  "generated_upto c n ts \<longleftrightarrow> length ts = n \<and> (\<forall>i < n.
     GenerateStatefulSet c (ig_Name (cl_groups c ! i)) (ig_NumInstances (cl_groups c ! i)) = Inr (ts ! i)
     \<and> sts_name (ts ! i) = StatefulSetName (cl_name c) i \<and> om_owner_refs (sts_meta (ts ! i)) = [GenerateOwnerRef c])"

lemma generated_created: "generated_upto c n ts \<Longrightarrow> created_upto c n ts"
  unfolding generated_upto_def created_upto_def list_all_length by (auto intro: nth_equalityI)

lemma creation_pass:
  assumes coop: "cooperative env c view" and c: "creatable c" and n: "n < length (cl_groups c)"
    and v: "generated_upto c n (vw_sets v)" "vw_object v = c" and s: "at_view env c view v s"
  shows "\<exists>t. generated_upto c (Suc n) (vw_sets v @ [t]) \<and> at_view env c view (v\<lparr>vw_sets := vw_sets v @ [t]\<rparr>) (pass env view s)"
proof -
  have view: "view (st_world s) = v" using s by (simp add: at_view_def)
  then have created: "created_upto c n (vw_sets (view (st_world s)))" using v(1) by (simp add: generated_created)
  from pass_creates [OF cooperative_keeps_sets [OF coop] c n created]
  obtain t t' w' cs where t: "GenerateStatefulSet c (ig_Name (cl_groups c ! n)) (ig_NumInstances (cl_groups c ! n)) = Inr t"
      "sts_name t = StatefulSetName (cl_name c) n" "om_owner_refs (sts_meta t) = [GenerateOwnerRef c]"
      "sts_name t \<notin> sts_name ` set (vw_sets (view (st_world s)))"
    and api: "api_sts_create env (cl_namespace c) t (st_world s) = (Inr t', w')"
    and run: "handleClusterUpdate env c s = (Inr (), s\<lparr>st_world := w', st_calls := cs\<rparr>)" by blast
  from cooperativeD(5) [OF coop t(4)] api view have "view w' = v\<lparr>vw_sets := vw_sets v @ [t]\<rparr>" by auto
  from at_view_request [OF s this] run view v(2)
  have "at_view env c view (v\<lparr>vw_sets := vw_sets v @ [t]\<rparr>) (pass env view s)" by (simp add: pass_def)
  moreover have "generated_upto c (Suc n) (vw_sets v @ [t])"
    using v(1) t(1-3) by (auto simp: generated_upto_def nth_append less_Suc_eq)
  ultimately show ?thesis by blast
qed

lemma creation_passes:
  assumes coop: "cooperative env c view" and c: "creatable c" and v: "vw_sets v = []" "vw_object v = c"
    and s: "at_view env c view v s" and n: "n \<le> length (cl_groups c)"
  shows "\<exists>ts. generated_upto c n ts \<and> at_view env c view (v\<lparr>vw_sets := ts\<rparr>) ((pass env view ^^ n) s)"
  using n
proof (induction n)
  case 0
  have "v\<lparr>vw_sets := []\<rparr> = v" using v(1) by (cases v) simp
  with s show ?case by (intro exI [of _ "[]"]) (simp add: generated_upto_def)
next
  case (Suc n)
  then obtain ts where ts: "generated_upto c n ts" "at_view env c view (v\<lparr>vw_sets := ts\<rparr>) ((pass env view ^^ n) s)" by auto
  from creation_pass [OF coop c _ _ _ ts(2), of n] ts(1) v(2) Suc.prems show ?case by auto
qed

subsection \<open>Kubernetes and M3\<close>

text \<open>A set that is rolled out: its status is up to date, the rest is as it was.\<close>

definition rolled_out :: "statefulset \<Rightarrow> statefulset \<Rightarrow> bool" where
  "rolled_out t t' \<longleftrightarrow> sts_spec t' = sts_spec t \<and> sts_name t' = sts_name t \<and> om_labels (sts_meta t') = om_labels (sts_meta t)
     \<and> sts_annotations t' = sts_annotations t \<and> om_owner_refs (sts_meta t') = om_owner_refs (sts_meta t)
     \<and> om_generation (sts_meta t') = st_observedGeneration (sts_status t') \<and> set_ready t'"

text \<open>The pods of the sets: as many per group as it has instances, with names and UIDs as Kubernetes gives them.\<close>

definition pods_run :: "lib \<Rightarrow> m3db_cluster \<Rightarrow> pod list \<Rightarrow> bool" where
  "pods_run lb c ps \<longleftrightarrow> pods_formed lb c ps \<and> ps \<noteq> [] \<and> (\<exists>ids. sortPods lb (Some ps) = Inr ids)
     \<and> (\<forall>p \<in> set ps. CHR ''.'' \<notin> set (pod_name p) \<and> utf8_identity (uid_identity p)) \<and> (\<forall>p \<in> set ps. \<forall>q \<in> set ps. EqualFold (pod_name p) (pod_name q) \<longrightarrow> p = q)
     \<and> (\<forall>g \<in> set (cl_groups c). is_i32 (ig_NumInstances g)
          \<and> int (length (filter (\<lambda>p. pod_group p = ig_Name g) ps)) = ig_NumInstances g)"

definition kubernetes_step :: "lib \<Rightarrow> m3db_cluster \<Rightarrow> view \<Rightarrow> view \<Rightarrow> bool" where
  "kubernetes_step lb c v v' \<longleftrightarrow> (\<exists>ts ps. v' = v\<lparr>vw_sets := ts, vw_pods := ps\<rparr> \<and> list_all2 rolled_out (vw_sets v) ts \<and> pods_run lb c ps)"

definition available :: "m3_placement \<Rightarrow> m3_placement" where
  "available pl = map (\<lambda>i. i\<lparr>in_IsAvailable := True\<rparr>) pl"

definition m3_step :: "view \<Rightarrow> view \<Rightarrow> bool" where
  "m3_step v v' \<longleftrightarrow> v' = v\<lparr>vw_placement := map_option available (vw_placement v)\<rparr>"

text \<open>Sets that need nothing but their own rollout: no reserved labels or annotations in the spec, rolling updates.\<close>

definition plain_sets :: "m3db_cluster \<Rightarrow> bool" where
  "plain_sets c \<longleftrightarrow> map_ok (cs_Labels (cl_spec c)) \<and> \<not> mhas (cs_Labels (cl_spec c)) IsolationGroup \<and> \<not> cs_OnDeleteUpdateStrategy (cl_spec c)
     \<and> (\<forall>k \<in> {Update, ParallelUpdate, ParallelUpdateInProgress}. map_of (Copy (PodAnnotations c)) k = None)"

lemma instances_of_group:
  "length (instancesInIsoGroup (first_placement c ps) g) = length (filter (\<lambda>p. pod_group p = g) ps)"
  by (induction ps) (simp_all add: instancesInIsoGroup_def first_placement_def)

lemma instances_available: "length (instancesInIsoGroup (available pl) g) = length (instancesInIsoGroup pl g)"
  by (induction pl) (simp_all add: instancesInIsoGroup_def available_def)

lemma generated_settled:
  assumes c: "creatable c" "plain_sets c" and gs: "gs = sort_groups (tie_groups lb) (cl_groups c)"
    and g: "g \<in> set (cl_groups c)" and t: "GenerateStatefulSet c (ig_Name g) (ig_NumInstances g) = Inr t" and roll: "rolled_out t t'"
    and size: "is_i32 (ig_NumInstances g)" "int (length (instancesInIsoGroup pl (ig_Name g))) = ig_NumInstances g"
  shows "set_settled gs pl t'"
proof -
  have dist: "distinct (map ig_Name gs)" and "g \<in> set gs"
    using c(1) g by (auto simp: creatable_def validateIsolationGroups_None gs sort_groups_sorted)
  then have grp: "GetByName gs (ig_Name g) = Some g" by (rule GetByName_unique)
  have label: "map_of (om_labels (sts_meta t)) IsolationGroup = Some (ig_Name g)"
    using c(2) GenerateStatefulSet_labels(1) [OF t] map_of_sts_objLabels [of c]
    by (simp add: plain_sets_def mhas_def map_add_def IsolationGroup_def StatefulSet_def Component_def)
  have fields: "ss_replicas (sts_spec t) = Some (ig_NumInstances g)" "ss_updateStrategy (sts_spec t) = RollingUpdate"
    "sts_annotations t = Copy (PodAnnotations c)"
    using t c(2) by (auto elim!: GenerateStatefulSet_Inr simp: assemble_simps plain_sets_def)
  show ?thesis
    using roll grp label fields c(2) size i32_id [OF size(1)]
    by (auto simp: set_settled_def rolled_out_def plain_sets_def)
qed

lemma sets_up_rolled:
  assumes c: "creatable c" "plain_sets c" and ts: "generated_upto c (length (cl_groups c)) ts" "list_all2 rolled_out ts ts'"
    and run: "pods_run lb c ps" and pl: "\<And>g. length (instancesInIsoGroup pl g) = length (filter (\<lambda>p. pod_group p = g) ps)"
  shows "sets_up lb c pl ts'"
proof -
  let ?gs = "sort_groups (tie_groups lb) (cl_groups c)"
  have len: "length ts' = length (cl_groups c)" "length ts = length (cl_groups c)"
    using ts by (auto simp: generated_upto_def dest: list_all2_lengthD)
  have roll: "rolled_out (ts ! i) (ts' ! i)" if "i < length (cl_groups c)" for i
    using list_all2_nthD [OF ts(2)] that len by simp
  note gen = ts(1) [unfolded generated_upto_def, THEN conjunct2, rule_format]
  have "set_settled ?gs pl (ts' ! i)" if i: "i < length (cl_groups c)" for i
  proof (rule generated_settled [OF c refl nth_mem [OF i] _ roll [OF i]])
    show "GenerateStatefulSet c (ig_Name (cl_groups c ! i)) (ig_NumInstances (cl_groups c ! i)) = Inr (ts ! i)"
      using gen [OF i] by simp
    show "is_i32 (ig_NumInstances (cl_groups c ! i))"
      "int (length (instancesInIsoGroup pl (ig_Name (cl_groups c ! i)))) = ig_NumInstances (cl_groups c ! i)"
      using run nth_mem [OF i] by (simp_all add: pods_run_def pl)
  qed
  moreover have "StatefulSetName (cl_name c) i \<in> sts_name ` set ts'" if "i < length (cl_groups c)" for i
    using gen [OF that] roll [OF that] that len by (metis (no_types, lifting) image_eqI nth_mem rolled_out_def)
  moreover have "om_owner_refs (sts_meta (ts' ! i)) = [GenerateOwnerRef c]" if "i < length (cl_groups c)" for i
    using gen [OF that] roll [OF that] by (simp add: rolled_out_def)
  ultimately show ?thesis by (simp add: sets_up_def list_all_length len)
qed

lemma placement_settled_available:
  assumes coop: "cooperative env c view" and run: "pods_run (e_lib env) c ps"
  shows "placement_settled (e_lib env) c ps (available (first_placement c ps))"
proof -
  have own: "json_identity (e_lib env) (uid_text q) = Inr (uid_identity p)"
    if "p \<in> set ps" "q \<in> set ps" "matches (i\<lparr>in_Hostname := pod_name q @ CHR ''.'' # rest\<rparr>) p" for p q rest and i :: m3_instance
  proof -
    have "EqualFold (pod_name q) (pod_name p)"
      using that run by (simp add: matches_def pods_run_def hd_split_on)
    then have "q = p" using that run by (auto simp: pods_run_def)
    moreover have "utf8_identity (uid_identity p)" using that run by (simp add: pods_run_def)
    ultimately show ?thesis using cooperativeD(18) [OF coop IdentityJSON_uid_text] by simp
  qed
  have "json_identity (e_lib env) (in_ID i) = Inr (uid_identity p)"
    if p: "p \<in> set ps" and i: "i \<in> set (available (first_placement c ps))" and m: "matches i p" for p i
  proof -
    from i obtain q where q: "q \<in> set ps" "in_ID i = uid_text q" "in_Hostname i = pod_name q @ CHR ''.'' # HeadlessServiceName (cl_name c)"
      by (auto simp: available_def first_placement_def)
    have "i\<lparr>in_Hostname := pod_name q @ CHR ''.'' # HeadlessServiceName (cl_name c)\<rparr> = i" using q(3) by (cases i) simp
    with own [OF p q(1), of "HeadlessServiceName (cl_name c)" i] m q(2) show ?thesis by simp
  qed
  moreover have "list_all in_IsAvailable (available pl)" for pl by (simp add: available_def list_all_iff)
  ultimately show ?thesis
    using run by (auto simp: placement_settled_def pods_run_def pods_formed_def list_all_iff)
qed

text \<open>
  The course of events: as many passes as there are groups, the rollout by Kubernetes, a pass, the
  bootstrap by M3, a pass.
\<close>

definition bring_up :: "'w env \<Rightarrow> ('w \<Rightarrow> view) \<Rightarrow> nat \<Rightarrow> ('w \<Rightarrow> 'w) \<Rightarrow> ('w \<Rightarrow> 'w) \<Rightarrow> 'w st \<Rightarrow> 'w st" where
  "bring_up env view n grow mature s =
     pass env view (elsewhere mature (pass env view (elsewhere grow ((pass env view ^^ n) s))))"

definition new_view :: "m3db_cluster \<Rightarrow> view" where
  "new_view c = \<lparr>vw_sets = [], vw_pods = [], vw_registry = [], vw_placement = None, vw_object = c\<rparr>"

lemma at_view_elsewhere:
  "at_view env c view v s \<Longrightarrow> at_view env c view (view (f (st_world s))) (elsewhere f s)"
  unfolding elsewhere_def by (rule at_view_world) simp_all

lemma placed_same:
  "at_view env (placed c t) = at_view env c" "cooperative env (placed c t) view = cooperative env c view"
  "clusterURLFn env (placed c t) = clusterURLFn env c" "sets_up lb (placed c t) pl ts = sets_up lb c pl ts"
  "placement_settled lb (placed c t) ps pl = placement_settled lb c ps pl"
  "namespaces_settled (placed c t) reg = namespaces_settled c reg" "own_configmap (placed c t) = own_configmap c"
  by (subst placed_status, simp only: at_view_status cooperative_status)+
    (simp_all add: clusterURLFn_def clusterURL_def clusterURLProxy_def sets_up_def GenerateOwnerRef_def placement_settled_def
      uid_pods_def namespaces_settled_def own_configmap_def)

lemma placed_spec_initialised: "bootable lb c \<Longrightarrow> spec_initialised (placed c t)"
  using placed_initialised [of c t]
  by (simp add: bootable_def spec_initialised_def spec_active_def marked_deleted_def validateIsolationGroups_None namespaces_formed_def)

lemma placed_not_booted: "bootable lb c \<Longrightarrow> GetCondition (cl_status (placed c t)) PodsBootstrapping = None"
  by (simp add: bootable_def placed_def set_condition_def GetCondition_UpdateCondition GetCondition_def UpdateCondition_def)

text \<open>Creation, the rollout, and the pass that sets up placement, status and namespaces.\<close>

lemma brought_to_bootstrap:
  assumes coop: "cooperative env c view" and c: "creatable c" "plain_sets c" and boot: "bootable (e_lib env) c"
    and new: "at_view env c view (new_view c) s" and k8s: "\<And>w. kubernetes_step (e_lib env) c (view w) (view (grow w))"
  shows "\<exists>ts ps t reg. sets_up (e_lib env) c (available (first_placement c ps)) ts \<and> pods_run (e_lib env) c ps
    \<and> namespaces_settled c reg
    \<and> at_view env c view (bootstrapping c t reg ((new_view c)\<lparr>vw_sets := ts, vw_pods := ps\<rparr>))
        (pass env view (elsewhere grow ((pass env view ^^ length (cl_groups c)) s)))"
proof -
  let ?n = "length (cl_groups c)" and ?S = "at_view env c view"
  obtain ts where ts: "generated_upto c ?n ts" "?S ((new_view c)\<lparr>vw_sets := ts\<rparr>) ((pass env view ^^ ?n) s)"
    using creation_passes [OF coop c(1) _ _ new order_refl] by (auto simp: new_view_def)
  define s1 where "s1 = elsewhere grow ((pass env view ^^ ?n) s)"
  define v1 where "v1 = view (st_world s1)"
  have at1: "?S v1 s1" using at_view_elsewhere [OF ts(2), of grow] by (simp add: s1_def v1_def elsewhere_def)
  obtain ts' ps where step: "v1 = (new_view c)\<lparr>vw_sets := ts', vw_pods := ps\<rparr>" "list_all2 rolled_out ts ts'" "pods_run (e_lib env) c ps"
    using k8s [of "st_world ((pass env view ^^ ?n) s)"] ts(2) by (auto simp: kubernetes_step_def at_view_def s1_def v1_def elsewhere_def new_view_def)
  let ?pl = "first_placement c ps"
  have up: "sets_up (e_lib env) c ?pl ts'" "sets_up (e_lib env) c (available ?pl) ts'"
    by (rule sets_up_rolled [OF c ts(1) step(2,3)], simp add: instances_of_group instances_available)+
  have "gives (?S v1) (handleClusterUpdate env c) () (\<lambda>s. \<exists>t reg. namespaces_settled c reg \<and> ?S (bootstrapping c t reg v1) s)"
    by (rule gives_bootstrap_pass [OF coop boot, of ?pl]) (use step up in \<open>auto simp: new_view_def pods_run_def\<close>)
  from gives_passD [OF this _ at1] up(2) step show ?thesis by (auto simp: s1_def new_view_def)
qed

text \<open>The bootstrap by M3, and the pass that ends it.\<close>

lemma brought_to_rest:
  assumes coop: "cooperative env c view" and boot: "bootable (e_lib env) c"
    and up: "sets_up (e_lib env) c (available (first_placement c ps)) ts" and run: "pods_run (e_lib env) c ps"
    and nss: "namespaces_settled c reg"
    and s: "at_view env c view (bootstrapping c t reg ((new_view c)\<lparr>vw_sets := ts, vw_pods := ps\<rparr>)) s"
    and m3: "\<And>w. m3_step (view w) (view (mature w))"
  shows "\<exists>c' v. cl_spec c' = cl_spec c \<and> cl_meta c' = cl_meta c \<and> vw_object v = c'
    \<and> at_view env c' view v (pass env view (elsewhere mature s))
    \<and> settled env (st_world (pass env view (elsewhere mature s))) c' (clusterURLFn env c') (clusterURLFn env c') (view_snapshot v)"
proof -
  let ?pl = "first_placement c ps" and ?s = "elsewhere mature s"
  define d where "d = placed c t"
  define v where "v = (bootstrapping c t reg ((new_view c)\<lparr>vw_sets := ts, vw_pods := ps\<rparr>))\<lparr>vw_placement := Some (available ?pl)\<rparr>"
  have "view (st_world ?s) = v"
    using m3 [of "st_world s"] s by (simp add: v_def elsewhere_def m3_step_def at_view_def bootstrapping_def)
  with at_view_elsewhere [OF s, of mature] have at: "at_view env d view v ?s"
    by (simp add: d_def placed_same elsewhere_def)
  have coopd: "cooperative env d view" and own: "cl_spec d = cl_spec c" "cl_meta d = cl_meta c"
    using coop by (simp_all add: d_def placed_same)
  have fields: "vw_sets v = ts" "vw_pods v = ps" "vw_registry v = reg" "vw_placement v = Some (available ?pl)" "vw_object v = d"
    by (simp_all add: v_def bootstrapping_def d_def)
  have ready: "spec_initialised d" "own_configmap d" "cl_groups d \<noteq> []" "GetCondition (cl_status d) PodsBootstrapping = None"
      "sets_up (e_lib env) d (available ?pl) (vw_sets v)" "namespaces_settled d (vw_registry v)"
      "placement_settled (e_lib env) d (vw_pods v) (available ?pl)"
    using placed_spec_initialised [OF boot] placed_not_booted [OF boot] boot up nss placement_settled_available [OF coop run]
    by (simp_all add: d_def fields placed_same bootable_def)
  from gives_passD [OF gives_finish_pass [OF coopd ready(1-6) fields(4) ready(7)] fields(5) at]
  obtain t' where at': "at_view env d view (v\<lparr>vw_object := booted d t'\<rparr>) (pass env view ?s)" by blast
  have same: "at_view env (booted d t') = at_view env d" "clusterURLFn env (booted d t') = clusterURLFn env d"
    by (subst booted_status, simp add: at_view_status) (simp add: clusterURLFn_def clusterURL_def clusterURLProxy_def)
  have "settled env (st_world (pass env view ?s)) (booted d t') (clusterURLFn env d) (clusterURLFn env d)
      (view_snapshot (v\<lparr>vw_object := booted d t'\<rparr>))"
    using settled_view [OF coopd ready(1,2,5,6) fields(4) ready(7) at'] by (simp add: view_snapshot_def)
  with at' own show ?thesis
    by (intro exI [of _ "booted d t'"] exI [of _ "v\<lparr>vw_object := booted d t'\<rparr>"]) (simp add: same)
qed

text \<open>Passes over a settled cluster change nothing.\<close>

lemma passes_at_rest:
  assumes "at_view env c view v s" and "vw_object v = c"
    and settled: "settled env (st_world s) c (clusterURLFn env c) (clusterURLFn env c) sn"
  shows "st_world ((pass env view ^^ k) s) = st_world s"
proof -
  have "inside env c (st_world s) ((pass env view ^^ k) s)"
  proof (induction k)
    case 0
    show ?case using assms(1) by (simp add: at_view_def)
  next
    case (Suc k)
    have "vw_object (view (st_world ((pass env view ^^ k) s))) = c"
      using Suc assms(1,2) by (simp add: inside_def at_view_def)
    then have "(pass env view ^^ Suc k) s = snd (handleClusterUpdate env c ((pass env view ^^ k) s))" by (simp add: pass_def)
    with observesD [OF inside.observes_pass [OF settled] Suc] show ?case by auto
  qed
  then show ?thesis by (simp add: inside_def)
qed

section \<open>Properties\<close>

text \<open>
  C6: a cluster comes up. Let the API server, the listers and the coordinator do what they are asked to,
  Kubernetes roll out the StatefulSets it is given, and M3 bootstrap the instances of a placement.
  Then for every valid spec with sorted groups, from the bare custom resource on, as many passes as
  there are groups, one pass after the rollout and one after the bootstrap reach the fixed point of the
  control loop: every group has its set of the right size, the placement has one available instance per
  pod, the namespaces of the spec exist and are ready, and the status says so; the spec is as it was. Later
  passes change nothing any more.
\<close>

theorem cluster_comes_up:
  assumes "cooperative env c view" and "creatable c" "plain_sets c" and "bootable (e_lib env) c"
    and "at_view env c view (new_view c) s"
    and "\<And>w. kubernetes_step (e_lib env) c (view w) (view (grow w))" and "\<And>w. m3_step (view w) (view (mature w))"
  shows "\<exists>c' v. cl_spec c' = cl_spec c \<and> cl_meta c' = cl_meta c
    \<and> v = view (st_world (bring_up env view (length (cl_groups c)) grow mature s)) \<and> vw_object v = c'
    \<and> settled env (st_world (bring_up env view (length (cl_groups c)) grow mature s)) c'
        (clusterURLFn env c') (clusterURLFn env c') (view_snapshot v)
    \<and> (\<forall>k. st_world ((pass env view ^^ k) (bring_up env view (length (cl_groups c)) grow mature s))
        = st_world (bring_up env view (length (cl_groups c)) grow mature s))"
proof -
  from brought_to_bootstrap [OF assms(1-6)] obtain ts ps t reg where
    "sets_up (e_lib env) c (available (first_placement c ps)) ts" "pods_run (e_lib env) c ps" "namespaces_settled c reg"
    "at_view env c view (bootstrapping c t reg ((new_view c)\<lparr>vw_sets := ts, vw_pods := ps\<rparr>))
        (pass env view (elsewhere grow ((pass env view ^^ length (cl_groups c)) s)))" by blast
  from brought_to_rest [OF assms(1,4) this assms(7)] obtain c' v where
    rest: "cl_spec c' = cl_spec c" "cl_meta c' = cl_meta c" "vw_object v = c'"
      "at_view env c' view v (bring_up env view (length (cl_groups c)) grow mature s)"
      "settled env (st_world (bring_up env view (length (cl_groups c)) grow mature s)) c' (clusterURLFn env c') (clusterURLFn env c')
        (view_snapshot v)"
    unfolding bring_up_def by blast
  from rest(4) have "v = view (st_world (bring_up env view (length (cl_groups c)) grow mature s))" by (simp add: at_view_def)
  with rest passes_at_rest [OF rest(4,3,5)] show ?thesis by blast
qed

subsection \<open>An example\<close>

text \<open>A text that holds a list of texts: each one follows its length in unary.\<close>

definition pack :: "string list \<Rightarrow> string" where
  "pack xs = concat (map (\<lambda>x. replicate (length x) (CHR ''x'') @ CHR ''y'' # x) xs)"

fun unpack_upto :: "nat \<Rightarrow> string \<Rightarrow> string list" where
  "unpack_upto 0 s = []"
| "unpack_upto (Suc k) s =
     (if s = [] then []
      else let n = length (takeWhile (\<lambda>c. c = CHR ''x'') s); r = drop (Suc n) s
        in take n r # unpack_upto k (drop n r))"

definition unpack :: "string \<Rightarrow> string list" where
  "unpack s = unpack_upto (length s) s"

lemma unpack_upto_pack: "length xs \<le> k \<Longrightarrow> unpack_upto k (pack xs) = xs"
proof (induction xs arbitrary: k)
  case Nil
  show ?case by (cases k) (simp_all add: pack_def)
next
  case (Cons x xs)
  then obtain m where k: "k = Suc m" "length xs \<le> m" by (cases k) auto
  have "takeWhile (\<lambda>c. c = CHR ''x'') (replicate n (CHR ''x'') @ CHR ''y'' # r) = replicate n (CHR ''x'')" for n r
    by (induction n) simp_all
  note lead = this
  have "pack (x # xs) = replicate (length x) (CHR ''x'') @ CHR ''y'' # x @ pack xs" by (simp add: pack_def)
  with Cons.IH [OF k(2)] show ?case by (simp add: k(1) lead Let_def)
qed

lemma unpack_pack: "unpack (pack xs) = xs"
proof -
  have "length xs \<le> length (pack xs)" by (induction xs) (simp_all add: pack_def)
  then show ?thesis by (simp add: unpack_def unpack_upto_pack)
qed

text \<open>Placements, registries and requests as lists of texts.\<close>

definition write_placement :: "m3_placement \<Rightarrow> string" where
  "write_placement pl = pack (concat (map (\<lambda>i. [in_ID i, in_IsolationGroup i, in_Hostname i, if in_IsAvailable i then ''y'' else []]) pl))"

fun read_instances :: "string list \<Rightarrow> m3_placement" where
  "read_instances (a # b # d # e # xs) = \<lparr>in_ID = a, in_IsolationGroup = b, in_Hostname = d, in_IsAvailable = (e \<noteq> [])\<rparr> # read_instances xs"
| "read_instances _ = []"

fun read_new :: "string list \<Rightarrow> m3_placement" where
  "read_new (a # b # d # xs) = \<lparr>in_ID = a, in_IsolationGroup = b, in_Hostname = d, in_IsAvailable = False\<rparr> # read_new xs"
| "read_new _ = []"

fun write_staging :: "staging_status option \<Rightarrow> string" where
  "write_staging None = []"
| "write_staging (Some UNKNOWN) = ''u''"
| "write_staging (Some INITIALIZING) = ''i''"
| "write_staging (Some READY) = ''r''"

definition read_staging :: "string \<Rightarrow> staging_status option" where
  "read_staging s = (if s = [] then None else if s = ''u'' then Some UNKNOWN else if s = ''i'' then Some INITIALIZING else Some READY)"

definition write_registry :: "registry \<Rightarrow> string" where
  "write_registry reg = pack (concat (map (\<lambda>(k, e). [k, write_staging (ne_StagingState e), ne_rest e]) reg))"

fun read_entries :: "string list \<Rightarrow> registry" where
  "read_entries (a # b # d # xs) = (a, \<lparr>ne_StagingState = read_staging b, ne_rest = d\<rparr>) # read_entries xs"
| "read_entries _ = []"

fun write_message :: "message \<Rightarrow> string" where
  "write_message (Msg_PlacementInit req) =
     pack (''init'' # concat (map (\<lambda>i. [pb_Id i, pb_IsolationGroup i, pb_Hostname i]) (pir_Instances req)))"
| "write_message (Msg_NamespaceAdd req) = pack [''add'', nar_Name req]"
| "write_message (Msg_NamespaceReady n) = pack [''ready'', n]"
| "write_message _ = []"

lemma read_write_placement: "read_instances (unpack (write_placement pl)) = pl"
proof -
  have "read_instances (concat (map (\<lambda>i. [in_ID i, in_IsolationGroup i, in_Hostname i, if in_IsAvailable i then ''y'' else []]) pl)) = pl"
    by (induction pl) simp_all
  then show ?thesis by (simp add: write_placement_def unpack_pack)
qed

lemma read_staging_write: "read_staging (write_staging x) = x"
  by (cases x rule: write_staging.cases) (simp_all add: read_staging_def)

lemma read_write_registry: "read_entries (unpack (write_registry reg)) = reg"
proof -
  have "read_entries (concat (map (\<lambda>(k, e). [k, write_staging (ne_StagingState e), ne_rest e]) reg)) = reg"
    by (induction reg) (auto simp: read_staging_write)
  then show ?thesis by (simp add: write_registry_def unpack_pack)
qed

lemma read_new_instances:
  "read_new (concat (map (\<lambda>i. [pb_Id i, pb_IsolationGroup i, pb_Hostname i]) is)) = map new_instance is"
  by (induction "is") (simp_all add: new_instance_def)

text \<open>A coordinator at a URL, whose state is in the view.\<close>

definition serve_post :: "string list \<Rightarrow> view \<Rightarrow> view" where
  "serve_post xs v = (case xs of
      op # ys \<Rightarrow>
        if op = ''init'' then v\<lparr>vw_placement := Some (read_new ys)\<rparr>
        else if op = ''add'' then v\<lparr>vw_registry := add_entry (hd ys) (vw_registry v)\<rparr>
        else if op = ''ready'' then v\<lparr>vw_registry := mark_ready (hd ys) (vw_registry v)\<rparr> else v
    | [] \<Rightarrow> v)"

definition serve :: "string \<Rightarrow> http_request \<Rightarrow> (view, http_response) io" where
  "serve u req v =
     (if hr_method req = ''POST''
      then (Inr \<lparr>rs_code = 200, rs_body = []\<rparr>, case hr_body req of None \<Rightarrow> v | Some b \<Rightarrow> serve_post (unpack b) v)
      else if hr_url req = u @ namespaceBaseURL then (Inr \<lparr>rs_code = 200, rs_body = write_registry (vw_registry v)\<rparr>, v)
      else case vw_placement v of
          None \<Rightarrow> (Inr \<lparr>rs_code = 404, rs_body = []\<rparr>, v)
        | Some pl \<Rightarrow> (Inr \<lparr>rs_code = 200, rs_body = write_placement pl\<rparr>, v))"

definition up_lib :: lib where
  "up_lib = example_lib\<lparr>json_identity := (\<lambda>b. Inr (read_identity b)), JSONPBMarshal := (\<lambda>m. Inr (write_message m)),
     decode_registry := (\<lambda>b. Inr (Some (read_entries (unpack b)))), decode_placement := (\<lambda>b. Inr (Some b)),
     NewPlacementFromProto := (\<lambda>b. Inr (read_instances (unpack b)))\<rparr>"

definition up_cluster :: m3db_cluster where
  "up_cluster = (example_cluster [])\<lparr>cl_spec := (example_spec [example_group ''a'' 1, example_group ''b'' 1])
     \<lparr>cs_ConfigMapName := Some ''cm'', cs_KeepEtcdDataOnDelete := True,
       cs_Namespaces := [\<lparr>ns_Name = ''metrics'', ns_Preset = PresetTenSecondsTwoDaysIndexed, ns_Options = None\<rparr>]\<rparr>\<rparr>"

definition up_env :: "view env" where
  "up_env = (offline_env up_lib)\<lparr>
     list_sts := (\<lambda>_ _ v. (Inr (vw_sets v), v)), list_pods := (\<lambda>_ _ v. (Inr (Some (vw_pods v)), v)),
     api_svc_get := (\<lambda>_ _ v. (Inr \<lparr>svc_meta = zero_meta, svc_selector = [], svc_ports = [], svc_clusterIP = [], svc_type = [],
       svc_publishNotReadyAddresses = False\<rparr>, v)),
     api_sts_create := (\<lambda>_ t v. (Inr t, v\<lparr>vw_sets := vw_sets v @ [t]\<rparr>)),
     api_crd_updateStatus := (\<lambda>_ c v. (Inr c, v\<lparr>vw_object := c\<rparr>)),
     api_http := serve (clusterURL up_cluster)\<rparr>"

lemma up_env_sel:
  "e_lib up_env = up_lib" "list_sts up_env = (\<lambda>_ _ v. (Inr (vw_sets v), v))" "list_pods up_env = (\<lambda>_ _ v. (Inr (Some (vw_pods v)), v))"
  "\<exists>svc. api_svc_get up_env ns n v = (Inr svc, v)" "api_sts_create up_env = (\<lambda>_ t v. (Inr t, v\<lparr>vw_sets := vw_sets v @ [t]\<rparr>))"
  "api_crd_updateStatus up_env = (\<lambda>_ c v. (Inr c, v\<lparr>vw_object := c\<rparr>))" "api_http up_env = serve (clusterURL up_cluster)"
  "api_event up_env = (\<lambda>_ v. v)" "api_now up_env = (\<lambda>v. (''now'', v))" "clusterURLFn up_env up_cluster = clusterURL up_cluster"
  by (simp_all add: up_env_def offline_env_def clusterURLFn_def)

lemma up_lib_sel:
  "json_identity up_lib = (\<lambda>b. Inr (read_identity b))" "JSONPBMarshal up_lib = (\<lambda>m. Inr (write_message m))"
  "decode_registry up_lib = (\<lambda>b. Inr (Some (read_entries (unpack b))))" "decode_placement up_lib = (\<lambda>b. Inr (Some b))"
  "NewPlacementFromProto up_lib = (\<lambda>b. Inr (read_instances (unpack b)))" "NewRequest up_lib = (\<lambda>m u. None)"
  "ParseRequestURI up_lib = (\<lambda>u. None)" "decode_ready up_lib = (\<lambda>b. Inr ())" "Cause up_lib = example_Cause"
  "IsControlledBy up_lib = (\<lambda>m c. list_ex (\<lambda>r. or_uid r = om_uid c \<and> or_controller r) (om_owner_refs m))"
  "tie_pods up_lib = (\<lambda>_. 0)"
  by (simp_all add: up_lib_def example_lib_def)

lemma up_accepts: "accepts up_env v url msg (serve_post (unpack (write_message msg)) v)"
  by (simp add: accepts_def up_env_sel up_lib_sel serve_def)

lemma up_urls: "u @ placementBaseURL \<noteq> u @ namespaceBaseURL"
  by (simp add: placementBaseURL_def namespaceBaseURL_def)

lemma up_cooperative: "cooperative up_env up_cluster (\<lambda>v. v)"
proof -
  have reg: "registry_at up_env v (clusterURL up_cluster) (vw_registry v)" for v
    by (simp add: registry_at_def answers_def up_env_sel up_lib_sel serve_def read_write_registry)
  have pl: "placement_at up_env v (clusterURL up_cluster) p" if "vw_placement v = Some p" for v p
    using that up_urls by (simp add: placement_at_def answers_def up_env_sel up_lib_sel serve_def read_write_placement)
  have none: "missing_at up_env v (clusterURL up_cluster @ placementBaseURL)" if "vw_placement v = None" for v
    using that up_urls by (simp add: missing_at_def up_env_sel up_lib_sel serve_def)
  have posts: "serve_post (unpack (write_message (Msg_PlacementInit req))) v
        = v\<lparr>vw_placement := Some (map new_instance (pir_Instances req))\<rparr>"
      "serve_post (unpack (write_message (Msg_NamespaceAdd nar))) v = v\<lparr>vw_registry := add_entry (nar_Name nar) (vw_registry v)\<rparr>"
      "serve_post (unpack (write_message (Msg_NamespaceReady n))) v = v\<lparr>vw_registry := mark_ready n (vw_registry v)\<rparr>" for req nar n v
    by (simp_all add: serve_post_def unpack_pack read_new_instances)
  have taken: "\<exists>w'. accepts up_env v url msg w' \<and> w' = v'" if "serve_post (unpack (write_message msg)) v = v'" for v url msg v'
    using up_accepts that by blast
  have cause: "cause_unwraps up_lib" by (simp add: cause_unwraps_def up_lib_sel)
  show ?thesis
    unfolding cooperative_def
    by (intro conjI allI impI ballI taken posts)
      (simp_all only: up_env_sel up_lib_sel reg pl none cause read_IdentityJSON simp_thms prod.inject snd_conv,
       simp_all add: GenerateOwnerRef_def)
qed

text \<open>The rest of the world: sets get their ready replicas, the pods run, the instances become available.\<close>

definition up_pod :: "string \<Rightarrow> string \<Rightarrow> pod" where
  "up_pod n g = (example_pod n)\<lparr>pod_meta := (pod_meta (example_pod n))\<lparr>om_labels := [(IsolationGroup, g)]\<rparr>\<rparr>"

definition up_roll :: "statefulset \<Rightarrow> statefulset" where
  "up_roll t = t\<lparr>sts_meta := (sts_meta t)\<lparr>om_generation := 0\<rparr>,
     sts_status := zero_status\<lparr>st_readyReplicas := (case ss_replicas (sts_spec t) of None \<Rightarrow> 0 | Some r \<Rightarrow> r)\<rparr>\<rparr>"

definition up_grow :: "view \<Rightarrow> view" where
  "up_grow v = v\<lparr>vw_sets := map up_roll (vw_sets v), vw_pods := [up_pod ''c-rep0-0'' ''a'', up_pod ''c-rep1-0'' ''b'']\<rparr>"

definition up_mature :: "view \<Rightarrow> view" where
  "up_mature v = v\<lparr>vw_placement := map_option available (vw_placement v)\<rparr>"

lemma up_pods_run: "pods_run up_lib up_cluster [up_pod ''c-rep0-0'' ''a'', up_pod ''c-rep1-0'' ''b'']"
proof -
  have ord: "Atoi ''0'' = Inr 0" by code_simp
  have utf8: "utf8_identity (uid_identity (up_pod ''c-rep0-0'' ''a''))" "utf8_identity (uid_identity (up_pod ''c-rep1-0'' ''b''))"
    by code_simp+
  have ends: "\<exists>ep. pod_endpoint up_lib up_cluster p = Inr ep" for p
    by (simp add: pod_endpoint_def up_lib_def example_lib_def Let_def)
  show ?thesis
    by (simp add: pods_run_def pods_formed_def uid_pods_def ends utf8)
      (simp add: up_pod_def example_pod_def zero_meta_def up_cluster_def example_cluster_def example_spec_def example_group_def
        pod_group_def sortPods_def pod_ordinal_def ord up_lib_sel EqualFold_def to_lower_def is_i32_def Let_def)
qed

lemma up_rolled_out: "list_all2 rolled_out ts (map up_roll ts)"
  by (induction ts) (auto simp: rolled_out_def up_roll_def set_ready_def zero_status_def Let_def split: option.splits)

lemma up_cluster_spec: "creatable up_cluster" "plain_sets up_cluster" "bootable up_lib up_cluster"
proof -
  let ?ns = "\<lparr>ns_Name = ''metrics'', ns_Preset = PresetTenSecondsTwoDaysIndexed, ns_Options = None\<rparr>"
  note defs = up_cluster_def example_cluster_def example_spec_def example_group_def marked_deleted_def zero_meta_def
    validateIsolationGroups_None affinity_ok_def i32_def
  show "creatable up_cluster" by (simp add: creatable_def defs)
  show "plain_sets up_cluster"
    by (simp add: plain_sets_def defs mhas_def Copy_def PodAnnotations_def BaseAnnotations_def mput_all_def Update_def ParallelUpdate_def
        ParallelUpdateInProgress_def App_def Cluster_def)
  have "\<exists>req. RequestFromSpec (frac_nanos up_lib) (pb_struct up_lib) ?ns = Inr req"
    by (simp add: RequestFromSpec_def PresetTenSecondsTwoDaysIndexed_def presetTenSecondsTwoDaysIndexed_def m3dbNamespaceOptsFromSpec_def
      m3dbRetentionOptsFromSpec_def m3dbIndexOptsFromSpec_def m3dbAggregationOptsFromSpec_def m3dbExtendedOptsFromSpec_def
      aggregation_from_spec_def parse_field_whole hours_def minutes_def up_lib_def example_lib_def)
  then show "bootable up_lib up_cluster"
    by (simp add: bootable_def spec_active_def own_configmap_def namespaces_formed_def defs)
qed

theorem cluster_comes_up_witness:
  "\<exists>c' v. v = st_world (bring_up up_env (\<lambda>v. v) 2 up_grow up_mature (start (new_view up_cluster))) \<and> vw_object v = c'
     \<and> settled up_env v c' (clusterURLFn up_env c') (clusterURLFn up_env c') (view_snapshot v)
     \<and> cl_spec c' = cl_spec up_cluster"
proof -
  have "at_view up_env up_cluster (\<lambda>v. v) (new_view up_cluster) (start (new_view up_cluster))"
    by (simp add: at_view_def inside_def start_def up_env_sel up_lib_sel)
  moreover have "kubernetes_step (e_lib up_env) up_cluster v (up_grow v)" for v
    using up_pods_run up_rolled_out by (auto simp: kubernetes_step_def up_grow_def up_env_sel)
  moreover have "m3_step v (up_mature v)" for v by (simp add: m3_step_def up_mature_def)
  moreover have "length (cl_groups up_cluster) = 2" by (simp add: up_cluster_def example_spec_def)
  ultimately show ?thesis
    using cluster_comes_up [OF up_cooperative up_cluster_spec(1,2), of "start (new_view up_cluster)" up_grow up_mature]
      up_cluster_spec(3) by (auto simp: up_env_sel)
qed

end
