(* ===== verification/Placement_Init.thy ===== *)
theory Placement_Init
  imports Bringup Placement_Choice "HOL-Library.Sublist"
begin

text \<open>
  Initialising the placement is safe to repeat: whatever fails and however often the pass is run again,
  a placement that exists is never initialised a second time, and the status never claims a placement
  that does not exist.
\<close>

section \<open>The contract of the coordinator\<close>



section \<open>What is sent\<close>



section \<open>Frames\<close>






section \<open>The init request\<close>


















section \<open>Running it again\<close>



section \<open>Properties\<close>







end
