(* ===== verification/Scheme_Register.thy ===== *)
theory Scheme_Register
  imports Generators Fake_Client
begin

text \<open>
  The registration of the API types with the scheme of apimachinery: \<open>register.go\<close> of the API package
  and of the two clientsets. A scheme, its operations and \<open>runtime.SchemeBuilder\<close> are parameters. The
  package variables are modelled by their values after the initialisers of the packages have run, in
  the order of the imports: the API package first, then the clientset that uses it.
\<close>

section \<open>Schemes and builders\<close>

type_synonym group_version = "string \<times> string"

type_synonym 's setup_func = "'s \<Rightarrow> gerror option \<times> 's"

text \<open>\<open>sc_Builder\<close> is the composite literal of a builder; types are given by their Go names.\<close>

record ('s, 'b) scheme_lib =
  sc_NewScheme :: 's
  sc_AddKnownTypes :: "'s \<Rightarrow> group_version \<Rightarrow> string list \<Rightarrow> 's"
  sc_AddToGroupVersion :: "'s \<Rightarrow> group_version \<Rightarrow> 's"
  sc_Builder :: "'s setup_func list \<Rightarrow> 'b"
  sc_Register :: "'b \<Rightarrow> 's setup_func \<Rightarrow> 'b"
  sc_AddToScheme :: "'b \<Rightarrow> 's setup_func"

section \<open>\<open>pkg/apis/m3dboperator\<close>\<close>

definition M3DBClusterResourceKind :: string where
  "M3DBClusterResourceKind = ''M3DBCluster''"

definition M3DBClusterResourcePlural :: string where
  "M3DBClusterResourcePlural = ''m3dbclusters''"

definition M3DBClustersName :: string where
  "M3DBClustersName = M3DBClusterResourcePlural @ ''.'' @ GroupName"

definition SchemeGroupVersion :: group_version where
  "SchemeGroupVersion = (GroupName, Version)"

definition addKnownTypes :: "('s, 'b) scheme_lib \<Rightarrow> 's setup_func" where
  "addKnownTypes lb scheme =
     (let scheme = sc_AddKnownTypes lb scheme SchemeGroupVersion [''M3DBCluster'', ''M3DBClusterList''];
          scheme = sc_AddToGroupVersion lb scheme SchemeGroupVersion
      in (None, scheme))"

text \<open>\<open>SchemeBuilder\<close>, a nil builder, after \<open>init\<close> has registered \<open>addKnownTypes\<close>.\<close>

definition SchemeBuilder :: "('s, 'b) scheme_lib \<Rightarrow> 'b" where
  "SchemeBuilder lb = sc_Register lb (sc_Builder lb []) (addKnownTypes lb)"

definition api_AddToScheme :: "('s, 'b) scheme_lib \<Rightarrow> 's setup_func" where
  "api_AddToScheme lb = sc_AddToScheme lb (SchemeBuilder lb)"

section \<open>The clientsets\<close>

definition clientset_SchemeBuilder :: "('s, 'b) scheme_lib \<Rightarrow> 'b" where
  "clientset_SchemeBuilder lb = sc_Builder lb [api_AddToScheme lb]"

definition clientset_AddToScheme :: "('s, 'b) scheme_lib \<Rightarrow> 's setup_func" where
  "clientset_AddToScheme lb = sc_AddToScheme lb (clientset_SchemeBuilder lb)"

text \<open>\<open>Scheme\<close> after \<open>init\<close>; the error is the panic of \<open>utilruntime.Must\<close>.\<close>

definition clientset_Scheme :: "('s, 'b) scheme_lib \<Rightarrow> gerror + 's" where
  "clientset_Scheme lb =
     (let s = sc_AddToGroupVersion lb (sc_NewScheme lb) ([], ''v1'') in
      case clientset_AddToScheme lb s of (Some err, _) \<Rightarrow> Inl err | (None, s) \<Rightarrow> Inr s)"

definition fake_SchemeBuilder :: "('s, 'b) scheme_lib \<Rightarrow> 'b" where
  "fake_SchemeBuilder lb = sc_Builder lb [api_AddToScheme lb]"

definition fake_AddToScheme :: "('s, 'b) scheme_lib \<Rightarrow> 's setup_func" where
  "fake_AddToScheme lb = sc_AddToScheme lb (fake_SchemeBuilder lb)"

definition fake_scheme :: "('s, 'b) scheme_lib \<Rightarrow> gerror + 's" where
  "fake_scheme lb =
     (let s = sc_AddToGroupVersion lb (sc_NewScheme lb) ([], ''v1'') in
      case fake_AddToScheme lb s of (Some err, _) \<Rightarrow> Inl err | (None, s) \<Rightarrow> Inr s)"

section \<open>What the schemes know\<close>

text \<open>The functions of a builder in order, until one returns an error.\<close>

fun run_funcs :: "'s setup_func list \<Rightarrow> 's setup_func" where
  "run_funcs [] s = (None, s)"
| "run_funcs (f # fs) s = (case f s of (Some err, s') \<Rightarrow> (Some err, s') | (None, s') \<Rightarrow> run_funcs fs s')"

text \<open>
  What apimachinery documents: a builder applies its functions in the order they were registered
  and stops at an error; \<open>AddKnownTypes\<close> makes a type known under its name in the group and version;
  \<open>AddToGroupVersion\<close> adds the common types of \<open>meta\<close> and nothing else. \<open>kinds s\<close> are the
  kinds a scheme knows.
\<close>

definition scheme_laws :: "('s, 'b) scheme_lib \<Rightarrow> ('s \<Rightarrow> (group_version \<times> string) set) \<Rightarrow> string set \<Rightarrow> bool" where
  "scheme_laws lb kinds meta \<longleftrightarrow>
     (\<forall>fs. sc_AddToScheme lb (sc_Builder lb fs) = run_funcs fs)
   \<and> (\<forall>fs f. sc_Register lb (sc_Builder lb fs) f = sc_Builder lb (fs @ [f]))
   \<and> kinds (sc_NewScheme lb) = {}
   \<and> (\<forall>s gv ts. kinds (sc_AddKnownTypes lb s gv ts) = kinds s \<union> {gv} \<times> set ts)
   \<and> (\<forall>s gv. kinds s \<subseteq> kinds (sc_AddToGroupVersion lb s gv)
        \<and> snd ` kinds (sc_AddToGroupVersion lb s gv) \<subseteq> snd ` kinds s \<union> meta)"

lemma scheme_lawsD:
  assumes "scheme_laws lb kinds meta"
  shows "sc_AddToScheme lb (sc_Builder lb fs) = run_funcs fs"
    and "sc_Register lb (sc_Builder lb fs) f = sc_Builder lb (fs @ [f])"
    and "kinds (sc_NewScheme lb) = {}"
    and "kinds (sc_AddKnownTypes lb s gv ts) = kinds s \<union> {gv} \<times> set ts"
    and "kinds s \<subseteq> kinds (sc_AddToGroupVersion lb s gv)"
    and "snd ` kinds (sc_AddToGroupVersion lb s gv) \<subseteq> snd ` kinds s \<union> meta"
  using assms unfolding scheme_laws_def by (simp_all del: split_paired_All)

lemma addKnownTypes_None: "addKnownTypes lb s = (None, snd (addKnownTypes lb s))"
  by (simp add: addKnownTypes_def Let_def)

lemma AddToScheme_run:
  assumes "scheme_laws lb kinds meta"
  shows "api_AddToScheme lb = addKnownTypes lb" "clientset_AddToScheme lb = addKnownTypes lb"
    "fake_AddToScheme lb = addKnownTypes lb"
proof -
  have one: "run_funcs [addKnownTypes lb] = addKnownTypes lb"
    by (rule ext) (subst addKnownTypes_None, simp, subst addKnownTypes_None, simp)
  show api: "api_AddToScheme lb = addKnownTypes lb"
    by (simp only: api_AddToScheme_def SchemeBuilder_def scheme_lawsD(1,2) [OF assms] append.simps one)
  show "clientset_AddToScheme lb = addKnownTypes lb" "fake_AddToScheme lb = addKnownTypes lb"
    by (simp_all only: clientset_AddToScheme_def clientset_SchemeBuilder_def fake_AddToScheme_def fake_SchemeBuilder_def
        scheme_lawsD(1) [OF assms] api one)
qed

lemma addKnownTypes_kinds:
  assumes "scheme_laws lb kinds meta"
  shows "kinds s \<union> {SchemeGroupVersion} \<times> {''M3DBCluster'', ''M3DBClusterList''} \<subseteq> kinds (snd (addKnownTypes lb s))"
    and "snd ` kinds (snd (addKnownTypes lb s)) \<subseteq> snd ` kinds s \<union> {''M3DBCluster'', ''M3DBClusterList''} \<union> meta"
proof -
  let ?s = "sc_AddKnownTypes lb s SchemeGroupVersion [''M3DBCluster'', ''M3DBClusterList'']"
  have run: "snd (addKnownTypes lb s) = sc_AddToGroupVersion lb ?s SchemeGroupVersion"
    by (simp add: addKnownTypes_def Let_def)
  have known: "kinds ?s = kinds s \<union> {SchemeGroupVersion} \<times> {''M3DBCluster'', ''M3DBClusterList''}"
    using scheme_lawsD(4) [OF assms] by simp
  show "kinds s \<union> {SchemeGroupVersion} \<times> {''M3DBCluster'', ''M3DBClusterList''} \<subseteq> kinds (snd (addKnownTypes lb s))"
    using scheme_lawsD(5) [OF assms, of ?s] by (simp only: run known)
  show "snd ` kinds (snd (addKnownTypes lb s)) \<subseteq> snd ` kinds s \<union> {''M3DBCluster'', ''M3DBClusterList''} \<union> meta"
    using scheme_lawsD(6) [OF assms, of ?s SchemeGroupVersion] unfolding run known by auto
qed

text \<open>
  C40: the initialisers of both clientsets run without a panic and leave a scheme that knows the cluster
  and its list under the group and version of the API; adding the types to another scheme, as the
  controller does, never returns an error. But the kind that the owner references of all generated
  objects carry is not a kind that any of these schemes knows.
\<close>

theorem cluster_types_registered:
  assumes laws: "scheme_laws lb kinds meta" and meta: "''m3dbcluster'' \<notin> meta"
  shows "\<exists>s. clientset_Scheme lb = Inr s \<and> fake_scheme lb = Inr s
    \<and> {SchemeGroupVersion} \<times> {M3DBClusterResourceKind, ''M3DBClusterList''} \<subseteq> kinds s
    \<and> (\<forall>cluster. or_kind (GenerateOwnerRef cluster) \<notin> snd ` kinds s)
    \<and> (\<forall>t. fst (clientset_AddToScheme lb t) = None)"
proof -
  let ?base = "sc_AddToGroupVersion lb (sc_NewScheme lb) ([], ''v1'')"
  let ?s = "snd (addKnownTypes lb ?base)"
  have schemes: "clientset_Scheme lb = Inr ?s" "fake_scheme lb = Inr ?s"
    by (simp_all add: clientset_Scheme_def fake_scheme_def AddToScheme_run [OF laws] addKnownTypes_def Let_def)
  have "snd ` kinds ?base \<subseteq> meta"
    using scheme_lawsD(6) [OF laws, of "sc_NewScheme lb"] scheme_lawsD(3) [OF laws] by simp
  with addKnownTypes_kinds(2) [OF laws, of ?base] meta have "''m3dbcluster'' \<notin> snd ` kinds ?s" by auto
  then have "or_kind (GenerateOwnerRef cluster) \<notin> snd ` kinds ?s" for cluster
    by (simp add: GenerateOwnerRef_def)
  moreover have "fst (clientset_AddToScheme lb t) = None" for t
    by (simp add: AddToScheme_run [OF laws] addKnownTypes_def Let_def)
  moreover have "{SchemeGroupVersion} \<times> {M3DBClusterResourceKind, ''M3DBClusterList''} \<subseteq> kinds ?s"
    using addKnownTypes_kinds(1) [OF laws, of ?base] by (simp add: M3DBClusterResourceKind_def)
  ultimately show ?thesis using schemes by blast
qed

text \<open>Schemes as lists of known kinds, builders as lists of functions.\<close>

definition list_scheme_lib ::
  "((group_version \<times> string) list, (group_version \<times> string) list setup_func list) scheme_lib" where
  "list_scheme_lib = \<lparr>sc_NewScheme = [], sc_AddKnownTypes = (\<lambda>s gv ts. s @ map (Pair gv) ts),
     sc_AddToGroupVersion = (\<lambda>s gv. s @ [(gv, ''WatchEvent''), (gv, ''ListOptions'')]),
     sc_Builder = (\<lambda>fs. fs), sc_Register = (\<lambda>b f. b @ [f]), sc_AddToScheme = run_funcs\<rparr>"

lemma list_scheme_laws: "scheme_laws list_scheme_lib set {''WatchEvent'', ''ListOptions''}"
  by (auto simp: scheme_laws_def list_scheme_lib_def)

theorem cluster_types_registered_witness:
  "\<exists>s. clientset_Scheme list_scheme_lib = Inr s
     \<and> ((''operator.m3db.io'', ''v1alpha1''), ''M3DBCluster'') \<in> set s
     \<and> (\<forall>cluster. or_kind (GenerateOwnerRef cluster) \<notin> snd ` set s)"
  using cluster_types_registered [OF list_scheme_laws]
  by (auto simp: SchemeGroupVersion_def GroupName_def Version_def M3DBClusterResourceKind_def)

end
