(* ===== verification/Test_Harness.thy ===== *)
theory Test_Harness
  imports Operator_Main "HOL-Library.Sublist"
begin

text \<open>
  \<open>integration/harness\<close>: the program around the end-to-end tests. It builds the clients, prepares a
  namespace with the operator and an etcd cluster, runs the tests and removes what it made. The
  Kubernetes API, the YAML decoder, the files, the environment variables, \<open>wait.Poll\<close> and the tests
  themselves are parameters (record \<open>harness_env\<close>). Every request is appended to \<open>hs_calls\<close>. The
  lemmas give the requests of each step in order and say what is left behind when a step fails.
\<close>

section \<open>Constants and data (\<open>harness.go\<close>, \<open>run_suite.go\<close>)\<close>

definition defaultNamespace :: string where
  "defaultNamespace = ''m3db-e2e-test-1''"

definition defaultClusterRoleName :: string where
  "defaultClusterRoleName = ''operator-e2e-test''"

definition defaultClusterRoleBindingName :: string where
  "defaultClusterRoleBindingName = defaultClusterRoleName"

text \<open>\<open>fmt.Sprintf(proxyBaseURLFmt, namespace, service, port)\<close>\<close>

definition proxyBaseURL :: "string \<Rightarrow> string \<Rightarrow> string \<Rightarrow> string" where
  "proxyBaseURL ns svc port = ''http://localhost:8001/api/v1/namespaces/'' @ ns @ ''/services/'' @ svc @ '':'' @ port
     @ ''/proxy''"

definition etcdHealthInterval :: int where
  "etcdHealthInterval = 10 * 10 ^ 9"

definition etcdHealthTimeout :: int where
  "etcdHealthTimeout = 5 * 60 * 10 ^ 9"

record Flags =
  hf_KubeConfig :: string
  hf_Verbose :: bool
  hf_SkipCreateNamespace :: bool
  hf_SkipDeleteNamespace :: bool
  hf_SkipCreateRBAC :: bool
  hf_SkipDeleteRBAC :: bool

definition harness_default_flags :: Flags where
  "harness_default_flags = \<lparr>hf_KubeConfig = [], hf_Verbose = False, hf_SkipCreateNamespace = False,
     hf_SkipDeleteNamespace = False, hf_SkipCreateRBAC = False, hf_SkipDeleteRBAC = False\<rparr>"

record Harness =
  h_Logger :: log_config
  h_KubeClient :: opaque
  h_CRDClient :: Clientset
  h_ExtClient :: opaque
  h_Namespace :: string
  h_Flags :: Flags

record suiteOpts =
  so_flags :: Flags
  so_logger :: log_config

datatype hcall =
    HNs_Get string
  | HNs_Create string
  | HNs_Delete string
  | HSa_Create string opaque
  | HRole_Create opaque
  | HRole_Delete string
  | HBinding_Create opaque
  | HBinding_Delete string
  | HSvc_Create string service
  | HSts_Create string statefulset
  | HCrd_Create string m3db_cluster
  | HHttp_Get string
  | HTests

record 'w hst =
  hs_world :: 'w
  hs_calls :: "hcall list"
  hs_Global :: "Harness option"

text \<open>
  A decoder takes the rest of an open file to an object and what follows it. \<open>he_Run\<close> is the test
  binary: it reads the global harness and ends with a code.
\<close>

record 'w harness_env =
  he_main :: main_lib
  he_lib :: lib
  he_Getenv :: "string \<Rightarrow> string"
  he_Open :: "string \<Rightarrow> gerror + opaque"
  he_ServiceAccount :: "opaque \<Rightarrow> gerror + opaque \<times> opaque"
  he_ClusterRole :: "opaque \<Rightarrow> gerror + opaque \<times> opaque"
  he_ClusterRoleBinding :: "opaque \<Rightarrow> gerror + opaque \<times> opaque"
  he_StatefulSet :: "opaque \<Rightarrow> gerror + statefulset \<times> opaque"
  he_Service :: "opaque \<Rightarrow> gerror + service \<times> opaque"
  he_M3DBCluster :: "opaque \<Rightarrow> gerror + m3db_cluster \<times> opaque"
  he_decode_health :: "string \<Rightarrow> gerror + string"
  he_ns_get :: "string \<Rightarrow> ('w, string) io"
  he_create :: "hcall \<Rightarrow> ('w, unit) io"
  he_delete :: "hcall \<Rightarrow> ('w, unit) io"
  he_crd_create :: "string \<Rightarrow> m3db_cluster \<Rightarrow> ('w, m3db_cluster) io"
  he_http_get :: "string \<Rightarrow> ('w, string) io"
  he_Poll :: "int \<Rightarrow> int \<Rightarrow> ('w hst, bool) io \<Rightarrow> ('w hst, unit) io"
  he_Run :: "Harness option \<Rightarrow> 'w \<Rightarrow> int \<times> 'w"

definition hrequest :: "hcall \<Rightarrow> ('w, 'a) io \<Rightarrow> ('w hst, 'a) io" where
  "hrequest c m = (\<lambda>s. case m (hs_world s) of
     (r, w) \<Rightarrow> (r, s\<lparr>hs_world := w, hs_calls := hs_calls s @ [c]\<rparr>))"

definition hcreate :: "'w harness_env \<Rightarrow> hcall \<Rightarrow> ('w hst, unit) io" where
  "hcreate env c = hrequest c (he_create env c)"

definition hdelete :: "'w harness_env \<Rightarrow> hcall \<Rightarrow> ('w hst, unit) io" where
  "hdelete env c = hrequest c (he_delete env c)"

section \<open>\<open>harness.go\<close>\<close>

definition buildSuite :: "main_lib \<Rightarrow> suiteOpts \<Rightarrow> gerror + Harness" where
  "buildSuite lb opts =
     res_bind (BuildConfigFromFlags lb [] (hf_KubeConfig (so_flags opts))) (\<lambda>cfg.
     res_bind (kubernetes_NewForConfig lb cfg) (\<lambda>kubeClient.
     res_bind (NewForConfig (ml_rest lb) cfg) (\<lambda>crdClient.
     res_bind (apiextensions_NewForConfig lb cfg) (\<lambda>extClient.
     Inr \<lparr>h_Logger = so_logger opts, h_KubeClient = kubeClient, h_CRDClient = crdClient,
       h_ExtClient = extClient, h_Namespace = defaultNamespace, h_Flags = so_flags opts\<rparr>))))"

definition createNamespace :: "'w harness_env \<Rightarrow> Harness \<Rightarrow> string \<Rightarrow> ('w hst, unit) io" where
  "createNamespace env h ns =
     (if hf_SkipCreateNamespace (h_Flags h) then ok () else hcreate env (HNs_Create ns))"

definition ensureNamespace :: "'w harness_env \<Rightarrow> Harness \<Rightarrow> ('w hst, unit) io" where
  "ensureNamespace env h =
     catchE (hrequest (HNs_Get (h_Namespace h)) (he_ns_get env (h_Namespace h))) (\<lambda>r. case r of
       Inl err \<Rightarrow> if IsNotFound (he_lib env) err then createNamespace env h defaultNamespace else fail err
     | Inr phase \<Rightarrow>
         if phase \<noteq> ''Active''
         then fail (Errorf ''namespace %s is in phase != Active (%s)'' [AStr (h_Namespace h), AStr phase])
         else ok ())"

section \<open>\<open>operator.go\<close>\<close>

text \<open>A \<open>Create\<close> whose error is ignored when the object exists already.\<close>

definition create_tolerant :: "'w harness_env \<Rightarrow> hcall \<Rightarrow> ('w hst, unit) io" where
  "create_tolerant env c = catchE (hcreate env c) (\<lambda>r. case r of
     Inl err \<Rightarrow> if \<not> IsAlreadyExists (he_lib env) err then fail err else ok ()
   | Inr _ \<Rightarrow> ok ())"

definition operator_manifest :: "'w harness_env \<Rightarrow> gerror + opaque \<times> opaque \<times> opaque \<times> statefulset" where
  "operator_manifest env =
     res_bind (he_Open env ''../manifests/operator.yaml'') (\<lambda>f.
     res_bind (he_ServiceAccount env f) (\<lambda>(sa, f).
     res_bind (he_ClusterRole env f) (\<lambda>(role, f).
     res_bind (he_ClusterRoleBinding env f) (\<lambda>(rb, f).
     res_bind (he_StatefulSet env f) (\<lambda>(sts, f).
     Inr (sa, role, rb, sts))))))"

definition installOperator :: "'w harness_env \<Rightarrow> Harness \<Rightarrow> ('w hst, unit) io" where
  "installOperator env h =
     bindE (lift_res (operator_manifest env)) (\<lambda>(sa, role, rb, sts).
     bindE (create_tolerant env (HSa_Create (h_Namespace h) sa)) (\<lambda>_.
     bindE (if \<not> hf_SkipCreateRBAC (h_Flags h)
            then bindE (create_tolerant env (HRole_Create role)) (\<lambda>_.
                 create_tolerant env (HBinding_Create rb))
            else ok ()) (\<lambda>_.
     hcreate env (HSts_Create (h_Namespace h) sts))))"

section \<open>\<open>etcd.go\<close>\<close>

definition etcd_health_url :: "Harness \<Rightarrow> string" where
  "etcd_health_url h = proxyBaseURL (h_Namespace h) ''etcd-cluster'' ''2379'' @ ''/health''"

definition checkEtcdHealth :: "'w harness_env \<Rightarrow> Harness \<Rightarrow> ('w hst, unit) io" where
  "checkEtcdHealth env h =
     (let url = etcd_health_url h in
      bindE (hrequest (HHttp_Get url) (he_http_get env url)) (\<lambda>body.
      bindE (lift_res (he_decode_health env body)) (\<lambda>health.
      if health \<noteq> ''true'' then fail (Errors_New ''unhealthy response from cluster'') else ok ())))"

text \<open>The condition of the poll: an error of the check is logged and means "not yet".\<close>

definition etcd_healthy :: "'w harness_env \<Rightarrow> Harness \<Rightarrow> ('w hst, bool) io" where
  "etcd_healthy env h = catchE (checkEtcdHealth env h) (\<lambda>r. case r of Inl _ \<Rightarrow> ok False | Inr _ \<Rightarrow> ok True)"

definition waitEtcdHealth :: "'w harness_env \<Rightarrow> Harness \<Rightarrow> int \<Rightarrow> int \<Rightarrow> ('w hst, unit) io" where
  "waitEtcdHealth env h interval timeout = he_Poll env interval timeout (etcd_healthy env h)"

definition etcd_manifest :: "'w harness_env \<Rightarrow> gerror + service \<times> service \<times> statefulset" where
  "etcd_manifest env =
     res_bind (he_Open env ''../manifests/etcd.yaml'') (\<lambda>f.
     res_bind (he_Service env f) (\<lambda>(headlessSvc, f).
     res_bind (he_Service env f) (\<lambda>(clusterSvc, f).
     res_bind (he_StatefulSet env f) (\<lambda>(statefulSet, f).
     Inr (headlessSvc, clusterSvc, statefulSet)))))"

definition createEtcdCluster :: "'w harness_env \<Rightarrow> Harness \<Rightarrow> ('w hst, unit) io" where
  "createEtcdCluster env h =
     bindE (lift_res (etcd_manifest env)) (\<lambda>(headlessSvc, clusterSvc, statefulSet).
     bindE (for_each (\<lambda>svc. hcreate env (HSvc_Create (h_Namespace h) svc)) [headlessSvc, clusterSvc]) (\<lambda>_.
     bindE (hcreate env (HSts_Create (h_Namespace h) statefulSet)) (\<lambda>_.
     waitEtcdHealth env h etcdHealthInterval etcdHealthTimeout)))"

section \<open>\<open>harness.go\<close>: setup and teardown\<close>

definition setupSuite :: "'w harness_env \<Rightarrow> Harness \<Rightarrow> ('w hst, unit) io" where
  "setupSuite env h =
     bindE (ensureNamespace env h) (\<lambda>_.
     bindE (installOperator env h) (\<lambda>_.
     createEtcdCluster env h))"

definition teardownSuite :: "'w harness_env \<Rightarrow> Harness \<Rightarrow> ('w hst, unit) io" where
  "teardownSuite env h =
     bindE (if \<not> hf_SkipDeleteRBAC (h_Flags h)
            then bindE (hdelete env (HRole_Delete defaultClusterRoleName)) (\<lambda>_.
                 hdelete env (HBinding_Delete defaultClusterRoleBindingName))
            else ok ()) (\<lambda>_.
     if hf_SkipDeleteNamespace (h_Flags h) then ok ()
     else hdelete env (HNs_Delete (h_Namespace h)))"

section \<open>\<open>m3dbcluster.go\<close> and \<open>m3admin.go\<close>\<close>

text \<open>\<open>filepath.Join\<close> and \<open>filepath.Clean\<close> on slash-separated paths.\<close>

fun clean_segments :: "bool \<Rightarrow> string list \<Rightarrow> string list \<Rightarrow> string list" where
  "clean_segments rooted acc [] = rev acc"
| "clean_segments rooted acc (x # xs) =
     (if x = [] \<or> x = ''.'' then clean_segments rooted acc xs
      else if x = ''..'' then
        (if acc \<noteq> [] \<and> hd acc \<noteq> ''..'' then clean_segments rooted (tl acc) xs
         else if rooted then clean_segments rooted acc xs
         else clean_segments rooted (x # acc) xs)
      else clean_segments rooted (x # acc) xs)"

definition path_Clean :: "string \<Rightarrow> string" where
  "path_Clean p =
     (let rooted = (p \<noteq> [] \<and> hd p = CHR ''/'');
          out = str_join ''/'' (clean_segments rooted [] (split_on (CHR ''/'') p))
      in if rooted then CHR ''/'' # out else if out = [] then ''.'' else out)"

definition path_Join :: "string list \<Rightarrow> string" where
  "path_Join elems = (case dropWhile (\<lambda>e. e = []) elems of [] \<Rightarrow> [] | es \<Rightarrow> path_Clean (str_join ''/'' es))"

definition CreateM3DBCluster :: "'w harness_env \<Rightarrow> Harness \<Rightarrow> string \<Rightarrow> ('w hst, m3db_cluster) io" where
  "CreateM3DBCluster env h filename =
     bindE (lift_res (res_bind (he_Open env (path_Join [''../manifests'', filename])) (he_M3DBCluster env))) (\<lambda>(cluster, _).
     hrequest (HCrd_Create (h_Namespace h) cluster) (he_crd_create env (h_Namespace h) cluster))"

definition NewPlacementClient :: "lib \<Rightarrow> Harness \<Rightarrow> m3db_cluster \<Rightarrow> gerror + svc_client" where
  "NewPlacementClient lb h cluster =
     res_bind (GenerateCoordinatorService cluster) (\<lambda>svc.
     let adminCl = NewClient [WithEnvironment (DefaultM3ClusterEnvironmentName (cl_meta cluster)),
           WithZone (cs_Zone (cl_spec cluster))];
         url = proxyBaseURL (h_Namespace h) (om_name (svc_meta svc)) ''7201''
     in NewClient_placement lb [WithClient adminCl, WithURL url])"

section \<open>\<open>run_suite.go\<close>\<close>

text \<open>The logger of the suite: the flags are an argument that is not read.\<close>

definition harness_log_config :: log_config where
  "harness_log_config = \<lparr>lg_development = True, lg_level = Some InfoLevel, lg_iso8601 = False,
     lg_disableStacktrace = True, lg_disableCaller = True\<rparr>"

text \<open>An error of these functions ends the process with code 1.\<close>

definition buildLogger :: "main_lib \<Rightarrow> Flags option \<Rightarrow> gerror + log_config" where
  "buildLogger lb fl = (case Build_logger lb harness_log_config of
     Some err \<Rightarrow> Inl (Wrap err ''error building logger'') | None \<Rightarrow> Inr harness_log_config)"

definition homeKubeConfig :: "'w harness_env \<Rightarrow> gerror + string" where
  "homeKubeConfig env = (let home = he_Getenv env ''HOME'' in
     if home = [] then Inl (Errors_New ''$HOME cannot be empty if not setting kubeconfig path'')
     else Inr (path_Join [home, ''.kube'', ''config'']))"

definition kube_config :: "'w harness_env \<Rightarrow> Flags \<Rightarrow> gerror + Flags" where
  "kube_config env fl = (if hf_KubeConfig fl = []
     then res_bind (homeKubeConfig env) (\<lambda>p. Inr (fl\<lparr>hf_KubeConfig := p\<rparr>)) else Inr fl)"

definition run_tests :: "'w harness_env \<Rightarrow> ('w hst, int) io" where
  "run_tests env = (\<lambda>s. case he_Run env (hs_Global s) (hs_world s) of
     (code, w) \<Rightarrow> (Inr code, s\<lparr>hs_world := w, hs_calls := hs_calls s @ [HTests]\<rparr>))"

definition set_Global :: "Harness \<Rightarrow> ('w hst, unit) io" where
  "set_Global h = (\<lambda>s. (Inr (), s\<lparr>hs_Global := Some h\<rparr>))"

text \<open>\<open>RunSuite\<close> after the flags are parsed; the value is the exit code of the process.\<close>

definition run_suite :: "'w harness_env \<Rightarrow> Flags \<Rightarrow> ('w hst, int) io" where
  "run_suite env fl =
     bindE (lift_res (kube_config env fl)) (\<lambda>fl.
     bindE (lift_res (buildLogger (he_main env) None)) (\<lambda>logger.
     bindE (lift_res (buildSuite (he_main env) \<lparr>so_flags = fl, so_logger = logger\<rparr>)) (\<lambda>harness.
     bindE (setupSuite env harness) (\<lambda>_.
     bindE (set_Global harness) (\<lambda>_.
     bindE (run_tests env) (\<lambda>code.
     bindE (teardownSuite env harness) (\<lambda>_.
     ok code)))))))"

definition RunSuite :: "'w harness_env \<Rightarrow> Flags \<Rightarrow> 'w hst \<Rightarrow> int \<times> 'w hst" where
  "RunSuite env fl s = (case run_suite env fl s of (Inl _, s') \<Rightarrow> (1, s') | (Inr code, s') \<Rightarrow> (code, s'))"

section \<open>Steps in a fixed order\<close>

text \<open>
  A step that sends the requests of a plan in order: all of them when it succeeds, a prefix when it
  returns an error.
\<close>

definition follows :: "hcall list \<Rightarrow> ('w hst, 'a) io \<Rightarrow> bool" where
  "follows plan m \<longleftrightarrow> appends hs_calls m (\<lambda>r cs. prefix cs plan \<and> (\<forall>x. r = Inr x \<longrightarrow> cs = plan))"

lemma follows_request: "follows [c] (hrequest c m)"
  by (simp add: follows_def appends_def hrequest_def split: prod.splits)

lemma follows_ok: "follows [] (ok x)"
  unfolding follows_def by (rule appends_ok) simp

lemma follows_fail: "follows plan (fail e)"
  unfolding follows_def by (rule appends_fail) simp

lemma follows_bindE: "follows p m \<Longrightarrow> (\<And>x. follows q (f x)) \<Longrightarrow> follows (p @ q) (bindE m f)"
  unfolding follows_def by (erule appends_bindE) (auto intro: prefix_prefix)

lemma follows_if: "(b \<Longrightarrow> follows p m) \<Longrightarrow> (\<not> b \<Longrightarrow> follows q n) \<Longrightarrow> follows (if b then p else q) (if b then m else n)"
  by simp

lemma follows_lift: "(\<And>x. r = Inr x \<Longrightarrow> follows p (f x)) \<Longrightarrow> follows p (bindE (lift_res r) f)"
  by (cases r) (auto simp: follows_fail)

lemma appends_hrequest: "(\<And>r. Q r [c]) \<Longrightarrow> appends hs_calls (hrequest c m) Q"
  by (simp add: appends_def hrequest_def split: prod.splits)

lemma follows_tolerant: "follows [c] (create_tolerant env c)"
  unfolding create_tolerant_def hcreate_def
  by (auto simp: follows_def appends_def catchE_run hrequest_def split: sum.splits prod.splits)

lemmas follows_intros = follows_request follows_tolerant follows_ok follows_fail follows_if

definition rbac_plan :: "Harness \<Rightarrow> opaque \<Rightarrow> opaque \<Rightarrow> hcall list" where
  "rbac_plan h role rb = (if \<not> hf_SkipCreateRBAC (h_Flags h) then [HRole_Create role] @ [HBinding_Create rb] else [])"

definition operator_plan :: "Harness \<Rightarrow> opaque \<times> opaque \<times> opaque \<times> statefulset \<Rightarrow> hcall list" where
  "operator_plan h mf = (case mf of (sa, role, rb, sts) \<Rightarrow>
     [HSa_Create (h_Namespace h) sa] @ rbac_plan h role rb @ [HSts_Create (h_Namespace h) sts])"

definition etcd_plan :: "Harness \<Rightarrow> service \<times> service \<times> statefulset \<Rightarrow> hcall list" where
  "etcd_plan h mf = (case mf of (headlessSvc, clusterSvc, sts) \<Rightarrow>
     ([HSvc_Create (h_Namespace h) headlessSvc] @ [HSvc_Create (h_Namespace h) clusterSvc] @ [])
      @ [HSts_Create (h_Namespace h) sts])"

definition teardown_plan :: "Harness \<Rightarrow> hcall list" where
  "teardown_plan h =
     (if \<not> hf_SkipDeleteRBAC (h_Flags h)
      then [HRole_Delete defaultClusterRoleName] @ [HBinding_Delete defaultClusterRoleBindingName] else [])
     @ (if hf_SkipDeleteNamespace (h_Flags h) then [] else [HNs_Delete (h_Namespace h)])"

lemma follows_installOperator:
  "operator_manifest env = Inr mf \<Longrightarrow> follows (operator_plan h mf) (installOperator env h)"
  unfolding installOperator_def operator_plan_def rbac_plan_def hcreate_def
  by (cases mf) (simp only: lift_res_Inr bindE_ok case_prod_conv, intro follows_bindE follows_intros)

lemma follows_teardownSuite: "follows (teardown_plan h) (teardownSuite env h)"
  unfolding teardown_plan_def teardownSuite_def hdelete_def by (intro follows_bindE follows_intros)

lemma follows_createNamespace:
  "follows (if hf_SkipCreateNamespace (h_Flags h) then [] else [HNs_Create ns]) (createNamespace env h ns)"
  unfolding createNamespace_def hcreate_def by (intro follows_intros)


section \<open>Waiting for etcd\<close>

text \<open>
  What \<open>wait.Poll\<close> documents: it runs the condition a finite number of times, with time passing in
  between, until the condition holds (success), returns an error, or the timeout is reached (errors).
\<close>

inductive polled :: "('w hst, bool) io \<Rightarrow> 'w hst \<Rightarrow> gerror + unit \<Rightarrow> 'w hst \<Rightarrow> bool" for cond where
  timed_out: "polled cond s (Inl e) (s\<lparr>hs_world := w\<rparr>)"
| failed: "cond (s\<lparr>hs_world := w\<rparr>) = (Inl e, s') \<Longrightarrow> polled cond s (Inl e) s'"
| held: "cond (s\<lparr>hs_world := w\<rparr>) = (Inr True, s') \<Longrightarrow> polled cond s (Inr ()) s'"
| again: "cond (s\<lparr>hs_world := w\<rparr>) = (Inr False, s') \<Longrightarrow> polled cond s' r s'' \<Longrightarrow> polled cond s r s''"

definition Poll_ok :: "'w harness_env \<Rightarrow> bool" where
  "Poll_ok env \<longleftrightarrow> (\<forall>interval timeout cond s r s'.
     he_Poll env interval timeout cond s = (r, s') \<longrightarrow> polled cond s r s')"

lemma etcd_healthy_log:
  assumes "etcd_healthy env h s = (r, s')"
  shows "hs_calls s' = hs_calls s @ [HHttp_Get (etcd_health_url h)]" and "hs_Global s' = hs_Global s"
    and "\<exists>b. r = Inr b"
  using assms
  by (auto simp: etcd_healthy_def checkEtcdHealth_def hrequest_def Let_def catchE_def bindE_def
      split: prod.splits sum.splits if_splits)

lemma polled_health:
  assumes "polled (etcd_healthy env h) s r s'"
  shows "\<exists>n. hs_calls s' = hs_calls s @ replicate n (HHttp_Get (etcd_health_url h))
    \<and> (r = Inr () \<longrightarrow> n > 0)"
  using assms
proof (induction rule: polled.induct)
  case (timed_out s e w)
  show ?case by (rule exI [of _ 0]) simp
next
  case (failed s w e s')
  from etcd_healthy_log(3) [OF failed] show ?case by simp
next
  case (held s w s')
  from etcd_healthy_log(1) [OF held] show ?case by (intro exI [of _ 1]) simp
next
  case (again s w s' r s'')
  from again.IH obtain n where "hs_calls s'' = hs_calls s' @ replicate n (HHttp_Get (etcd_health_url h))"
    by blast
  with etcd_healthy_log(1) [OF again.hyps(1)] show ?case by (intro exI [of _ "Suc n"]) simp
qed

text \<open>The world in which a health request was answered, and the answer was that etcd is healthy.\<close>

definition reported_healthy :: "'w harness_env \<Rightarrow> Harness \<Rightarrow> 'w \<Rightarrow> bool" where
  "reported_healthy env h w \<longleftrightarrow> (\<exists>w0 body. he_http_get env (etcd_health_url h) w0 = (Inr body, w)
     \<and> he_decode_health env body = Inr ''true'')"

lemma etcd_healthy_True:
  "etcd_healthy env h s = (Inr True, s') \<Longrightarrow> reported_healthy env h (hs_world s')"
  by (auto simp: etcd_healthy_def checkEtcdHealth_def hrequest_def Let_def catchE_def bindE_def reported_healthy_def
      split: prod.splits sum.splits if_splits) blast

lemma polled_healthy:
  assumes "polled (etcd_healthy env h) s (Inr ()) s'"
  shows "reported_healthy env h (hs_world s')"
  using assms by (induction s "Inr () :: gerror + unit" s' rule: polled.induct) (auto dest: etcd_healthy_True)

lemma createEtcdCluster_healthy:
  assumes "Poll_ok env" and run: "createEtcdCluster env h s = (Inr (), s')"
  shows "reported_healthy env h (hs_world s')"
proof -
  from run obtain mf where mf: "etcd_manifest env = Inr mf"
    by (cases "etcd_manifest env") (simp_all add: createEtcdCluster_def)
  obtain a b c where abc: "mf = (a, b, c)" by (cases mf)
  let ?made = "bindE (for_each (\<lambda>svc. hcreate env (HSvc_Create (h_Namespace h) svc)) [a, b])
    (\<lambda>_. hcreate env (HSts_Create (h_Namespace h) c))"
  obtain r t where made: "?made s = (r, t)" by force
  have "bindE ?made (\<lambda>_. waitEtcdHealth env h etcdHealthInterval etcdHealthTimeout) s = (Inr (), s')"
    using run unfolding createEtcdCluster_def mf abc by (simp only: lift_res_Inr bindE_ok case_prod_conv bindE_assoc)
  with made have "waitEtcdHealth env h etcdHealthInterval etcdHealthTimeout t = (Inr (), s')"
    by (cases r) (simp_all add: bindE_run)
  with assms(1) show ?thesis unfolding waitEtcdHealth_def Poll_ok_def using polled_healthy by blast
qed

lemma createEtcdCluster_log:
  assumes "Poll_ok env" and "etcd_manifest env = Inr mf"
  shows "appends hs_calls (createEtcdCluster env h) (\<lambda>r cs. \<exists>ds n. prefix ds (etcd_plan h mf)
    \<and> cs = ds @ replicate n (HHttp_Get (etcd_health_url h)) \<and> (r = Inr () \<longrightarrow> ds = etcd_plan h mf \<and> n > 0))"
proof -
  obtain a b c where mf: "mf = (a, b, c)" by (cases mf)
  let ?ns = "h_Namespace h"
  define made where "made = bindE (for_each (\<lambda>svc. hcreate env (HSvc_Create ?ns svc)) [a, b])
    (\<lambda>_. hcreate env (HSts_Create ?ns c))"
  have made: "follows (etcd_plan h mf) made"
    unfolding made_def etcd_plan_def mf for_each.simps hcreate_def case_prod_conv
    by (intro follows_bindE follows_intros)
  have wait: "appends hs_calls (waitEtcdHealth env h i t)
      (\<lambda>r cs. \<exists>n. cs = replicate n (HHttp_Get (etcd_health_url h)) \<and> (r = Inr () \<longrightarrow> n > 0))" for i t
    unfolding appends_def waitEtcdHealth_def
    using assms(1) polled_health unfolding Poll_ok_def by (metis (no_types, lifting) prod.collapse)
  have seq: "createEtcdCluster env h = bindE made (\<lambda>_. waitEtcdHealth env h etcdHealthInterval etcdHealthTimeout)"
    unfolding createEtcdCluster_def assms(2) mf made_def by (simp only: lift_res_Inr bindE_ok case_prod_conv bindE_assoc)
  show ?thesis
    unfolding seq
  proof (rule appends_bindE [OF made [unfolded follows_def] wait])
    fix e cs
    assume "prefix cs (etcd_plan h mf) \<and> (\<forall>x. Inl e = Inr x \<longrightarrow> cs = etcd_plan h mf)"
    then show "\<exists>ds n. prefix ds (etcd_plan h mf) \<and> cs = ds @ replicate n (HHttp_Get (etcd_health_url h))
        \<and> (Inl e = Inr () \<longrightarrow> ds = etcd_plan h mf \<and> n > 0)"
      by (intro exI [of _ cs] exI [of _ 0]) simp
  qed auto
qed

section \<open>A run of the suite\<close>

text \<open>The requests setup may send: it deletes nothing and starts no test.\<close>

fun setting_up :: "hcall \<Rightarrow> bool" where
  "setting_up (HNs_Delete n) = False"
| "setting_up (HRole_Delete n) = False"
| "setting_up (HBinding_Delete n) = False"
| "setting_up (HCrd_Create n c) = False"
| "setting_up HTests = False"
| "setting_up c = True"

text \<open>
  The requests of a setup that succeeded: the namespace is read and made if it is missing, the
  operator is installed, etcd is made, and its health is read until it is good.
\<close>

definition setup_done :: "'w harness_env \<Rightarrow> Harness \<Rightarrow> hcall list \<Rightarrow> bool" where
  "setup_done env h cs \<longleftrightarrow> (\<exists>ns mo me n. (ns = [] \<or> ns = [HNs_Create defaultNamespace] \<and> \<not> hf_SkipCreateNamespace (h_Flags h))
     \<and> operator_manifest env = Inr mo \<and> etcd_manifest env = Inr me \<and> n > 0
     \<and> cs = HNs_Get (h_Namespace h) # ns @ operator_plan h mo @ etcd_plan h me
         @ replicate n (HHttp_Get (etcd_health_url h)))"

lemma ensureNamespace_log:
  "appends hs_calls (ensureNamespace env h) (\<lambda>r cs. \<exists>ns. (ns = [] \<or> ns = [HNs_Create defaultNamespace]
     \<and> \<not> hf_SkipCreateNamespace (h_Flags h)) \<and> cs = HNs_Get (h_Namespace h) # ns)"
  by (auto simp: appends_def ensureNamespace_def createNamespace_def hcreate_def hrequest_def catchE_run
      split: prod.splits sum.splits)

lemma plans_set_up:
  "list_all setting_up (operator_plan h mo)" "list_all setting_up (etcd_plan h me)"
  by (auto simp: operator_plan_def rbac_plan_def etcd_plan_def split: prod.splits)

lemma list_all_prefix: "prefix xs ys \<Longrightarrow> list_all P ys \<Longrightarrow> list_all P xs"
  by (auto simp: prefix_def)

lemma installOperator_log:
  "appends hs_calls (installOperator env h) (\<lambda>r cs. list_all setting_up cs
     \<and> (\<forall>x. r = Inr x \<longrightarrow> (\<exists>mo. operator_manifest env = Inr mo \<and> cs = operator_plan h mo)))"
proof (cases "operator_manifest env")
  case (Inl e)
  then show ?thesis by (simp add: installOperator_def appends_fail)
next
  case (Inr mo)
  show ?thesis
    by (rule appends_mono [OF follows_installOperator [OF Inr, unfolded follows_def]])
      (auto simp: Inr intro: list_all_prefix plans_set_up)
qed

lemma etcd_log:
  assumes "Poll_ok env"
  shows "appends hs_calls (createEtcdCluster env h) (\<lambda>r cs. list_all setting_up cs
    \<and> (r = Inr () \<longrightarrow> (\<exists>me n. etcd_manifest env = Inr me \<and> n > 0
        \<and> cs = etcd_plan h me @ replicate n (HHttp_Get (etcd_health_url h)))))"
proof (cases "etcd_manifest env")
  case (Inl e)
  then show ?thesis by (simp add: createEtcdCluster_def appends_fail)
next
  case (Inr me)
  show ?thesis
  proof (rule appends_mono [OF createEtcdCluster_log [OF assms Inr]])
    fix r cs
    assume "\<exists>ds n. prefix ds (etcd_plan h me) \<and> cs = ds @ replicate n (HHttp_Get (etcd_health_url h))
      \<and> (r = Inr () \<longrightarrow> ds = etcd_plan h me \<and> n > 0)"
    then obtain ds n where ds: "prefix ds (etcd_plan h me)" "cs = ds @ replicate n (HHttp_Get (etcd_health_url h))"
      "r = Inr () \<Longrightarrow> ds = etcd_plan h me \<and> n > 0" by blast
    from ds(1,2) have "list_all setting_up cs"
      using list_all_prefix [OF ds(1) plans_set_up(2)] by (auto simp: list_all_iff)
    with ds Inr show "list_all setting_up cs \<and> (r = Inr () \<longrightarrow> (\<exists>me n. etcd_manifest env = Inr me \<and> n > 0
        \<and> cs = etcd_plan h me @ replicate n (HHttp_Get (etcd_health_url h))))" by blast
  qed
qed

lemma setupSuite_log:
  assumes "Poll_ok env"
  shows "appends hs_calls (setupSuite env h)
    (\<lambda>r cs. list_all setting_up cs \<and> (r = Inr () \<longrightarrow> setup_done env h cs))"
proof -
  have "appends hs_calls (bindE (installOperator env h) (\<lambda>_. createEtcdCluster env h))
      (\<lambda>r cs. list_all setting_up cs \<and> (r = Inr () \<longrightarrow> (\<exists>mo me n. operator_manifest env = Inr mo
        \<and> etcd_manifest env = Inr me \<and> n > 0
        \<and> cs = operator_plan h mo @ etcd_plan h me @ replicate n (HHttp_Get (etcd_health_url h)))))"
    by (rule appends_bindE [OF installOperator_log etcd_log [OF assms]]) auto
  note rest = this
  show ?thesis
    unfolding setupSuite_def
    by (rule appends_bindE [OF ensureNamespace_log rest]) (auto simp: setup_done_def)
qed

text \<open>What follows the setup: the tests, on the harness that was set up, and the teardown.\<close>

definition tests_and_teardown :: "'w harness_env \<Rightarrow> Harness \<Rightarrow> ('w hst, int) io" where
  "tests_and_teardown env h = bindE (set_Global h) (\<lambda>_. bindE (run_tests env) (\<lambda>code.
     bindE (teardownSuite env h) (\<lambda>_. ok code)))"

lemma tests_and_teardown_log:
  assumes "tests_and_teardown env h s = (r, t)"
  shows "\<exists>td c w'. he_Run env (Some h) (hs_world s) = (c, w') \<and> hs_calls t = hs_calls s @ HTests # td
    \<and> prefix td (teardown_plan h) \<and> (\<forall>x. r = Inr x \<longrightarrow> x = c \<and> td = teardown_plan h)"
proof -
  obtain c w where run: "he_Run env (Some h) (hs_world s) = (c, w)" by force
  let ?t = "s\<lparr>hs_Global := Some h, hs_world := w, hs_calls := hs_calls s @ [HTests]\<rparr>"
  obtain q t' where td: "teardownSuite env h ?t = (q, t')" by force
  from appendsD [OF follows_teardownSuite [unfolded follows_def] td]
  obtain cs where cs: "hs_calls t' = hs_calls s @ HTests # cs" "prefix cs (teardown_plan h)"
    "\<And>x. q = Inr x \<Longrightarrow> cs = teardown_plan h" by auto
  have "tests_and_teardown env h s = (case q of Inl e \<Rightarrow> Inl e | Inr _ \<Rightarrow> Inr c, t')"
    using td by (simp add: tests_and_teardown_def set_Global_def run_tests_def run bindE_def split: sum.splits)
  with assms run cs show ?thesis by (cases q) auto
qed

lemma setupSuite_healthy:
  assumes "Poll_ok env" and run: "setupSuite env h s = (Inr (), s')"
  shows "reported_healthy env h (hs_world s')"
proof -
  let ?first = "bindE (ensureNamespace env h) (\<lambda>_. installOperator env h)"
  obtain r t where "?first s = (r, t)" by force
  moreover have "bindE ?first (\<lambda>_. createEtcdCluster env h) s = (Inr (), s')"
    using run unfolding setupSuite_def by (simp only: bindE_assoc)
  ultimately have "createEtcdCluster env h t = (Inr (), s')" by (cases r) (simp_all add: bindE_run)
  with assms(1) show ?thesis by (rule createEtcdCluster_healthy)
qed

lemma buildSuite_harness:
  "buildSuite lb opts = Inr h \<Longrightarrow> h_Namespace h = defaultNamespace \<and> h_Flags h = so_flags opts"
  by (auto simp: buildSuite_def res_bind_Inr)

lemma kube_config_flags: "kube_config env fl = Inr fl' \<Longrightarrow> fl' = fl\<lparr>hf_KubeConfig := hf_KubeConfig fl'\<rparr>"
  by (cases fl) (auto simp: kube_config_def res_bind_Inr split: if_splits)

text \<open>The harness a run works with, made from the flags.\<close>

definition suite_harness :: "'w harness_env \<Rightarrow> Flags \<Rightarrow> gerror + Harness" where
  "suite_harness env fl =
     res_bind (kube_config env fl) (\<lambda>fl.
     res_bind (buildLogger (he_main env) None) (\<lambda>logger.
     buildSuite (he_main env) \<lparr>so_flags = fl, so_logger = logger\<rparr>))"

lemma suite_harness_fields:
  "suite_harness env fl = Inr h \<Longrightarrow> h_Namespace h = defaultNamespace
     \<and> h_Flags h = fl\<lparr>hf_KubeConfig := hf_KubeConfig (h_Flags h)\<rparr>"
  unfolding suite_harness_def res_bind_Inr by (metis buildSuite_harness kube_config_flags suiteOpts.select_convs(1))

lemma lift_res_bind: "bindE (lift_res r) (\<lambda>x. bindE (lift_res (f x)) g) = bindE (lift_res (res_bind r f)) g"
  by (cases r) simp_all

lemma run_suite_eq:
  "run_suite env fl = bindE (lift_res (suite_harness env fl)) (\<lambda>h.
     bindE (setupSuite env h) (\<lambda>_. tests_and_teardown env h))"
  unfolding run_suite_def suite_harness_def tests_and_teardown_def by (simp only: lift_res_bind)

text \<open>
  C39: the life of an end-to-end run. Either setup did not finish: then the process ends with code 1,
  no test has run and nothing that setup made is deleted. Or the namespace was read (and made, if it was
  missing), the operator and etcd were created in this order in the namespace of the suite, the health of
  etcd was read until the answer was that it is healthy, and the tests ran, once, right after that answer
  and on the harness made from the flags; after them
  exactly the deletions the flags ask for are sent in order, and the process ends with the code of
  the tests, or with 1 when a deletion failed.
\<close>

theorem RunSuite_lifecycle:
  assumes "Poll_ok env" and run: "RunSuite env fl s = (code, s')"
  shows "\<exists>cs. hs_calls s' = hs_calls s @ cs \<and>
    (code = 1 \<and> list_all setting_up cs
     \<or> (\<exists>h setup td c w w'. suite_harness env fl = Inr h \<and> h_Namespace h = defaultNamespace
        \<and> h_Flags h = fl\<lparr>hf_KubeConfig := hf_KubeConfig (h_Flags h)\<rparr>
        \<and> cs = setup @ HTests # td \<and> setup_done env h setup \<and> reported_healthy env h w \<and> he_Run env (Some h) w = (c, w')
        \<and> prefix td (teardown_plan h) \<and> (code = 1 \<or> code = c \<and> td = teardown_plan h)))"
proof (cases "suite_harness env fl")
  case (Inl e)
  with run show ?thesis by (simp add: RunSuite_def run_suite_eq)
next
  case (Inr h)
  note fields = suite_harness_fields [OF Inr]
  obtain r s1 where rs: "run_suite env fl s = (r, s1)" by force
  with run have code: "code = (case r of Inl _ \<Rightarrow> 1 | Inr c \<Rightarrow> c)" "s1 = s'"
    by (auto simp: RunSuite_def split: sum.splits)
  obtain q t where q: "setupSuite env h s = (q, t)" by force
  from appendsD [OF setupSuite_log [OF assms(1)] q] obtain cs where
    cs: "hs_calls t = hs_calls s @ cs" "list_all setting_up cs" "q = Inr () \<Longrightarrow> setup_done env h cs" by auto
  show ?thesis
  proof (cases q)
    case (Inl e)
    with rs q have "r = Inl e" "s1 = t" by (simp_all add: run_suite_eq \<open>suite_harness env fl = Inr h\<close>)
    with cs code show ?thesis by simp
  next
    case (Inr u)
    with rs q have "tests_and_teardown env h t = (r, s1)" by (simp add: run_suite_eq \<open>suite_harness env fl = Inr h\<close>)
    from tests_and_teardown_log [OF this] obtain td c w' where "he_Run env (Some h) (hs_world t) = (c, w')"
      "hs_calls s1 = hs_calls t @ HTests # td" "prefix td (teardown_plan h)" "\<forall>x. r = Inr x \<longrightarrow> x = c \<and> td = teardown_plan h"
      by blast
    moreover have "reported_healthy env h (hs_world t)" using setupSuite_healthy [OF assms(1)] q Inr by simp
    moreover have "code = 1 \<or> code = c \<and> td = teardown_plan h" using calculation(4) code(1) by (cases r) simp_all
    moreover have "setup_done env h cs" "hs_calls s' = hs_calls s @ (cs @ HTests # td)" using cs Inr calculation(2) code(2) by simp_all
    ultimately show ?thesis using fields \<open>suite_harness env fl = Inr h\<close> by blast
  qed
qed

text \<open>A server with one rule, that no two StatefulSets have the same name, and a healthy etcd.\<close>

definition example_service :: "string \<Rightarrow> service" where
  "example_service n = \<lparr>svc_meta = zero_meta\<lparr>om_name := n\<rparr>, svc_selector = [], svc_ports = [], svc_clusterIP = [],
     svc_type = [], svc_publishNotReadyAddresses = False\<rparr>"

definition poll_once :: "int \<Rightarrow> int \<Rightarrow> ('w hst, bool) io \<Rightarrow> ('w hst, unit) io" where
  "poll_once interval timeout cond = bindE cond (\<lambda>b. if b then ok () else fail (External ''timed out''))"

definition example_harness_env :: "string list harness_env" where
  "example_harness_env = \<lparr>
     he_main = example_main_lib\<lparr>BuildConfigFromFlags := (\<lambda>_ _. InClusterConfig example_main_lib)\<rparr>,
     he_lib = example_lib, he_Getenv = (\<lambda>_. ''/root''), he_Open = (\<lambda>path. Inr path),
     he_ServiceAccount = (\<lambda>f. Inr (''sa'', f)), he_ClusterRole = (\<lambda>f. Inr (''role'', f)),
     he_ClusterRoleBinding = (\<lambda>f. Inr (''binding'', f)), he_StatefulSet = (\<lambda>f. Inr (example_sts f 1 1, f)),
     he_Service = (\<lambda>f. Inr (example_service f, f)), he_M3DBCluster = (\<lambda>f. Inr (example_cluster [], f)),
     he_decode_health = (\<lambda>body. Inr body), he_ns_get = (\<lambda>_. fail not_found),
     he_create = (\<lambda>c w. case c of
         HSts_Create ns x \<Rightarrow> let n = om_name (sts_meta x) in
           if n \<in> set w then (Inl already_exists, w) else (Inr (), n # w)
       | _ \<Rightarrow> (Inr (), w)),
     he_delete = (\<lambda>c w. (Inr (), case c of HNs_Delete _ \<Rightarrow> [] | _ \<Rightarrow> w)),
     he_crd_create = (\<lambda>_ c. ok c), he_http_get = (\<lambda>_. ok ''true''), he_Poll = poll_once,
     he_Run = (\<lambda>_ w. (0, w))\<rparr>"

definition harness_start :: "string list \<Rightarrow> string list hst" where
  "harness_start w = \<lparr>hs_world = w, hs_calls = [], hs_Global = None\<rparr>"

lemma example_Poll_ok: "Poll_ok example_harness_env"
  unfolding Poll_ok_def
proof (intro allI impI)
  fix i t and cond :: "(string list hst, bool) io" and s r s'
  assume run: "he_Poll example_harness_env i t cond s = (r, s')"
  obtain q u where q: "cond s = (q, u)" by force
  then have q': "cond (s\<lparr>hs_world := hs_world s\<rparr>) = (q, u)" by simp
  show "polled cond s r s'"
  proof (cases q)
    case (Inl e)
    with run q polled.failed [where cond = cond and s = s and w = "hs_world s"] show ?thesis
      by (simp add: example_harness_env_def poll_once_def)
  next
    case (Inr b)
    with run q have "r = (if b then Inr () else Inl (External ''timed out''))" "s' = u"
      by (auto simp: example_harness_env_def poll_once_def split: if_splits)
    moreover have "polled cond u (Inl (External ''timed out'')) u"
      using polled.timed_out [where cond = cond and s = u and w = "hs_world u"] by simp
    ultimately show ?thesis
      using q' Inr polled.held [where cond = cond and s = s and w = "hs_world s"]
        polled.again [where cond = cond and s = s and w = "hs_world s"] by (cases b) auto
  qed
qed

lemma example_config:
  "suite_harness example_harness_env harness_default_flags = Inr \<lparr>h_Logger = harness_log_config, h_KubeClient = ''kube'',
     h_CRDClient = \<lparr>cs_DiscoveryClient = ''discovery'', cs_operatorV1alpha1 = ''rest''\<rparr>, h_ExtClient = ''ext'',
     h_Namespace = defaultNamespace, h_Flags = harness_default_flags\<lparr>hf_KubeConfig := ''/root/.kube/config''\<rparr>\<rparr>"
  by (simp add: suite_harness_def kube_config_def harness_default_flags_def homeKubeConfig_def buildLogger_def
      buildSuite_def example_harness_env_def example_main_lib_def NewForConfig_def NewForConfigAndClient_def
      default_UserAgent_def with_RateLimiter_def operator_NewForConfigAndClient_def path_Join_def path_Clean_def Let_def)

lemma example_RunSuite: "fst (RunSuite example_harness_env harness_default_flags (harness_start [])) = 0"
  unfolding RunSuite_def run_suite_eq example_config
  by (simp add: setupSuite_def ensureNamespace_def createNamespace_def installOperator_def operator_manifest_def
      create_tolerant_def createEtcdCluster_def etcd_manifest_def waitEtcdHealth_def etcd_healthy_def checkEtcdHealth_def
      tests_and_teardown_def set_Global_def run_tests_def teardownSuite_def hcreate_def hdelete_def hrequest_def
      example_harness_env_def poll_once_def harness_default_flags_def harness_start_def example_lib_def
      example_sts_def not_found_def already_exists_def bindE_def catchE_def Let_def)

theorem RunSuite_lifecycle_witness:
  "fst (RunSuite example_harness_env harness_default_flags (harness_start [])) = 0
   \<and> (\<exists>h setup w. hs_calls (snd (RunSuite example_harness_env harness_default_flags (harness_start [])))
        = setup @ HTests # teardown_plan h \<and> setup_done example_harness_env h setup \<and> reported_healthy example_harness_env h w)"
  using RunSuite_lifecycle [OF example_Poll_ok prod.collapse [symmetric], of harness_default_flags "harness_start []"]
    example_RunSuite by (fastforce simp: harness_start_def)

section \<open>An aborted setup\<close>

text \<open>
  Setup tolerates a namespace, service account, role and binding that exist already, as after an
  aborted run, but not a StatefulSet: once the operator's set exists and the API refuses to make it
  again, no later run gets as far as its tests.
\<close>

lemma installed_operator_blocks_setup:
  assumes mf: "operator_manifest env = Inr (sa, role, rb, sts)"
    and refused: "\<And>w. installed w \<Longrightarrow> \<exists>e w'. he_create env (HSts_Create defaultNamespace sts) w = (Inl e, w')"
    and frame: "\<And>w. installed w \<Longrightarrow> installed (snd (he_ns_get env defaultNamespace w))"
      "\<And>c w. installed w \<Longrightarrow> installed (snd (he_create env c w))"
    and poll: "Poll_ok env" and start: "installed (hs_world s)"
  shows "\<exists>s' cs. RunSuite env fl s = (1, s') \<and> hs_calls s' = hs_calls s @ cs \<and> list_all setting_up cs"
proof (cases "suite_harness env fl")
  case (Inl e)
  then show ?thesis by (simp add: RunSuite_def run_suite_eq)
next
  case (Inr h)
  let ?R = "\<lambda>s t. installed (hs_world s) \<longrightarrow> installed (hs_world t)"
  from suite_harness_fields [OF Inr] have ns: "h_Namespace h = defaultNamespace" by simp
  have rel: "run_relation ?R" by unfold_locales auto
  have makes: "keeps ?R (hcreate env c)" for c :: hcall
    by (auto simp: keeps_def hcreate_def hrequest_def split: prod.splits) (metis frame(2) snd_conv)
  have reads: "keeps ?R (hrequest (HNs_Get defaultNamespace) (he_ns_get env defaultNamespace))"
    by (auto simp: keeps_def hrequest_def split: prod.splits) (metis frame(1) snd_conv)
  note intros = run_relation.keeps_intros [OF rel] makes reads
  have first: "keeps ?R (ensureNamespace env h)"
    unfolding ensureNamespace_def createNamespace_def ns by (intro intros)
  define pre where "pre = bindE (create_tolerant env (HSa_Create defaultNamespace sa)) (\<lambda>_.
     if \<not> hf_SkipCreateRBAC (h_Flags h)
     then bindE (create_tolerant env (HRole_Create role)) (\<lambda>_. create_tolerant env (HBinding_Create rb))
     else ok ())"
  have "keeps ?R pre" unfolding pre_def create_tolerant_def by (intro intros)
  with first have both: "keeps ?R (bindE (ensureNamespace env h) (\<lambda>_. pre))" by (intro intros)
  have split_setup: "setupSuite env h = bindE (bindE (ensureNamespace env h) (\<lambda>_. pre)) (\<lambda>_.
      bindE (hcreate env (HSts_Create defaultNamespace sts)) (\<lambda>_. createEtcdCluster env h))"
    unfolding setupSuite_def installOperator_def pre_def mf ns
    by (simp only: bindE_assoc lift_res_Inr bindE_ok case_prod_conv)
  have "\<exists>e t. setupSuite env h s = (Inl e, t)"
  proof (cases "bindE (ensureNamespace env h) (\<lambda>_. pre) s")
    case (Pair r t)
    from keepsD [OF both Pair] start have t: "installed (hs_world t)" by simp
    from refused [OF t] obtain e w where "he_create env (HSts_Create defaultNamespace sts) (hs_world t) = (Inl e, w)"
      by blast
    then have "\<exists>u. hcreate env (HSts_Create defaultNamespace sts) t = (Inl e, u)"
      by (simp add: hcreate_def hrequest_def)
    with Pair show ?thesis unfolding split_setup by (cases r) auto
  qed
  then obtain e t where st: "setupSuite env h s = (Inl e, t)" by blast
  from appendsD [OF setupSuite_log [OF poll] st] st Inr show ?thesis
    by (auto simp: RunSuite_def run_suite_eq)
qed

text \<open>With the server of the example: a run that is repeated without its teardown fails.\<close>

lemma repeated_setup_fails:
  "\<exists>s' cs. RunSuite example_harness_env fl (harness_start [''../manifests/operator.yaml'']) = (1, s')
     \<and> hs_calls s' = cs \<and> list_all setting_up cs"
proof -
  have "operator_manifest example_harness_env = Inr (''sa'', ''role'', ''binding'', example_sts ''../manifests/operator.yaml'' 1 1)"
    by (simp add: operator_manifest_def example_harness_env_def)
  from installed_operator_blocks_setup [OF this, of "\<lambda>w. ''../manifests/operator.yaml'' \<in> set w" "harness_start [''../manifests/operator.yaml'']" fl]
  show ?thesis
    using example_Poll_ok
    by (fastforce simp: example_harness_env_def example_sts_def Let_def harness_start_def split: hcall.splits)
qed

section \<open>What the tests are given\<close>

text \<open>
  The placement client of the tests names the same environment and zone as the client the operator
  uses for the cluster, so both see the same placement.
\<close>

lemma NewPlacementClient_same_placement:
  assumes "NewPlacementClient lb h cluster = Inr c"
  shows "\<exists>url cl. c = Client url cl \<and> (\<exists>url'. own_client env cluster = Client url' cl)
    \<and> url = proxyBaseURL (h_Namespace h) (CoordinatorServiceName (cl_name cluster)) ''7201''"
  using assms
  by (auto simp: NewPlacementClient_def res_bind_Inr NewClient_placement_def GenerateCoordinatorService_def NewClient_def
      own_client_def Let_def split: if_splits option.splits)

text \<open>The manifest of a cluster is read from the directory of the manifests.\<close>

lemma path_Join_manifest:
  assumes "CHR ''/'' \<notin> set f" and "f \<notin> {[], ''.'', ''..''}"
  shows "path_Join [''../manifests'', f] = ''../manifests/'' @ f"
  using assms by (simp add: path_Join_def path_Clean_def split_on_no_sep Let_def)

end
