(* ===== verification/Running_Operator.thy ===== *)
theory Running_Operator
  imports "HOL-Library.Multiset" Creation_Liveness Operator_Main
begin

text \<open>
  The operator as a running program: informers, work queues, workers and \<open>Run\<close> as one step relation.
  The requests of a pass and the queue operations after it are single steps, so that passes of
  different workers, events and shutdown interleave. The work queue of client-go is a parameter.
\<close>

section \<open>The work queues\<close>

text \<open>
  The history of a queue: the operations the controller calls, the items \<open>Get\<close> returned (\<open>None\<close>: the
  queue is shut down) and \<open>ShutDown\<close>. The queue itself is a parameter that says which results of \<open>Get\<close>
  are possible after a history.
\<close>

datatype queue_event = Op queue_op | Got "queue_item option" | Shut_Down

type_synonym work_queue = "queue_event list \<Rightarrow> queue_item option \<Rightarrow> bool"

fun added_by :: "queue_event \<Rightarrow> string list" where
  "added_by (Op (AddRateLimited k)) = [k]"
| "added_by _ = []"

fun got_by :: "queue_event \<Rightarrow> string list" where
  "got_by (Got (Some (Key k))) = [k]"
| "got_by _ = []"

fun done_by :: "queue_event \<Rightarrow> string list" where
  "done_by (Op (Done (Key k))) = [k]"
| "done_by _ = []"

definition added_keys :: "queue_event list \<Rightarrow> string list" where "added_keys h = concat (map added_by h)"
definition got_keys :: "queue_event list \<Rightarrow> string list" where "got_keys h = concat (map got_by h)"
definition done_keys :: "queue_event list \<Rightarrow> string list" where "done_keys h = concat (map done_by h)"

text \<open>The part of a history before the queue was shut down.\<close>

definition open_part :: "queue_event list \<Rightarrow> queue_event list" where
  "open_part h = takeWhile (\<lambda>e. e \<noteq> Shut_Down) h"

text \<open>
  What client-go documents of a rate-limited queue: it hands out only keys that were added, each at
  most as often as it was added before the shutdown, and none that another worker still has; it
  reports the shutdown only after it. An item may wait any time before it is handed out, several
  adds may become one, and what still waits at the shutdown may be dropped: nothing is said of that.
\<close>

definition workqueue_laws :: "work_queue \<Rightarrow> bool" where
  "workqueue_laws wq \<longleftrightarrow>
     (\<forall>h it. wq h (Some it) \<longrightarrow> (\<exists>k. it = Key k \<and> add_mset k (mset (got_keys h)) \<subseteq># mset (added_keys (open_part h))
        \<and> count (mset (got_keys h)) k \<le> count (mset (done_keys h)) k))
   \<and> (\<forall>h. wq h None \<longrightarrow> Shut_Down \<in> set h)"

lemma workqueueD:
  assumes "workqueue_laws wq"
  shows "wq h (Some it) \<Longrightarrow> \<exists>k. it = Key k \<and> add_mset k (mset (got_keys h)) \<subseteq># mset (added_keys (open_part h))
      \<and> count (mset (got_keys h)) k \<le> count (mset (done_keys h)) k"
    and "wq h None \<Longrightarrow> Shut_Down \<in> set h"
  using assms by (auto simp: workqueue_laws_def)

lemma keys_append [simp]:
  "added_keys (xs @ ys) = added_keys xs @ added_keys ys" "added_keys [] = []" "added_keys [e] = added_by e"
  "got_keys (xs @ ys) = got_keys xs @ got_keys ys" "got_keys [] = []" "got_keys [e] = got_by e"
  "done_keys (xs @ ys) = done_keys xs @ done_keys ys" "done_keys [] = []" "done_keys [e] = done_by e"
  by (simp_all add: added_keys_def got_keys_def done_keys_def)

lemma keys_adds [simp]:
  "added_keys (map (Op \<circ> AddRateLimited) ks) = ks" "got_keys (map Op ops) = []"
  "done_keys (map (Op \<circ> AddRateLimited) ks) = []" "got_keys (map (Op \<circ> AddRateLimited) ks) = []"
  by (simp_all add: added_keys_def got_keys_def done_keys_def comp_def)

lemma open_part_append:
  "open_part (h @ xs) = (if Shut_Down \<in> set h then open_part h else h @ open_part xs)"
  by (auto simp: open_part_def takeWhile_append)

lemma open_part_id [simp]: "Shut_Down \<notin> set h \<Longrightarrow> open_part h = h"
  by (auto simp: open_part_def takeWhile_eq_all_conv)

lemma open_part_ops [simp]: "open_part (map (Op \<circ> f) xs) = map (Op \<circ> f) xs" "open_part (h @ [Shut_Down]) = open_part h"
  by (auto intro: open_part_id simp: open_part_append) (simp add: open_part_def)

section \<open>Workers\<close>

datatype queue_kind = Clusters | Pods

text \<open>
  A worker that has an item runs the handler, whose requests go out one by one, and then its queue
  operations. The handler is one computation over a state of its own: whatever other workers and the
  world do in between shows only in the answers, and the answers of the environment are arbitrary.
\<close>

datatype worker = Idle | Busy queue_item "call list" "(queue_kind \<times> queue_op) list" | Ended

fun processQueueItem :: "queue_kind \<Rightarrow> 'w env \<Rightarrow> queue_item option \<Rightarrow> 'w qst \<Rightarrow> bool \<times> 'w qst" where
  "processQueueItem Clusters = processClusterQueueItem"
| "processQueueItem Pods = processPodQueueItem"

definition fresh :: "'w st \<Rightarrow> 'w qst" where
  "fresh s = \<lparr>q_st = s\<lparr>st_calls := []\<rparr>, q_cluster = [], q_pod = []\<rparr>"

fun queue_ops :: "queue_kind \<Rightarrow> 'w qst \<Rightarrow> queue_op list" where
  "queue_ops Clusters q = q_cluster q"
| "queue_ops Pods q = q_pod q"

definition all_ops :: "'w qst \<Rightarrow> (queue_kind \<times> queue_op) list" where
  "all_ops q = map (Pair Clusters) (q_cluster q) @ map (Pair Pods) (q_pod q)"

fun works_on :: "string \<Rightarrow> worker \<Rightarrow> bool" where
  "works_on k (Busy (Key k') cs ops) \<longleftrightarrow> k' = k"
| "works_on k _ \<longleftrightarrow> False"

fun changes_left :: "worker \<Rightarrow> nat" where
  "changes_left (Busy it cs ops) = length (filter is_sts_change cs)"
| "changes_left _ = 0"

section \<open>The running operator\<close>

text \<open>
  The state: that of \<open>Run\<close>, the requests sent so far by all workers, the events delivered with
  whether the cluster queue was still open then, the histories of the queues and the workers.
\<close>

record op_state =
  op_run :: run_st
  op_calls :: "call list"
  op_events :: "(informer_event \<times> bool) list"
  op_queue :: "queue_kind \<Rightarrow> queue_event list"
  op_workers :: "queue_kind \<Rightarrow> worker list"

definition op_start :: op_state where
  "op_start = \<lparr>op_run = run_start, op_calls = [], op_events = [], op_queue = (\<lambda>_. []), op_workers = (\<lambda>_. [])\<rparr>"

definition on_queue :: "queue_kind \<Rightarrow> queue_event \<Rightarrow> op_state \<Rightarrow> op_state" where
  "on_queue k e \<sigma> = \<sigma>\<lparr>op_queue := (op_queue \<sigma>)(k := op_queue \<sigma> k @ [e])\<rparr>"

definition set_worker :: "queue_kind \<Rightarrow> nat \<Rightarrow> worker \<Rightarrow> op_state \<Rightarrow> op_state" where
  "set_worker k i v \<sigma> = \<sigma>\<lparr>op_workers := (op_workers \<sigma>)(k := (op_workers \<sigma> k)[i := v])\<rparr>"

text \<open>An event runs its handler, which may add keys to the queues.\<close>

definition deliver :: "'w env \<Rightarrow> 'w st \<Rightarrow> informer_event \<Rightarrow> op_state \<Rightarrow> op_state" where
  "deliver env s ev \<sigma> = \<sigma>\<lparr>op_events := op_events \<sigma> @ [(ev, Shut_Down \<notin> set (op_queue \<sigma> Clusters))],
     op_queue := (\<lambda>k. op_queue \<sigma> k @ map Op (queue_ops k (informer_handlers env ev (fresh s))))\<rparr>"

text \<open>\<open>Run\<close> starts the workers once the caches are synced, and shuts the cluster queue down when it returns.\<close>

fun workers_of :: "run_st \<Rightarrow> queue_kind \<Rightarrow> nat" where
  "workers_of r Clusters = rn_cluster_workers r"
| "workers_of r Pods = rn_pod_workers r"

definition enter_phase :: "run_st \<Rightarrow> op_state \<Rightarrow> op_state" where
  "enter_phase r \<sigma> = (if rn_phase r = Serving
     then \<sigma>\<lparr>op_run := r, op_workers := (\<lambda>k. replicate (workers_of r k) Idle)\<rparr>
     else on_queue Clusters Shut_Down (\<sigma>\<lparr>op_run := r\<rparr>))"

inductive system_step :: "'w env set \<Rightarrow> work_queue \<Rightarrow> nat \<Rightarrow> op_state \<Rightarrow> op_state \<Rightarrow> bool" for envs wq n where
  run: "run_step n (op_run \<sigma>) r \<Longrightarrow> rn_phase r \<noteq> rn_phase (op_run \<sigma>) \<Longrightarrow> system_step envs wq n \<sigma> (enter_phase r \<sigma>)"
| informer: "env \<in> envs \<Longrightarrow> system_step envs wq n \<sigma> (deliver env s ev \<sigma>)"
| get: "i < length (op_workers \<sigma> k) \<Longrightarrow> op_workers \<sigma> k ! i = Idle \<Longrightarrow> wq (op_queue \<sigma> k) (Some it) \<Longrightarrow> env \<in> envs \<Longrightarrow>
    processQueueItem k env (Some it) (fresh s) = (True, q) \<Longrightarrow>
    system_step envs wq n \<sigma> (set_worker k i (Busy it (st_calls (q_st q)) (all_ops q)) (on_queue k (Got (Some it)) \<sigma>))"
| send: "i < length (op_workers \<sigma> k) \<Longrightarrow> op_workers \<sigma> k ! i = Busy it (c # cs) ops \<Longrightarrow>
    system_step envs wq n \<sigma> (set_worker k i (Busy it cs ops) (\<sigma>\<lparr>op_calls := op_calls \<sigma> @ [c]\<rparr>))"
| settle: "i < length (op_workers \<sigma> k) \<Longrightarrow> op_workers \<sigma> k ! i = Busy it [] ((k', x) # ops) \<Longrightarrow>
    system_step envs wq n \<sigma> (set_worker k i (if ops = [] then Idle else Busy it [] ops) (on_queue k' (Op x) \<sigma>))"
| stop: "i < length (op_workers \<sigma> k) \<Longrightarrow> op_workers \<sigma> k ! i = Idle \<Longrightarrow> wq (op_queue \<sigma> k) None \<Longrightarrow> env \<in> envs \<Longrightarrow>
    processQueueItem k env None (fresh s) = (False, q) \<Longrightarrow> run_step n (op_run \<sigma>) r \<Longrightarrow> rn_phase r = rn_phase (op_run \<sigma>) \<Longrightarrow>
    workers_of r k < workers_of (op_run \<sigma>) k \<Longrightarrow>
    system_step envs wq n \<sigma> (set_worker k i Ended (on_queue k (Got None) (\<sigma>\<lparr>op_run := r\<rparr>)))"

definition set_changes :: "op_state \<Rightarrow> nat" where
  "set_changes \<sigma> = length (filter is_sts_change (op_calls \<sigma>))"

text \<open>The events whose handlers can add a key to the cluster queue while it is open.\<close>

fun concerns_cluster :: "informer_event \<Rightarrow> bool" where
  "concerns_cluster (Cluster_Added obj) = True"
| "concerns_cluster (Cluster_Updated old new) = True"
| "concerns_cluster (Sts_Added obj) = True"
| "concerns_cluster (Sts_Updated old new) \<longleftrightarrow> om_resource_version new \<noteq> om_resource_version old"
| "concerns_cluster (Sts_Deleted obj) = True"
| "concerns_cluster _ = False"

definition wakes :: "informer_event \<times> bool \<Rightarrow> bool" where
  "wakes e \<longleftrightarrow> concerns_cluster (fst e) \<and> snd e"

section \<open>What the steps do\<close>

subsection \<open>Handlers of events\<close>

lemma handleStatefulSetUpdate_ops:
  "\<exists>ks. q_cluster (handleStatefulSetUpdate env obj q) = q_cluster q @ map AddRateLimited ks \<and> length ks \<le> 1
     \<and> q_pod (handleStatefulSetUpdate env obj q) = q_pod q"
proof -
  have enq: "\<exists>ks. q_cluster (enqueueCluster env x q') = q_cluster q' @ map AddRateLimited ks \<and> length ks \<le> 1
      \<and> q_pod (enqueueCluster env x q') = q_pod q'" for x and q' :: "'a qst"
    by (cases "key_of (e_lib env) x")
      (auto simp: enqueueCluster_def on_cluster_queue_def intro: exI [of _ "[]"] exI [of _ "[k]" for k])
  show ?thesis
  proof (cases "\<exists>x w. handleStatefulSetUpdate env obj q = enqueueCluster env x (q\<lparr>q_st := w\<rparr>)")
    case True
    then obtain x w where "handleStatefulSetUpdate env obj q = enqueueCluster env x (q\<lparr>q_st := w\<rparr>)" by blast
    with enq [of x "q\<lparr>q_st := w\<rparr>"] show ?thesis by simp
  next
    case False
    then have "handleStatefulSetUpdate env obj q = q \<or> (\<exists>w. handleStatefulSetUpdate env obj q = q\<lparr>q_st := w\<rparr>)"
      unfolding handleStatefulSetUpdate_def run_world_def Let_def
      by (auto split: option.splits prod.splits sum.splits informer_obj.splits if_splits)
    then show ?thesis by (auto intro: exI [of _ "[]"])
  qed
qed

lemma informer_handlers_ops:
  "\<exists>ks. q_cluster (informer_handlers env ev (fresh s)) = map AddRateLimited ks
     \<and> length ks \<le> (if concerns_cluster ev then 1 else 0)"
  "\<exists>ks. q_pod (informer_handlers env ev (fresh s)) = map AddRateLimited ks"
proof -
  have cluster: "\<exists>ks. q_cluster (enqueueCluster env x (fresh s)) = map AddRateLimited ks \<and> length ks \<le> 1" for x
    by (cases "key_of (e_lib env) x")
      (auto simp: enqueueCluster_def on_cluster_queue_def fresh_def intro: exI [of _ "[]"] exI [of _ "[k]" for k])
  have sts: "\<exists>ks. q_cluster (handleStatefulSetUpdate env x (fresh s)) = map AddRateLimited ks \<and> length ks \<le> 1" for x
    using handleStatefulSetUpdate_ops [of env x "fresh s"] by (auto simp: fresh_def)
  have pod: "q_cluster (enqueuePod env x (fresh s)) = []" "\<exists>ks. q_pod (enqueuePod env x (fresh s)) = map AddRateLimited ks" for x
    by (cases "key_of (e_lib env) x"; force simp: enqueuePod_def on_pod_queue_def fresh_def intro: exI [of _ "[]"] exI [of _ "[k]" for k])+
  have quiet: "q_pod (enqueueCluster env x (fresh s)) = []" for x
    by (simp add: enqueueCluster_def on_cluster_queue_def fresh_def split: sum.split)
  have quiet': "q_pod (handleStatefulSetUpdate env x (fresh s)) = []" for x
    using handleStatefulSetUpdate_ops [of env x "fresh s"] by (auto simp: fresh_def)
  show "\<exists>ks. q_cluster (informer_handlers env ev (fresh s)) = map AddRateLimited ks
     \<and> length ks \<le> (if concerns_cluster ev then 1 else 0)"
    using cluster sts pod(1) by (cases ev) (auto simp: fresh_def)
  show "\<exists>ks. q_pod (informer_handlers env ev (fresh s)) = map AddRateLimited ks"
    using pod(2) quiet quiet' by (cases ev) (auto simp: fresh_def)
qed

subsection \<open>Rounds of the workers\<close>

lemma one_change_count: "one_change cs \<Longrightarrow> length (filter is_sts_change cs) \<le> 1"
  by (auto simp: one_change_def list_all_iff filter_empty_conv)

lemma handleClusterEvent_changes: "emits (handleClusterEvent env k) (\<lambda>r cs. one_change cs)"
proof -
  have upd: "emits (handleClusterUpdate env cluster) (\<lambda>r cs. one_change cs)" for cluster
    by (rule emits_mono [OF handleClusterUpdate_changes]) simp
  have "emits (read_cache m) (\<lambda>r cs. cs = [])" for m :: "('a, m3db_cluster option) io"
    by (rule emits_read) simp
  then show ?thesis unfolding handleClusterEvent_def
    by (auto simp del: ok_run fail_run split: sum.splits option.splits prod.splits
        intro!: emits_ok emits_fail emits_catchE [where R = "\<lambda>_ _ cs. one_change cs"] upd simp: one_change_none)
qed

lemma handlePodEvent_no_change: "keeps (only no_change) (handlePodEvent env k)"
  unfolding handlePodEvent_def handlePodUpdate_def getParentCluster_def Let_def
  by (intro only.keeps_intros keeps_only_read keeps_only_Identity keeps_only_request keeps_only_NormalEvent) simp_all

text \<open>A round on a key: what is left to do after \<open>Get\<close>.\<close>

lemma round:
  assumes "processQueueItem k env (Some (Key key)) (fresh s) = (b, q)"
  shows "all_ops q \<in> {[(k, Done (Key key))], [(k, Forget (Key key)), (k, Done (Key key))]}"
    and "length (filter is_sts_change (st_calls (q_st q))) \<le> (if k = Clusters then 1 else 0)"
proof -
  let ?h = "case k of Clusters \<Rightarrow> handleClusterEvent env key | Pods \<Rightarrow> handlePodEvent env key"
  obtain r t where run: "?h (s\<lparr>st_calls := []\<rparr>) = (r, t)" by force
  have "length (filter is_sts_change (st_calls t)) \<le> (if k = Clusters then 1 else 0)"
  proof (cases k)
    case Clusters
    from emitsD [OF handleClusterEvent_changes, of env key "s\<lparr>st_calls := []\<rparr>" r t] run Clusters one_change_count
    show ?thesis by auto
  next
    case Pods
    from keepsD [OF handlePodEvent_no_change, of env key "s\<lparr>st_calls := []\<rparr>" r t] run Pods show ?thesis
      by (auto simp: only_def list_all_iff filter_empty_conv)
  qed
  moreover have "st_calls (q_st q) = st_calls t"
    using assms run by (cases k; cases r) (auto simp: processClusterQueueItem_def processPodQueueItem_def run_world_def
        on_cluster_queue_def on_pod_queue_def fresh_def)
  ultimately show "length (filter is_sts_change (st_calls (q_st q))) \<le> (if k = Clusters then 1 else 0)" by simp
  show "all_ops q \<in> {[(k, Done (Key key))], [(k, Forget (Key key)), (k, Done (Key key))]}"
    using assms run by (cases k; cases r) (auto simp: processClusterQueueItem_def processPodQueueItem_def run_world_def
        on_cluster_queue_def on_pod_queue_def fresh_def all_ops_def)
qed

section \<open>Invariants\<close>

text \<open>A worker of a queue: at most one change is left to send, and the item will be marked done at the very end.\<close>

fun worker_ok :: "queue_kind \<Rightarrow> worker \<Rightarrow> bool" where
  "worker_ok k (Busy it cs ops) \<longleftrightarrow> (\<exists>key. it = Key key \<and> ops \<in> {[(k, Done (Key key))], [(k, Forget (Key key)), (k, Done (Key key))]})
     \<and> (k = Pods \<longrightarrow> filter is_sts_change cs = [])"
| "worker_ok k _ \<longleftrightarrow> True"

definition workers_ok :: "op_state \<Rightarrow> bool" where
  "workers_ok \<sigma> \<longleftrightarrow> (\<forall>k. list_all (worker_ok k) (op_workers \<sigma> k))"

text \<open>Every key that was taken was marked done or is being worked on.\<close>

definition all_held :: "op_state \<Rightarrow> bool" where
  "all_held \<sigma> \<longleftrightarrow> (\<forall>k key. count (mset (got_keys (op_queue \<sigma> k))) key
     = count (mset (done_keys (op_queue \<sigma> k))) key + length (filter (works_on key) (op_workers \<sigma> k)))"

definition one_each :: "op_state \<Rightarrow> bool" where
  "one_each \<sigma> \<longleftrightarrow> (\<forall>k key. length (filter (works_on key) (op_workers \<sigma> k)) \<le> 1)"

text \<open>Every change that was sent or is left belongs to an item that was taken, which was added by an event.\<close>

definition changes_paid :: "op_state \<Rightarrow> bool" where
  "changes_paid \<sigma> \<longleftrightarrow> set_changes \<sigma> + sum_list (map changes_left (op_workers \<sigma> Clusters)) \<le> length (got_keys (op_queue \<sigma> Clusters))"

definition items_paid :: "op_state \<Rightarrow> bool" where
  "items_paid \<sigma> \<longleftrightarrow> mset (got_keys (op_queue \<sigma> Clusters)) \<subseteq># mset (added_keys (open_part (op_queue \<sigma> Clusters)))
     \<and> length (added_keys (open_part (op_queue \<sigma> Clusters))) \<le> length (filter wakes (op_events \<sigma>))"

text \<open>No worker and no request before the caches are synced.\<close>

definition phase_ok :: "nat \<Rightarrow> op_state \<Rightarrow> bool" where
  "phase_ok n \<sigma> \<longleftrightarrow> run_inv n (op_run \<sigma>) \<and> (rn_phase (op_run \<sigma>) = Serving \<or> rn_phase (op_run \<sigma>) = Returned None
     \<or> (\<forall>k. op_workers \<sigma> k = []) \<and> op_calls \<sigma> = [])"

definition system_inv :: "nat \<Rightarrow> op_state \<Rightarrow> bool" where
  "system_inv n \<sigma> \<longleftrightarrow> workers_ok \<sigma> \<and> all_held \<sigma> \<and> one_each \<sigma> \<and> changes_paid \<sigma> \<and> items_paid \<sigma> \<and> phase_ok n \<sigma>"

lemmas inv_defs = workers_ok_def all_held_def one_each_def changes_paid_def items_paid_def phase_ok_def set_changes_def

subsection \<open>Counting workers\<close>

lemma length_filter_update:
  assumes "i < length xs"
  shows "length (filter P (xs[i := x])) + of_bool (P (xs ! i)) = length (filter P xs) + of_bool (P x)"
proof -
  have "length (filter P ys) = sum_list (map (\<lambda>y. of_bool (P y)) ys)" for ys by (induction ys) auto
  moreover have "map (\<lambda>y. of_bool (P y) :: nat) (xs[i := x]) = (map (\<lambda>y. of_bool (P y)) xs)[i := of_bool (P x)]" by (simp add: map_update)
  moreover have "of_bool (P (xs ! i)) \<le> sum_list (map (\<lambda>y. of_bool (P y) :: nat) xs)"
    using assms nth_mem [of i "map (\<lambda>y. of_bool (P y) :: nat) xs"] member_le_sum_list by fastforce
  ultimately show ?thesis using assms by (simp add: sum_list_update)
qed

lemma changes_left_update:
  assumes "i < length ws"
  shows "sum_list (map changes_left (ws[i := v])) + changes_left (ws ! i) = sum_list (map changes_left ws) + changes_left v"
proof -
  have "changes_left (ws ! i) \<le> sum_list (map changes_left ws)" using assms by (intro member_le_sum_list) auto
  with assms show ?thesis by (simp add: map_update sum_list_update)
qed

lemma set_worker_simps [simp]:
  "op_run (set_worker k i v \<sigma>) = op_run \<sigma>" "op_calls (set_worker k i v \<sigma>) = op_calls \<sigma>" "op_events (set_worker k i v \<sigma>) = op_events \<sigma>"
  "op_queue (set_worker k i v \<sigma>) = op_queue \<sigma>"
  "op_workers (set_worker k i v \<sigma>) = (op_workers \<sigma>)(k := (op_workers \<sigma> k)[i := v])"
  "op_run (on_queue k e \<sigma>) = op_run \<sigma>" "op_calls (on_queue k e \<sigma>) = op_calls \<sigma>" "op_events (on_queue k e \<sigma>) = op_events \<sigma>"
  "op_workers (on_queue k e \<sigma>) = op_workers \<sigma>" "op_queue (on_queue k e \<sigma>) = (op_queue \<sigma>)(k := op_queue \<sigma> k @ [e])"
  by (simp_all add: set_worker_def on_queue_def)

lemma workers_ok_update: "workers_ok \<sigma> \<Longrightarrow> worker_ok k v \<Longrightarrow> workers_ok (set_worker k i v \<sigma>)"
  by (auto simp: workers_ok_def list_all_iff dest!: set_update_subset_insert [THEN subsetD])

lemma workers_okD: "workers_ok \<sigma> \<Longrightarrow> i < length (op_workers \<sigma> k) \<Longrightarrow> worker_ok k (op_workers \<sigma> k ! i)"
  by (simp add: workers_ok_def list_all_length)

subsection \<open>The steps keep them\<close>

lemma run_phase_change:
  assumes "run_step n r r'" "rn_phase r' \<noteq> rn_phase r" "run_inv n r"
  shows "run_inv n r'" "rn_phase r' = Serving \<Longrightarrow> rn_phase r = Waiting_For_Sync"
    "rn_phase r' \<noteq> Serving \<Longrightarrow> rn_phase r' \<noteq> Returned None \<Longrightarrow> rn_phase r = Waiting_For_Sync"
  using run_inv_step [OF assms(1,3)] assms(1,2) by (auto elim!: run_stepE)

lemma inv_run:
  assumes inv: "system_inv n \<sigma>" and step: "run_step n (op_run \<sigma>) r" "rn_phase r \<noteq> rn_phase (op_run \<sigma>)"
  shows "system_inv n (enter_phase r \<sigma>)"
proof -
  from inv have "run_inv n (op_run \<sigma>)" by (simp add: system_inv_def phase_ok_def)
  note change = run_phase_change [OF step this]
  show ?thesis
  proof (cases "rn_phase r = Serving")
    case True
    from change(2) [OF this] inv have none: "\<And>k. op_workers \<sigma> k = []" by (simp add: system_inv_def phase_ok_def)
    have "filter (works_on key) (replicate m Idle) = []" "sum_list (map changes_left (replicate m Idle)) = 0" for key m
      by (simp_all add: filter_replicate)
    with True inv none change(1) show ?thesis
      by (auto simp: system_inv_def inv_defs enter_phase_def list_all_iff sum_list_replicate)
  next
    case False
    with inv change show ?thesis
      by (auto simp: system_inv_def inv_defs enter_phase_def)
  qed
qed

lemma inv_informer:
  assumes inv: "system_inv n \<sigma>"
  shows "system_inv n (deliver env s ev \<sigma>)"
proof -
  obtain ks where ks: "q_cluster (informer_handlers env ev (fresh s)) = map AddRateLimited ks"
      "length ks \<le> (if concerns_cluster ev then 1 else 0)" using informer_handlers_ops(1) by blast
  obtain ps where ps: "q_pod (informer_handlers env ev (fresh s)) = map AddRateLimited ps" using informer_handlers_ops(2) by blast
  have ops: "\<exists>xs. queue_ops k (informer_handlers env ev (fresh s)) = map AddRateLimited xs" for k
    using ks ps by (cases k) auto
  have "items_paid (deliver env s ev \<sigma>)"
  proof (cases "Shut_Down \<in> set (op_queue \<sigma> Clusters)")
    case True
    with inv show ?thesis by (auto simp: system_inv_def items_paid_def deliver_def open_part_append)
  next
    case False
    with inv ks show ?thesis
      by (auto simp: system_inv_def items_paid_def deliver_def open_part_append wakes_def
          intro: subset_mset.order_trans [OF _ mset_subset_eq_add_left] split: if_splits)
  qed
  moreover have "all_held (deliver env s ev \<sigma>)"
    using inv ops by (auto simp: system_inv_def all_held_def deliver_def) (metis keys_adds(3) list.map_comp add_0 count_union mset.simps(1) count_empty)
  ultimately show ?thesis using inv
    by (auto simp: system_inv_def workers_ok_def one_each_def changes_paid_def set_changes_def phase_ok_def deliver_def)
qed

lemma inv_get:
  assumes laws: "workqueue_laws wq" and inv: "system_inv n \<sigma>"
    and idle: "i < length (op_workers \<sigma> k)" "op_workers \<sigma> k ! i = Idle" and wq: "wq (op_queue \<sigma> k) (Some it)"
    and proc: "processQueueItem k env (Some it) (fresh s) = (True, q)"
  shows "system_inv n (set_worker k i (Busy it (st_calls (q_st q)) (all_ops q)) (on_queue k (Got (Some it)) \<sigma>))"
    (is "system_inv n ?\<sigma>")
proof -
  let ?v = "Busy it (st_calls (q_st q)) (all_ops q)"
  from workqueueD(1) [OF laws wq] obtain key where it: "it = Key key"
    and added: "add_mset key (mset (got_keys (op_queue \<sigma> k))) \<subseteq># mset (added_keys (open_part (op_queue \<sigma> k)))"
    and free: "count (mset (got_keys (op_queue \<sigma> k))) key \<le> count (mset (done_keys (op_queue \<sigma> k))) key" by blast
  note r = round [OF proc [unfolded it]]
  have ok: "worker_ok k ?v" using r by (auto simp: it split: if_splits)
  have none: "length (filter (works_on key) (op_workers \<sigma> k)) = 0" using inv free by (simp add: system_inv_def all_held_def)
  have held: "length (filter (works_on x) ((op_workers \<sigma> k)[i := ?v])) = length (filter (works_on x) (op_workers \<sigma> k)) + of_bool (x = key)" for x
    using length_filter_update [OF idle(1), of "works_on x" ?v] idle(2) by (auto simp: it)
  have "workers_ok ?\<sigma>" using inv ok by (intro workers_ok_update) (simp_all add: system_inv_def workers_ok_def)
  moreover have "all_held ?\<sigma>" using inv held by (auto simp: system_inv_def all_held_def it)
  moreover have "one_each ?\<sigma>" using inv held none by (auto simp: system_inv_def one_each_def)
  moreover have "changes_paid ?\<sigma>"
    using inv r(2) changes_left_update [OF idle(1), of ?v] idle(2)
    by (cases k) (auto simp: system_inv_def changes_paid_def set_changes_def it)
  moreover have "items_paid ?\<sigma>"
    using inv added by (cases k) (auto simp: system_inv_def items_paid_def it open_part_append intro: subset_mset.order_trans)
  moreover have "phase_ok n ?\<sigma>"
    using inv idle(1) by (auto simp: system_inv_def phase_ok_def)
  ultimately show ?thesis by (simp add: system_inv_def)
qed

lemma inv_send:
  assumes inv: "system_inv n \<sigma>" and busy: "i < length (op_workers \<sigma> k)" "op_workers \<sigma> k ! i = Busy it (c # cs) ops"
  shows "system_inv n (set_worker k i (Busy it cs ops) (\<sigma>\<lparr>op_calls := op_calls \<sigma> @ [c]\<rparr>))" (is "system_inv n ?\<sigma>")
proof -
  let ?v = "Busy it cs ops"
  have old: "worker_ok k (Busy it (c # cs) ops)" using inv workers_okD [of \<sigma> i k] busy by (simp add: system_inv_def)
  have ok: "worker_ok k ?v" using old by (auto split: if_splits)
  have same: "works_on x (Busy it (c # cs) ops) = works_on x ?v" for x by (cases it) simp_all
  have held: "length (filter (works_on x) ((op_workers \<sigma> k)[i := ?v])) = length (filter (works_on x) (op_workers \<sigma> k))" for x
    using length_filter_update [OF busy(1), of "works_on x" ?v] busy(2) same by simp
  have "workers_ok ?\<sigma>" using inv ok by (intro workers_ok_update) (simp_all add: system_inv_def workers_ok_def)
  moreover have "changes_paid ?\<sigma>"
    using inv old changes_left_update [OF busy(1), of ?v] busy(2)
    by (cases k) (auto simp: system_inv_def changes_paid_def set_changes_def split: if_splits)
  ultimately show ?thesis
    using inv busy(1) held by (auto simp: system_inv_def all_held_def one_each_def items_paid_def phase_ok_def)
qed

lemma inv_settle:
  assumes inv: "system_inv n \<sigma>" and busy: "i < length (op_workers \<sigma> k)" "op_workers \<sigma> k ! i = Busy it [] ((k', x) # ops)"
  shows "system_inv n (set_worker k i (if ops = [] then Idle else Busy it [] ops) (on_queue k' (Op x) \<sigma>))" (is "system_inv n ?\<sigma>")
proof -
  let ?v = "if ops = [] then Idle else Busy it [] ops"
  have "worker_ok k (Busy it [] ((k', x) # ops))" using inv workers_okD [of \<sigma> i k] busy by (simp add: system_inv_def)
  then obtain key where it: "it = Key key" and k': "k' = k"
    and x: "x = Done (Key key) \<and> ops = [] \<or> x = Forget (Key key) \<and> ops = [(k, Done (Key key))]" by auto
  have ok: "worker_ok k ?v" using x by (auto simp: it)
  have held: "length (filter (works_on y) ((op_workers \<sigma> k)[i := ?v])) + of_bool (y = key \<and> ops = []) = length (filter (works_on y) (op_workers \<sigma> k))" for y
    using length_filter_update [OF busy(1), of "works_on y" ?v] busy(2) by (auto simp: it split: if_splits)
  have "workers_ok ?\<sigma>" using inv ok by (intro workers_ok_update) (simp_all add: system_inv_def workers_ok_def)
  moreover have "all_held ?\<sigma>"
    unfolding all_held_def
  proof (intro allI)
    fix kind y
    show "count (mset (got_keys (op_queue ?\<sigma> kind))) y
        = count (mset (done_keys (op_queue ?\<sigma> kind))) y + length (filter (works_on y) (op_workers ?\<sigma> kind))"
    proof (cases "kind = k")
      case True
      have "count (mset (got_keys (op_queue \<sigma> k))) y = count (mset (done_keys (op_queue \<sigma> k))) y + length (filter (works_on y) (op_workers \<sigma> k))"
        using inv by (simp add: system_inv_def all_held_def)
      then show ?thesis unfolding held [of y, symmetric] using True x by (auto simp: k')
    next
      case False
      with inv show ?thesis by (simp add: system_inv_def all_held_def k')
    qed
  qed
  moreover have "one_each ?\<sigma>"
  proof -
    have "length (filter (works_on y) ((op_workers \<sigma> k)[i := ?v])) \<le> 1" for y
    proof -
      have "length (filter (works_on y) (op_workers \<sigma> k)) \<le> 1" using inv by (simp add: system_inv_def one_each_def)
      with held [of y] show ?thesis by linarith
    qed
    with inv show ?thesis unfolding one_each_def system_inv_def by (metis fun_upd_apply set_worker_simps(5,9))
  qed
  moreover have "changes_paid ?\<sigma>"
    using inv changes_left_update [OF busy(1), of ?v] busy(2) x
    by (cases k) (auto simp: system_inv_def changes_paid_def set_changes_def k')
  moreover have "items_paid ?\<sigma>" using inv x by (auto simp: system_inv_def items_paid_def k' open_part_append)
  moreover have "phase_ok n ?\<sigma>" using inv busy(1) by (auto simp: system_inv_def phase_ok_def)
  ultimately show ?thesis by (simp add: system_inv_def)
qed

lemma inv_stop:
  assumes inv: "system_inv n \<sigma>" and idle: "i < length (op_workers \<sigma> k)" "op_workers \<sigma> k ! i = Idle"
    and r: "run_step n (op_run \<sigma>) r" "rn_phase r = rn_phase (op_run \<sigma>)"
  shows "system_inv n (set_worker k i Ended (on_queue k (Got None) (\<sigma>\<lparr>op_run := r\<rparr>)))" (is "system_inv n ?\<sigma>")
proof -
  have held: "length (filter (works_on y) ((op_workers \<sigma> k)[i := Ended])) = length (filter (works_on y) (op_workers \<sigma> k))" for y
    using length_filter_update [OF idle(1), of "works_on y" Ended] idle(2) by simp
  have "run_inv n r" using inv run_inv_step [OF r(1)] by (simp add: system_inv_def phase_ok_def)
  moreover have "workers_ok ?\<sigma>" using inv by (intro workers_ok_update) (simp_all add: system_inv_def workers_ok_def)
  moreover have "changes_paid ?\<sigma>"
    using inv changes_left_update [OF idle(1), of Ended] idle(2)
    by (cases k) (auto simp: system_inv_def changes_paid_def set_changes_def)
  moreover have "items_paid ?\<sigma>" using inv by (cases k) (auto simp: system_inv_def items_paid_def open_part_append)
  ultimately show ?thesis
    using inv idle(1) held r(2) by (auto simp: system_inv_def all_held_def one_each_def phase_ok_def)
qed

lemma system_inv_step:
  assumes "workqueue_laws wq" and "system_step envs wq n \<sigma> \<sigma>'" and "system_inv n \<sigma>"
  shows "system_inv n \<sigma>'"
  using assms(2,3)
proof (induction rule: system_step.induct)
  case (get i \<sigma> k it env s q)
  then show ?case using inv_get [OF assms(1)] by blast
next
  case (settle i \<sigma> k it k' x ops)
  then show ?case using inv_settle by blast
qed (auto intro: inv_run inv_informer inv_send inv_settle inv_stop)

lemma system_inv_reachable:
  assumes "workqueue_laws wq" and "(system_step envs wq n)\<^sup>*\<^sup>* op_start \<sigma>"
  shows "system_inv n \<sigma>"
  using assms(2)
proof (induction rule: rtranclp_induct)
  case base
  show ?case by (simp add: system_inv_def inv_defs op_start_def run_inv_def run_start_def open_part_def)
qed (rule system_inv_step [OF assms(1)])

section \<open>After the shutdown\<close>

definition all_ended :: "op_state \<Rightarrow> bool" where
  "all_ended \<sigma> \<longleftrightarrow> rn_phase (op_run \<sigma>) = Returned None \<and> list_all (\<lambda>v. v = Ended) (op_workers \<sigma> Clusters)"

text \<open>Once all cluster workers have ended, nothing is taken from the cluster queue and no set is changed.\<close>

lemma ended_step:
  assumes "system_step envs wq n \<sigma> \<sigma>'" and "system_inv n \<sigma>" and "all_ended \<sigma>"
  shows "all_ended \<sigma>' \<and> set_changes \<sigma>' = set_changes \<sigma> \<and> got_keys (op_queue \<sigma>' Clusters) = got_keys (op_queue \<sigma> Clusters)"
proof -
  have pods: "k = Pods" if "i < length (op_workers \<sigma> k)" "op_workers \<sigma> k ! i \<noteq> Ended" for i k
    using assms(3) that by (cases k) (auto simp: all_ended_def list_all_length)
  show ?thesis
    using assms(1)
  proof cases
    case (run r)
    then show ?thesis using assms(3) by (auto simp: all_ended_def elim!: run_stepE)
  next
    case (informer env s ev)
    then show ?thesis using assms(3) by (simp add: all_ended_def deliver_def set_changes_def)
  next
    case (get i k it env s q)
    then have "k = Pods" by (intro pods) auto
    with get(1) show ?thesis using assms(3) by (simp add: all_ended_def set_changes_def)
  next
    case (send i k it c cs ops)
    then have k: "k = Pods" by (intro pods) auto
    have "worker_ok k (Busy it (c # cs) ops)" using assms(2) send(2,3) workers_okD [of \<sigma> i k] by (simp add: system_inv_def)
    then have "\<not> is_sts_change c" using k by (auto split: if_splits)
    with send(1) k show ?thesis using assms(3) by (simp add: all_ended_def set_changes_def)
  next
    case (settle i k it k' x ops)
    then have k: "k = Pods" by (intro pods) auto
    have "worker_ok k (Busy it [] ((k', x) # ops))" using assms(2) settle(2,3) workers_okD [of \<sigma> i k] by (simp add: system_inv_def)
    then have "k' = Pods" using k by auto
    with settle(1) k show ?thesis using assms(3) by (simp add: all_ended_def set_changes_def)
  next
    case (stop i k env s q r)
    then have k: "k = Pods" by (intro pods) auto
    with stop show ?thesis using assms(3) by (simp add: all_ended_def set_changes_def)
  qed
qed

lemma ended_forever:
  assumes "workqueue_laws wq" and "(system_step envs wq n)\<^sup>*\<^sup>* \<sigma> \<sigma>'" and "system_inv n \<sigma>" and "all_ended \<sigma>"
  shows "all_ended \<sigma>' \<and> set_changes \<sigma>' = set_changes \<sigma> \<and> got_keys (op_queue \<sigma>' Clusters) = got_keys (op_queue \<sigma> Clusters) \<and> system_inv n \<sigma>'"
  using assms(2)
proof (induction rule: rtranclp_induct)
  case (step \<tau> \<tau>')
  then show ?case using ended_step [of envs wq n \<tau> \<tau>'] system_inv_step [OF assms(1), of envs n \<tau> \<tau>'] by simp
qed (use assms in simp)

lemma ended_done:
  assumes "system_inv n \<sigma>" and "all_ended \<sigma>"
  shows "mset (got_keys (op_queue \<sigma> Clusters)) = mset (done_keys (op_queue \<sigma> Clusters))"
proof -
  have "filter (works_on key) (op_workers \<sigma> Clusters) = []" for key
    using assms(2) by (auto simp: all_ended_def list_all_iff filter_empty_conv)
  with assms(1) show ?thesis by (intro multiset_eqI) (simp add: system_inv_def all_held_def)
qed

section \<open>A run\<close>

text \<open>The queue that may hand out whatever the laws allow.\<close>

fun example_queue :: work_queue where
  "example_queue h (Some (Key k)) \<longleftrightarrow> add_mset k (mset (got_keys h)) \<subseteq># mset (added_keys (open_part h))
     \<and> count (mset (got_keys h)) k \<le> count (mset (done_keys h)) k"
| "example_queue h (Some (Other_Item x)) \<longleftrightarrow> False"
| "example_queue h None \<longleftrightarrow> Shut_Down \<in> set h"

lemma example_queue_laws: "workqueue_laws example_queue"
proof -
  have "\<exists>k. it = Key k \<and> add_mset k (mset (got_keys h)) \<subseteq># mset (added_keys (open_part h))
        \<and> count (mset (got_keys h)) k \<le> count (mset (done_keys h)) k" if "example_queue h (Some it)" for h it
    using that by (cases it) simp_all
  then show ?thesis by (auto simp: workqueue_laws_def)
qed

text \<open>A new cluster in the cache of the informer, and an API server that stores sets.\<close>

definition serving_env :: "statefulset list env" where
  "serving_env = store_env\<lparr>get_cluster := (\<lambda>_ _. ok (Some new_cluster))\<rparr>"

abbreviation example_key :: string where "example_key \<equiv> ''ns/c''"

lemma serving_round:
  "\<exists>q. processQueueItem Clusters serving_env (Some (Key example_key)) (fresh (start [])) = (True, q)
     \<and> all_ops q = [(Clusters, Forget (Key example_key)), (Clusters, Done (Key example_key))]
     \<and> length (filter is_sts_change (st_calls (q_st q))) = 1"
proof -
  have laws: "keeps_sets serving_env new_cluster (\<lambda>w. w)"
    by (simp add: keeps_sets_def serving_env_def store_env_def offline_env_def)
  have c: "creatable new_cluster"
    by (simp add: creatable_def new_cluster_def example_cluster_def example_spec_def example_group_def marked_deleted_def
        zero_meta_def validateIsolationGroups_None affinity_ok_def i32_def)
  have "\<exists>w cs t. handleClusterUpdate serving_env new_cluster (start []) = (Inr (), (start [])\<lparr>st_world := w, st_calls := cs @ [Sts_Create ''ns'' t]\<rparr>)"
    using pass_creates [OF laws c, of 0 "start []"]
    by (auto simp: created_upto_def start_def new_cluster_def example_cluster_def example_spec_def)
  then obtain w cs t where upd: "handleClusterUpdate serving_env new_cluster (start []) = (Inr (), (start [])\<lparr>st_world := w, st_calls := cs @ [Sts_Create ''ns'' t]\<rparr>)"
    by blast
  have split: "SplitMetaNamespaceKey (e_lib serving_env) example_key = Inr (''ns'', ''c'')"
    by (simp add: serving_env_def store_env_def offline_env_def example_lib_def)
  have run: "handleClusterEvent serving_env example_key (start []) = (Inr (), (start [])\<lparr>st_world := w, st_calls := cs @ [Sts_Create ''ns'' t]\<rparr>)"
    using upd split by (simp add: handleClusterEvent_def catchE_run read_cache_def serving_env_def start_def)
  from emitsD [OF handleClusterEvent_changes run] have "length (filter is_sts_change (cs @ [Sts_Create ''ns'' t])) \<le> 1"
    using one_change_count [of "cs @ [Sts_Create ''ns'' t]"] by (auto simp: start_def)
  with run show ?thesis
    by (auto simp: processClusterQueueItem_def run_world_def on_cluster_queue_def fresh_def all_ops_def start_def)
qed

text \<open>Sending all requests of a pass.\<close>

lemma send_all:
  assumes "i < length (op_workers \<sigma> k)" "op_workers \<sigma> k ! i = Busy it cs ops"
  shows "(system_step envs wq n)\<^sup>*\<^sup>* \<sigma> (set_worker k i (Busy it [] ops) (\<sigma>\<lparr>op_calls := op_calls \<sigma> @ cs\<rparr>))"
  using assms
proof (induction cs arbitrary: \<sigma>)
  case Nil
  then have "(op_workers \<sigma>)(k := (op_workers \<sigma> k)[i := Busy it [] ops]) = op_workers \<sigma>"
    by (metis fun_upd_triv list_update_id)
  then have "set_worker k i (Busy it [] ops) (\<sigma>\<lparr>op_calls := op_calls \<sigma> @ []\<rparr>) = \<sigma>" by (cases \<sigma>) (simp add: set_worker_def)
  then show ?case by simp
next
  case (Cons c cs)
  let ?\<sigma> = "set_worker k i (Busy it cs ops) (\<sigma>\<lparr>op_calls := op_calls \<sigma> @ [c]\<rparr>)"
  have "system_step envs wq n \<sigma> ?\<sigma>" using Cons.prems by (rule system_step.send)
  moreover have "(system_step envs wq n)\<^sup>*\<^sup>* ?\<sigma> (set_worker k i (Busy it [] ops) (?\<sigma>\<lparr>op_calls := op_calls ?\<sigma> @ cs\<rparr>))"
    using Cons.prems by (intro Cons.IH) simp_all
  moreover have "set_worker k i (Busy it [] ops) (?\<sigma>\<lparr>op_calls := op_calls ?\<sigma> @ cs\<rparr>)
      = set_worker k i (Busy it [] ops) (\<sigma>\<lparr>op_calls := op_calls \<sigma> @ c # cs\<rparr>)"
    by (simp add: set_worker_def)
  ultimately show ?case by (metis converse_rtranclp_into_rtranclp)
qed

abbreviation example_event :: informer_event where
  "example_event \<equiv> Cluster_Added (Object (cl_meta new_cluster))"

text \<open>An event arrives, the workers are started, and one of them has sent the requests of its pass.\<close>

lemma example_run:
  "\<exists>\<sigma>. (system_step {serving_env} example_queue 1)\<^sup>*\<^sup>* op_start \<sigma>
     \<and> op_workers \<sigma> Clusters = [Busy (Key example_key) [] [(Clusters, Forget (Key example_key)), (Clusters, Done (Key example_key))]]
     \<and> set_changes \<sigma> = 1 \<and> op_queue \<sigma> Clusters = [Op (AddRateLimited example_key), Got (Some (Key example_key))]
     \<and> op_run \<sigma> = run_start\<lparr>rn_phase := Serving, rn_cluster_workers := 1, rn_pod_workers := 1\<rparr>
     \<and> op_events \<sigma> = [(example_event, True)]"
proof -
  let ?step = "system_step {serving_env} example_queue 1"
  let ?r = "run_start\<lparr>rn_phase := Serving, rn_cluster_workers := 1, rn_pod_workers := 1\<rparr>"
  let ?\<sigma>1 = "deliver serving_env (start []) example_event op_start" and ?it = "Key example_key"
  define \<sigma>2 where "\<sigma>2 = enter_phase ?r ?\<sigma>1"
  have meta: "MetaNamespaceKeyFunc (e_lib serving_env) (cl_meta new_cluster) = Inr example_key"
    by (simp add: serving_env_def store_env_def offline_env_def example_lib_def new_cluster_def example_cluster_def)
  have s1: "op_queue ?\<sigma>1 Clusters = [Op (AddRateLimited example_key)]" "op_events ?\<sigma>1 = [(example_event, True)]"
    "op_run ?\<sigma>1 = run_start" "op_calls ?\<sigma>1 = []"
    by (simp_all add: deliver_def op_start_def enqueueCluster_def key_of_def meta on_cluster_queue_def fresh_def)
  have "?step op_start ?\<sigma>1" by (rule system_step.informer) simp
  moreover have "?step ?\<sigma>1 \<sigma>2"
    unfolding \<sigma>2_def by (rule system_step.run) (use run_step.synced [of run_start 1] in \<open>simp_all add: s1 run_start_def\<close>)
  ultimately have reach: "?step\<^sup>*\<^sup>* op_start \<sigma>2" by (meson converse_rtranclp_into_rtranclp rtranclp.rtrancl_refl)
  have s2: "op_queue \<sigma>2 Clusters = [Op (AddRateLimited example_key)]" "op_events \<sigma>2 = [(example_event, True)]"
    "op_run \<sigma>2 = ?r" "op_calls \<sigma>2 = []" "op_workers \<sigma>2 Clusters = [Idle]"
    using s1 by (simp_all add: \<sigma>2_def enter_phase_def)
  obtain q where q: "processQueueItem Clusters serving_env (Some ?it) (fresh (start [])) = (True, q)"
    "all_ops q = [(Clusters, Forget ?it), (Clusters, Done ?it)]" "length (filter is_sts_change (st_calls (q_st q))) = 1"
    using serving_round by blast
  let ?v = "Busy ?it (st_calls (q_st q)) (all_ops q)"
  define \<sigma>3 where "\<sigma>3 = set_worker Clusters 0 ?v (on_queue Clusters (Got (Some ?it)) \<sigma>2)"
  have "?step \<sigma>2 \<sigma>3"
    unfolding \<sigma>3_def by (rule system_step.get [where env = serving_env]) (use q(1) in \<open>simp_all add: s2 added_keys_def got_keys_def\<close>)
  with reach have reach: "?step\<^sup>*\<^sup>* op_start \<sigma>3" by (rule rtranclp.rtrancl_into_rtrancl)
  have s3: "op_workers \<sigma>3 Clusters = [?v]" "op_queue \<sigma>3 Clusters = [Op (AddRateLimited example_key), Got (Some ?it)]"
    "op_run \<sigma>3 = ?r" "op_calls \<sigma>3 = []" "op_events \<sigma>3 = [(example_event, True)]"
    by (simp_all add: \<sigma>3_def s2)
  let ?\<sigma>4 = "set_worker Clusters 0 (Busy ?it [] (all_ops q)) (\<sigma>3\<lparr>op_calls := op_calls \<sigma>3 @ st_calls (q_st q)\<rparr>)"
  have "?step\<^sup>*\<^sup>* \<sigma>3 ?\<sigma>4" by (rule send_all) (simp_all add: s3)
  with reach have "?step\<^sup>*\<^sup>* op_start ?\<sigma>4" by (rule rtranclp_trans)
  with s3 q(2,3) show ?thesis by (intro exI [of _ ?\<sigma>4]) (simp add: set_changes_def)
qed

text \<open>The same run goes on: the item is settled, \<open>Run\<close> returns, and the worker ends.\<close>

lemma example_shutdown:
  "\<exists>\<sigma>. (system_step {serving_env} example_queue 1)\<^sup>*\<^sup>* op_start \<sigma> \<and> all_ended \<sigma> \<and> set_changes \<sigma> = 1
     \<and> got_keys (op_queue \<sigma> Clusters) = [example_key]"
proof -
  let ?step = "system_step {serving_env} example_queue 1" and ?it = "Key example_key"
  from example_run obtain \<sigma> where reach: "?step\<^sup>*\<^sup>* op_start \<sigma>"
    and s: "op_workers \<sigma> Clusters = [Busy ?it [] [(Clusters, Forget ?it), (Clusters, Done ?it)]]" "set_changes \<sigma> = 1"
      "op_queue \<sigma> Clusters = [Op (AddRateLimited example_key), Got (Some ?it)]"
      "op_run \<sigma> = run_start\<lparr>rn_phase := Serving, rn_cluster_workers := 1, rn_pod_workers := 1\<rparr>" by blast
  let ?\<sigma>1 = "set_worker Clusters 0 (Busy ?it [] [(Clusters, Done ?it)]) (on_queue Clusters (Op (Forget ?it)) \<sigma>)"
  have "?step \<sigma> ?\<sigma>1" using system_step.settle [of 0 \<sigma> Clusters ?it Clusters "Forget ?it" "[(Clusters, Done ?it)]"] by (simp add: s)
  moreover let ?\<sigma>2 = "set_worker Clusters 0 Idle (on_queue Clusters (Op (Done ?it)) ?\<sigma>1)"
  have "?step ?\<sigma>1 ?\<sigma>2" using system_step.settle [of 0 ?\<sigma>1 Clusters ?it Clusters "Done ?it" "[]"] by (simp add: s)
  moreover let ?r = "(op_run \<sigma>)\<lparr>rn_phase := Returned None, rn_cluster_shut := True\<rparr>"
  let ?\<sigma>3 = "enter_phase ?r ?\<sigma>2"
  have "?step ?\<sigma>2 ?\<sigma>3" by (rule system_step.run) (use run_step.stop [of "op_run \<sigma>" 1] in \<open>simp_all add: s\<close>)
  moreover let ?r' = "?r\<lparr>rn_cluster_workers := rn_cluster_workers ?r - 1\<rparr>"
  let ?\<sigma>4 = "set_worker Clusters 0 Ended (on_queue Clusters (Got None) (?\<sigma>3\<lparr>op_run := ?r'\<rparr>))"
  have "?step ?\<sigma>3 ?\<sigma>4"
    by (rule system_step.stop [where env = serving_env and s = "start []" and q = "fresh (start [])"])
      (use run_step.cluster_worker_ends [of ?r 1] in \<open>simp_all add: s enter_phase_def processClusterQueueItem_def\<close>)
  ultimately have "?step\<^sup>*\<^sup>* op_start ?\<sigma>4" using reach by (meson rtranclp.rtrancl_into_rtrancl)
  moreover have "all_ended ?\<sigma>4" "set_changes ?\<sigma>4 = 1" "got_keys (op_queue ?\<sigma>4 Clusters) = [example_key]"
    using s by (simp_all add: all_ended_def enter_phase_def set_changes_def got_keys_def)
  ultimately show ?thesis by blast
qed

end
