(* ===== verification/Spec2Isabelle.thy ===== *)
theory Spec2Isabelle
  imports Go_Base Go_Monad K8s_Objects Cluster_Spec Generators Durations Namespace_Request
    Identity_Json Environment Example_Cluster M3admin_Http Admin_Clients Pod_Identity Add_Cluster
    Cluster_Status Namespaces_Reconcile Placement_Ops Sts_Update Controller Work_Queue Generators_Props
    Settled_Objects Controller_Safety Scaling Rollout Placement_Props Placement_Choice Namespaces_Converge Cluster_Deletion
    Set_Creation Creation_Liveness Generated_Client Fake_Client Operator_Main Docgen Go_Heap
    Deep_Copy Quiescence Silent_Runs Progress Bringup Cluster_Up Placement_Init Scheme_Register Test_Harness
    Running_Operator
begin

text \<open>
  \<^bold>\<open>The M3DB operator.\<close> The operator (\<open>src/pkg\<close>) turns \<open>M3DBCluster\<close> resources into running M3DB
  clusters on Kubernetes. Informers put keys of changed objects into work queues; workers take a key
  and run one pass of the control loop on the cluster (or the pod), which compares the spec with the
  StatefulSets, pods, namespaces and the placement of shards and sends the requests that bring them
  closer together. A pass changes little and returns; the events it causes start the next one.

  \<^bold>\<open>How the code is modelled.\<close> Every Go function is a HOL function of the same name. Structs are
  records, strings are character lists, maps are association lists (\<open>gomap\<close>), \<open>int32\<close> arithmetic is
  on \<open>int\<close> with the wrap-around \<open>i32\<close> written out. A function that returns an error returns a sum with
  the error on the left. A function with effects is a state transformer on the record \<open>st\<close>: the world
  outside (a type parameter), the log of the requests and events sent, and the three client caches.
  Everything that is not code of the repository is a field of a parameter: the API server, the
  informer caches and the HTTP transport of \<open>env\<close>, and the third-party functions of \<open>lib\<close> (merge
  patches, protobuf and JSON codecs, template engine, URL parser, \<open>errors.Cause\<close>, the order in which
  an unstable sort leaves equal elements). Statements hold for all of them; where a law of one is
  needed, it is a hypothesis and the witness gives an instance.

  \<^bold>\<open>Theories.\<close>
  \<^item> \<open>Go_Base\<close>, \<open>Go_Monad\<close>: the Go runtime that the code uses (integers, \<open>strconv\<close>, \<open>strings\<close>, maps,
    \<open>sort\<close>) and the combinators of effects, with a calculus of weakest preconditions and the locale
    \<open>run_relation\<close> of relations that every run respects; \<open>K8s_Objects\<close>: the fields of Kubernetes
    objects the operator reads or writes; \<open>Durations\<close>: \<open>time.ParseDuration\<close> and \<open>Duration.String\<close>.
  \<^item> \<open>Cluster_Spec\<close>: \<open>pkg/apis/m3dboperator/v1alpha1\<close>, labels, annotations and names.
  \<^item> \<open>Generators\<close>, \<open>Generators_Props\<close>: \<open>pkg/k8sops/m3db/{statefulset,generators,config_map}.go\<close>; when
    generation succeeds, the shape of the result, and that services select the pods.
  \<^item> \<open>Namespace_Request\<close>: \<open>pkg/m3admin/namespace/{namespace,presets}.go\<close>; round trip of durations,
    presets, required fields.
  \<^item> \<open>Environment\<close>, \<open>Example_Cluster\<close>: the parameters, the log of requests (\<open>emits\<close>, \<open>only\<close>), and the
    concrete clusters of the witnesses.
  \<^item> \<open>M3admin_Http\<close>, \<open>Admin_Clients\<close>: \<open>pkg/m3admin\<close> and \<open>pkg/controller/m3admin_client.go\<close>; requests
    and status handling, the cache of clients (locale \<open>client_cache\<close>, interpreted for the three
    caches) and its locking protocol as a step relation over any number of goroutines.
  \<^item> \<open>Identity_Json\<close>, \<open>Pod_Identity\<close>: \<open>pkg/k8sops/podidentity\<close> and \<open>placement.go\<close>; the text
    \<open>json.Marshal\<close> makes of an identity, its injectivity on valid UTF-8, and what an instance tells of
    its pod.
  \<^item> \<open>Add_Cluster\<close>, \<open>Cluster_Status\<close>, \<open>Namespaces_Reconcile\<close>, \<open>Placement_Ops\<close>: \<open>add_cluster.go\<close>,
    \<open>services.go\<close>, \<open>eventer\<close> and \<open>update_cluster.go\<close>; \<open>Namespaces_Converge\<close>, \<open>Placement_Props\<close>
    (when a pod is replaced) and \<open>Placement_Choice\<close> (which pods leave and enter the placement) hold their
    properties, \<open>Settled_Objects\<close> those of the ConfigMap and the pod annotation.
  \<^item> \<open>Sts_Update\<close>, \<open>Controller\<close>: \<open>controller.go\<close>, with \<open>handleClusterUpdate\<close> as the composition of its
    phases in the order of the source; \<open>Controller_Safety\<close> (what a pass sends), \<open>Set_Creation\<close> and
    \<open>Creation_Liveness\<close> (which sets are created, and that all are), \<open>Scaling\<close> (refinement of a scaling
    decision, convergence), \<open>Rollout\<close> and \<open>Cluster_Deletion\<close> (the finalizer goes last) hold its properties.
  \<^item> \<open>Quiescence\<close>, \<open>Silent_Runs\<close>, \<open>Progress\<close>: when the control loop rests. A calculus of runs that only
    observe (locale \<open>observation\<close>) and of runs that succeed without a write; a settled cluster is a
    fixed point, and conversely a silent pass means that pods are awaited, that nothing is left to do,
    or one stall, which occurs.
  \<^item> \<open>Bringup\<close>, \<open>Cluster_Up\<close>: that the loop gets there. A calculus of runs that lead from one observable
    state to another, the contract of a cooperative world, and the whole life of a new cluster: the
    passes that create its sets, the one that sets up placement and namespaces after the rollout, and
    the one that ends the bootstrap at the fixed point. \<open>Placement_Init\<close>: that a placement
    which exists is never initialised again, whatever fails in between.
  \<^item> \<open>Work_Queue\<close>: event handlers, workers, options and the constructor of the controller.
  \<^item> \<open>Generated_Client\<close>, \<open>Fake_Client\<close>: \<open>pkg/client\<close>; clientset, requests, listers, the informer factory,
    which shares and starts every informer once, and the fake for tests, which sees the actions that
    stand for the requests of the real client.
  \<^item> \<open>Go_Heap\<close>, \<open>Deep_Copy\<close>: \<open>zz_generated.deepcopy.go\<close> over an explicit store of pointers, slices and
    maps; every copy keeps its type and contents and shares no cell with the original. This is what
    lets all other theories treat objects as values: the code copies an object of the informer caches
    before it changes it.
  \<^item> \<open>Operator_Main\<close>: \<open>cmd/m3db-operator/main.go\<close>, \<open>pkg/k8sops/m3db/k8sops.go\<close> and \<open>Run\<close>; the wiring of
    the process from its flags, and the life of the workers as a step relation.
  \<^item> \<open>Running_Operator\<close>: informers, queues, workers and \<open>Run\<close> composed into one step relation, with the
    invariants that hold in every reachable state. Requests and queue operations are single steps, so
    passes, events and the shutdown interleave; the work queue of client-go is a parameter with laws.
  \<^item> \<open>Scheme_Register\<close>: \<open>register.go\<close> of the API package and of the clientsets; which types the schemes
    know after the packages are initialised.
  \<^item> \<open>Test_Harness\<close>: \<open>integration/harness\<close>; the requests of setup and teardown in order, when the tests
    run, and the exit code.
  \<^item> \<open>Docgen\<close>: \<open>cmd/docgen\<close>; the cells of the tables are well formed, and which types are linked.
  \<^item> This theory: the properties of the running operator as a whole.

  \<^bold>\<open>Bounds and termination.\<close> All functions are total: loops are recursions over lists, the two
  that are not structural (\<open>duration_loop\<close>, \<open>tag_Get\<close>) have termination proofs, so no fuel is used. Replica
  counts and list lengths are assumed to be 32-bit integers only where the code converts them.

  \<^bold>\<open>Not modelled.\<close> Mocks: each method that \<open>mockgen\<close> writes hands its arguments to the controller of
  gomock and returns what a test prescribed, so it has no behaviour of its own. The embedded
  configuration file, which is data (its rendering is a parameter), and the codec factories that
  apimachinery builds from a scheme. Logging and metrics have no effect in the model. The
  requests that retry inside the HTTP client count as one. \<open>EqualFold\<close> folds the case of ASCII letters
  only, which is all that names of Kubernetes objects have. What the Go map of listed namespaces
  iterates over is the list the registry gives, in any order.
\<close>

section \<open>Properties of the whole\<close>

text \<open>
  C15: The operator never acts on its own. Let the work queue keep its laws, and let workers, informers,
  \<open>Run\<close> and the world interleave in any way, with any answers of the API server. In every reachable
  state, in the middle of passes too, the StatefulSets created or replaced so far are at most as many
  as the events of clusters and StatefulSets that were delivered before the shutdown: events of pods,
  failed passes and the workers themselves cause none. Every key a worker took had been added
  before, each time anew, and no two workers are ever at work on the same cluster.
\<close>

theorem changes_bounded_by_events:
  assumes "workqueue_laws wq" and "(system_step envs wq n)\<^sup>*\<^sup>* op_start \<sigma>"
  shows "set_changes \<sigma> \<le> length (filter wakes (op_events \<sigma>))
    \<and> set_changes \<sigma> \<le> length (got_keys (op_queue \<sigma> Clusters))
    \<and> mset (got_keys (op_queue \<sigma> Clusters)) \<subseteq># mset (added_keys (open_part (op_queue \<sigma> Clusters)))
    \<and> length (filter (works_on key) (op_workers \<sigma> Clusters)) \<le> 1"
proof -
  have inv: "system_inv n \<sigma>" using system_inv_reachable [OF assms] .
  then have taken: "set_changes \<sigma> \<le> length (got_keys (op_queue \<sigma> Clusters))"
    and added: "mset (got_keys (op_queue \<sigma> Clusters)) \<subseteq># mset (added_keys (open_part (op_queue \<sigma> Clusters)))"
    by (simp_all add: system_inv_def changes_paid_def items_paid_def)
  moreover have "length (got_keys (op_queue \<sigma> Clusters)) \<le> length (filter wakes (op_events \<sigma>))"
    using size_mset_mono [OF added] inv by (simp add: system_inv_def items_paid_def)
  ultimately show ?thesis using inv by (simp add: system_inv_def one_each_def)
qed

text \<open>One event, and a worker that has just created a set and has not settled its item yet.\<close>

theorem changes_bounded_by_events_witness:
  "\<exists>\<sigma>. (system_step {serving_env} example_queue 1)\<^sup>*\<^sup>* op_start \<sigma> \<and> op_events \<sigma> = [(example_event, True)]
     \<and> set_changes \<sigma> = 1 \<and> length (filter (works_on example_key) (op_workers \<sigma> Clusters)) = 1
     \<and> set_changes \<sigma> \<le> length (filter wakes (op_events \<sigma>))"
proof -
  from example_run obtain \<sigma> where reach: "(system_step {serving_env} example_queue 1)\<^sup>*\<^sup>* op_start \<sigma>"
    and s: "set_changes \<sigma> = 1" "op_events \<sigma> = [(example_event, True)]"
      "op_workers \<sigma> Clusters = [Busy (Key example_key) [] [(Clusters, Forget (Key example_key)), (Clusters, Done (Key example_key))]]"
    by blast
  from changes_bounded_by_events [OF example_queue_laws reach] reach s show ?thesis by (intro exI [of _ \<sigma>]) simp
qed

text \<open>
  C16: start and shutdown of the whole. Before the caches are synced, and after a failed sync, there is
  no worker and the operator has sent no request and no event, however many events the informers
  delivered. When \<open>Run\<close> has returned and all cluster workers have ended, every key that was taken
  from the cluster queue has been marked done, no pass was cut short, and from then on no key is
  taken and no StatefulSet is created or replaced, whatever events arrive and whatever the remaining
  pod workers do. (Keys that still waited in the queue at the shutdown may be dropped by it.)
\<close>

theorem quiet_before_sync_and_after_shutdown:
  assumes "workqueue_laws wq" and "(system_step envs wq n)\<^sup>*\<^sup>* op_start \<sigma>"
  shows "(rn_phase (op_run \<sigma>) = Waiting_For_Sync \<or> (\<exists>e. rn_phase (op_run \<sigma>) = Returned (Some e)) \<longrightarrow>
        op_calls \<sigma> = [] \<and> op_workers \<sigma> k = [])
    \<and> (rn_phase (op_run \<sigma>) = Returned None \<and> list_all (\<lambda>v. v = Ended) (op_workers \<sigma> Clusters) \<longrightarrow>
        mset (got_keys (op_queue \<sigma> Clusters)) = mset (done_keys (op_queue \<sigma> Clusters))
        \<and> (\<forall>\<sigma>'. (system_step envs wq n)\<^sup>*\<^sup>* \<sigma> \<sigma>' \<longrightarrow> set_changes \<sigma>' = set_changes \<sigma>
            \<and> got_keys (op_queue \<sigma>' Clusters) = got_keys (op_queue \<sigma> Clusters)))"
proof -
  have inv: "system_inv n \<sigma>" using system_inv_reachable [OF assms] .
  have early: "op_calls \<sigma> = [] \<and> op_workers \<sigma> k = []"
    if "rn_phase (op_run \<sigma>) = Waiting_For_Sync \<or> (\<exists>e. rn_phase (op_run \<sigma>) = Returned (Some e))"
    using inv that by (auto simp: system_inv_def phase_ok_def)
  have late: "mset (got_keys (op_queue \<sigma> Clusters)) = mset (done_keys (op_queue \<sigma> Clusters))
      \<and> (\<forall>\<sigma>'. (system_step envs wq n)\<^sup>*\<^sup>* \<sigma> \<sigma>' \<longrightarrow> set_changes \<sigma>' = set_changes \<sigma>
          \<and> got_keys (op_queue \<sigma>' Clusters) = got_keys (op_queue \<sigma> Clusters))" if "all_ended \<sigma>"
    using ended_done [OF inv that] ended_forever [OF assms(1) _ inv that] by blast
  from impI [OF early] impI [OF late [unfolded all_ended_def]] show ?thesis by (rule conjI)
qed

text \<open>An operator that is started, creates a set on an event, and is stopped; its worker ends.\<close>

theorem quiet_before_sync_and_after_shutdown_witness:
  "op_calls op_start = [] \<and> (\<exists>\<sigma>. (system_step {serving_env} example_queue 1)\<^sup>*\<^sup>* op_start \<sigma>
     \<and> rn_phase (op_run \<sigma>) = Returned None \<and> set_changes \<sigma> = 1 \<and> mset (done_keys (op_queue \<sigma> Clusters)) = {#example_key#}
     \<and> (\<forall>\<sigma>'. (system_step {serving_env} example_queue 1)\<^sup>*\<^sup>* \<sigma> \<sigma>' \<longrightarrow> set_changes \<sigma>' = 1))"
proof -
  from example_shutdown obtain \<sigma> where reach: "(system_step {serving_env} example_queue 1)\<^sup>*\<^sup>* op_start \<sigma>"
    and s: "all_ended \<sigma>" "set_changes \<sigma> = 1" "got_keys (op_queue \<sigma> Clusters) = [example_key]" by blast
  note both = quiet_before_sync_and_after_shutdown [OF example_queue_laws]
  from s(1) have ended: "rn_phase (op_run \<sigma>) = Returned None" "list_all (\<lambda>v. v = Ended) (op_workers \<sigma> Clusters)"
    by (simp_all add: all_ended_def)
  have "op_calls op_start = []" using both [of "{serving_env}" 1 op_start] by (simp add: op_start_def)
  moreover have "mset (got_keys (op_queue \<sigma> Clusters)) = mset (done_keys (op_queue \<sigma> Clusters))
      \<and> (\<forall>\<sigma>'. (system_step {serving_env} example_queue 1)\<^sup>*\<^sup>* \<sigma> \<sigma>' \<longrightarrow> set_changes \<sigma>' = set_changes \<sigma>)"
    using both [OF reach] ended by blast
  ultimately show ?thesis using reach ended(1) s by auto
qed

end
